(* ===== verification/Go_Prelude.thy ===== *)
theory Go_Prelude
  imports Complex_Main
begin

text \<open>
  Shared material of the development: the error values of the program, Go's clock arithmetic,
  the interfaces of the two third-party packages the domain computes with
  (\<^verbatim>\<open>github.com/shopspring/decimal\<close> and \<^verbatim>\<open>github.com/google/uuid\<close>), the string and number
  formatting the source uses, and the lemma collections the component theories build on.
\<close>

named_theorems dec_simps \<open>what the documented decimal operations compute\<close>
named_theorems vo_defs \<open>definitions of the value objects\<close>

section \<open>Errors\<close>

text \<open>
  Every error value of the program. The first two are \<^verbatim>\<open>shared.ValidationError\<close> and
  \<^verbatim>\<open>shared.ConflictError\<close>, the sentinels are those of \<^verbatim>\<open>ports/output/errors.go\<close> and
  \<^verbatim>\<open>usecase/errors.go\<close>. \<open>WrapPrefix c e\<close> is \<^verbatim>\<open>fmt.Errorf("c: %w", e)\<close>, \<open>WrapSuffix e c\<close> is
  \<^verbatim>\<open>fmt.Errorf("%w: c", e)\<close>, \<open>ErrorText t\<close> an error with nothing but its text (also one an
  external system reports), and \<open>Panic t\<close> stands for a Go panic.
\<close>

datatype error =
    ValidationError string string
  | ConflictError string string string
  | ErrNotFound
  | ErrOptimisticLock
  | ErrStaleMarketData
  | ErrSignalNotAllowed
  | ErrOperationalModeBlocked
  | ErrDuplicateExecution
  | ErrBrokerOrderStateUnknown
  | WrapPrefix string error
  | WrapSuffix error string
  | ErrorText string
  | Panic string

type_synonym 'a result = "error + 'a"

text \<open>The text of an error, as its \<^verbatim>\<open>Error()\<close> method builds it.\<close>

fun error_string :: "error \<Rightarrow> string" where
  "error_string (ValidationError f m) = f @ '': '' @ m"
| "error_string (ConflictError e a b) = e @ '': invalid transition from '' @ a @ '' to '' @ b"
| "error_string ErrNotFound = ''not found''"
| "error_string ErrOptimisticLock = ''optimistic lock conflict''"
| "error_string ErrStaleMarketData = ''market data is older than the maximum allowed age''"
| "error_string ErrSignalNotAllowed = ''risk decision did not allow this signal''"
| "error_string ErrOperationalModeBlocked = ''current operational mode does not allow this action''"
| "error_string ErrDuplicateExecution =
     ''this signal/decision is already being executed or was already executed''"
| "error_string ErrBrokerOrderStateUnknown = ''broker order state could not be determined''"
| "error_string (WrapPrefix c e) = c @ '': '' @ error_string e"
| "error_string (WrapSuffix e c) = error_string e @ '': '' @ c"
| "error_string (ErrorText t) = t"
| "error_string (Panic t) = t"

text \<open>\<^verbatim>\<open>errors.Is\<close>: the target is the error itself or one of those it wraps.\<close>

fun errors_Is :: "error \<Rightarrow> error \<Rightarrow> bool" where
  "errors_Is (WrapPrefix c e) t \<longleftrightarrow> WrapPrefix c e = t \<or> errors_Is e t"
| "errors_Is (WrapSuffix e c) t \<longleftrightarrow> WrapSuffix e c = t \<or> errors_Is e t"
| "errors_Is e t \<longleftrightarrow> e = t"

text \<open>A \<^verbatim>\<open>Must\<close> constructor: the error of the checked constructor becomes a panic.\<close>

definition must :: "'a result \<Rightarrow> 'a result" where
  "must r = (case r of Inl e \<Rightarrow> Inl (Panic (error_string e)) | Inr x \<Rightarrow> Inr x)"

lemma must_Inr [simp]: "must r = Inr x \<longleftrightarrow> r = Inr x"
  by (cases r) (simp_all add: must_def)

lemma must_of_Inr [simp]: "must (Inr x) = Inr x"
  by (simp add: must_def)

text \<open>Error propagation: \<^verbatim>\<open>if err != nil { return err }\<close>.\<close>

definition rbind :: "'a result \<Rightarrow> ('a \<Rightarrow> 'b result) \<Rightarrow> 'b result" where
  "rbind r f = (case r of Inl e \<Rightarrow> Inl e | Inr x \<Rightarrow> f x)"

lemma rbind_simps [simp]:
  "rbind (Inl e) f = Inl e"
  "rbind (Inr x) f = f x"
  by (simp_all add: rbind_def)

lemma rbind_Inr_iff: "rbind r f = Inr y \<longleftrightarrow> (\<exists>x. r = Inr x \<and> f x = Inr y)"
  by (cases r) simp_all

lemma rbind_Inl_iff:
  "rbind r f = Inl e \<longleftrightarrow> r = Inl e \<or> (\<exists>x. r = Inr x \<and> f x = Inl e)"
  by (cases r) simp_all

definition is_ok :: "'a result \<Rightarrow> bool" where
  "is_ok r = (case r of Inl _ \<Rightarrow> False | Inr _ \<Rightarrow> True)"

lemma is_ok_simps [simp]:
  "\<not> is_ok (Inl e)"
  "is_ok (Inr x)"
  by (simp_all add: is_ok_def)

section \<open>Time\<close>

text \<open>
  \<^verbatim>\<open>time.Time\<close> is an instant in nanoseconds and \<^verbatim>\<open>time.Duration\<close> a signed 64-bit count of
  nanoseconds. \<^verbatim>\<open>Time.Sub\<close> saturates at the ends of that range.
\<close>

type_synonym time = int
type_synonym duration = int

definition minDuration :: duration where
  "minDuration = - (2 ^ 63)"

definition maxDuration :: duration where
  "maxDuration = 2 ^ 63 - 1"

definition time_Sub :: "time \<Rightarrow> time \<Rightarrow> duration" where
  "time_Sub t u = max minDuration (min maxDuration (t - u))"

definition time_Add :: "time \<Rightarrow> duration \<Rightarrow> time" where
  "time_Add t d = t + d"

definition time_After :: "time \<Rightarrow> time \<Rightarrow> bool" where
  "time_After t u \<longleftrightarrow> u < t"

definition Second :: duration where
  "Second = 1000000000"

text \<open>
  Saturation never changes an age check: against any bound a duration can hold (other than
  the largest one), the saturated difference and the exact one compare alike.
\<close>

lemma time_Sub_greater_iff:
  assumes "minDuration \<le> d" "d < maxDuration"
  shows "d < time_Sub t u \<longleftrightarrow> d < t - u"
  using assms by (auto simp: time_Sub_def)

lemma time_Sub_range: "minDuration \<le> time_Sub t u \<and> time_Sub t u \<le> maxDuration"
  by (simp add: time_Sub_def minDuration_def maxDuration_def)

section \<open>Decimal arithmetic\<close>

text \<open>
  The package \<^verbatim>\<open>github.com/shopspring/decimal\<close> is a parameter: every definition that computes
  with decimals takes the record of its operations. A decimal is represented by the number it
  denotes (a Go program can only observe that number through these operations). What the
  development relies on is \<open>decimal_lib\<close>: sums, differences, products and comparisons are
  exact, \<^verbatim>\<open>Floor\<close> is the integer part rounded down, and \<^verbatim>\<open>Div\<close> rounds its quotient, half
  away from zero, to \<^verbatim>\<open>DivisionPrecision\<close> = 16 digits after the point.
\<close>

type_synonym decimal = rat

record decimal_ops =
  dAdd :: "decimal \<Rightarrow> decimal \<Rightarrow> decimal"
  dSub :: "decimal \<Rightarrow> decimal \<Rightarrow> decimal"
  dMul :: "decimal \<Rightarrow> decimal \<Rightarrow> decimal"
  dDiv :: "decimal \<Rightarrow> decimal \<Rightarrow> decimal"
  dNeg :: "decimal \<Rightarrow> decimal"
  dAbs :: "decimal \<Rightarrow> decimal"
  dFloor :: "decimal \<Rightarrow> decimal"
  dIsZero :: "decimal \<Rightarrow> bool"
  dIsNegative :: "decimal \<Rightarrow> bool"
  dIsPositive :: "decimal \<Rightarrow> bool"
  dLessThan :: "decimal \<Rightarrow> decimal \<Rightarrow> bool"
  dLessThanOrEqual :: "decimal \<Rightarrow> decimal \<Rightarrow> bool"
  dGreaterThan :: "decimal \<Rightarrow> decimal \<Rightarrow> bool"
  dGreaterThanOrEqual :: "decimal \<Rightarrow> decimal \<Rightarrow> bool"
  dEqual :: "decimal \<Rightarrow> decimal \<Rightarrow> bool"
  dStringFixed :: "decimal \<Rightarrow> nat \<Rightarrow> string"
  dString :: "decimal \<Rightarrow> string"
  dNewFromString :: "string \<Rightarrow> decimal option"

definition round_half_away :: "rat \<Rightarrow> int" where
  "round_half_away x = (if 0 \<le> x then \<lfloor>x + 1 / 2\<rfloor> else - \<lfloor>- x + 1 / 2\<rfloor>)"

definition round_to :: "nat \<Rightarrow> rat \<Rightarrow> decimal" where
  "round_to n q = of_int (round_half_away (q * 10 ^ n)) / 10 ^ n"

definition DivisionPrecision :: nat where
  "DivisionPrecision = 16"

definition decimal_lib :: "decimal_ops \<Rightarrow> bool" where
  "decimal_lib D \<longleftrightarrow>
     (\<forall>a b. dAdd D a b = a + b) \<and> (\<forall>a b. dSub D a b = a - b) \<and> (\<forall>a b. dMul D a b = a * b) \<and>
     (\<forall>a b. b \<noteq> 0 \<longrightarrow> dDiv D a b = round_to DivisionPrecision (a / b)) \<and>
     (\<forall>a. dNeg D a = - a) \<and> (\<forall>a. dAbs D a = \<bar>a\<bar>) \<and> (\<forall>a. dFloor D a = of_int \<lfloor>a\<rfloor>) \<and>
     (\<forall>a. dIsZero D a \<longleftrightarrow> a = 0) \<and> (\<forall>a. dIsNegative D a \<longleftrightarrow> a < 0) \<and>
     (\<forall>a. dIsPositive D a \<longleftrightarrow> 0 < a) \<and> (\<forall>a b. dLessThan D a b \<longleftrightarrow> a < b) \<and>
     (\<forall>a b. dLessThanOrEqual D a b \<longleftrightarrow> a \<le> b) \<and> (\<forall>a b. dGreaterThan D a b \<longleftrightarrow> b < a) \<and>
     (\<forall>a b. dGreaterThanOrEqual D a b \<longleftrightarrow> b \<le> a) \<and> (\<forall>a b. dEqual D a b \<longleftrightarrow> a = b)"

lemma decimal_lib_simps [dec_simps, simp]:
  assumes "decimal_lib D"
  shows "dAdd D a b = a + b" "dSub D a b = a - b" "dMul D a b = a * b"
    "dNeg D a = - a" "dAbs D a = \<bar>a\<bar>" "dFloor D a = of_int \<lfloor>a\<rfloor>"
    "dIsZero D a \<longleftrightarrow> a = 0" "dIsNegative D a \<longleftrightarrow> a < 0" "dIsPositive D a \<longleftrightarrow> 0 < a"
    "dLessThan D a b \<longleftrightarrow> a < b" "dLessThanOrEqual D a b \<longleftrightarrow> a \<le> b"
    "dGreaterThan D a b \<longleftrightarrow> b < a" "dGreaterThanOrEqual D a b \<longleftrightarrow> b \<le> a"
    "dEqual D a b \<longleftrightarrow> a = b"
  using assms by (simp_all add: decimal_lib_def)

lemma dDiv_round [dec_simps, simp]:
  "decimal_lib D \<Longrightarrow> b \<noteq> 0 \<Longrightarrow> dDiv D a b = round_to DivisionPrecision (a / b)"
  by (simp only: decimal_lib_def) simp

subsection \<open>Rounding\<close>

lemma round_half_away_error: "\<bar>of_int (round_half_away x) - x\<bar> \<le> 1 / 2"
proof (cases "0 \<le> x")
  case True
  have "\<bar>of_int \<lfloor>x + 1 / 2\<rfloor> - x\<bar> \<le> 1 / 2" by linarith
  with True show ?thesis by (simp add: round_half_away_def)
next
  case False
  have "\<bar>- of_int \<lfloor>- x + 1 / 2\<rfloor> - x\<bar> \<le> 1 / 2" by linarith
  with False show ?thesis by (simp add: round_half_away_def)
qed

lemma round_half_away_of_int [simp]: "round_half_away (of_int k) = k"
proof (cases "0 \<le> k")
  case True
  have "\<lfloor>(of_int k :: rat) + 1 / 2\<rfloor> = k" by linarith
  with True show ?thesis by (simp add: round_half_away_def)
next
  case False
  have "\<lfloor>- (of_int k :: rat) + 1 / 2\<rfloor> = - k" by linarith
  with False show ?thesis by (simp add: round_half_away_def)
qed

lemma round_half_away_mono:
  assumes "x \<le> y"
  shows "round_half_away x \<le> round_half_away y"
proof (cases "0 \<le> x \<or> y < 0")
  case True
  with assms show ?thesis
    by (auto simp: round_half_away_def intro: floor_mono)
next
  case False
  then have "- \<lfloor>- x + 1 / 2\<rfloor> \<le> \<lfloor>y + 1 / 2\<rfloor>" by linarith
  with False show ?thesis by (simp add: round_half_away_def)
qed

lemma round_to_error: "\<bar>round_to n q - q\<bar> \<le> 1 / (2 * 10 ^ n)"
proof -
  have "round_to n q - q = (of_int (round_half_away (q * 10 ^ n)) - q * 10 ^ n) / 10 ^ n"
    by (simp add: round_to_def field_simps)
  then have "\<bar>round_to n q - q\<bar> = \<bar>of_int (round_half_away (q * 10 ^ n)) - q * 10 ^ n\<bar> / 10 ^ n"
    by (simp add: abs_divide)
  also have "\<dots> \<le> (1 / 2) / 10 ^ n"
    by (rule divide_right_mono [OF round_half_away_error]) simp
  finally show ?thesis by simp
qed

lemma round_to_mono: "x \<le> y \<Longrightarrow> round_to n x \<le> round_to n y"
  by (simp add: round_to_def divide_right_mono round_half_away_mono mult_right_mono)

lemma round_to_exact: "q * 10 ^ n = of_int k \<Longrightarrow> round_to n q = q"
  by (simp add: round_to_def field_simps)

lemma round_to_of_int [simp]: "round_to n (of_int k) = of_int k"
  by (rule round_to_exact [of _ _ "k * 10 ^ n"]) simp

lemma round_to_0 [simp]: "round_to n 0 = 0"
  using round_to_of_int [of n 0] by simp

lemma round_to_1 [simp]: "round_to n 1 = 1"
  using round_to_of_int [of n 1] by simp

lemma round_to_nonneg: "0 \<le> q \<Longrightarrow> 0 \<le> round_to n q"
  using round_to_mono [of 0 q n] by simp

lemma round_to_nonpos: "q \<le> 0 \<Longrightarrow> round_to n q \<le> 0"
  using round_to_mono [of q 0 n] by simp

lemma round_to_le_1: "q \<le> 1 \<Longrightarrow> round_to n q \<le> 1"
  using round_to_mono [of q 1 n] by simp

text \<open>Evaluation of floors of closed fractions, for concrete runs of the model.\<close>

lemma floor_numeral_divide [simp]:
  "\<lfloor>numeral a / numeral b :: rat\<rfloor> = numeral a div numeral b"
  using floor_divide_of_int_eq [where 'a = rat, of "numeral a" "numeral b"] by simp

lemma floor_one_divide [simp]: "\<lfloor>1 / numeral b :: rat\<rfloor> = 1 div numeral b"
  using floor_divide_of_int_eq [where 'a = rat, of 1 "numeral b"] by simp

lemmas round_eval = round_to_def round_half_away_def DivisionPrecision_def

text \<open>
  A decimal package that meets \<open>decimal_lib\<close>, for concrete runs of the model; its formatting
  and parsing operations are left trivial, since \<open>decimal_lib\<close> says nothing about them.
\<close>

definition ref_decimal :: decimal_ops where
  "ref_decimal = \<lparr>dAdd = (+), dSub = (-), dMul = (*),
     dDiv = (\<lambda>a b. round_to DivisionPrecision (a / b)), dNeg = uminus, dAbs = abs,
     dFloor = (\<lambda>a. of_int \<lfloor>a\<rfloor>), dIsZero = (\<lambda>a. a = 0), dIsNegative = (\<lambda>a. a < 0),
     dIsPositive = (\<lambda>a. 0 < a), dLessThan = (<), dLessThanOrEqual = (\<le>),
     dGreaterThan = (>), dGreaterThanOrEqual = (\<ge>), dEqual = (=),
     dStringFixed = (\<lambda>a n. ''''), dString = (\<lambda>a. ''''), dNewFromString = (\<lambda>s. None)\<rparr>"

lemma decimal_lib_ref [simp]: "decimal_lib ref_decimal"
  by (simp add: decimal_lib_def ref_decimal_def)

section \<open>Numbers and text\<close>

text \<open>Decimal printing of naturals (\<^verbatim>\<open>%d\<close>), and with leading zeros (\<^verbatim>\<open>%08d\<close>).\<close>

fun show_nat :: "nat \<Rightarrow> string" where
  "show_nat n = (if n < 10 then [char_of (48 + n)]
                 else show_nat (n div 10) @ [char_of (48 + n mod 10)])"

declare show_nat.simps [simp del]

definition show_int :: "int \<Rightarrow> string" where
  "show_int i = (if i < 0 then ''-'' @ show_nat (nat (- i)) else show_nat (nat i))"

definition zero_pad :: "nat \<Rightarrow> string \<Rightarrow> string" where
  "zero_pad w s = replicate (w - length s) (CHR ''0'') @ s"

definition read_nat :: "string \<Rightarrow> nat" where
  "read_nat s = foldl (\<lambda>a c. 10 * a + (of_char c - 48)) 0 s"

lemma read_nat_show_nat [simp]: "read_nat (show_nat n) = n"
proof (induction n rule: show_nat.induct)
  case (1 n)
  then show ?case
    by (cases "n < 10") (simp_all add: show_nat.simps [of n] read_nat_def)
qed

lemma read_nat_zero_pad [simp]: "read_nat (zero_pad w s) = read_nat s"
proof -
  have "foldl (\<lambda>a c. 10 * a + (of_char c - 48)) 0 (replicate k (CHR ''0'')) = (0::nat)" for k
    by (induction k) simp_all
  then show ?thesis by (simp add: zero_pad_def read_nat_def)
qed

lemma show_nat_digits: "c \<in> set (show_nat n) \<Longrightarrow> 48 \<le> (of_char c :: nat) \<and> (of_char c :: nat) \<le> 57"
proof (induction n rule: show_nat.induct)
  case (1 n)
  then show ?case
    by (cases "n < 10") (auto simp: show_nat.simps [of n])
qed

text \<open>ASCII text: \<^verbatim>\<open>strings.TrimSpace\<close>, \<^verbatim>\<open>strings.ToUpper\<close> and \<^verbatim>\<open>strings.ToLower\<close>.\<close>

definition is_space :: "char \<Rightarrow> bool" where
  "is_space c \<longleftrightarrow> (of_char c :: nat) \<in> {9, 10, 11, 12, 13, 32}"

definition TrimSpace :: "string \<Rightarrow> string" where
  "TrimSpace s = rev (dropWhile is_space (rev (dropWhile is_space s)))"

definition upper_char :: "char \<Rightarrow> char" where
  "upper_char c = (let n = (of_char c :: nat) in if 97 \<le> n \<and> n \<le> 122 then char_of (n - 32) else c)"

definition lower_char :: "char \<Rightarrow> char" where
  "lower_char c = (let n = (of_char c :: nat) in if 65 \<le> n \<and> n \<le> 90 then char_of (n + 32) else c)"

definition ToUpper :: "string \<Rightarrow> string" where
  "ToUpper s = map upper_char s"

definition ToLower :: "string \<Rightarrow> string" where
  "ToLower s = map lower_char s"

definition is_upper_alnum :: "char \<Rightarrow> bool" where
  "is_upper_alnum c \<longleftrightarrow> (let n = (of_char c :: nat) in 65 \<le> n \<and> n \<le> 90 \<or> 48 \<le> n \<and> n \<le> 57)"

definition is_id_char :: "char \<Rightarrow> bool" where
  "is_id_char c \<longleftrightarrow> (let n = (of_char c :: nat) in
     65 \<le> n \<and> n \<le> 90 \<or> 97 \<le> n \<and> n \<le> 122 \<or> 48 \<le> n \<and> n \<le> 57 \<or> n = 95 \<or> n = 45)"

lemmas char_class_defs = is_space_def is_upper_alnum_def is_id_char_def upper_char_def
  lower_char_def Let_def

lemma dropWhile_none: "(\<forall>x\<in>set xs. \<not> P x) \<Longrightarrow> dropWhile P xs = xs"
  by (cases xs) auto

lemma TrimSpace_id: "(\<forall>c\<in>set s. \<not> is_space c) \<Longrightarrow> TrimSpace s = s"
  by (simp add: TrimSpace_def dropWhile_none)

lemma TrimSpace_length: "length (TrimSpace s) \<le> length s"
  using length_dropWhile_le [of is_space "rev (dropWhile is_space s)"]
    length_dropWhile_le [of is_space s]
  by (simp add: TrimSpace_def)

section \<open>Identifiers\<close>

text \<open>
  \<^verbatim>\<open>github.com/google/uuid\<close> is a parameter too: a UUID is a 128-bit number, \<^verbatim>\<open>String\<close> and
  \<^verbatim>\<open>Parse\<close> are the two operations used (\<^verbatim>\<open>uuid.New\<close> shows up as an argument that carries the
  fresh value). \<open>uuid_lib\<close> is the documented text form: 36 characters, lower-case hexadecimal
  digits and hyphens, read back by \<^verbatim>\<open>Parse\<close>.
\<close>

type_synonym uuid = nat

record uuid_ops =
  uString :: "uuid \<Rightarrow> string"
  uParse :: "string \<Rightarrow> uuid option"

definition is_uuid_char :: "char \<Rightarrow> bool" where
  "is_uuid_char c \<longleftrightarrow> (let n = (of_char c :: nat) in
     48 \<le> n \<and> n \<le> 57 \<or> 97 \<le> n \<and> n \<le> 102 \<or> n = 45)"

definition uuid_lib :: "uuid_ops \<Rightarrow> bool" where
  "uuid_lib U \<longleftrightarrow>
     (\<forall>u < 2 ^ 128. uParse U (uString U u) = Some u) \<and>
     (\<forall>u. length (uString U u) = 36) \<and> (\<forall>u. \<forall>c\<in>set (uString U u). is_uuid_char c)"

lemma is_uuid_char_id: "is_uuid_char c \<Longrightarrow> is_id_char c"
  by (auto simp: is_uuid_char_def is_id_char_def Let_def)

lemma uuid_libD:
  assumes "uuid_lib U"
  shows "u < 2 ^ 128 \<Longrightarrow> uParse U (uString U u) = Some u" "length (uString U u) = 36"
    "c \<in> set (uString U u) \<Longrightarrow> is_uuid_char c"
  using assms by (auto simp: uuid_lib_def)

text \<open>
  A UUID package that meets \<open>uuid_lib\<close>, for concrete runs of the model: the usual text form in
  groups of 8, 4, 4, 4 and 12 hexadecimal digits.
\<close>

definition hex_char :: "nat \<Rightarrow> char" where
  "hex_char d = char_of (if d < 10 then 48 + d else 87 + d)"

definition hex_value :: "char \<Rightarrow> nat" where
  "hex_value c = (let n = of_char c in if 97 \<le> n then n - 87 else n - 48)"

fun hex :: "nat \<Rightarrow> nat \<Rightarrow> string" where
  "hex 0 u = []"
| "hex (Suc n) u = hex n (u div 16) @ [hex_char (u mod 16)]"

definition hex_read :: "string \<Rightarrow> nat" where
  "hex_read s = foldl (\<lambda>a c. 16 * a + hex_value c) 0 s"

definition uuid_text :: "string \<Rightarrow> string" where
  "uuid_text h = take 8 h @ ''-'' @ take 4 (drop 8 h) @ ''-'' @ take 4 (drop 12 h) @ ''-'' @ take 4 (drop 16 h) @ ''-'' @ drop 20 h"

definition ref_uuid :: uuid_ops where
  "ref_uuid = \<lparr>uString = (\<lambda>u. uuid_text (hex 32 u)),
     uParse = (\<lambda>s. Some (hex_read (filter (\<lambda>c. c \<noteq> CHR ''-'') s)))\<rparr>"

lemma hex_char_props:
  assumes "d < 16"
  shows "hex_value (hex_char d) = d" "is_uuid_char (hex_char d)" "hex_char d \<noteq> CHR ''-''"
proof -
  have "of_char (hex_char d) = (if d < 10 then 48 + d else 87 + d)"
    using assms by (simp add: hex_char_def)
  then show "hex_value (hex_char d) = d" "is_uuid_char (hex_char d)" "hex_char d \<noteq> CHR ''-''"
    using assms by (auto simp: hex_value_def is_uuid_char_def Let_def split: if_splits)
qed

lemma length_hex [simp]: "length (hex n u) = n"
  by (induction n arbitrary: u) simp_all

lemma hex_chars: "c \<in> set (hex n u) \<Longrightarrow> is_uuid_char c \<and> c \<noteq> CHR ''-''"
  by (induction n arbitrary: u) (auto simp: hex_char_props)

lemma hex_read_hex: "u < 16 ^ n \<Longrightarrow> hex_read (hex n u) = u"
proof (induction n arbitrary: u)
  case (Suc n)
  then have "u div 16 < 16 ^ n" by (simp add: less_mult_imp_div_less)
  with Suc.IH [of "u div 16"] show ?case
    by (simp add: hex_read_def hex_char_props)
qed (simp add: hex_read_def)

lemma uuid_lib_ref [simp]: "uuid_lib ref_uuid"
proof -
  have filter_id: "filter (\<lambda>c. c \<noteq> CHR ''-'') s = s" if "CHR ''-'' \<notin> set s" for s
    using that by (induction s) auto
  have plain: "CHR ''-'' \<notin> set (hex 32 u)" for u using hex_chars by blast
  have sub: "CHR ''-'' \<notin> set (take n (drop m (hex 32 u)))" "CHR ''-'' \<notin> set (drop m (hex 32 u))" "CHR ''-'' \<notin> set (take n (hex 32 u))" for n m u
    using plain [of u] by (auto dest: in_set_takeD in_set_dropD)
  have step: "take k (drop m h) @ drop (m + k) h = drop m h" for k m and h :: string
    by (metis append_take_drop_id drop_drop add.commute)
  have parts: "take 8 h @ take 4 (drop 8 h) @ take 4 (drop 12 h) @ take 4 (drop 16 h) @ drop 20 h = h" for h :: string
    using step [of 4 16 h] step [of 4 12 h] step [of 4 8 h] by simp
  have "filter (\<lambda>c. c \<noteq> CHR ''-'') (uuid_text (hex 32 u)) = hex 32 u" for u
    using parts [of "hex 32 u"] by (simp add: uuid_text_def filter_id sub)
  moreover have "set (uuid_text (hex 32 u)) \<subseteq> insert (CHR ''-'') (set (hex 32 u))" for u
    by (auto simp: uuid_text_def dest: in_set_takeD in_set_dropD)
  then have "\<forall>c\<in>set (uuid_text (hex 32 u)). is_uuid_char c" for u
    using hex_chars by (fastforce simp: is_uuid_char_def)
  ultimately show ?thesis
    by (simp add: uuid_lib_def ref_uuid_def hex_read_hex) (simp add: uuid_text_def)
qed

section \<open>Slices\<close>

text \<open>
  A slice that may be nil, \<open>None\<close>. Appending to a nil slice makes one; ranging over it does nothing.
  The difference to an empty slice shows at the database: a nil slice is sent as NULL.
\<close>

type_synonym 'a slice = "'a list option"

fun slice_items :: "'a slice \<Rightarrow> 'a list" where
  "slice_items None = []"
| "slice_items (Some xs) = xs"

definition slice_append :: "'a slice \<Rightarrow> 'a \<Rightarrow> 'a slice" where
  "slice_append s x = Some (slice_items s @ [x])"

section \<open>Shared list and map lemmas\<close>

lemma map_upd_Some_cases:
  "(m(k \<mapsto> v)) x = Some y \<Longrightarrow> (x = k \<Longrightarrow> y = v \<Longrightarrow> P) \<Longrightarrow> (x \<noteq> k \<Longrightarrow> m x = Some y \<Longrightarrow> P) \<Longrightarrow> P"
  by (auto split: if_splits)

lemma list_all_filter [simp]: "list_all P (filter P xs)"
  by (induction xs) simp_all

end
