(* ===== verification/Value_Objects.thy ===== *)
theory Value_Objects
  imports Go_Prelude
begin

text \<open>
  The value objects of \<^verbatim>\<open>internal/domain/shared\<close>: one type per Go struct, its checked
  constructor, its panicking \<^verbatim>\<open>MustNew\<close> constructor and its methods. The interface
  \<open>checked_value\<close> states once what a checked constructor promises; every constructor of the
  package is an interpretation of it.
\<close>

section \<open>Side\<close>

text \<open>
  A Go string type keeps any string, so the enumeration carries the unlisted ones too
  (\<open>Side_other\<close>): a repository casts a column to \<^verbatim>\<open>shared.Side\<close> without checking it.
\<close>

datatype Side = SideBuy | SideSell | Side_other string

definition Side_Valid :: "Side \<Rightarrow> bool" where
  "Side_Valid s = (case s of SideBuy \<Rightarrow> True | SideSell \<Rightarrow> True | _ \<Rightarrow> False)"

definition Side_Opposite :: "Side \<Rightarrow> Side" where
  "Side_Opposite s = (if s = SideBuy then SideSell else SideBuy)"

definition Side_String :: "Side \<Rightarrow> string" where
  "Side_String s = (case s of SideBuy \<Rightarrow> ''BUY'' | SideSell \<Rightarrow> ''SELL'' | Side_other t \<Rightarrow> t)"

definition Side_of_string :: "string \<Rightarrow> Side" where
  "Side_of_string t = (if t = ''BUY'' then SideBuy else if t = ''SELL'' then SideSell else Side_other t)"

section \<open>Money, Price and Quantity\<close>

datatype Money = Money (Money_Decimal: decimal)

definition ZeroMoney :: Money where
  "ZeroMoney = Money 0"

definition NewMoney :: "decimal \<Rightarrow> Money" where
  "NewMoney x = Money x"

definition NewMoneyFromString :: "decimal_ops \<Rightarrow> string \<Rightarrow> Money result" where
  "NewMoneyFromString D s = (case dNewFromString D s of
       None \<Rightarrow> Inl (ValidationError ''money'' ''must be a valid decimal string'')
     | Some d \<Rightarrow> Inr (Money d))"

definition Money_Add :: "decimal_ops \<Rightarrow> Money \<Rightarrow> Money \<Rightarrow> Money" where
  "Money_Add D m n = Money (dAdd D (Money_Decimal m) (Money_Decimal n))"

definition Money_Sub :: "decimal_ops \<Rightarrow> Money \<Rightarrow> Money \<Rightarrow> Money" where
  "Money_Sub D m n = Money (dSub D (Money_Decimal m) (Money_Decimal n))"

definition Money_Mul :: "decimal_ops \<Rightarrow> Money \<Rightarrow> decimal \<Rightarrow> Money" where
  "Money_Mul D m f = Money (dMul D (Money_Decimal m) f)"

definition Money_Neg :: "decimal_ops \<Rightarrow> Money \<Rightarrow> Money" where
  "Money_Neg D m = Money (dNeg D (Money_Decimal m))"

definition Money_IsZero :: "decimal_ops \<Rightarrow> Money \<Rightarrow> bool" where
  "Money_IsZero D m = dIsZero D (Money_Decimal m)"

definition Money_IsNegative :: "decimal_ops \<Rightarrow> Money \<Rightarrow> bool" where
  "Money_IsNegative D m = dIsNegative D (Money_Decimal m)"

definition Money_IsPositive :: "decimal_ops \<Rightarrow> Money \<Rightarrow> bool" where
  "Money_IsPositive D m = dIsPositive D (Money_Decimal m)"

definition Money_GreaterThan :: "decimal_ops \<Rightarrow> Money \<Rightarrow> Money \<Rightarrow> bool" where
  "Money_GreaterThan D m n = dGreaterThan D (Money_Decimal m) (Money_Decimal n)"

definition Money_GreaterThanOrEqual :: "decimal_ops \<Rightarrow> Money \<Rightarrow> Money \<Rightarrow> bool" where
  "Money_GreaterThanOrEqual D m n = dGreaterThanOrEqual D (Money_Decimal m) (Money_Decimal n)"

definition Money_LessThan :: "decimal_ops \<Rightarrow> Money \<Rightarrow> Money \<Rightarrow> bool" where
  "Money_LessThan D m n = dLessThan D (Money_Decimal m) (Money_Decimal n)"

definition Money_LessThanOrEqual :: "decimal_ops \<Rightarrow> Money \<Rightarrow> Money \<Rightarrow> bool" where
  "Money_LessThanOrEqual D m n = dLessThanOrEqual D (Money_Decimal m) (Money_Decimal n)"

definition Money_Equal :: "decimal_ops \<Rightarrow> Money \<Rightarrow> Money \<Rightarrow> bool" where
  "Money_Equal D m n = dEqual D (Money_Decimal m) (Money_Decimal n)"

definition Money_String :: "decimal_ops \<Rightarrow> Money \<Rightarrow> string" where
  "Money_String D m = dStringFixed D (Money_Decimal m) 8"

datatype Price = Price (Price_Decimal: decimal)

definition NewPrice :: "decimal_ops \<Rightarrow> decimal \<Rightarrow> Price result" where
  "NewPrice D v =
     (if dLessThanOrEqual D v 0 then Inl (ValidationError ''price'' ''must be greater than zero'')
      else Inr (Price v))"

definition MustNewPrice :: "decimal_ops \<Rightarrow> decimal \<Rightarrow> Price result" where
  "MustNewPrice D v = must (NewPrice D v)"

definition Price_GreaterThan :: "decimal_ops \<Rightarrow> Price \<Rightarrow> Price \<Rightarrow> bool" where
  "Price_GreaterThan D p q = dGreaterThan D (Price_Decimal p) (Price_Decimal q)"

definition Price_GreaterThanOrEqual :: "decimal_ops \<Rightarrow> Price \<Rightarrow> Price \<Rightarrow> bool" where
  "Price_GreaterThanOrEqual D p q = dGreaterThanOrEqual D (Price_Decimal p) (Price_Decimal q)"

definition Price_LessThan :: "decimal_ops \<Rightarrow> Price \<Rightarrow> Price \<Rightarrow> bool" where
  "Price_LessThan D p q = dLessThan D (Price_Decimal p) (Price_Decimal q)"

definition Price_LessThanOrEqual :: "decimal_ops \<Rightarrow> Price \<Rightarrow> Price \<Rightarrow> bool" where
  "Price_LessThanOrEqual D p q = dLessThanOrEqual D (Price_Decimal p) (Price_Decimal q)"

definition Price_Equal :: "decimal_ops \<Rightarrow> Price \<Rightarrow> Price \<Rightarrow> bool" where
  "Price_Equal D p q = dEqual D (Price_Decimal p) (Price_Decimal q)"

definition DistanceTo :: "decimal_ops \<Rightarrow> Price \<Rightarrow> Price \<Rightarrow> decimal" where
  "DistanceTo D p q = dAbs D (dSub D (Price_Decimal p) (Price_Decimal q))"

definition PercentageDistanceTo :: "decimal_ops \<Rightarrow> Price \<Rightarrow> Price \<Rightarrow> decimal" where
  "PercentageDistanceTo D p q =
     (if dIsZero D (Price_Decimal p) then 0 else dDiv D (DistanceTo D p q) (Price_Decimal p))"

definition Price_String :: "decimal_ops \<Rightarrow> Price \<Rightarrow> string" where
  "Price_String D p = dStringFixed D (Price_Decimal p) 8"

datatype Quantity = Quantity (Quantity_Decimal: decimal)

definition ZeroQuantity :: Quantity where
  "ZeroQuantity = Quantity 0"

definition NewQuantity :: "decimal_ops \<Rightarrow> decimal \<Rightarrow> Quantity result" where
  "NewQuantity D v =
     (if dIsNegative D v then Inl (ValidationError ''quantity'' ''must not be negative'')
      else Inr (Quantity v))"

definition MustNewQuantity :: "decimal_ops \<Rightarrow> decimal \<Rightarrow> Quantity result" where
  "MustNewQuantity D v = must (NewQuantity D v)"

definition Quantity_IsZero :: "decimal_ops \<Rightarrow> Quantity \<Rightarrow> bool" where
  "Quantity_IsZero D q = dIsZero D (Quantity_Decimal q)"

definition Quantity_Add :: "decimal_ops \<Rightarrow> Quantity \<Rightarrow> Quantity \<Rightarrow> Quantity" where
  "Quantity_Add D q r = Quantity (dAdd D (Quantity_Decimal q) (Quantity_Decimal r))"

definition Quantity_Sub :: "decimal_ops \<Rightarrow> Quantity \<Rightarrow> Quantity \<Rightarrow> Quantity result" where
  "Quantity_Sub D q r =
     (let x = dSub D (Quantity_Decimal q) (Quantity_Decimal r) in
      if dIsNegative D x
      then Inl (ValidationError ''quantity'' ''subtraction would result in negative quantity'')
      else Inr (Quantity x))"

definition Quantity_GreaterThan :: "decimal_ops \<Rightarrow> Quantity \<Rightarrow> Quantity \<Rightarrow> bool" where
  "Quantity_GreaterThan D q r = dGreaterThan D (Quantity_Decimal q) (Quantity_Decimal r)"

definition Quantity_GreaterThanOrEqual :: "decimal_ops \<Rightarrow> Quantity \<Rightarrow> Quantity \<Rightarrow> bool" where
  "Quantity_GreaterThanOrEqual D q r = dGreaterThanOrEqual D (Quantity_Decimal q) (Quantity_Decimal r)"

definition Quantity_LessThan :: "decimal_ops \<Rightarrow> Quantity \<Rightarrow> Quantity \<Rightarrow> bool" where
  "Quantity_LessThan D q r = dLessThan D (Quantity_Decimal q) (Quantity_Decimal r)"

definition Quantity_Equal :: "decimal_ops \<Rightarrow> Quantity \<Rightarrow> Quantity \<Rightarrow> bool" where
  "Quantity_Equal D q r = dEqual D (Quantity_Decimal q) (Quantity_Decimal r)"

definition Quantity_String :: "decimal_ops \<Rightarrow> Quantity \<Rightarrow> string" where
  "Quantity_String D q = dStringFixed D (Quantity_Decimal q) 8"

section \<open>Fractions: Percentage, Confidence, Drawdown, Leverage and Slippage\<close>

datatype Percentage = Percentage (Percentage_Decimal: decimal)

definition NewPercentage :: "decimal_ops \<Rightarrow> decimal \<Rightarrow> Percentage result" where
  "NewPercentage D v =
     (if dLessThan D v (- 10) \<or> dGreaterThan D v 10
      then Inl (ValidationError ''percentage'' ''out of representable range'')
      else Inr (Percentage v))"

definition MustNewPercentage :: "decimal_ops \<Rightarrow> decimal \<Rightarrow> Percentage result" where
  "MustNewPercentage D v = must (NewPercentage D v)"

definition Percentage_Of :: "decimal_ops \<Rightarrow> Percentage \<Rightarrow> Money \<Rightarrow> Money" where
  "Percentage_Of D p m = Money (dMul D (Money_Decimal m) (Percentage_Decimal p))"

definition Percentage_GreaterThan :: "decimal_ops \<Rightarrow> Percentage \<Rightarrow> Percentage \<Rightarrow> bool" where
  "Percentage_GreaterThan D p q = dGreaterThan D (Percentage_Decimal p) (Percentage_Decimal q)"

definition Percentage_GreaterThanOrEqual :: "decimal_ops \<Rightarrow> Percentage \<Rightarrow> Percentage \<Rightarrow> bool" where
  "Percentage_GreaterThanOrEqual D p q =
     dGreaterThanOrEqual D (Percentage_Decimal p) (Percentage_Decimal q)"

definition Percentage_LessThan :: "decimal_ops \<Rightarrow> Percentage \<Rightarrow> Percentage \<Rightarrow> bool" where
  "Percentage_LessThan D p q = dLessThan D (Percentage_Decimal p) (Percentage_Decimal q)"

definition Percentage_Abs :: "decimal_ops \<Rightarrow> Percentage \<Rightarrow> Percentage" where
  "Percentage_Abs D p = Percentage (dAbs D (Percentage_Decimal p))"

definition Percentage_IsNegative :: "decimal_ops \<Rightarrow> Percentage \<Rightarrow> bool" where
  "Percentage_IsNegative D p = dIsNegative D (Percentage_Decimal p)"

definition Percentage_String :: "decimal_ops \<Rightarrow> Percentage \<Rightarrow> string" where
  "Percentage_String D p = dStringFixed D (dMul D (Percentage_Decimal p) 100) 2 @ ''%''"

datatype Confidence = Confidence (Confidence_Decimal: decimal)

definition NewConfidence :: "decimal_ops \<Rightarrow> decimal \<Rightarrow> Confidence result" where
  "NewConfidence D v =
     (if dIsNegative D v \<or> dGreaterThan D v 1
      then Inl (ValidationError ''confidence'' ''must be between 0 and 1'')
      else Inr (Confidence v))"

definition MustNewConfidence :: "decimal_ops \<Rightarrow> decimal \<Rightarrow> Confidence result" where
  "MustNewConfidence D v = must (NewConfidence D v)"

definition Confidence_GreaterThanOrEqual :: "decimal_ops \<Rightarrow> Confidence \<Rightarrow> Confidence \<Rightarrow> bool" where
  "Confidence_GreaterThanOrEqual D c d =
     dGreaterThanOrEqual D (Confidence_Decimal c) (Confidence_Decimal d)"

definition Confidence_String :: "decimal_ops \<Rightarrow> Confidence \<Rightarrow> string" where
  "Confidence_String D c = dStringFixed D (Confidence_Decimal c) 4"

datatype Drawdown = Drawdown (Drawdown_Decimal: decimal)

definition NewDrawdown :: "decimal_ops \<Rightarrow> decimal \<Rightarrow> Drawdown result" where
  "NewDrawdown D v =
     (if dIsNegative D v \<or> dGreaterThan D v 1
      then Inl (ValidationError ''drawdown'' ''must be between 0 and 1'')
      else Inr (Drawdown v))"

definition MustNewDrawdown :: "decimal_ops \<Rightarrow> decimal \<Rightarrow> Drawdown result" where
  "MustNewDrawdown D v = must (NewDrawdown D v)"

definition DrawdownFromPeak :: "decimal_ops \<Rightarrow> Money \<Rightarrow> Money \<Rightarrow> Drawdown" where
  "DrawdownFromPeak D peak current =
     (if Money_IsZero D peak \<or> Money_GreaterThanOrEqual D current peak then Drawdown 0
      else let loss = Money_Sub D peak current;
               ratio = dDiv D (Money_Decimal loss) (Money_Decimal peak)
           in Drawdown (if dGreaterThan D ratio 1 then 1 else ratio))"

definition Drawdown_GreaterThanOrEqual :: "decimal_ops \<Rightarrow> Drawdown \<Rightarrow> Drawdown \<Rightarrow> bool" where
  "Drawdown_GreaterThanOrEqual D d e =
     dGreaterThanOrEqual D (Drawdown_Decimal d) (Drawdown_Decimal e)"

definition Drawdown_String :: "decimal_ops \<Rightarrow> Drawdown \<Rightarrow> string" where
  "Drawdown_String D d = dStringFixed D (dMul D (Drawdown_Decimal d) 100) 2 @ ''%''"

datatype Leverage = Leverage (Leverage_Decimal: decimal)

definition NewLeverage :: "decimal_ops \<Rightarrow> decimal \<Rightarrow> Leverage result" where
  "NewLeverage D v =
     (if dLessThan D v 1
      then Inl (ValidationError ''leverage'' ''must be greater than or equal to 1'')
      else Inr (Leverage v))"

definition MustNewLeverage :: "decimal_ops \<Rightarrow> decimal \<Rightarrow> Leverage result" where
  "MustNewLeverage D v = must (NewLeverage D v)"

definition Leverage_GreaterThan :: "decimal_ops \<Rightarrow> Leverage \<Rightarrow> Leverage \<Rightarrow> bool" where
  "Leverage_GreaterThan D l m = dGreaterThan D (Leverage_Decimal l) (Leverage_Decimal m)"

definition Leverage_LessThanOrEqual :: "decimal_ops \<Rightarrow> Leverage \<Rightarrow> Leverage \<Rightarrow> bool" where
  "Leverage_LessThanOrEqual D l m = dLessThanOrEqual D (Leverage_Decimal l) (Leverage_Decimal m)"

definition Leverage_String :: "decimal_ops \<Rightarrow> Leverage \<Rightarrow> string" where
  "Leverage_String D l = dStringFixed D (Leverage_Decimal l) 2 @ ''x''"

datatype Slippage = Slippage (Slippage_Decimal: decimal)

definition NewSlippage :: "decimal_ops \<Rightarrow> decimal \<Rightarrow> Slippage result" where
  "NewSlippage D v =
     (if dIsNegative D v then Inl (ValidationError ''slippage'' ''must not be negative'')
      else Inr (Slippage v))"

definition MustNewSlippage :: "decimal_ops \<Rightarrow> decimal \<Rightarrow> Slippage result" where
  "MustNewSlippage D v = must (NewSlippage D v)"

definition SlippageBetween :: "decimal_ops \<Rightarrow> Price \<Rightarrow> Price \<Rightarrow> Slippage" where
  "SlippageBetween D expected executed =
     (if dIsZero D (Price_Decimal expected) then Slippage 0
      else Slippage (dDiv D (DistanceTo D expected executed) (Price_Decimal expected)))"

definition Slippage_GreaterThan :: "decimal_ops \<Rightarrow> Slippage \<Rightarrow> Slippage \<Rightarrow> bool" where
  "Slippage_GreaterThan D s t = dGreaterThan D (Slippage_Decimal s) (Slippage_Decimal t)"

definition Slippage_String :: "decimal_ops \<Rightarrow> Slippage \<Rightarrow> string" where
  "Slippage_String D s = dStringFixed D (dMul D (Slippage_Decimal s) 100) 4 @ ''%''"

section \<open>Symbol, Timeframe and ClientOrderID\<close>

datatype Symbol = Symbol (Symbol_String: string)

text \<open>The regular expression \<^verbatim>\<open>^[A-Z0-9]{3,20}$\<close>.\<close>

definition symbolPattern :: "string \<Rightarrow> bool" where
  "symbolPattern s \<longleftrightarrow> 3 \<le> length s \<and> length s \<le> 20 \<and> list_all is_upper_alnum s"

definition NewSymbol :: "string \<Rightarrow> Symbol result" where
  "NewSymbol value =
     (let normalized = ToUpper (TrimSpace value) in
      if \<not> symbolPattern normalized
      then Inl (ValidationError ''symbol'' ''must be 3-20 alphanumeric upper-case characters'')
      else Inr (Symbol normalized))"

definition MustNewSymbol :: "string \<Rightarrow> Symbol result" where
  "MustNewSymbol value = must (NewSymbol value)"

definition Symbol_Equal :: "Symbol \<Rightarrow> Symbol \<Rightarrow> bool" where
  "Symbol_Equal s t \<longleftrightarrow> Symbol_String s = Symbol_String t"

datatype Timeframe = Timeframe (Timeframe_String: string)

definition validTimeframes :: "string list" where
  "validTimeframes = [''1m'', ''3m'', ''5m'', ''15m'', ''30m'', ''1h'', ''2h'', ''4h'', ''6h'',
     ''8h'', ''12h'', ''1d'', ''3d'', ''1w'']"

definition NewTimeframe :: "string \<Rightarrow> Timeframe result" where
  "NewTimeframe value =
     (if value \<notin> set validTimeframes
      then Inl (ValidationError ''timeframe'' ''unsupported timeframe value'')
      else Inr (Timeframe value))"

definition MustNewTimeframe :: "string \<Rightarrow> Timeframe result" where
  "MustNewTimeframe value = must (NewTimeframe value)"

definition Timeframe_Equal :: "Timeframe \<Rightarrow> Timeframe \<Rightarrow> bool" where
  "Timeframe_Equal s t \<longleftrightarrow> Timeframe_String s = Timeframe_String t"

datatype ClientOrderID = ClientOrderID (ClientOrderID_String: string)

text \<open>The regular expression \<^verbatim>\<open>^[A-Za-z0-9_-]{8,36}$\<close>.\<close>

definition clientOrderIDPattern :: "string \<Rightarrow> bool" where
  "clientOrderIDPattern s \<longleftrightarrow> 8 \<le> length s \<and> length s \<le> 36 \<and> list_all is_id_char s"

definition NewClientOrderID :: "string \<Rightarrow> ClientOrderID result" where
  "NewClientOrderID value =
     (if \<not> clientOrderIDPattern value
      then Inl (ValidationError ''client_order_id'' ''must be 8-36 characters of [A-Za-z0-9_-]'')
      else Inr (ClientOrderID value))"

definition MustNewClientOrderID :: "string \<Rightarrow> ClientOrderID result" where
  "MustNewClientOrderID value = must (NewClientOrderID value)"

definition ClientOrderID_Equal :: "ClientOrderID \<Rightarrow> ClientOrderID \<Rightarrow> bool" where
  "ClientOrderID_Equal c d \<longleftrightarrow> ClientOrderID_String c = ClientOrderID_String d"

definition ClientOrderID_IsEmpty :: "ClientOrderID \<Rightarrow> bool" where
  "ClientOrderID_IsEmpty c \<longleftrightarrow> ClientOrderID_String c = ''''"

section \<open>Identifiers\<close>

text \<open>
  \<^verbatim>\<open>idValue\<close> and the eight strongly typed identifiers around it. \<^verbatim>\<open>NewXID()\<close> wraps a fresh UUID,
  here the constructor applied to the value \<^verbatim>\<open>uuid.New\<close> returned.
\<close>

datatype OrderID = OrderID (OrderID_value: uuid)
datatype SignalID = SignalID (SignalID_value: uuid)
datatype RiskDecisionID = RiskDecisionID (RiskDecisionID_value: uuid)
datatype AccountID = AccountID (AccountID_value: uuid)
datatype PositionID = PositionID (PositionID_value: uuid)
datatype MarketEventID = MarketEventID (MarketEventID_value: uuid)
datatype IncidentID = IncidentID (IncidentID_value: uuid)
datatype SnapshotID = SnapshotID (SnapshotID_value: uuid)

definition parseID :: "uuid_ops \<Rightarrow> string \<Rightarrow> string \<Rightarrow> uuid result" where
  "parseID U value field = (case uParse U value of
       None \<Rightarrow> Inl (ValidationError field ''must be a valid UUID'')
     | Some u \<Rightarrow> Inr u)"

definition idValue_IsZero :: "uuid \<Rightarrow> bool" where
  "idValue_IsZero u \<longleftrightarrow> u = 0"

definition ParseOrderID :: "uuid_ops \<Rightarrow> string \<Rightarrow> OrderID result" where
  "ParseOrderID U v = rbind (parseID U v ''order_id'') (\<lambda>u. Inr (OrderID u))"

definition ParseSignalID :: "uuid_ops \<Rightarrow> string \<Rightarrow> SignalID result" where
  "ParseSignalID U v = rbind (parseID U v ''signal_id'') (\<lambda>u. Inr (SignalID u))"

definition ParseRiskDecisionID :: "uuid_ops \<Rightarrow> string \<Rightarrow> RiskDecisionID result" where
  "ParseRiskDecisionID U v = rbind (parseID U v ''risk_decision_id'') (\<lambda>u. Inr (RiskDecisionID u))"

definition ParseAccountID :: "uuid_ops \<Rightarrow> string \<Rightarrow> AccountID result" where
  "ParseAccountID U v = rbind (parseID U v ''account_id'') (\<lambda>u. Inr (AccountID u))"

definition ParsePositionID :: "uuid_ops \<Rightarrow> string \<Rightarrow> PositionID result" where
  "ParsePositionID U v = rbind (parseID U v ''position_id'') (\<lambda>u. Inr (PositionID u))"

definition ParseMarketEventID :: "uuid_ops \<Rightarrow> string \<Rightarrow> MarketEventID result" where
  "ParseMarketEventID U v = rbind (parseID U v ''market_event_id'') (\<lambda>u. Inr (MarketEventID u))"

definition ParseIncidentID :: "uuid_ops \<Rightarrow> string \<Rightarrow> IncidentID result" where
  "ParseIncidentID U v = rbind (parseID U v ''incident_id'') (\<lambda>u. Inr (IncidentID u))"

definition ParseSnapshotID :: "uuid_ops \<Rightarrow> string \<Rightarrow> SnapshotID result" where
  "ParseSnapshotID U v = rbind (parseID U v ''snapshot_id'') (\<lambda>u. Inr (SnapshotID u))"

section \<open>Order on the value objects\<close>

text \<open>The numeric order, so that the order lemmas of the library apply to prices and amounts.\<close>

instantiation Money :: linorder
begin
definition less_eq_Money :: "Money \<Rightarrow> Money \<Rightarrow> bool" where
  "less_eq_Money x y \<longleftrightarrow> Money_Decimal x \<le> Money_Decimal y"
definition less_Money :: "Money \<Rightarrow> Money \<Rightarrow> bool" where
  "less_Money x y \<longleftrightarrow> Money_Decimal x < Money_Decimal y"
instance
  by standard (auto simp: less_eq_Money_def less_Money_def intro: Money.expand)
end

instantiation Price :: linorder
begin
definition less_eq_Price :: "Price \<Rightarrow> Price \<Rightarrow> bool" where
  "less_eq_Price x y \<longleftrightarrow> Price_Decimal x \<le> Price_Decimal y"
definition less_Price :: "Price \<Rightarrow> Price \<Rightarrow> bool" where
  "less_Price x y \<longleftrightarrow> Price_Decimal x < Price_Decimal y"
instance
  by standard (auto simp: less_eq_Price_def less_Price_def intro: Price.expand)
end

instantiation Quantity :: linorder
begin
definition less_eq_Quantity :: "Quantity \<Rightarrow> Quantity \<Rightarrow> bool" where
  "less_eq_Quantity x y \<longleftrightarrow> Quantity_Decimal x \<le> Quantity_Decimal y"
definition less_Quantity :: "Quantity \<Rightarrow> Quantity \<Rightarrow> bool" where
  "less_Quantity x y \<longleftrightarrow> Quantity_Decimal x < Quantity_Decimal y"
instance
  by standard (auto simp: less_eq_Quantity_def less_Quantity_def intro: Quantity.expand)
end

lemmas order_defs = less_eq_Money_def less_Money_def less_eq_Price_def less_Price_def
  less_eq_Quantity_def less_Quantity_def

section \<open>Lemma collections\<close>

lemmas value_object_defs [vo_defs] =
  Side_Valid_def Side_Opposite_def ZeroMoney_def NewMoney_def Money_Add_def Money_Sub_def
  Money_Mul_def Money_Neg_def Money_IsZero_def Money_IsNegative_def Money_IsPositive_def
  Money_GreaterThan_def Money_GreaterThanOrEqual_def Money_LessThan_def Money_LessThanOrEqual_def
  Money_Equal_def NewPrice_def MustNewPrice_def Price_GreaterThan_def
  Price_GreaterThanOrEqual_def Price_LessThan_def Price_LessThanOrEqual_def Price_Equal_def
  DistanceTo_def ZeroQuantity_def NewQuantity_def MustNewQuantity_def Quantity_IsZero_def
  Quantity_Add_def Quantity_Sub_def Quantity_GreaterThan_def Quantity_GreaterThanOrEqual_def
  Quantity_LessThan_def Quantity_Equal_def NewPercentage_def MustNewPercentage_def
  Percentage_Of_def Percentage_GreaterThan_def Percentage_GreaterThanOrEqual_def
  Percentage_LessThan_def Percentage_Abs_def Percentage_IsNegative_def NewConfidence_def
  MustNewConfidence_def Confidence_GreaterThanOrEqual_def NewDrawdown_def MustNewDrawdown_def
  Drawdown_GreaterThanOrEqual_def NewLeverage_def MustNewLeverage_def Leverage_GreaterThan_def
  Leverage_LessThanOrEqual_def NewSlippage_def MustNewSlippage_def Slippage_GreaterThan_def
  Symbol_Equal_def Timeframe_Equal_def ClientOrderID_Equal_def ClientOrderID_IsEmpty_def
  idValue_IsZero_def

text \<open>Under the documented decimal operations the comparison methods are the numeric order.\<close>

lemma value_order [simp]:
  assumes "decimal_lib D"
  shows "Price_LessThan D p q \<longleftrightarrow> p < q" "Price_LessThanOrEqual D p q \<longleftrightarrow> p \<le> q"
    "Price_GreaterThan D p q \<longleftrightarrow> q < p" "Price_GreaterThanOrEqual D p q \<longleftrightarrow> q \<le> p"
    "Price_Equal D p q \<longleftrightarrow> p = q"
    "Money_LessThan D m n \<longleftrightarrow> m < n" "Money_LessThanOrEqual D m n \<longleftrightarrow> m \<le> n"
    "Money_GreaterThan D m n \<longleftrightarrow> n < m" "Money_GreaterThanOrEqual D m n \<longleftrightarrow> n \<le> m"
    "Money_Equal D m n \<longleftrightarrow> m = n"
    "Quantity_LessThan D q1 q2 \<longleftrightarrow> q1 < q2" "Quantity_GreaterThan D q1 q2 \<longleftrightarrow> q2 < q1"
    "Quantity_GreaterThanOrEqual D q1 q2 \<longleftrightarrow> q2 \<le> q1" "Quantity_Equal D q1 q2 \<longleftrightarrow> q1 = q2"
  using assms by (auto simp: vo_defs order_defs intro: Price.expand Money.expand Quantity.expand)

lemma Side_Valid_iff: "Side_Valid s \<longleftrightarrow> s = SideBuy \<or> s = SideSell"
  by (cases s) (simp_all add: Side_Valid_def)

lemma Side_Opposite_involutive: "Side_Valid s \<Longrightarrow> Side_Opposite (Side_Opposite s) = s"
  by (auto simp: Side_Valid_iff Side_Opposite_def)

lemma Side_of_string_String [simp]: "Side_Valid s \<Longrightarrow> Side_of_string (Side_String s) = s"
  by (auto simp: Side_Valid_iff Side_of_string_def Side_String_def)

section \<open>The contract of a checked constructor\<close>

text \<open>
  A checked constructor normalises its raw input, accepts it exactly when the normalised form
  is admissible, and keeps that form; everything else is a validation error. \<open>lib\<close> is what
  the constructor needs of the packages it calls.
\<close>

locale checked_value =
  fixes lib :: bool
    and norm :: "'r \<Rightarrow> 'r"
    and ok :: "'r \<Rightarrow> bool"
    and mk :: "'r \<Rightarrow> 'v result"
    and raw :: "'v \<Rightarrow> 'r"
  assumes accept: "lib \<Longrightarrow> ok (norm x) \<Longrightarrow> \<exists>v. mk x = Inr v \<and> raw v = norm x"
    and reject: "lib \<Longrightarrow> \<not> ok (norm x) \<Longrightarrow> \<exists>f m. mk x = Inl (ValidationError f m)"
    and raw_inject: "raw v = raw w \<Longrightarrow> v = w"
    and norm_fix: "ok y \<Longrightarrow> norm y = y"
begin

lemma mk_iff: "lib \<Longrightarrow> mk x = Inr v \<longleftrightarrow> ok (norm x) \<and> raw v = norm x"
  using accept [of x] reject [of x] raw_inject by fastforce

lemma mk_valid: "lib \<Longrightarrow> mk x = Inr v \<Longrightarrow> ok (raw v)"
  by (simp add: mk_iff)

lemma mk_raw: "lib \<Longrightarrow> ok (raw v) \<Longrightarrow> mk (raw v) = Inr v"
  by (simp add: mk_iff norm_fix)

lemma mk_idempotent: "lib \<Longrightarrow> mk x = Inr v \<Longrightarrow> mk (raw v) = Inr v"
  by (simp add: mk_raw mk_valid)

lemma mk_error: "lib \<Longrightarrow> mk x = Inl e \<Longrightarrow> \<exists>f m. e = ValidationError f m"
  using accept [of x] reject [of x] by fastforce

end

interpretation price: checked_value "decimal_lib D" id "\<lambda>x. 0 < x" "NewPrice D" Price_Decimal for D
  by unfold_locales (auto simp: NewPrice_def intro: Price.expand)

interpretation quantity: checked_value "decimal_lib D" id "\<lambda>x. 0 \<le> x" "NewQuantity D" Quantity_Decimal for D
  by unfold_locales (auto simp: NewQuantity_def intro: Quantity.expand)

interpretation percentage: checked_value "decimal_lib D" id "\<lambda>x. - 10 \<le> x \<and> x \<le> 10" "NewPercentage D" Percentage_Decimal for D
  by unfold_locales (auto simp: NewPercentage_def intro: Percentage.expand)

interpretation confidence: checked_value "decimal_lib D" id "\<lambda>x. 0 \<le> x \<and> x \<le> 1" "NewConfidence D" Confidence_Decimal for D
  by unfold_locales (auto simp: NewConfidence_def intro: Confidence.expand)

interpretation drawdown: checked_value "decimal_lib D" id "\<lambda>x. 0 \<le> x \<and> x \<le> 1" "NewDrawdown D" Drawdown_Decimal for D
  by unfold_locales (auto simp: NewDrawdown_def intro: Drawdown.expand)

interpretation leverage: checked_value "decimal_lib D" id "\<lambda>x. 1 \<le> x" "NewLeverage D" Leverage_Decimal for D
  by unfold_locales (auto simp: NewLeverage_def intro: Leverage.expand)

interpretation slippage: checked_value "decimal_lib D" id "\<lambda>x. 0 \<le> x" "NewSlippage D" Slippage_Decimal for D
  by unfold_locales (auto simp: NewSlippage_def intro: Slippage.expand)

lemma upper_char_upper_alnum: "is_upper_alnum c \<Longrightarrow> upper_char c = c \<and> \<not> is_space c"
  by (auto simp: char_class_defs)

lemma symbol_norm_fix:
  assumes "symbolPattern s"
  shows "ToUpper (TrimSpace s) = s"
proof -
  have "\<forall>c\<in>set s. upper_char c = c \<and> \<not> is_space c"
    using assms upper_char_upper_alnum by (auto simp: symbolPattern_def list_all_iff)
  then show ?thesis by (simp add: TrimSpace_id ToUpper_def map_idI)
qed

interpretation symbol: checked_value True "\<lambda>x. ToUpper (TrimSpace x)" symbolPattern NewSymbol Symbol_String
  by unfold_locales (auto simp: NewSymbol_def Let_def symbol_norm_fix intro: Symbol.expand)

interpretation timeframe: checked_value True id "\<lambda>x. x \<in> set validTimeframes" NewTimeframe Timeframe_String
  by unfold_locales (auto simp: NewTimeframe_def intro: Timeframe.expand)

interpretation client_order_id: checked_value True id clientOrderIDPattern NewClientOrderID ClientOrderID_String
  by unfold_locales (auto simp: NewClientOrderID_def intro: ClientOrderID.expand)

lemmas Parse_defs = ParseOrderID_def ParseSignalID_def ParseRiskDecisionID_def ParseAccountID_def
  ParsePositionID_def ParseMarketEventID_def ParseIncidentID_def ParseSnapshotID_def parseID_def

text \<open>The text of a UUID is always an admissible client order id.\<close>

lemma uuid_client_order_id:
  assumes "uuid_lib U"
  shows "NewClientOrderID (uString U u) = Inr (ClientOrderID (uString U u))"
  using uuid_libD(2) [OF assms, of u] uuid_libD(3) [OF assms] is_uuid_char_id
  by (auto simp: NewClientOrderID_def clientOrderIDPattern_def list_all_iff)

section \<open>Arithmetic on the value objects\<close>

lemma DrawdownFromPeak_bounds:
  assumes "decimal_lib D" "0 \<le> Money_Decimal peak"
  shows "0 \<le> Drawdown_Decimal (DrawdownFromPeak D peak current)"
    "Drawdown_Decimal (DrawdownFromPeak D peak current) \<le> 1"
  using assms
  by (auto simp: DrawdownFromPeak_def vo_defs Let_def intro!: round_to_nonneg divide_nonneg_pos)

lemma SlippageBetween_nonneg:
  assumes "decimal_lib D" "0 < Price_Decimal expected"
  shows "0 \<le> Slippage_Decimal (SlippageBetween D expected executed)"
  using assms by (auto simp: SlippageBetween_def DistanceTo_def intro!: round_to_nonneg)

lemma DrawdownFromPeak_unfold:
  assumes "decimal_lib D" "0 < Money_Decimal peak" "current < peak"
  shows "Drawdown_Decimal (DrawdownFromPeak D peak current) =
    min 1 (round_to DivisionPrecision ((Money_Decimal peak - Money_Decimal current) / Money_Decimal peak))"
  using assms by (auto simp: DrawdownFromPeak_def vo_defs Let_def order_defs min_def)

lemma round_to_ge_1: "1 \<le> q \<Longrightarrow> 1 \<le> round_to n q"
  using round_to_mono [of 1 q n] by simp

text \<open>
  The drawdown of an account with a positive peak is a fraction between 0 and 1. It is 0
  when equity is at or above the peak, 1 when equity is gone, and in between it is the loss
  relative to the peak, up to half a unit of the sixteenth digit.
\<close>

theorem drawdown_from_peak:
  assumes "decimal_lib D" "0 < Money_Decimal peak"
  shows "0 \<le> Drawdown_Decimal (DrawdownFromPeak D peak current) \<and>
    Drawdown_Decimal (DrawdownFromPeak D peak current) \<le> 1 \<and>
    (peak \<le> current \<longrightarrow> DrawdownFromPeak D peak current = Drawdown 0) \<and>
    (current \<le> ZeroMoney \<longrightarrow> DrawdownFromPeak D peak current = Drawdown 1) \<and>
    (ZeroMoney \<le> current \<and> current \<le> peak \<longrightarrow>
      \<bar>Drawdown_Decimal (DrawdownFromPeak D peak current) -
        (Money_Decimal peak - Money_Decimal current) / Money_Decimal peak\<bar> \<le> 1 / (2 * 10 ^ 16))"
proof (cases "peak \<le> current")
  case True
  with assms show ?thesis
    by (auto simp: DrawdownFromPeak_def vo_defs order_defs ZeroMoney_def)
next
  case False
  let ?q = "(Money_Decimal peak - Money_Decimal current) / Money_Decimal peak"
  have d: "Drawdown_Decimal (DrawdownFromPeak D peak current) = min 1 (round_to 16 ?q)"
    using DrawdownFromPeak_unfold [OF assms, of current] False by (simp add: DivisionPrecision_def)
  have gone: "DrawdownFromPeak D peak current = Drawdown 1" if "current \<le> ZeroMoney"
  proof (rule Drawdown.expand)
    have "1 \<le> ?q" using that assms(2) by (simp add: order_defs ZeroMoney_def)
    then show "Drawdown_Decimal (DrawdownFromPeak D peak current) = Drawdown_Decimal (Drawdown 1)"
      using d round_to_ge_1 [of ?q 16] by simp
  qed
  have "\<bar>min 1 (round_to 16 ?q) - ?q\<bar> \<le> 1 / (2 * 10 ^ 16)" if "ZeroMoney \<le> current"
  proof -
    have "?q \<le> 1" using that assms(2) by (simp add: order_defs ZeroMoney_def)
    then show ?thesis using round_to_error [of 16 ?q] round_to_le_1 [of ?q 16] by (simp add: min_def)
  qed
  with d gone False DrawdownFromPeak_bounds [OF assms(1), of peak current] assms(2)
  show ?thesis by auto
qed

theorem drawdown_from_peak_witness:
  "decimal_lib ref_decimal \<and>
   \<bar>Drawdown_Decimal (DrawdownFromPeak ref_decimal (Money 12000) (Money 9000)) - 1 / 4\<bar> \<le> 1 / (2 * 10 ^ 16)"
  using drawdown_from_peak [OF decimal_lib_ref, of "Money 12000" "Money 9000"]
  by (simp add: order_defs ZeroMoney_def)

text \<open>
  A symbol is built exactly from the strings whose trimmed, upper-cased form has 3 to 20
  characters out of A-Z and 0-9; it keeps that form, and building a symbol from the text of a
  symbol gives the same symbol back.
\<close>

theorem new_symbol_normalises:
  "(NewSymbol x = Inr s \<longleftrightarrow> symbolPattern (ToUpper (TrimSpace x)) \<and> Symbol_String s = ToUpper (TrimSpace x)) \<and>
   (NewSymbol x = Inr s \<longrightarrow> NewSymbol (Symbol_String s) = Inr s)"
  using symbol.mk_iff [of x s] symbol.mk_idempotent [of x s] by simp

theorem new_symbol_normalises_witness:
  "NewSymbol '' btcusdt '' = Inr (Symbol ''BTCUSDT'') \<and> NewSymbol ''BTCUSDT'' = Inr (Symbol ''BTCUSDT'')"
proof -
  have "ToUpper (TrimSpace '' btcusdt '') = ''BTCUSDT''" "symbolPattern ''BTCUSDT''"
    by code_simp+
  then show ?thesis using new_symbol_normalises [of "'' btcusdt ''" "Symbol ''BTCUSDT''"] by simp
qed

end
