(* ===== verification/Operation_Mode.thy ===== *)
theory Operation_Mode
  imports Value_Objects
begin

text \<open>
  \<^verbatim>\<open>internal/domain/operation\<close>: the operational mode state machine, the auditable state
  aggregate around it, the incidents the system opens, and the events it publishes. The
  interface \<open>status_machine\<close>, shared with the order life cycle, collects what holds of any
  transition table whose targets are checked.
\<close>

section \<open>Transition tables\<close>

locale status_machine =
  fixes valid :: "'s \<Rightarrow> bool"
    and terminal :: "'s \<Rightarrow> bool"
    and can :: "'s \<Rightarrow> 's \<Rightarrow> bool"
  assumes can_valid: "can s t \<Longrightarrow> valid s \<and> valid t"
    and terminal_stuck: "terminal s \<Longrightarrow> \<not> can s t"
begin

lemma reach_valid: "can\<^sup>*\<^sup>* s t \<Longrightarrow> valid s \<Longrightarrow> valid t"
  by (induction rule: rtranclp_induct) (auto dest: can_valid)

lemma terminal_absorbs: "can\<^sup>*\<^sup>* s t \<Longrightarrow> terminal s \<Longrightarrow> t = s"
  by (induction rule: rtranclp_induct) (auto dest: terminal_stuck)

lemma closed_under_reach:
  assumes "can\<^sup>*\<^sup>* s t" "s \<in> A" and "\<And>x y. x \<in> A \<Longrightarrow> can x y \<Longrightarrow> y \<in> A"
  shows "t \<in> A"
  using assms(1,2) by (induction rule: rtranclp_induct) (auto intro: assms(3))

end

section \<open>Mode\<close>

datatype Mode = ModePaper | ModeTestnet | ModeReal | ModePaused | ModeCloseOnly | ModeKillSwitch
  | Mode_other string

definition Mode_String :: "Mode \<Rightarrow> string" where
  "Mode_String m = (case m of ModePaper \<Rightarrow> ''PAPER'' | ModeTestnet \<Rightarrow> ''TESTNET'' | ModeReal \<Rightarrow> ''REAL''
     | ModePaused \<Rightarrow> ''PAUSED'' | ModeCloseOnly \<Rightarrow> ''CLOSE_ONLY'' | ModeKillSwitch \<Rightarrow> ''KILL_SWITCH''
     | Mode_other s \<Rightarrow> s)"

definition Mode_of_string :: "string \<Rightarrow> Mode" where
  "Mode_of_string s =
     (if s = ''PAPER'' then ModePaper else if s = ''TESTNET'' then ModeTestnet
      else if s = ''REAL'' then ModeReal else if s = ''PAUSED'' then ModePaused
      else if s = ''CLOSE_ONLY'' then ModeCloseOnly else if s = ''KILL_SWITCH'' then ModeKillSwitch
      else Mode_other s)"

definition Mode_Valid :: "Mode \<Rightarrow> bool" where
  "Mode_Valid m = (case m of Mode_other _ \<Rightarrow> False | _ \<Rightarrow> True)"

definition AllowsNewEntries :: "Mode \<Rightarrow> bool" where
  "AllowsNewEntries m \<longleftrightarrow> m = ModePaper \<or> m = ModeTestnet \<or> m = ModeReal"

definition AllowsReconciliation :: "Mode \<Rightarrow> bool" where
  "AllowsReconciliation m = True"

text \<open>The targets the table lists for a mode; a mode that is no key of the table has none.\<close>

definition allowedTransitions :: "Mode \<Rightarrow> Mode list" where
  "allowedTransitions m = (case m of
       ModePaper \<Rightarrow> [ModeTestnet, ModeReal, ModePaused, ModeCloseOnly, ModeKillSwitch]
     | ModeTestnet \<Rightarrow> [ModePaper, ModeReal, ModePaused, ModeCloseOnly, ModeKillSwitch]
     | ModeReal \<Rightarrow> [ModePaused, ModeCloseOnly, ModeKillSwitch]
     | ModePaused \<Rightarrow> [ModePaper, ModeTestnet, ModeReal, ModeCloseOnly, ModeKillSwitch]
     | ModeCloseOnly \<Rightarrow> [ModePaused, ModeKillSwitch]
     | ModeKillSwitch \<Rightarrow> [ModePaused]
     | Mode_other _ \<Rightarrow> [])"

definition Mode_CanTransition :: "Mode \<Rightarrow> Mode \<Rightarrow> bool" where
  "Mode_CanTransition m target \<longleftrightarrow>
     (if \<not> Mode_Valid m \<or> \<not> Mode_Valid target then False
      else if m = target then True
      else target \<in> set (allowedTransitions m))"

record RealModeConfirmation =
  conf_Enabled :: bool
  conf_ConfirmationToken :: string

definition noConfirmation :: RealModeConfirmation where
  "noConfirmation = \<lparr>conf_Enabled = False, conf_ConfirmationToken = ''''\<rparr>"

definition requiredRealConfirmationToken :: string where
  "requiredRealConfirmationToken = ''I_UNDERSTAND_THE_RISK''"

definition Confirmation_Validate :: "RealModeConfirmation \<Rightarrow> unit result" where
  "Confirmation_Validate c =
     (if \<not> conf_Enabled c \<or> conf_ConfirmationToken c \<noteq> requiredRealConfirmationToken
      then Inl (ValidationError ''operational_mode'' ''REAL mode requires explicit persisted confirmation'')
      else Inr ())"

section \<open>The state aggregate\<close>

record State =
  st_CurrentMode :: Mode
  st_ChangedBy :: string
  st_Origin :: string
  st_Reason :: string
  st_ChangedAt :: time
  st_Version :: int

definition NewState :: "time \<Rightarrow> State" where
  "NewState now = \<lparr>st_CurrentMode = ModePaper, st_ChangedBy = ''system'', st_Origin = ''bootstrap'',
     st_Reason = ''initial startup'', st_ChangedAt = now, st_Version = 1\<rparr>"

definition RehydrateState :: "Mode \<Rightarrow> string \<Rightarrow> string \<Rightarrow> string \<Rightarrow> time \<Rightarrow> int \<Rightarrow> State" where
  "RehydrateState mode changedBy origin reason changedAt version =
     \<lparr>st_CurrentMode = mode, st_ChangedBy = changedBy, st_Origin = origin, st_Reason = reason,
      st_ChangedAt = changedAt, st_Version = version\<rparr>"

definition TransitionTo :: "State \<Rightarrow> Mode \<Rightarrow> string \<Rightarrow> string \<Rightarrow> string \<Rightarrow> time \<Rightarrow>
    RealModeConfirmation \<Rightarrow> State result" where
  "TransitionTo s target actor origin reason now confirmation =
     (if \<not> Mode_CanTransition (st_CurrentMode s) target
      then Inl (ConflictError ''operational_mode'' (Mode_String (st_CurrentMode s)) (Mode_String target))
      else rbind (if target = ModeReal then Confirmation_Validate confirmation else Inr ()) (\<lambda>_.
      if actor = '''' then Inl (ValidationError ''actor'' ''must not be empty'')
      else if reason = '''' then Inl (ValidationError ''reason'' ''must not be empty'')
      else Inr (s\<lparr>st_CurrentMode := target, st_ChangedBy := actor, st_Origin := origin,
                  st_Reason := reason, st_ChangedAt := now, st_Version := st_Version s + 1\<rparr>)))"

section \<open>Incidents\<close>

datatype IncidentType = ReconciliationDivergence | BrokerUnavailable | QuantEngineUnavailable
  | LLMUnavailable | UnknownOrderState | KillSwitchActivatedIncident | CriticalMarketEvent
  | IncidentType_other string

datatype IncidentSeverity = IncidentSeverityLow | IncidentSeverityMedium | IncidentSeverityHigh
  | IncidentSeverityCritical | IncidentSeverity_other string

datatype IncidentStatus = IncidentStatusOpen | IncidentStatusResolved | IncidentStatus_other string

record Incident =
  inc_ID :: IncidentID
  inc_Type :: IncidentType
  inc_Severity :: IncidentSeverity
  inc_Description :: string
  inc_Source :: string
  inc_RelatedEntityID :: string
  inc_Status :: IncidentStatus
  inc_DetectedAt :: time
  inc_ResolvedAt :: "time option"
  inc_Resolution :: string
  inc_CreatedAt :: time
  inc_UpdatedAt :: time

definition NewIncident :: "uuid \<Rightarrow> IncidentType \<Rightarrow> IncidentSeverity \<Rightarrow> string \<Rightarrow> string \<Rightarrow> string \<Rightarrow>
    time \<Rightarrow> Incident result" where
  "NewIncident fresh incidentType severity description source relatedEntityID now =
     (if description = '''' then Inl (ValidationError ''description'' ''must not be empty'')
      else if source = '''' then Inl (ValidationError ''source'' ''must not be empty'')
      else Inr \<lparr>inc_ID = IncidentID fresh, inc_Type = incidentType, inc_Severity = severity,
        inc_Description = description, inc_Source = source, inc_RelatedEntityID = relatedEntityID,
        inc_Status = IncidentStatusOpen, inc_DetectedAt = now, inc_ResolvedAt = None,
        inc_Resolution = '''', inc_CreatedAt = now, inc_UpdatedAt = now\<rparr>)"

definition Incident_Resolve :: "Incident \<Rightarrow> string \<Rightarrow> time \<Rightarrow> Incident result" where
  "Incident_Resolve i resolution now =
     (if inc_Status i = IncidentStatusResolved then Inl (ConflictError ''incident'' ''RESOLVED'' ''RESOLVED'')
      else if resolution = '''' then Inl (ValidationError ''resolution'' ''must not be empty'')
      else Inr (i\<lparr>inc_Status := IncidentStatusResolved, inc_Resolution := resolution,
                  inc_ResolvedAt := Some now, inc_UpdatedAt := now\<rparr>))"

section \<open>Events\<close>

record KillSwitchActivated =
  ksa_ActivatedBy :: string
  ksa_Origin :: string
  ksa_Reason :: string
  ksa_AllowClose :: bool
  ksa_OccurredAt :: time

record OperationalModeChanged =
  omc_From :: Mode
  omc_To :: Mode
  omc_ChangedBy :: string
  omc_Origin :: string
  omc_Reason :: string
  omc_OccurredAt :: time

record ReconciliationDivergenceDetected =
  rdd_IncidentID :: string
  rdd_Severity :: IncidentSeverity
  rdd_Description :: string
  rdd_OccurredAt :: time

section \<open>Properties\<close>

lemma Mode_of_string_String [simp]: "Mode_Valid m \<Longrightarrow> Mode_of_string (Mode_String m) = m"
  by (cases m) (simp_all add: Mode_Valid_def Mode_of_string_def Mode_String_def)

lemma Mode_CanTransition_valid: "Mode_CanTransition m t \<Longrightarrow> Mode_Valid m \<and> Mode_Valid t"
  by (simp add: Mode_CanTransition_def split: if_splits)

interpretation mode: status_machine Mode_Valid "\<lambda>_. False" Mode_CanTransition
  by unfold_locales (simp_all add: Mode_CanTransition_valid)

lemmas mode_defs = Mode_CanTransition_def allowedTransitions_def Mode_Valid_def

text \<open>
  A successful transition, seen from outside: what must hold before, and the state after.
\<close>

lemma TransitionTo_Inr:
  "TransitionTo s t a og r now c = Inr s' \<longleftrightarrow>
     Mode_CanTransition (st_CurrentMode s) t \<and> a \<noteq> '''' \<and> r \<noteq> '''' \<and>
     (t = ModeReal \<longrightarrow> conf_Enabled c \<and> conf_ConfirmationToken c = requiredRealConfirmationToken) \<and>
     s' = s\<lparr>st_CurrentMode := t, st_ChangedBy := a, st_Origin := og, st_Reason := r,
            st_ChangedAt := now, st_Version := st_Version s + 1\<rparr>"
  by (auto simp: TransitionTo_def Confirmation_Validate_def rbind_def)

lemma TransitionTo_mode: "TransitionTo s t a og r now c = Inr s' \<Longrightarrow> st_CurrentMode s' = t"
  by (simp add: TransitionTo_Inr)

text \<open>A sequence of successful transitions, each a call of \<^verbatim>\<open>State.TransitionTo\<close>.\<close>

record transition_call =
  tc_target :: Mode
  tc_actor :: string
  tc_origin :: string
  tc_reason :: string
  tc_now :: time
  tc_confirmation :: RealModeConfirmation

inductive mode_run :: "State \<Rightarrow> transition_call list \<Rightarrow> State \<Rightarrow> bool" where
  run_nil: "mode_run s [] s"
| run_step: "TransitionTo s (tc_target c) (tc_actor c) (tc_origin c) (tc_reason c) (tc_now c)
      (tc_confirmation c) = Inr s' \<Longrightarrow> mode_run s' cs s'' \<Longrightarrow> mode_run s (c # cs) s''"

inductive_cases mode_run_ConsE: "mode_run s (c # cs) s'"
inductive_simps mode_run_Nil: "mode_run s [] s'"

lemma mode_run_reach: "mode_run s cs s' \<Longrightarrow> Mode_CanTransition\<^sup>*\<^sup>* (st_CurrentMode s) (st_CurrentMode s')"
proof (induction rule: mode_run.induct)
  case (run_step s c s' cs s'')
  then have "Mode_CanTransition (st_CurrentMode s) (st_CurrentMode s')"
    by (simp add: TransitionTo_Inr)
  then show ?case using run_step.IH by (rule converse_rtranclp_into_rtranclp)
qed simp

text \<open>
  Every run of successful mode transitions from the initial PAPER state stays within the
  six known modes, counts one version per transition, and its last call is the one recorded
  in the audit fields.
\<close>

theorem mode_run_audit:
  assumes "mode_run (NewState t0) cs s"
  shows "Mode_Valid (st_CurrentMode s) \<and> st_Version s = 1 + int (length cs) \<and>
    (cs \<noteq> [] \<longrightarrow> st_CurrentMode s = tc_target (last cs) \<and> st_ChangedBy s = tc_actor (last cs) \<and>
      st_Reason s = tc_reason (last cs) \<and> st_ChangedBy s \<noteq> '''' \<and> st_Reason s \<noteq> '''')"
proof -
  have gen: "st_Version s' = st_Version s0 + int (length cs) \<and>
    (cs \<noteq> [] \<longrightarrow> st_CurrentMode s' = tc_target (last cs) \<and> st_ChangedBy s' = tc_actor (last cs) \<and>
      st_Reason s' = tc_reason (last cs) \<and> st_ChangedBy s' \<noteq> '''' \<and> st_Reason s' \<noteq> '''')"
    if "mode_run s0 cs s'" for s0 s'
    using that
  proof (induction rule: mode_run.induct)
    case (run_step s c s' cs s'')
    then show ?case by (cases cs) (auto simp: TransitionTo_Inr mode_run_Nil)
  qed simp
  have "Mode_Valid (st_CurrentMode s)"
    using mode.reach_valid [OF mode_run_reach [OF assms]] by (simp add: NewState_def Mode_Valid_def)
  with gen [OF assms] show ?thesis by (auto simp: NewState_def)
qed

theorem mode_run_audit_witness:
  "\<exists>s. mode_run (NewState 0) [\<lparr>tc_target = ModePaused, tc_actor = ''op'', tc_origin = ''http'',
      tc_reason = ''night'', tc_now = 5, tc_confirmation = noConfirmation\<rparr>] s \<and> st_Version s = 2"
proof -
  let ?c = "\<lparr>tc_target = ModePaused, tc_actor = ''op'', tc_origin = ''http'',
      tc_reason = ''night'', tc_now = 5, tc_confirmation = noConfirmation\<rparr>"
  let ?s = "(NewState 0)\<lparr>st_CurrentMode := ModePaused, st_ChangedBy := ''op'', st_Origin := ''http'',
      st_Reason := ''night'', st_ChangedAt := 5, st_Version := 2\<rparr>"
  have run: "mode_run (NewState 0) [?c] ?s"
    by (rule run_step [OF _ run_nil]) (simp add: TransitionTo_Inr mode_defs NewState_def)
  with mode_run_audit [OF run] show ?thesis by auto
qed

text \<open>
  Leaving CLOSE_ONLY or KILL_SWITCH for a mode that allows new entries needs a review: every
  run of transitions from one of these two modes to PAPER, TESTNET or REAL contains a
  transition to PAUSED.
\<close>

theorem restricted_mode_needs_pause:
  assumes "mode_run s cs s'" and "st_CurrentMode s \<in> {ModeCloseOnly, ModeKillSwitch}"
    and "AllowsNewEntries (st_CurrentMode s')"
  shows "\<exists>c\<in>set cs. tc_target c = ModePaused"
  using assms
proof (induction rule: mode_run.induct)
  case (run_nil s)
  then show ?case by (auto simp: AllowsNewEntries_def)
next
  case (run_step s c s' cs s'')
  show ?case
  proof (cases "tc_target c = ModePaused")
    case False
    with run_step.hyps(1) run_step.prems(1) have "st_CurrentMode s' \<in> {ModeCloseOnly, ModeKillSwitch}"
      by (auto simp: TransitionTo_Inr mode_defs split: if_splits)
    with run_step.IH run_step.prems(2) show ?thesis by auto
  qed simp
qed

theorem restricted_mode_needs_pause_witness:
  "\<exists>s' cs. mode_run (RehydrateState ModeKillSwitch ''a'' ''b'' ''c'' 0 7) cs s' \<and>
     AllowsNewEntries (st_CurrentMode s') \<and> (\<exists>c\<in>set cs. tc_target c = ModePaused)"
proof -
  let ?s = "RehydrateState ModeKillSwitch ''a'' ''b'' ''c'' 0 7"
  let ?c1 = "\<lparr>tc_target = ModePaused, tc_actor = ''op'', tc_origin = ''http'', tc_reason = ''review'',
     tc_now = 5, tc_confirmation = noConfirmation\<rparr>"
  let ?c2 = "?c1\<lparr>tc_target := ModePaper\<rparr>"
  let ?s1 = "?s\<lparr>st_CurrentMode := ModePaused, st_ChangedBy := ''op'', st_Origin := ''http'',
     st_Reason := ''review'', st_ChangedAt := 5, st_Version := 8\<rparr>"
  let ?s2 = "?s1\<lparr>st_CurrentMode := ModePaper, st_Version := 9\<rparr>"
  have t1: "TransitionTo ?s ModePaused ''op'' ''http'' ''review'' 5 noConfirmation = Inr ?s1"
    by (simp add: TransitionTo_Inr mode_defs RehydrateState_def)
  have t2: "TransitionTo ?s1 ModePaper ''op'' ''http'' ''review'' 5 noConfirmation = Inr ?s2"
    by (simp add: TransitionTo_Inr mode_defs RehydrateState_def)
  have "mode_run ?s1 [?c2] ?s2" by (rule run_step [OF _ run_nil]) (simp add: t2)
  then have run: "mode_run ?s [?c1, ?c2] ?s2" by (rule run_step [rotated]) (simp add: t1)
  have "\<exists>c\<in>set [?c1, ?c2]. tc_target c = ModePaused"
    by (rule restricted_mode_needs_pause [OF run]) (simp_all add: RehydrateState_def AllowsNewEntries_def)
  moreover have "AllowsNewEntries (st_CurrentMode ?s2)" by (simp add: AllowsNewEntries_def)
  ultimately show ?thesis using run by blast
qed

text \<open>
  REAL is entered only with the confirmation: a transition to REAL succeeds exactly when the
  current mode is PAPER, TESTNET, PAUSED or already REAL, the confirmation is enabled and carries
  the required token, and actor and reason are given; without the token it fails with an error
  and the state is not replaced.
\<close>

theorem real_mode_guard:
  "is_ok (TransitionTo s ModeReal actor origin reason now c) \<longleftrightarrow>
     st_CurrentMode s \<in> {ModePaper, ModeTestnet, ModePaused, ModeReal} \<and>
     conf_Enabled c \<and> conf_ConfirmationToken c = ''I_UNDERSTAND_THE_RISK'' \<and> actor \<noteq> '''' \<and> reason \<noteq> ''''"
  by (cases "st_CurrentMode s")
    (auto simp: TransitionTo_def Confirmation_Validate_def requiredRealConfirmationToken_def rbind_def mode_defs)

text \<open>
  The kill switch can be thrown from every known mode: with an actor and a reason the
  transition always succeeds, whatever the confirmation, and the resulting mode blocks new
  entries.
\<close>

theorem kill_switch_always_available:
  assumes "Mode_Valid (st_CurrentMode s)" "actor \<noteq> ''''" "reason \<noteq> ''''"
  shows "\<exists>s'. TransitionTo s ModeKillSwitch actor origin reason now c = Inr s' \<and>
    st_CurrentMode s' = ModeKillSwitch \<and> st_Version s' = st_Version s + 1 \<and>
    \<not> AllowsNewEntries (st_CurrentMode s')"
proof -
  have "Mode_CanTransition (st_CurrentMode s) ModeKillSwitch"
    using assms(1) by (cases "st_CurrentMode s") (simp_all add: mode_defs)
  with assms(2,3) show ?thesis by (simp add: TransitionTo_Inr AllowsNewEntries_def)
qed

theorem kill_switch_always_available_witness:
  "\<exists>s'. TransitionTo (NewState 0) ModeKillSwitch ''op'' ''http'' ''panic'' 9 noConfirmation = Inr s' \<and>
     st_CurrentMode s' = ModeKillSwitch"
  using kill_switch_always_available [of "NewState 0" "''op''" "''panic''" "''http''" 9 noConfirmation]
  by (auto simp: NewState_def Mode_Valid_def)

text \<open>
  An incident is opened only with a description and a source, is open when created, and is
  resolved at most once: resolving needs a note, records it with the time, and a second attempt
  is a conflict.
\<close>

theorem incident_lifecycle:
  assumes "NewIncident u ty sev d src rel t0 = Inr i" and "note \<noteq> ''''"
  shows "inc_Status i = IncidentStatusOpen \<and> inc_Description i \<noteq> '''' \<and> inc_Source i \<noteq> '''' \<and>
    Incident_Resolve i '''' t1 = Inl (ValidationError ''resolution'' ''must not be empty'') \<and>
    (\<exists>j. Incident_Resolve i note t1 = Inr j \<and> inc_Status j = IncidentStatusResolved \<and>
      inc_ResolvedAt j = Some t1 \<and> inc_Resolution j = note \<and> inc_ID j = inc_ID i \<and>
      inc_Description j = inc_Description i \<and>
      Incident_Resolve j n2 t2 = Inl (ConflictError ''incident'' ''RESOLVED'' ''RESOLVED''))"
  using assms by (auto simp: NewIncident_def Incident_Resolve_def split: if_splits)

theorem incident_lifecycle_witness:
  "\<exists>i j. NewIncident 4 UnknownOrderState IncidentSeverityHigh ''timeout'' ''exec'' '''' 10 = Inr i \<and>
     Incident_Resolve i ''done'' 20 = Inr j \<and> inc_Status j = IncidentStatusResolved"
proof -
  obtain i where i: "NewIncident 4 UnknownOrderState IncidentSeverityHigh ''timeout'' ''exec'' '''' 10 = Inr i"
    by (simp add: NewIncident_def)
  with incident_lifecycle [OF i, of "''done''" 20] show ?thesis by auto
qed

end
