(* ===== verification/Order_Aggregate.thy ===== *)
theory Order_Aggregate
  imports Operation_Mode
begin

text \<open>
  \<^verbatim>\<open>internal/domain/order\<close>: the order types, the status machine of an order, the order aggregate
  with its operations, and its life-cycle events. The properties say that an order only moves
  along the listed transitions, that a terminal order never changes again, and that its fill
  bookkeeping stays consistent.
\<close>

section \<open>Type and status\<close>

datatype OrderType = TypeMarket | TypeLimit | TypeStopMarket | TypeStopLimit | Type_other string

definition Type_String :: "OrderType \<Rightarrow> string" where
  "Type_String t = (case t of TypeMarket \<Rightarrow> ''MARKET'' | TypeLimit \<Rightarrow> ''LIMIT''
     | TypeStopMarket \<Rightarrow> ''STOP_MARKET'' | TypeStopLimit \<Rightarrow> ''STOP_LIMIT'' | Type_other s \<Rightarrow> s)"

definition Type_of_string :: "string \<Rightarrow> OrderType" where
  "Type_of_string s = (if s = ''MARKET'' then TypeMarket else if s = ''LIMIT'' then TypeLimit
     else if s = ''STOP_MARKET'' then TypeStopMarket else if s = ''STOP_LIMIT'' then TypeStopLimit
     else Type_other s)"

definition Type_Valid :: "OrderType \<Rightarrow> bool" where
  "Type_Valid t = (case t of Type_other _ \<Rightarrow> False | _ \<Rightarrow> True)"

datatype OrderStatus = StatusPending | StatusSubmitted | StatusPartiallyFilled | StatusFilled
  | StatusCancelled | StatusRejected | StatusFailed | StatusUnknown | OrderStatus_other string

definition OrderStatus_String :: "OrderStatus \<Rightarrow> string" where
  "OrderStatus_String s = (case s of StatusPending \<Rightarrow> ''PENDING'' | StatusSubmitted \<Rightarrow> ''SUBMITTED''
     | StatusPartiallyFilled \<Rightarrow> ''PARTIALLY_FILLED'' | StatusFilled \<Rightarrow> ''FILLED''
     | StatusCancelled \<Rightarrow> ''CANCELLED'' | StatusRejected \<Rightarrow> ''REJECTED'' | StatusFailed \<Rightarrow> ''FAILED''
     | StatusUnknown \<Rightarrow> ''UNKNOWN'' | OrderStatus_other t \<Rightarrow> t)"

definition OrderStatus_of_string :: "string \<Rightarrow> OrderStatus" where
  "OrderStatus_of_string t = (if t = ''PENDING'' then StatusPending
     else if t = ''SUBMITTED'' then StatusSubmitted
     else if t = ''PARTIALLY_FILLED'' then StatusPartiallyFilled
     else if t = ''FILLED'' then StatusFilled else if t = ''CANCELLED'' then StatusCancelled
     else if t = ''REJECTED'' then StatusRejected else if t = ''FAILED'' then StatusFailed
     else if t = ''UNKNOWN'' then StatusUnknown else OrderStatus_other t)"

definition OrderStatus_Valid :: "OrderStatus \<Rightarrow> bool" where
  "OrderStatus_Valid s = (case s of OrderStatus_other _ \<Rightarrow> False | _ \<Rightarrow> True)"

definition IsTerminal :: "OrderStatus \<Rightarrow> bool" where
  "IsTerminal s = (case s of StatusFilled \<Rightarrow> True | StatusCancelled \<Rightarrow> True | StatusRejected \<Rightarrow> True
     | StatusFailed \<Rightarrow> True | _ \<Rightarrow> False)"

definition allowedStatusTransitions :: "OrderStatus \<Rightarrow> OrderStatus list" where
  "allowedStatusTransitions s = (case s of
       StatusPending \<Rightarrow> [StatusSubmitted, StatusFailed]
     | StatusSubmitted \<Rightarrow> [StatusPartiallyFilled, StatusFilled, StatusCancelled, StatusRejected, StatusUnknown]
     | StatusPartiallyFilled \<Rightarrow> [StatusFilled, StatusCancelled, StatusUnknown]
     | StatusUnknown \<Rightarrow> [StatusSubmitted, StatusPartiallyFilled, StatusFilled, StatusCancelled,
         StatusRejected, StatusFailed]
     | _ \<Rightarrow> [])"

definition OrderStatus_CanTransition :: "OrderStatus \<Rightarrow> OrderStatus \<Rightarrow> bool" where
  "OrderStatus_CanTransition s target \<longleftrightarrow>
     (if \<not> OrderStatus_Valid s \<or> \<not> OrderStatus_Valid target then False
      else target \<in> set (allowedStatusTransitions s))"

section \<open>The aggregate\<close>

record Order =
  ord_ID :: OrderID
  ord_ClientOrderID :: ClientOrderID
  ord_BrokerOrderID :: string
  ord_Symbol :: Symbol
  ord_Side :: Side
  ord_Type :: OrderType
  ord_Quantity :: Quantity
  ord_FilledQuantity :: Quantity
  ord_RequestedPrice :: "Price option"
  ord_AverageExecutionPrice :: "Price option"
  ord_StopPrice :: "Price option"
  ord_TargetPrice :: "Price option"
  ord_Status :: OrderStatus
  ord_StrategyName :: string
  ord_SignalID :: SignalID
  ord_RiskDecisionID :: RiskDecisionID
  ord_FailureReason :: string
  ord_Version :: int
  ord_CreatedAt :: time
  ord_UpdatedAt :: time

definition NewPendingOrder :: "decimal_ops \<Rightarrow> uuid \<Rightarrow> ClientOrderID \<Rightarrow> Symbol \<Rightarrow> Side \<Rightarrow> OrderType \<Rightarrow>
    Quantity \<Rightarrow> Price option \<Rightarrow> Price option \<Rightarrow> Price option \<Rightarrow> string \<Rightarrow> SignalID \<Rightarrow> RiskDecisionID \<Rightarrow>
    time \<Rightarrow> Order result" where
  "NewPendingOrder D fresh clientOrderID symbol side orderType quantity requestedPrice stopPrice
     targetPrice strategyName signalID riskDecisionID now =
     (if \<not> Side_Valid side then Inl (ValidationError ''side'' ''must be BUY or SELL'')
      else if \<not> Type_Valid orderType then Inl (ValidationError ''type'' ''unsupported order type'')
      else if Quantity_IsZero D quantity then Inl (ValidationError ''quantity'' ''must be greater than zero'')
      else if strategyName = '''' then Inl (ValidationError ''strategy_name'' ''must not be empty'')
      else Inr \<lparr>ord_ID = OrderID fresh, ord_ClientOrderID = clientOrderID, ord_BrokerOrderID = '''',
        ord_Symbol = symbol, ord_Side = side, ord_Type = orderType, ord_Quantity = quantity,
        ord_FilledQuantity = ZeroQuantity, ord_RequestedPrice = requestedPrice,
        ord_AverageExecutionPrice = None, ord_StopPrice = stopPrice, ord_TargetPrice = targetPrice,
        ord_Status = StatusPending, ord_StrategyName = strategyName, ord_SignalID = signalID,
        ord_RiskDecisionID = riskDecisionID, ord_FailureReason = '''', ord_Version = 1,
        ord_CreatedAt = now, ord_UpdatedAt = now\<rparr>)"

definition transition :: "Order \<Rightarrow> OrderStatus \<Rightarrow> time \<Rightarrow> Order result" where
  "transition ord target now =
     (if \<not> OrderStatus_CanTransition (ord_Status ord) target
      then Inl (ConflictError ''order'' (OrderStatus_String (ord_Status ord)) (OrderStatus_String target))
      else Inr (ord\<lparr>ord_Status := target, ord_UpdatedAt := now, ord_Version := ord_Version ord + 1\<rparr>))"

definition Submit :: "Order \<Rightarrow> string \<Rightarrow> time \<Rightarrow> Order result" where
  "Submit ord brokerOrderID now =
     (if brokerOrderID = '''' then Inl (ValidationError ''broker_order_id'' ''must not be empty'')
      else rbind (transition ord StatusSubmitted now) (\<lambda>p.
        Inr (p\<lparr>ord_BrokerOrderID := brokerOrderID\<rparr>)))"

definition Order_Fail :: "Order \<Rightarrow> string \<Rightarrow> time \<Rightarrow> Order result" where
  "Order_Fail ord reason now =
     rbind (transition ord StatusFailed now) (\<lambda>p. Inr (p\<lparr>ord_FailureReason := reason\<rparr>))"

definition MarkPartiallyFilled :: "decimal_ops \<Rightarrow> Order \<Rightarrow> Quantity \<Rightarrow> Price \<Rightarrow> time \<Rightarrow> Order result" where
  "MarkPartiallyFilled D ord filledQuantity averagePrice now =
     (if Quantity_IsZero D filledQuantity
      then Inl (ValidationError ''filled_quantity'' ''must be greater than zero'')
      else if Quantity_GreaterThan D filledQuantity (ord_Quantity ord)
      then Inl (ValidationError ''filled_quantity'' ''must not exceed order quantity'')
      else rbind (transition ord StatusPartiallyFilled now) (\<lambda>p.
        Inr (p\<lparr>ord_FilledQuantity := filledQuantity, ord_AverageExecutionPrice := Some averagePrice\<rparr>)))"

definition MarkFilled :: "Order \<Rightarrow> Price \<Rightarrow> time \<Rightarrow> Order result" where
  "MarkFilled ord averagePrice now =
     rbind (transition ord StatusFilled now) (\<lambda>p.
       Inr (p\<lparr>ord_FilledQuantity := ord_Quantity p, ord_AverageExecutionPrice := Some averagePrice\<rparr>))"

definition Cancel :: "Order \<Rightarrow> time \<Rightarrow> Order result" where
  "Cancel ord now = transition ord StatusCancelled now"

definition Reject :: "Order \<Rightarrow> string \<Rightarrow> time \<Rightarrow> Order result" where
  "Reject ord reason now =
     rbind (transition ord StatusRejected now) (\<lambda>p. Inr (p\<lparr>ord_FailureReason := reason\<rparr>))"

definition MarkUnknown :: "Order \<Rightarrow> time \<Rightarrow> Order result" where
  "MarkUnknown ord now = transition ord StatusUnknown now"

definition IsPending :: "Order \<Rightarrow> bool" where
  "IsPending ord \<longleftrightarrow> ord_Status ord = StatusPending"

definition RemainingQuantity :: "decimal_ops \<Rightarrow> Order \<Rightarrow> Quantity result" where
  "RemainingQuantity D ord = Quantity_Sub D (ord_Quantity ord) (ord_FilledQuantity ord)"

section \<open>Events\<close>

text \<open>The five order events all carry the order and the time.\<close>

datatype OrderEvent =
    OrderCreated Order time
  | OrderSubmitted Order time
  | OrderPartiallyFilled Order time
  | OrderFilled Order time
  | OrderCancelled Order time

definition OrderEvent_EventName :: "OrderEvent \<Rightarrow> string" where
  "OrderEvent_EventName e = (case e of OrderCreated _ _ \<Rightarrow> ''OrderCreated'' | OrderSubmitted _ _ \<Rightarrow> ''OrderSubmitted''
     | OrderPartiallyFilled _ _ \<Rightarrow> ''OrderPartiallyFilled'' | OrderFilled _ _ \<Rightarrow> ''OrderFilled''
     | OrderCancelled _ _ \<Rightarrow> ''OrderCancelled'')"

section \<open>The life cycle\<close>

lemma OrderStatus_of_string_String [simp]:
  "OrderStatus_Valid s \<Longrightarrow> OrderStatus_of_string (OrderStatus_String s) = s"
  by (cases s) (simp_all add: OrderStatus_Valid_def OrderStatus_of_string_def OrderStatus_String_def)

lemma Type_of_string_String [simp]: "Type_Valid t \<Longrightarrow> Type_of_string (Type_String t) = t"
  by (cases t) (simp_all add: Type_Valid_def Type_of_string_def Type_String_def)

lemmas status_defs = OrderStatus_CanTransition_def allowedStatusTransitions_def OrderStatus_Valid_def IsTerminal_def

lemma CanTransition_terminal: "IsTerminal s \<Longrightarrow> \<not> OrderStatus_CanTransition s t"
  by (cases s) (simp_all add: status_defs)

lemma CanTransition_valid: "OrderStatus_CanTransition s t \<Longrightarrow> OrderStatus_Valid s \<and> OrderStatus_Valid t"
  by (simp add: OrderStatus_CanTransition_def split: if_splits)

interpretation order_status: status_machine OrderStatus_Valid IsTerminal OrderStatus_CanTransition
  by unfold_locales (simp_all add: CanTransition_valid CanTransition_terminal)

text \<open>
  One event in the life of an order, as the code can apply it; \<open>order_step\<close> is the relation of
  the successful ones.
\<close>

inductive order_step :: "decimal_ops \<Rightarrow> Order \<Rightarrow> Order \<Rightarrow> bool" for D where
  submit: "Submit ord bid now = Inr p \<Longrightarrow> order_step D ord p"
| fail: "Order_Fail ord reason now = Inr p \<Longrightarrow> order_step D ord p"
| partial: "0 \<le> Quantity_Decimal q \<Longrightarrow> MarkPartiallyFilled D ord q px now = Inr p \<Longrightarrow> order_step D ord p"
| filled: "MarkFilled ord px now = Inr p \<Longrightarrow> order_step D ord p"
| cancel: "Cancel ord now = Inr p \<Longrightarrow> order_step D ord p"
| reject: "Reject ord reason now = Inr p \<Longrightarrow> order_step D ord p"
| unknown: "MarkUnknown ord now = Inr p \<Longrightarrow> order_step D ord p"

lemmas order_op_defs = Submit_def Order_Fail_def MarkPartiallyFilled_def MarkFilled_def Cancel_def
  Reject_def MarkUnknown_def transition_def

text \<open>What every operation keeps, changes and requires.\<close>

lemma order_step_frame:
  assumes "order_step D ord p"
  shows "OrderStatus_CanTransition (ord_Status ord) (ord_Status p) \<and> ord_Version p = ord_Version ord + 1 \<and>
    ord_ID p = ord_ID ord \<and> ord_ClientOrderID p = ord_ClientOrderID ord \<and> ord_Symbol p = ord_Symbol ord \<and>
    ord_Side p = ord_Side ord \<and> ord_Type p = ord_Type ord \<and> ord_Quantity p = ord_Quantity ord \<and>
    ord_CreatedAt p = ord_CreatedAt ord"
  using assms by cases (auto simp: order_op_defs rbind_def split: if_splits)

text \<open>
  The invariant of an order: a positive quantity, a fill between zero and that quantity, a full
  fill exactly when filled, an average price exactly once something was filled, and a broker id
  whenever the broker has acknowledged it.
\<close>

definition order_inv :: "Order \<Rightarrow> bool" where
  "order_inv ord \<longleftrightarrow>
     OrderStatus_Valid (ord_Status ord) \<and> Side_Valid (ord_Side ord) \<and> Type_Valid (ord_Type ord) \<and>
     0 < Quantity_Decimal (ord_Quantity ord) \<and>
     0 \<le> Quantity_Decimal (ord_FilledQuantity ord) \<and> ord_FilledQuantity ord \<le> ord_Quantity ord \<and>
     (ord_Status ord = StatusFilled \<longrightarrow> ord_FilledQuantity ord = ord_Quantity ord) \<and>
     (ord_Status ord = StatusPartiallyFilled \<longrightarrow> 0 < Quantity_Decimal (ord_FilledQuantity ord)) \<and>
     (ord_AverageExecutionPrice ord = None \<longleftrightarrow> Quantity_Decimal (ord_FilledQuantity ord) = 0) \<and>
     (ord_Status ord \<notin> {StatusPending, StatusFailed} \<longrightarrow> ord_BrokerOrderID ord \<noteq> '''') \<and>
     1 \<le> ord_Version ord"

lemma NewPendingOrder_Inr:
  "NewPendingOrder D u cid sy side ty q rp sp tp strat sid rid now = Inr ord \<Longrightarrow>
     ord_Status ord = StatusPending \<and> ord_Version ord = 1 \<and> ord_FilledQuantity ord = ZeroQuantity \<and>
     ord_ID ord = OrderID u \<and> ord_ClientOrderID ord = cid \<and> ord_Quantity ord = q \<and> ord_Symbol ord = sy \<and>
     ord_Side ord = side \<and> ord_Type ord = ty \<and> ord_RiskDecisionID ord = rid \<and> ord_StrategyName ord = strat \<and>
     ord_AverageExecutionPrice ord = None \<and> ord_BrokerOrderID ord = '''' \<and> Side_Valid side \<and> Type_Valid ty \<and>
     strat \<noteq> '''' \<and> \<not> Quantity_IsZero D q"
  by (auto simp: NewPendingOrder_def split: if_splits)

lemma NewPendingOrder_inv:
  assumes "decimal_lib D" "0 \<le> Quantity_Decimal q"
    and "NewPendingOrder D u cid sy side ty q rp sp tp strat sid rid now = Inr ord"
  shows "order_inv ord"
  using NewPendingOrder_Inr [OF assms(3)] assms(1,2)
  by (auto simp: order_inv_def OrderStatus_Valid_def Quantity_IsZero_def ZeroQuantity_def order_defs)

lemma order_step_inv:
  assumes "decimal_lib D" "order_step D ord p" "order_inv ord"
  shows "order_inv p"
  using assms(2)
  by cases (insert assms(1,3), cases "ord_Status ord";
    auto simp: order_op_defs order_inv_def status_defs Quantity_IsZero_def split: if_splits)+

lemma order_steps_inv:
  assumes "decimal_lib D" "(order_step D ^^ n) ord p" "order_inv ord"
  shows "order_inv p \<and> ord_Version p = ord_Version ord + int n \<and>
    OrderStatus_CanTransition\<^sup>*\<^sup>* (ord_Status ord) (ord_Status p) \<and>
    ord_ID p = ord_ID ord \<and> ord_ClientOrderID p = ord_ClientOrderID ord \<and> ord_Symbol p = ord_Symbol ord \<and>
    ord_Side p = ord_Side ord \<and> ord_Quantity p = ord_Quantity ord"
  using assms(2)
proof (induction n arbitrary: p)
  case (Suc n)
  then obtain q where q: "(order_step D ^^ n) ord q" "order_step D q p" by auto
  from Suc.IH [OF q(1)] order_step_frame [OF q(2)] order_step_inv [OF assms(1) q(2)]
  show ?case by (auto intro: rtranclp.rtrancl_into_rtrancl)
qed (use assms(3) in simp)

text \<open>
  C23: However an order evolves after it was created pending, through any sequence of successful
  submissions, fills, cancellations, rejections, failures and unknown marks, it keeps its
  invariant (a fill between zero and the order quantity, complete exactly when filled, with an
  execution price once something was filled, and a broker id once acknowledged), keeps its
  identity, symbol, side and quantity, counts one version per operation, and its status is
  reachable in the transition table.
\<close>

theorem order_lifecycle:
  assumes "decimal_lib D" "0 \<le> Quantity_Decimal q"
    and "NewPendingOrder D u cid sy side ty q rp sp tp strat sid rid now = Inr ord"
    and "(order_step D ^^ n) ord p"
  shows "order_inv p \<and> ord_Version p = 1 + int n \<and> ord_ID p = OrderID u \<and> ord_ClientOrderID p = cid \<and>
    ord_Symbol p = sy \<and> ord_Side p = side \<and> ord_Quantity p = q \<and>
    OrderStatus_CanTransition\<^sup>*\<^sup>* StatusPending (ord_Status p)"
  using order_steps_inv [OF assms(1,4) NewPendingOrder_inv [OF assms(1-3)]] NewPendingOrder_Inr [OF assms(3)]
  by simp

text \<open>A concrete order for the examples below.\<close>

definition sample_order :: "Order" where
  "sample_order = \<lparr>ord_ID = OrderID 1, ord_ClientOrderID = ClientOrderID ''abcdefgh'',
     ord_BrokerOrderID = '''', ord_Symbol = Symbol ''BTCUSDT'', ord_Side = SideBuy, ord_Type = TypeMarket,
     ord_Quantity = Quantity 2, ord_FilledQuantity = Quantity 0, ord_RequestedPrice = None,
     ord_AverageExecutionPrice = None, ord_StopPrice = None, ord_TargetPrice = None,
     ord_Status = StatusPending, ord_StrategyName = ''s'', ord_SignalID = SignalID 2,
     ord_RiskDecisionID = RiskDecisionID 3, ord_FailureReason = '''', ord_Version = 1,
     ord_CreatedAt = 0, ord_UpdatedAt = 0\<rparr>"

lemma sample_order_created:
  "NewPendingOrder ref_decimal 1 (ClientOrderID ''abcdefgh'') (Symbol ''BTCUSDT'') SideBuy TypeMarket
     (Quantity 2) None None None ''s'' (SignalID 2) (RiskDecisionID 3) 0 = Inr sample_order"
  by (simp add: NewPendingOrder_def sample_order_def Side_Valid_def Type_Valid_def Quantity_IsZero_def ZeroQuantity_def)

theorem order_lifecycle_witness:
  "\<exists>p. Submit sample_order ''X1'' 5 = Inr p \<and> order_inv p \<and> ord_Version p = 2"
proof -
  obtain p where p: "Submit sample_order ''X1'' 5 = Inr p"
    by (simp add: sample_order_def Submit_def transition_def status_defs)
  then have "(order_step ref_decimal ^^ 1) sample_order p" by (auto intro: order_step.submit)
  with p order_lifecycle [OF decimal_lib_ref _ sample_order_created, of 1 p] show ?thesis by auto
qed

text \<open>
  A terminal order (filled, cancelled, rejected or failed) can never change again: every
  operation on it returns an error, so no step leads out of it.
\<close>

theorem terminal_order_frozen:
  assumes "IsTerminal (ord_Status ord)"
  shows "\<not> is_ok (Submit ord bid now) \<and> \<not> is_ok (Order_Fail ord reason now) \<and>
    \<not> is_ok (MarkPartiallyFilled D ord q px now) \<and> \<not> is_ok (MarkFilled ord px now) \<and>
    \<not> is_ok (Cancel ord now) \<and> \<not> is_ok (Reject ord reason now) \<and> \<not> is_ok (MarkUnknown ord now) \<and>
    \<not> order_step D ord p"
  using CanTransition_terminal [OF assms] order_step_frame [of D ord p]
  by (auto simp: order_op_defs)

theorem terminal_order_frozen_witness:
  "\<not> is_ok (Cancel (sample_order\<lparr>ord_Status := StatusFilled\<rparr>) 7)"
  using terminal_order_frozen [of "sample_order\<lparr>ord_Status := StatusFilled\<rparr>"] by (simp add: IsTerminal_def)

text \<open>
  The remaining quantity of an order that satisfies its invariant is always defined: it is
  the order quantity less the fill, never negative, and zero exactly when the fill is complete.
\<close>

theorem remaining_quantity:
  assumes "decimal_lib D" "order_inv ord"
  shows "\<exists>r. RemainingQuantity D ord = Inr r \<and> ZeroQuantity \<le> r \<and>
    Quantity_Decimal r = Quantity_Decimal (ord_Quantity ord) - Quantity_Decimal (ord_FilledQuantity ord) \<and>
    (r = ZeroQuantity \<longleftrightarrow> ord_FilledQuantity ord = ord_Quantity ord) \<and>
    (ord_Status ord = StatusFilled \<longrightarrow> r = ZeroQuantity)"
  using assms
  by (cases "ord_Quantity ord"; cases "ord_FilledQuantity ord")
    (auto simp: RemainingQuantity_def Quantity_Sub_def order_inv_def order_defs ZeroQuantity_def Let_def)

theorem remaining_quantity_witness:
  "\<exists>r. RemainingQuantity ref_decimal sample_order = Inr r \<and> Quantity_Decimal r = 2"
proof -
  have "order_inv sample_order" by (rule NewPendingOrder_inv [OF decimal_lib_ref _ sample_order_created]) simp
  from remaining_quantity [OF decimal_lib_ref this] show ?thesis by (auto simp: sample_order_def)
qed

end
