(* ===== verification/Position_Aggregate.thy ===== *)
theory Position_Aggregate
  imports Value_Objects
begin

text \<open>
  \<^verbatim>\<open>internal/domain/position\<close>: the position aggregate, opened by a fill, marked to market and
  reduced until it closes, with the profit-and-loss bookkeeping of each step.
\<close>

section \<open>The aggregate\<close>

datatype PositionStatus = StatusOpen | StatusClosed | PositionStatus_other string

definition PositionStatus_String :: "PositionStatus \<Rightarrow> string" where
  "PositionStatus_String s = (case s of StatusOpen \<Rightarrow> ''OPEN'' | StatusClosed \<Rightarrow> ''CLOSED'' | PositionStatus_other t \<Rightarrow> t)"

definition PositionStatus_of_string :: "string \<Rightarrow> PositionStatus" where
  "PositionStatus_of_string t =
     (if t = ''OPEN'' then StatusOpen else if t = ''CLOSED'' then StatusClosed else PositionStatus_other t)"

record Position =
  pos_ID :: PositionID
  pos_Symbol :: Symbol
  pos_Side :: Side
  pos_Quantity :: Quantity
  pos_EntryPrice :: Price
  pos_CurrentPrice :: Price
  pos_StopPrice :: "Price option"
  pos_TargetPrice :: "Price option"
  pos_UnrealizedPnL :: Money
  pos_RealizedPnL :: Money
  pos_Status :: PositionStatus
  pos_Version :: int
  pos_OpenedAt :: time
  pos_ClosedAt :: "time option"

definition Open :: "decimal_ops \<Rightarrow> uuid \<Rightarrow> Symbol \<Rightarrow> Side \<Rightarrow> Quantity \<Rightarrow> Price \<Rightarrow> Price option \<Rightarrow>
    Price option \<Rightarrow> time \<Rightarrow> Position result" where
  "Open D fresh symbol side quantity entryPrice stopPrice targetPrice now =
     (if \<not> Side_Valid side then Inl (ValidationError ''side'' ''must be BUY or SELL'')
      else if Quantity_IsZero D quantity then Inl (ValidationError ''quantity'' ''must be greater than zero'')
      else Inr \<lparr>pos_ID = PositionID fresh, pos_Symbol = symbol, pos_Side = side, pos_Quantity = quantity,
        pos_EntryPrice = entryPrice, pos_CurrentPrice = entryPrice, pos_StopPrice = stopPrice,
        pos_TargetPrice = targetPrice, pos_UnrealizedPnL = ZeroMoney, pos_RealizedPnL = ZeroMoney,
        pos_Status = StatusOpen, pos_Version = 1, pos_OpenedAt = now, pos_ClosedAt = None\<rparr>)"

definition UnrealizedPnLAt :: "decimal_ops \<Rightarrow> Position \<Rightarrow> Price \<Rightarrow> Money" where
  "UnrealizedPnLAt D p mark =
     (let diff = dSub D (Price_Decimal mark) (Price_Decimal (pos_EntryPrice p));
          diff = (if pos_Side p = SideSell then dNeg D diff else diff)
      in NewMoney (dMul D diff (Quantity_Decimal (pos_Quantity p))))"

definition MarkPrice :: "decimal_ops \<Rightarrow> Position \<Rightarrow> Price \<Rightarrow> time \<Rightarrow> Position result" where
  "MarkPrice D p mark now =
     (if pos_Status p = StatusClosed then Inl (ConflictError ''position'' ''CLOSED'' ''OPEN'')
      else Inr (p\<lparr>pos_CurrentPrice := mark, pos_UnrealizedPnL := UnrealizedPnLAt D p mark,
                  pos_Version := pos_Version p + 1\<rparr>))"

text \<open>
  \<^verbatim>\<open>Reduce\<close> divides by the position's quantity; the decimal package panics on a zero divisor.
\<close>

definition Reduce :: "decimal_ops \<Rightarrow> Position \<Rightarrow> Quantity \<Rightarrow> Price \<Rightarrow> time \<Rightarrow> Position result" where
  "Reduce D p quantity exitPrice now =
     (if pos_Status p = StatusClosed then Inl (ConflictError ''position'' ''CLOSED'' ''OPEN'')
      else case Quantity_Sub D (pos_Quantity p) quantity of
        Inl _ \<Rightarrow> Inl (ValidationError ''quantity'' ''must not exceed open position quantity'')
      | Inr remaining \<Rightarrow>
          if dIsZero D (Quantity_Decimal (pos_Quantity p)) then Inl (Panic ''decimal division by 0'')
          else
            let realized = dDiv D (dMul D (Money_Decimal (UnrealizedPnLAt D p exitPrice))
                  (Quantity_Decimal quantity)) (Quantity_Decimal (pos_Quantity p));
                q = p\<lparr>pos_RealizedPnL := Money_Add D (pos_RealizedPnL p) (NewMoney realized),
                      pos_Quantity := remaining, pos_Version := pos_Version p + 1\<rparr>
            in if Quantity_IsZero D remaining
               then Inr (q\<lparr>pos_Status := StatusClosed, pos_ClosedAt := Some now, pos_UnrealizedPnL := ZeroMoney\<rparr>)
               else Inr (q\<lparr>pos_CurrentPrice := exitPrice, pos_UnrealizedPnL := UnrealizedPnLAt D q exitPrice\<rparr>))"

definition Close :: "decimal_ops \<Rightarrow> Position \<Rightarrow> Price \<Rightarrow> time \<Rightarrow> Position result" where
  "Close D p exitPrice now = Reduce D p (pos_Quantity p) exitPrice now"

datatype PositionEvent =
    PositionOpened Position time
  | PositionUpdated Position time
  | PositionClosed Position time

definition PositionEvent_EventName :: "PositionEvent \<Rightarrow> string" where
  "PositionEvent_EventName e = (case e of PositionOpened _ _ \<Rightarrow> ''PositionOpened''
     | PositionUpdated _ _ \<Rightarrow> ''PositionUpdated'' | PositionClosed _ _ \<Rightarrow> ''PositionClosed'')"

section \<open>Profit and loss\<close>

text \<open>The value of one unit of the position at a price: gains count up for a buy, down for a sell.\<close>

definition unit_pnl :: "Position \<Rightarrow> Price \<Rightarrow> decimal" where
  "unit_pnl p px =
     (if pos_Side p = SideSell then Price_Decimal (pos_EntryPrice p) - Price_Decimal px
      else Price_Decimal px - Price_Decimal (pos_EntryPrice p))"

lemma UnrealizedPnLAt_eq:
  "decimal_lib D \<Longrightarrow> Money_Decimal (UnrealizedPnLAt D p px) = unit_pnl p px * Quantity_Decimal (pos_Quantity p)"
  by (simp add: UnrealizedPnLAt_def unit_pnl_def NewMoney_def Let_def)

lemma PositionStatus_of_string_String [simp]:
  "s \<in> {StatusOpen, StatusClosed} \<Longrightarrow> PositionStatus_of_string (PositionStatus_String s) = s"
  by (auto simp: PositionStatus_of_string_def PositionStatus_String_def)

text \<open>The invariant: an open position holds a positive quantity, a closed one holds nothing.\<close>

definition position_inv :: "Position \<Rightarrow> bool" where
  "position_inv p \<longleftrightarrow> Side_Valid (pos_Side p) \<and>
     (case pos_Status p of
        StatusOpen \<Rightarrow> 0 < Quantity_Decimal (pos_Quantity p) \<and> pos_ClosedAt p = None
      | StatusClosed \<Rightarrow> Quantity_Decimal (pos_Quantity p) = 0 \<and> pos_ClosedAt p \<noteq> None \<and>
          pos_UnrealizedPnL p = ZeroMoney
      | PositionStatus_other _ \<Rightarrow> False)"

lemma Open_inv:
  "decimal_lib D \<Longrightarrow> 0 \<le> Quantity_Decimal q \<Longrightarrow> Open D u sy side q px sp tp now = Inr p \<Longrightarrow> position_inv p"
  by (auto simp: Open_def position_inv_def Quantity_IsZero_def split: if_splits)

lemma MarkPrice_inv: "position_inv p \<Longrightarrow> MarkPrice D p px now = Inr p' \<Longrightarrow> position_inv p'"
  by (auto simp: MarkPrice_def position_inv_def split: if_splits PositionStatus.splits)

text \<open>What a successful reduction requires and leaves behind.\<close>

lemma Reduce_Inr:
  assumes "decimal_lib D" "Reduce D p q px now = Inr p'"
  shows "pos_Status p \<noteq> StatusClosed" "Quantity_Decimal q \<le> Quantity_Decimal (pos_Quantity p)"
    "Quantity_Decimal (pos_Quantity p) \<noteq> 0"
    "Quantity_Decimal (pos_Quantity p') = Quantity_Decimal (pos_Quantity p) - Quantity_Decimal q"
    "pos_Version p' = pos_Version p + 1" "pos_Side p' = pos_Side p" "pos_EntryPrice p' = pos_EntryPrice p"
    "pos_ID p' = pos_ID p" "pos_Symbol p' = pos_Symbol p"
    "Money_Decimal (pos_RealizedPnL p') =
       Money_Decimal (pos_RealizedPnL p) + round_to DivisionPrecision (unit_pnl p px * Quantity_Decimal q)"
    "Quantity_Decimal q = Quantity_Decimal (pos_Quantity p) \<Longrightarrow>
       pos_Status p' = StatusClosed \<and> pos_ClosedAt p' = Some now \<and> pos_UnrealizedPnL p' = ZeroMoney"
    "Quantity_Decimal q \<noteq> Quantity_Decimal (pos_Quantity p) \<Longrightarrow>
       pos_Status p' = pos_Status p \<and> pos_ClosedAt p' = pos_ClosedAt p \<and> pos_CurrentPrice p' = px \<and>
       Money_Decimal (pos_UnrealizedPnL p') = unit_pnl p px * Quantity_Decimal (pos_Quantity p')"
  using assms
  by (auto simp: Reduce_def Quantity_Sub_def Quantity_IsZero_def Money_Add_def NewMoney_def UnrealizedPnLAt_eq
      unit_pnl_def Let_def split: if_splits)

lemma Reduce_ok:
  assumes "decimal_lib D" "pos_Status p \<noteq> StatusClosed" "0 < Quantity_Decimal (pos_Quantity p)"
    "Quantity_Decimal q \<le> Quantity_Decimal (pos_Quantity p)"
  shows "\<exists>p'. Reduce D p q px now = Inr p'"
  using assms by (auto simp: Reduce_def Quantity_Sub_def Let_def)

lemma Reduce_inv:
  assumes "decimal_lib D" "position_inv p" "Reduce D p q px now = Inr p'"
  shows "position_inv p'"
proof -
  note r = Reduce_Inr [OF assms(1,3)]
  from r(1) assms(2) have "pos_Status p = StatusOpen"
    by (auto simp: position_inv_def split: PositionStatus.splits)
  with r assms(2) show ?thesis
    by (cases "Quantity_Decimal q = Quantity_Decimal (pos_Quantity p)") (auto simp: position_inv_def)
qed

text \<open>Realized P\&L of one reduction, up to the rounding of the division.\<close>

lemma Reduce_realized:
  assumes "decimal_lib D" "Reduce D p q px now = Inr p'"
  shows "\<bar>Money_Decimal (pos_RealizedPnL p') -
    (Money_Decimal (pos_RealizedPnL p) + unit_pnl p px * Quantity_Decimal q)\<bar> \<le> 1 / (2 * 10 ^ 16)"
  using Reduce_Inr(10) [OF assms] round_to_error [of 16 "unit_pnl p px * Quantity_Decimal q"]
  by (simp add: DivisionPrecision_def)

lemma Reduce_unit_pnl:
  assumes "decimal_lib D" "Reduce D p q px now = Inr p'"
  shows "unit_pnl p' = unit_pnl p"
  using Reduce_Inr(6,7) [OF assms] by (simp add: unit_pnl_def fun_eq_iff)


text \<open>A concrete position for the examples below.\<close>

definition sample_position :: Position where
  "sample_position = \<lparr>pos_ID = PositionID 1, pos_Symbol = Symbol ''BTCUSDT'', pos_Side = SideBuy,
     pos_Quantity = Quantity 2, pos_EntryPrice = Price 100, pos_CurrentPrice = Price 100,
     pos_StopPrice = None, pos_TargetPrice = None, pos_UnrealizedPnL = Money 0, pos_RealizedPnL = Money 0,
     pos_Status = StatusOpen, pos_Version = 1, pos_OpenedAt = 0, pos_ClosedAt = None\<rparr>"


text \<open>Closing a position in several steps: each step a quantity and an exit price.\<close>

fun reduce_all :: "decimal_ops \<Rightarrow> Position \<Rightarrow> (Quantity \<times> Price) list \<Rightarrow> time \<Rightarrow> Position result" where
  "reduce_all D p [] now = Inr p"
| "reduce_all D p ((q, px) # qs) now = rbind (Reduce D p q px now) (\<lambda>p'. reduce_all D p' qs now)"

definition total_quantity :: "(Quantity \<times> Price) list \<Rightarrow> decimal" where
  "total_quantity qs = sum_list (map (\<lambda>(q, px). Quantity_Decimal q) qs)"

definition total_pnl :: "Position \<Rightarrow> (Quantity \<times> Price) list \<Rightarrow> decimal" where
  "total_pnl p qs = sum_list (map (\<lambda>(q, px). unit_pnl p px * Quantity_Decimal q) qs)"

lemma total_quantity_nonneg: "list_all (\<lambda>(q, px). 0 < Quantity_Decimal q) qs \<Longrightarrow> 0 \<le> total_quantity qs"
  by (induction qs) (auto simp: total_quantity_def)

lemma total_quantity_pos:
  "list_all (\<lambda>(q, px). 0 < Quantity_Decimal q) qs \<Longrightarrow> qs \<noteq> [] \<Longrightarrow> 0 < total_quantity qs"
  using total_quantity_nonneg [of "tl qs"] by (cases qs) (auto simp: total_quantity_def)

text \<open>
  Closing an open position piecewise is the same as closing it at once, up to rounding: any
  sequence of reductions by positive quantities that add up to the position's quantity succeeds,
  closes the position, and realizes the sum of the gains of its pieces to within half a unit of
  the sixteenth digit per piece.
\<close>

theorem piecewise_close:
  assumes "decimal_lib D" "pos_Status p = StatusOpen" "qs \<noteq> []"
    and "list_all (\<lambda>(q, px). 0 < Quantity_Decimal q) qs"
    and "total_quantity qs = Quantity_Decimal (pos_Quantity p)"
  shows "\<exists>p'. reduce_all D p qs now = Inr p' \<and> pos_Status p' = StatusClosed \<and>
    Quantity_Decimal (pos_Quantity p') = 0 \<and> pos_Version p' = pos_Version p + int (length qs) \<and>
    \<bar>Money_Decimal (pos_RealizedPnL p') - (Money_Decimal (pos_RealizedPnL p) + total_pnl p qs)\<bar>
      \<le> of_nat (length qs) / (2 * 10 ^ 16)"
  using assms(2-)
proof (induction qs arbitrary: p)
  case (Cons x qs)
  obtain q px where x: "x = (q, px)" by (cases x)
  have pos: "0 < Quantity_Decimal q" "list_all (\<lambda>(q, px). 0 < Quantity_Decimal q) qs"
    and tot: "Quantity_Decimal q + total_quantity qs = Quantity_Decimal (pos_Quantity p)"
    and pnl: "total_pnl p (x # qs) = unit_pnl p px * Quantity_Decimal q + total_pnl p qs"
    using Cons.prems(3,4) x by (auto simp: total_quantity_def total_pnl_def)
  have "Quantity_Decimal q \<le> Quantity_Decimal (pos_Quantity p)" "0 < Quantity_Decimal (pos_Quantity p)"
    using tot pos total_quantity_nonneg [OF pos(2)] by linarith+
  then obtain p1 where p1: "Reduce D p q px now = Inr p1"
    using Reduce_ok [OF assms(1), of p q px now] Cons.prems(1) by auto
  note r = Reduce_Inr [OF assms(1) p1] Reduce_realized [OF assms(1) p1]
  show ?case
  proof (cases "qs = []")
    case True
    with tot have "Quantity_Decimal q = Quantity_Decimal (pos_Quantity p)" by (simp add: total_quantity_def)
    with True r(4,5,11,13) p1 x show ?thesis by (simp add: total_pnl_def)
  next
    case False
    have "total_quantity qs \<noteq> 0" using total_quantity_pos [OF pos(2) False] by simp
    with tot have "Quantity_Decimal q \<noteq> Quantity_Decimal (pos_Quantity p)" by auto
    then have "pos_Status p1 = StatusOpen" "total_quantity qs = Quantity_Decimal (pos_Quantity p1)"
      using r(4,12) Cons.prems(1) tot by simp_all
    then obtain p' where p': "reduce_all D p1 qs now = Inr p'" "pos_Status p' = StatusClosed"
        "Quantity_Decimal (pos_Quantity p') = 0" "pos_Version p' = pos_Version p1 + int (length qs)"
        "\<bar>Money_Decimal (pos_RealizedPnL p') - (Money_Decimal (pos_RealizedPnL p1) + total_pnl p1 qs)\<bar>
          \<le> of_nat (length qs) / (2 * 10 ^ 16)"
      using Cons.IH [of p1] False pos(2) by auto
    have "total_pnl p1 qs = total_pnl p qs" using Reduce_unit_pnl [OF assms(1) p1] by (simp add: total_pnl_def)
    moreover have "(of_nat (length (x # qs)) :: decimal) / (2 * 10 ^ 16) =
        of_nat (length qs) / (2 * 10 ^ 16) + 1 / (2 * 10 ^ 16)"
      by (simp add: add_divide_distrib)
    ultimately have "\<bar>Money_Decimal (pos_RealizedPnL p') - (Money_Decimal (pos_RealizedPnL p) + total_pnl p (x # qs))\<bar>
        \<le> of_nat (length (x # qs)) / (2 * 10 ^ 16)"
      using p'(5) r(13) pnl by linarith
    with p'(1-4) p1 x r(5) show ?thesis by simp
  qed
qed simp

theorem piecewise_close_witness:
  "\<exists>p'. reduce_all ref_decimal sample_position [(Quantity 1, Price 110), (Quantity 1, Price 90)] 5 = Inr p' \<and>
     pos_Status p' = StatusClosed \<and> \<bar>Money_Decimal (pos_RealizedPnL p')\<bar> \<le> 2 / (2 * 10 ^ 16)"
  using piecewise_close [OF decimal_lib_ref, of sample_position "[(Quantity 1, Price 110), (Quantity 1, Price 90)]" 5]
  by (auto simp: sample_position_def unit_pnl_def total_quantity_def total_pnl_def)

end
