(* ===== verification/Account_Aggregate.thy ===== *)
theory Account_Aggregate
  imports Order_Aggregate Position_Aggregate
begin

text \<open>
  \<^verbatim>\<open>internal/domain/account\<close>: the account ledger the risk manager reads, its operations, and the
  snapshot read model. The properties follow a ledger through any sequence of operations.
\<close>

section \<open>The aggregate\<close>

record Account =
  acc_ID :: AccountID
  acc_Balance :: Money
  acc_Equity :: Money
  acc_AvailableBalance :: Money
  acc_PeakEquity :: Money
  acc_DailyPnL :: Money
  acc_WeeklyPnL :: Money
  acc_CurrentDrawdown :: Drawdown
  acc_OperationalMode :: Mode
  acc_Version :: int
  acc_UpdatedAt :: time

definition NewPaperAccount :: "decimal_ops \<Rightarrow> uuid \<Rightarrow> Money \<Rightarrow> time \<Rightarrow> Account result" where
  "NewPaperAccount D fresh startingBalance now =
     (if Money_IsNegative D startingBalance \<or> Money_IsZero D startingBalance
      then Inl (ValidationError ''starting_balance'' ''must be greater than zero'')
      else rbind (MustNewDrawdown D (Money_Decimal ZeroMoney)) (\<lambda>drawdown.
        Inr \<lparr>acc_ID = AccountID fresh, acc_Balance = startingBalance, acc_Equity = startingBalance,
          acc_AvailableBalance = startingBalance, acc_PeakEquity = startingBalance,
          acc_DailyPnL = ZeroMoney, acc_WeeklyPnL = ZeroMoney, acc_CurrentDrawdown = drawdown,
          acc_OperationalMode = ModePaper, acc_Version = 1, acc_UpdatedAt = now\<rparr>))"

text \<open>\<^verbatim>\<open>if a.Equity.GreaterThan(a.PeakEquity) { ... }\<close> and the drawdown that follows it.\<close>

definition track_peak :: "decimal_ops \<Rightarrow> Account \<Rightarrow> Account" where
  "track_peak D a =
     (let b = (if Money_GreaterThan D (acc_Equity a) (acc_PeakEquity a)
               then a\<lparr>acc_PeakEquity := acc_Equity a\<rparr> else a)
      in b\<lparr>acc_CurrentDrawdown := DrawdownFromPeak D (acc_PeakEquity b) (acc_Equity b)\<rparr>)"

definition ApplyRealizedPnL :: "decimal_ops \<Rightarrow> Account \<Rightarrow> Money \<Rightarrow> time \<Rightarrow> Account" where
  "ApplyRealizedPnL D a delta now =
     (let b = track_peak D (a\<lparr>acc_Balance := Money_Add D (acc_Balance a) delta,
                acc_Equity := Money_Add D (acc_Equity a) delta,
                acc_AvailableBalance := Money_Add D (acc_AvailableBalance a) delta,
                acc_DailyPnL := Money_Add D (acc_DailyPnL a) delta,
                acc_WeeklyPnL := Money_Add D (acc_WeeklyPnL a) delta\<rparr>)
      in b\<lparr>acc_Version := acc_Version b + 1, acc_UpdatedAt := now\<rparr>)"

definition ReserveMargin :: "decimal_ops \<Rightarrow> Account \<Rightarrow> Money \<Rightarrow> time \<Rightarrow> Account result" where
  "ReserveMargin D a amount now =
     (if Money_GreaterThan D amount (acc_AvailableBalance a)
      then Inl (ValidationError ''amount'' ''insufficient available balance'')
      else Inr (a\<lparr>acc_AvailableBalance := Money_Sub D (acc_AvailableBalance a) amount,
                  acc_Version := acc_Version a + 1, acc_UpdatedAt := now\<rparr>))"

definition ReleaseMargin :: "decimal_ops \<Rightarrow> Account \<Rightarrow> Money \<Rightarrow> time \<Rightarrow> Account" where
  "ReleaseMargin D a amount now =
     a\<lparr>acc_AvailableBalance := Money_Add D (acc_AvailableBalance a) amount,
       acc_Version := acc_Version a + 1, acc_UpdatedAt := now\<rparr>"

definition MarkToMarket :: "decimal_ops \<Rightarrow> Account \<Rightarrow> Money \<Rightarrow> time \<Rightarrow> Account" where
  "MarkToMarket D a unrealizedPnL now =
     (let b = track_peak D (a\<lparr>acc_Equity := Money_Add D (acc_Balance a) unrealizedPnL\<rparr>)
      in b\<lparr>acc_Version := acc_Version b + 1, acc_UpdatedAt := now\<rparr>)"

definition ResetDailyPnL :: "Account \<Rightarrow> time \<Rightarrow> Account" where
  "ResetDailyPnL a now = a\<lparr>acc_DailyPnL := ZeroMoney, acc_Version := acc_Version a + 1, acc_UpdatedAt := now\<rparr>"

definition ResetWeeklyPnL :: "Account \<Rightarrow> time \<Rightarrow> Account" where
  "ResetWeeklyPnL a now = a\<lparr>acc_WeeklyPnL := ZeroMoney, acc_Version := acc_Version a + 1, acc_UpdatedAt := now\<rparr>"

definition SetOperationalMode :: "Account \<Rightarrow> Mode \<Rightarrow> time \<Rightarrow> Account" where
  "SetOperationalMode a mode now =
     a\<lparr>acc_OperationalMode := mode, acc_Version := acc_Version a + 1, acc_UpdatedAt := now\<rparr>"

section \<open>Snapshots\<close>

record Snapshot =
  snap_ID :: SnapshotID
  snap_Balance :: Money
  snap_Equity :: Money
  snap_Positions :: "Position list"
  snap_OpenOrders :: "Order list"
  snap_DailyPnL :: Money
  snap_Drawdown :: Drawdown
  snap_Timestamp :: time

definition NewSnapshot :: "uuid \<Rightarrow> Account \<Rightarrow> Position list \<Rightarrow> Order list \<Rightarrow> time \<Rightarrow> Snapshot" where
  "NewSnapshot fresh acc positions openOrders timestamp =
     \<lparr>snap_ID = SnapshotID fresh, snap_Balance = acc_Balance acc, snap_Equity = acc_Equity acc,
      snap_Positions = positions, snap_OpenOrders = openOrders, snap_DailyPnL = acc_DailyPnL acc,
      snap_Drawdown = acc_CurrentDrawdown acc, snap_Timestamp = timestamp\<rparr>"

section \<open>A ledger under any sequence of operations\<close>

datatype ledger_op =
    Realize Money | Reserve Money | Release Money | Mark Money | DailyReset | WeeklyReset | SetMode Mode

text \<open>One operation; a refused reservation leaves the account as it is.\<close>

fun ledger_step :: "decimal_ops \<Rightarrow> time \<Rightarrow> ledger_op \<Rightarrow> Account \<Rightarrow> Account" where
  "ledger_step D now (Realize m) a = ApplyRealizedPnL D a m now"
| "ledger_step D now (Reserve m) a = (case ReserveMargin D a m now of Inl _ \<Rightarrow> a | Inr b \<Rightarrow> b)"
| "ledger_step D now (Release m) a = ReleaseMargin D a m now"
| "ledger_step D now (Mark m) a = MarkToMarket D a m now"
| "ledger_step D now DailyReset a = ResetDailyPnL a now"
| "ledger_step D now WeeklyReset a = ResetWeeklyPnL a now"
| "ledger_step D now (SetMode md) a = SetOperationalMode a md now"

text \<open>The accounts a sequence of operations goes through, the starting one first.\<close>

fun ledger_history :: "decimal_ops \<Rightarrow> time \<Rightarrow> ledger_op list \<Rightarrow> Account \<Rightarrow> Account list" where
  "ledger_history D now [] a = [a]"
| "ledger_history D now (x # xs) a = a # ledger_history D now xs (ledger_step D now x a)"

definition ledger_run :: "decimal_ops \<Rightarrow> time \<Rightarrow> ledger_op list \<Rightarrow> Account \<Rightarrow> Account" where
  "ledger_run D now xs a = fold (ledger_step D now) xs a"

lemma last_ledger_history: "last (ledger_history D now xs a) = ledger_run D now xs a"
proof (induction xs arbitrary: a)
  case (Cons x xs)
  have "ledger_history D now xs b \<noteq> []" for b by (cases xs) simp_all
  with Cons show ?case by (simp add: ledger_run_def)
qed (simp add: ledger_run_def)

lemmas account_defs = ApplyRealizedPnL_def ReserveMargin_def ReleaseMargin_def MarkToMarket_def
  ResetDailyPnL_def ResetWeeklyPnL_def SetOperationalMode_def track_peak_def Let_def

text \<open>
  The invariant: the peak is positive and bounds equity, and the cached drawdown is the one the
  peak and the equity determine.
\<close>

definition account_inv :: "decimal_ops \<Rightarrow> Account \<Rightarrow> bool" where
  "account_inv D a \<longleftrightarrow> 0 < Money_Decimal (acc_PeakEquity a) \<and> acc_Equity a \<le> acc_PeakEquity a \<and>
     acc_CurrentDrawdown a = DrawdownFromPeak D (acc_PeakEquity a) (acc_Equity a)"

lemma NewPaperAccount_Inr:
  assumes "decimal_lib D" "NewPaperAccount D u m now = Inr a"
  shows "0 < Money_Decimal m" "acc_Balance a = m" "acc_Equity a = m" "acc_AvailableBalance a = m"
    "acc_PeakEquity a = m" "acc_Version a = 1" "acc_OperationalMode a = ModePaper" "acc_ID a = AccountID u"
    "acc_CurrentDrawdown a = Drawdown 0" "acc_DailyPnL a = ZeroMoney"
  using assms
  by (auto simp: NewPaperAccount_def MustNewDrawdown_def NewDrawdown_def vo_defs rbind_Inr_iff split: if_splits)

lemma NewPaperAccount_inv:
  assumes "decimal_lib D" "NewPaperAccount D u m now = Inr a"
  shows "account_inv D a"
  using NewPaperAccount_Inr [OF assms] assms(1) by (simp add: account_inv_def DrawdownFromPeak_def)

lemma ledger_step_inv:
  assumes "decimal_lib D" "account_inv D a"
  shows "account_inv D (ledger_step D now x a)"
  using assms by (cases x) (auto simp: account_defs account_inv_def order_defs split: sum.splits)

lemma ledger_step_peak:
  assumes "decimal_lib D" "account_inv D a"
  shows "acc_PeakEquity (ledger_step D now x a) = max (acc_PeakEquity a) (acc_Equity (ledger_step D now x a))"
  using assms by (cases x) (auto simp: account_defs account_inv_def max_def split: sum.splits)

text \<open>
  The peak equity of a paper account is the highest equity it ever had: after any sequence of
  realized results, reservations, releases, marks and resets it is the maximum of the equities the
  account went through, it is positive, and the cached drawdown is the drawdown from that peak.
\<close>

theorem peak_is_highest_equity:
  assumes "decimal_lib D" "NewPaperAccount D u m t0 = Inr a"
  shows "account_inv D (ledger_run D now xs a) \<and>
    acc_PeakEquity (ledger_run D now xs a) = Max (acc_Equity ` set (ledger_history D now xs a))"
proof -
  have "account_inv D (ledger_run D now xs b) \<and>
      acc_PeakEquity (ledger_run D now xs b) = max (acc_PeakEquity b) (Max (acc_Equity ` set (ledger_history D now xs b)))"
    if "account_inv D b" for b
    using that
  proof (induction xs arbitrary: b)
    case Nil
    then show ?case by (simp add: ledger_run_def account_inv_def)
  next
    case (Cons x xs)
    let ?c = "ledger_step D now x b"
    have ne: "ledger_history D now xs ?c \<noteq> []" by (cases xs) simp_all
    have eq: "acc_Equity ?c \<in> acc_Equity ` set (ledger_history D now xs ?c)" by (cases xs) simp_all
    let ?M = "Max (acc_Equity ` set (ledger_history D now xs ?c))"
    have le: "acc_Equity ?c \<le> ?M" using eq by (intro Max_ge) auto
    have "Max (acc_Equity ` set (ledger_history D now (x # xs) b)) = max (acc_Equity b) ?M"
      using ne by simp
    moreover have "max (max (acc_PeakEquity b) (acc_Equity ?c)) ?M = max (acc_PeakEquity b) (max (acc_Equity b) ?M)"
      using le Cons.prems by (simp add: max.assoc [symmetric] max.absorb1 max.absorb2 account_inv_def)
        (simp add: max.assoc max.absorb2)
    ultimately show ?case
      using Cons.IH [OF ledger_step_inv [OF assms(1) Cons.prems, of now x]] ledger_step_peak [OF assms(1) Cons.prems, of now x]
      by (simp add: ledger_run_def)
  qed
  note gen = this [OF NewPaperAccount_inv [OF assms]]
  have "a \<in> set (ledger_history D now xs a)" by (cases xs) simp_all
  then have "acc_Equity a \<le> Max (acc_Equity ` set (ledger_history D now xs a))" by (intro Max_ge) auto
  then have "acc_PeakEquity a \<le> Max (acc_Equity ` set (ledger_history D now xs a))"
    using NewPaperAccount_Inr(3,5) [OF assms] by simp
  with gen show ?thesis by (simp add: max_def)
qed

text \<open>A concrete account for the examples below.\<close>

definition sample_account :: Account where
  "sample_account = \<lparr>acc_ID = AccountID 1, acc_Balance = Money 10000, acc_Equity = Money 10000,
     acc_AvailableBalance = Money 10000, acc_PeakEquity = Money 10000, acc_DailyPnL = Money 0,
     acc_WeeklyPnL = Money 0, acc_CurrentDrawdown = Drawdown 0, acc_OperationalMode = ModePaper,
     acc_Version = 1, acc_UpdatedAt = 0\<rparr>"

lemma sample_account_created: "NewPaperAccount ref_decimal 1 (Money 10000) 0 = Inr sample_account"
  by (simp add: NewPaperAccount_def sample_account_def MustNewDrawdown_def NewDrawdown_def vo_defs)

theorem peak_is_highest_equity_witness:
  "acc_PeakEquity (ledger_run ref_decimal 5 [Realize (Money 500), Realize (Money (- 800))] sample_account) =
     Max (acc_Equity ` set (ledger_history ref_decimal 5 [Realize (Money 500), Realize (Money (- 800))] sample_account))"
  using peak_is_highest_equity [OF decimal_lib_ref sample_account_created] by blast

text \<open>What the operations add to the balance and to the funds available.\<close>

fun realized_of :: "ledger_op \<Rightarrow> decimal" where
  "realized_of (Realize m) = Money_Decimal m"
| "realized_of _ = 0"

fun margin_of :: "decimal_ops \<Rightarrow> Account \<Rightarrow> ledger_op \<Rightarrow> decimal" where
  "margin_of D a (Reserve m) = (if Money_GreaterThan D m (acc_AvailableBalance a) then 0 else Money_Decimal m)"
| "margin_of D a (Release m) = - Money_Decimal m"
| "margin_of D a _ = 0"

fun margin_total :: "decimal_ops \<Rightarrow> time \<Rightarrow> ledger_op list \<Rightarrow> Account \<Rightarrow> decimal" where
  "margin_total D now [] a = 0"
| "margin_total D now (x # xs) a = margin_of D a x + margin_total D now xs (ledger_step D now x a)"

text \<open>
  C25: Money is conserved in the ledger: after any sequence of operations the balance is the
  starting balance plus all realized results, and the available balance is that sum less the
  margin reserved and not yet released. Marking to market, resets and mode changes move no money.
\<close>

theorem ledger_conservation:
  assumes "decimal_lib D"
  shows "Money_Decimal (acc_Balance (ledger_run D now xs a)) =
      Money_Decimal (acc_Balance a) + sum_list (map realized_of xs) \<and>
    Money_Decimal (acc_AvailableBalance (ledger_run D now xs a)) =
      Money_Decimal (acc_AvailableBalance a) + sum_list (map realized_of xs) - margin_total D now xs a"
proof (induction xs arbitrary: a)
  case (Cons x xs)
  have "Money_Decimal (acc_Balance (ledger_step D now x a)) = Money_Decimal (acc_Balance a) + realized_of x \<and>
    Money_Decimal (acc_AvailableBalance (ledger_step D now x a)) =
      Money_Decimal (acc_AvailableBalance a) + realized_of x - margin_of D a x"
    using assms by (cases x) (auto simp: account_defs Money_Add_def Money_Sub_def)
  with Cons.IH [of "ledger_step D now x a"] show ?case by (simp add: ledger_run_def)
qed (simp add: ledger_run_def)

theorem ledger_conservation_witness:
  "Money_Decimal (acc_AvailableBalance (ledger_run ref_decimal 5 [Reserve (Money 400), Realize (Money 30)] sample_account))
     = 9630"
  using ledger_conservation [OF decimal_lib_ref, of 5 "[Reserve (Money 400), Realize (Money 30)]" sample_account]
  by (simp add: sample_account_def order_defs)

text \<open>
  Margin can only be reserved from funds that are there: a reservation succeeds exactly when
  the amount does not exceed the available balance, then takes exactly that amount, leaves it
  non-negative and touches neither balance, equity nor results; otherwise it is an error.
\<close>

theorem reserve_margin_guard:
  assumes "decimal_lib D"
  shows "if amount \<le> acc_AvailableBalance a
    then \<exists>b. ReserveMargin D a amount now = Inr b \<and>
      Money_Decimal (acc_AvailableBalance b) = Money_Decimal (acc_AvailableBalance a) - Money_Decimal amount \<and>
      0 \<le> Money_Decimal (acc_AvailableBalance b) \<and> acc_Balance b = acc_Balance a \<and> acc_Equity b = acc_Equity a \<and>
      acc_DailyPnL b = acc_DailyPnL a \<and> acc_Version b = acc_Version a + 1
    else ReserveMargin D a amount now = Inl (ValidationError ''amount'' ''insufficient available balance'')"
  using assms by (auto simp: ReserveMargin_def Money_Sub_def order_defs)

theorem reserve_margin_guard_witness:
  "ReserveMargin ref_decimal sample_account (Money 10001) 5 =
     Inl (ValidationError ''amount'' ''insufficient available balance'')"
  using reserve_margin_guard [OF decimal_lib_ref, of "Money 10001" sample_account 5]
  by (simp add: sample_account_def order_defs)

end
