(* ===== verification/Signals_Events.thy ===== *)
theory Signals_Events
  imports Account_Aggregate
begin

text \<open>
  \<^verbatim>\<open>internal/domain/market\<close>, \<^verbatim>\<open>internal/domain/signal\<close> and \<^verbatim>\<open>internal/domain/event\<close>: closed candles,
  regimes, trade signals and market events, with the validation their constructors do. The
  properties say which inputs become a signal, and when an event restricts a symbol.
\<close>

section \<open>Candles and regimes\<close>

record Candle =
  cdl_Symbol :: Symbol
  cdl_Timeframe :: Timeframe
  cdl_Open :: Price
  cdl_High :: Price
  cdl_Low :: Price
  cdl_Close :: Price
  cdl_Volume :: Quantity
  cdl_OpenTime :: time
  cdl_CloseTime :: time

definition NewClosedCandle :: "decimal_ops \<Rightarrow> Symbol \<Rightarrow> Timeframe \<Rightarrow> Price \<Rightarrow> Price \<Rightarrow> Price \<Rightarrow> Price \<Rightarrow>
    Quantity \<Rightarrow> time \<Rightarrow> time \<Rightarrow> Candle result" where
  "NewClosedCandle D symbol timeframe open' high low close' volume openTime closeTime =
     (if \<not> time_After closeTime openTime then Inl (ValidationError ''close_time'' ''must be after open_time'')
      else if Price_LessThan D high open' \<or> Price_LessThan D high close' \<or> Price_LessThan D high low
      then Inl (ValidationError ''high'' ''must be greater than or equal to open, close and low'')
      else if Price_GreaterThan D low open' \<or> Price_GreaterThan D low close'
      then Inl (ValidationError ''low'' ''must be less than or equal to open and close'')
      else Inr \<lparr>cdl_Symbol = symbol, cdl_Timeframe = timeframe, cdl_Open = open', cdl_High = high,
        cdl_Low = low, cdl_Close = close', cdl_Volume = volume, cdl_OpenTime = openTime,
        cdl_CloseTime = closeTime\<rparr>)"

definition Candle_Age :: "Candle \<Rightarrow> time \<Rightarrow> duration" where
  "Candle_Age c now = time_Sub now (cdl_CloseTime c)"

definition AgeExceeds :: "Candle \<Rightarrow> time \<Rightarrow> duration \<Rightarrow> bool" where
  "AgeExceeds c now maxAge \<longleftrightarrow> Candle_Age c now > maxAge"

record CandleClosed =
  cc_Candle :: Candle
  cc_OccurredAt :: time

datatype Regime = RegimeTrending | RegimeRangeBound | RegimeVolatile | RegimeUnknown | Regime_other string

definition Regime_String :: "Regime \<Rightarrow> string" where
  "Regime_String r = (case r of RegimeTrending \<Rightarrow> ''TRENDING'' | RegimeRangeBound \<Rightarrow> ''RANGE_BOUND''
     | RegimeVolatile \<Rightarrow> ''VOLATILE'' | RegimeUnknown \<Rightarrow> ''UNKNOWN'' | Regime_other s \<Rightarrow> s)"

definition Regime_of_string :: "string \<Rightarrow> Regime" where
  "Regime_of_string s = (if s = ''TRENDING'' then RegimeTrending else if s = ''RANGE_BOUND'' then RegimeRangeBound
     else if s = ''VOLATILE'' then RegimeVolatile else if s = ''UNKNOWN'' then RegimeUnknown else Regime_other s)"

definition Regime_Valid :: "Regime \<Rightarrow> bool" where
  "Regime_Valid r = (case r of Regime_other _ \<Rightarrow> False | _ \<Rightarrow> True)"

lemma Regime_of_string_String [simp]: "Regime_Valid r \<Longrightarrow> Regime_of_string (Regime_String r) = r"
  by (cases r) (simp_all add: Regime_Valid_def Regime_of_string_def Regime_String_def)

section \<open>Trade signals\<close>

record TradeSignal =
  sig_ID :: SignalID
  sig_Symbol :: Symbol
  sig_Side :: Side
  sig_EntryPrice :: Price
  sig_StopPrice :: Price
  sig_TargetPrice :: Price
  sig_Confidence :: Confidence
  sig_StrategyName :: string
  sig_MarketRegime :: Regime
  sig_CreatedAt :: time
  sig_ValidUntil :: time

text \<open>
  The two checks of the \<^verbatim>\<open>switch side\<close> statement, in the order of the code; a side that is
  neither BUY nor SELL has been refused before.
\<close>

definition signal_New :: "decimal_ops \<Rightarrow> uuid \<Rightarrow> Symbol \<Rightarrow> Side \<Rightarrow> Price \<Rightarrow> Price \<Rightarrow> Price \<Rightarrow> Confidence \<Rightarrow>
    string \<Rightarrow> Regime \<Rightarrow> time \<Rightarrow> time \<Rightarrow> TradeSignal result" where
  "signal_New D fresh symbol side entryPrice stopPrice targetPrice confidence strategyName regime
     createdAt validUntil =
     (if \<not> Side_Valid side then Inl (ValidationError ''side'' ''must be BUY or SELL'')
      else if strategyName = '''' then Inl (ValidationError ''strategy_name'' ''must not be empty'')
      else if \<not> Regime_Valid regime then Inl (ValidationError ''market_regime'' ''unknown regime'')
      else if \<not> time_After validUntil createdAt
      then Inl (ValidationError ''valid_until'' ''must be after created_at'')
      else rbind (case side of
          SideBuy \<Rightarrow>
            (if Price_GreaterThanOrEqual D stopPrice entryPrice
             then Inl (ValidationError ''stop_price'' ''must be below entry price for a BUY signal'')
             else if Price_LessThan D targetPrice entryPrice \<or> Price_Equal D targetPrice entryPrice
             then Inl (ValidationError ''target_price'' ''must be above entry price for a BUY signal'')
             else Inr ())
        | SideSell \<Rightarrow>
            (if Price_LessThan D stopPrice entryPrice \<or> Price_Equal D stopPrice entryPrice
             then Inl (ValidationError ''stop_price'' ''must be above entry price for a SELL signal'')
             else if Price_GreaterThanOrEqual D targetPrice entryPrice
             then Inl (ValidationError ''target_price'' ''must be below entry price for a SELL signal'')
             else Inr ())
        | Side_other _ \<Rightarrow> Inr ()) (\<lambda>_.
      Inr \<lparr>sig_ID = SignalID fresh, sig_Symbol = symbol, sig_Side = side, sig_EntryPrice = entryPrice,
        sig_StopPrice = stopPrice, sig_TargetPrice = targetPrice, sig_Confidence = confidence,
        sig_StrategyName = strategyName, sig_MarketRegime = regime, sig_CreatedAt = createdAt,
        sig_ValidUntil = validUntil\<rparr>))"

definition Signal_IsExpired :: "TradeSignal \<Rightarrow> time \<Rightarrow> bool" where
  "Signal_IsExpired s now = time_After now (sig_ValidUntil s)"

definition StopDistance :: "decimal_ops \<Rightarrow> TradeSignal \<Rightarrow> Price result" where
  "StopDistance D s = MustNewPrice D (DistanceTo D (sig_EntryPrice s) (sig_StopPrice s))"

record SignalCreated =
  sc_Signal :: TradeSignal
  sc_OccurredAt :: time

section \<open>Market events\<close>

datatype Direction = DirectionBullish | DirectionBearish | DirectionNeutral | Direction_other string

datatype Severity = SeverityLow | SeverityMedium | SeverityHigh | SeverityCritical | Severity_other string

datatype Action = ActionNormal | ActionReduce | ActionBlockNewEntries | ActionReviewRequired
  | ActionKillSwitch | Action_other string

datatype EventStatus = EventActive | EventExpired | EventResolved | EventStatus_other string

definition Direction_String :: "Direction \<Rightarrow> string" where
  "Direction_String d = (case d of DirectionBullish \<Rightarrow> ''BULLISH'' | DirectionBearish \<Rightarrow> ''BEARISH''
     | DirectionNeutral \<Rightarrow> ''NEUTRAL'' | Direction_other s \<Rightarrow> s)"

definition Direction_of_string :: "string \<Rightarrow> Direction" where
  "Direction_of_string s = (if s = ''BULLISH'' then DirectionBullish else if s = ''BEARISH'' then DirectionBearish
     else if s = ''NEUTRAL'' then DirectionNeutral else Direction_other s)"

definition Severity_String :: "Severity \<Rightarrow> string" where
  "Severity_String v = (case v of SeverityLow \<Rightarrow> ''LOW'' | SeverityMedium \<Rightarrow> ''MEDIUM''
     | SeverityHigh \<Rightarrow> ''HIGH'' | SeverityCritical \<Rightarrow> ''CRITICAL'' | Severity_other s \<Rightarrow> s)"

definition Severity_of_string :: "string \<Rightarrow> Severity" where
  "Severity_of_string s = (if s = ''LOW'' then SeverityLow else if s = ''MEDIUM'' then SeverityMedium
     else if s = ''HIGH'' then SeverityHigh else if s = ''CRITICAL'' then SeverityCritical
     else Severity_other s)"

definition Action_String :: "Action \<Rightarrow> string" where
  "Action_String a = (case a of ActionNormal \<Rightarrow> ''NORMAL'' | ActionReduce \<Rightarrow> ''REDUCE''
     | ActionBlockNewEntries \<Rightarrow> ''BLOCK_NEW_ENTRIES'' | ActionReviewRequired \<Rightarrow> ''REVIEW_REQUIRED''
     | ActionKillSwitch \<Rightarrow> ''KILL_SWITCH'' | Action_other s \<Rightarrow> s)"

definition Action_of_string :: "string \<Rightarrow> Action" where
  "Action_of_string s = (if s = ''NORMAL'' then ActionNormal else if s = ''REDUCE'' then ActionReduce
     else if s = ''BLOCK_NEW_ENTRIES'' then ActionBlockNewEntries
     else if s = ''REVIEW_REQUIRED'' then ActionReviewRequired
     else if s = ''KILL_SWITCH'' then ActionKillSwitch else Action_other s)"

definition Action_Valid :: "Action \<Rightarrow> bool" where
  "Action_Valid a = (case a of Action_other _ \<Rightarrow> False | _ \<Rightarrow> True)"

definition EventStatus_String :: "EventStatus \<Rightarrow> string" where
  "EventStatus_String v = (case v of EventActive \<Rightarrow> ''ACTIVE'' | EventExpired \<Rightarrow> ''EXPIRED''
     | EventResolved \<Rightarrow> ''RESOLVED'' | EventStatus_other s \<Rightarrow> s)"

definition EventStatus_of_string :: "string \<Rightarrow> EventStatus" where
  "EventStatus_of_string s = (if s = ''ACTIVE'' then EventActive else if s = ''EXPIRED'' then EventExpired
     else if s = ''RESOLVED'' then EventResolved else EventStatus_other s)"

record MarketEvent =
  evt_ID :: MarketEventID
  evt_EventType :: string
  evt_Direction :: Direction
  evt_Severity :: Severity
  evt_Confidence :: Confidence
  evt_AffectedAssets :: "Symbol list"
  evt_Action :: Action
  evt_SourceCount :: int
  evt_HasOfficialSource :: bool
  evt_PublishedAt :: time
  evt_DetectedAt :: time
  evt_ExpiresAt :: time
  evt_Status :: EventStatus

definition event_New :: "uuid \<Rightarrow> string \<Rightarrow> Direction \<Rightarrow> Severity \<Rightarrow> Confidence \<Rightarrow> Symbol list \<Rightarrow> Action \<Rightarrow>
    int \<Rightarrow> bool \<Rightarrow> time \<Rightarrow> time \<Rightarrow> time \<Rightarrow> MarketEvent result" where
  "event_New fresh eventType direction severity confidence affectedAssets action sourceCount
     hasOfficialSource publishedAt detectedAt expiresAt =
     (if eventType = '''' then Inl (ValidationError ''event_type'' ''must not be empty'')
      else if \<not> Action_Valid action then Inl (ValidationError ''action'' ''unknown action'')
      else if length affectedAssets = 0 then Inl (ValidationError ''affected_assets'' ''must not be empty'')
      else if sourceCount < 1 then Inl (ValidationError ''source_count'' ''must be at least 1'')
      else if \<not> time_After expiresAt detectedAt
      then Inl (ValidationError ''expires_at'' ''must be after detected_at'')
      else Inr \<lparr>evt_ID = MarketEventID fresh, evt_EventType = eventType, evt_Direction = direction,
        evt_Severity = severity, evt_Confidence = confidence, evt_AffectedAssets = affectedAssets,
        evt_Action = action, evt_SourceCount = sourceCount, evt_HasOfficialSource = hasOfficialSource,
        evt_PublishedAt = publishedAt, evt_DetectedAt = detectedAt, evt_ExpiresAt = expiresAt,
        evt_Status = EventActive\<rparr>)"

definition Event_IsExpired :: "MarketEvent \<Rightarrow> time \<Rightarrow> bool" where
  "Event_IsExpired e now = time_After now (evt_ExpiresAt e)"

definition Expire :: "MarketEvent \<Rightarrow> MarketEvent" where
  "Expire e = (if evt_Status e = EventActive then e\<lparr>evt_Status := EventExpired\<rparr> else e)"

fun AffectsSymbol_loop :: "Symbol list \<Rightarrow> Symbol \<Rightarrow> bool" where
  "AffectsSymbol_loop [] symbol = False"
| "AffectsSymbol_loop (s # ss) symbol = (if Symbol_Equal s symbol then True else AffectsSymbol_loop ss symbol)"

definition AffectsSymbol :: "MarketEvent \<Rightarrow> Symbol \<Rightarrow> bool" where
  "AffectsSymbol e symbol = AffectsSymbol_loop (evt_AffectedAssets e) symbol"

definition IsCritical :: "MarketEvent \<Rightarrow> bool" where
  "IsCritical e \<longleftrightarrow> evt_Severity e = SeverityCritical \<or> evt_Action e = ActionBlockNewEntries \<or>
     evt_Action e = ActionKillSwitch"

record CriticalEventDetected =
  ced_Event :: MarketEvent
  ced_OccurredAt :: time

section \<open>Properties\<close>

lemma AffectsSymbol_iff [simp]: "AffectsSymbol e s \<longleftrightarrow> s \<in> set (evt_AffectedAssets e)"
proof -
  have "AffectsSymbol_loop ss s \<longleftrightarrow> s \<in> set ss" for ss
    by (induction ss) (auto simp: Symbol_Equal_def intro: Symbol.expand)
  then show ?thesis by (simp add: AffectsSymbol_def)
qed

lemma Direction_of_string_String [simp]:
  "(\<forall>s. d \<noteq> Direction_other s) \<Longrightarrow> Direction_of_string (Direction_String d) = d"
  by (cases d) (simp_all add: Direction_of_string_def Direction_String_def)

lemma Severity_of_string_String [simp]:
  "(\<forall>s. d \<noteq> Severity_other s) \<Longrightarrow> Severity_of_string (Severity_String d) = d"
  by (cases d) (simp_all add: Severity_of_string_def Severity_String_def)

lemma Action_of_string_String [simp]: "Action_Valid a \<Longrightarrow> Action_of_string (Action_String a) = a"
  by (cases a) (simp_all add: Action_Valid_def Action_of_string_def Action_String_def)

lemma EventStatus_of_string_String [simp]:
  "(\<forall>s. d \<noteq> EventStatus_other s) \<Longrightarrow> EventStatus_of_string (EventStatus_String d) = d"
  by (cases d) (simp_all add: EventStatus_of_string_def EventStatus_String_def)

lemma NewClosedCandle_Inr:
  assumes "decimal_lib D"
  shows "NewClosedCandle D s tf op hi lo cl v t0 t1 = Inr c \<longleftrightarrow>
    t0 < t1 \<and> lo \<le> op \<and> lo \<le> cl \<and> op \<le> hi \<and> cl \<le> hi \<and> lo \<le> hi \<and>
    c = \<lparr>cdl_Symbol = s, cdl_Timeframe = tf, cdl_Open = op, cdl_High = hi, cdl_Low = lo, cdl_Close = cl,
         cdl_Volume = v, cdl_OpenTime = t0, cdl_CloseTime = t1\<rparr>"
  using assms by (auto simp: NewClosedCandle_def time_After_def)

text \<open>The stop is on the losing side of the entry and the target on the winning side.\<close>

definition signal_coherent :: "TradeSignal \<Rightarrow> bool" where
  "signal_coherent s \<longleftrightarrow>
     (sig_Side s = SideBuy \<and> sig_StopPrice s < sig_EntryPrice s \<and> sig_EntryPrice s < sig_TargetPrice s \<or>
      sig_Side s = SideSell \<and> sig_TargetPrice s < sig_EntryPrice s \<and> sig_EntryPrice s < sig_StopPrice s) \<and>
     sig_StrategyName s \<noteq> '''' \<and> Regime_Valid (sig_MarketRegime s) \<and> sig_CreatedAt s < sig_ValidUntil s"

lemma signal_New_Inr:
  assumes "decimal_lib D"
  shows "signal_New D u sy si en st ta co na re t0 t1 = Inr s \<longleftrightarrow>
    s = \<lparr>sig_ID = SignalID u, sig_Symbol = sy, sig_Side = si, sig_EntryPrice = en, sig_StopPrice = st,
         sig_TargetPrice = ta, sig_Confidence = co, sig_StrategyName = na, sig_MarketRegime = re,
         sig_CreatedAt = t0, sig_ValidUntil = t1\<rparr> \<and> signal_coherent s"
  using assms
  by (cases si) (auto simp: signal_New_def signal_coherent_def time_After_def Side_Valid_def
      rbind_Inr_iff not_less le_less split: if_splits)

lemma signal_New_Inl:
  assumes "signal_New D u sy si en st ta co na re t0 t1 = Inl e"
  shows "\<exists>f m. e = ValidationError f m"
  using assms by (auto simp: signal_New_def rbind_Inl_iff split: if_splits Side.splits)

lemma signal_coherent_stop:
  assumes "decimal_lib D" "signal_coherent s"
  shows "StopDistance D s = Inr (Price \<bar>Price_Decimal (sig_EntryPrice s) - Price_Decimal (sig_StopPrice s)\<bar>)"
  using assms by (auto simp: signal_coherent_def StopDistance_def MustNewPrice_def NewPrice_def
      DistanceTo_def less_Price_def)

text \<open>
  A trade signal is created exactly from coherent data: a known side and regime, a strategy
  name, a validity window that is not empty, and the stop and the target on opposite sides of the
  entry, the stop on the losing one. The signal then carries exactly that data, its stop distance
  never panics and is the positive distance of entry and stop, and everything else is refused with
  a validation error.
\<close>

theorem signal_creation:
  assumes "decimal_lib D"
  shows "(signal_New D u sy si en st ta co na re t0 t1 = Inr s \<longleftrightarrow>
      s = \<lparr>sig_ID = SignalID u, sig_Symbol = sy, sig_Side = si, sig_EntryPrice = en, sig_StopPrice = st,
           sig_TargetPrice = ta, sig_Confidence = co, sig_StrategyName = na, sig_MarketRegime = re,
           sig_CreatedAt = t0, sig_ValidUntil = t1\<rparr> \<and> signal_coherent s) \<and>
    (signal_New D u sy si en st ta co na re t0 t1 = Inl e \<longrightarrow> (\<exists>f m. e = ValidationError f m)) \<and>
    (signal_coherent s \<longrightarrow> (\<exists>p. StopDistance D s = Inr p \<and> 0 < Price_Decimal p \<and>
      Price_Decimal p = \<bar>Price_Decimal (sig_EntryPrice s) - Price_Decimal (sig_StopPrice s)\<bar>))"
proof -
  have "0 < \<bar>Price_Decimal (sig_EntryPrice s) - Price_Decimal (sig_StopPrice s)\<bar>" if "signal_coherent s"
    using that by (auto simp: signal_coherent_def less_Price_def)
  then show ?thesis
    using signal_New_Inr [OF assms] signal_New_Inl [of D u sy si en st ta co na re t0 t1 e]
      signal_coherent_stop [OF assms, of s] by simp
qed

definition sample_signal :: TradeSignal where
  "sample_signal = \<lparr>sig_ID = SignalID 3, sig_Symbol = Symbol ''BTCUSDT'', sig_Side = SideBuy,
     sig_EntryPrice = Price 100, sig_StopPrice = Price 98, sig_TargetPrice = Price 104,
     sig_Confidence = Confidence (4 / 5), sig_StrategyName = ''trend'', sig_MarketRegime = RegimeTrending,
     sig_CreatedAt = 1000, sig_ValidUntil = 9000\<rparr>"

lemma sample_signal_coherent: "signal_coherent sample_signal"
  by (simp add: signal_coherent_def sample_signal_def order_defs Regime_Valid_def)

theorem signal_creation_witness:
  "signal_New ref_decimal 3 (Symbol ''BTCUSDT'') SideBuy (Price 100) (Price 98) (Price 104)
     (Confidence (4 / 5)) ''trend'' RegimeTrending 1000 9000 = Inr sample_signal"
  using signal_creation [OF decimal_lib_ref, where s = sample_signal] sample_signal_coherent
  by (simp add: sample_signal_def)

end
