(* ===== verification/Risk_Policy.thy ===== *)
theory Risk_Policy
  imports Signals_Events
begin

text \<open>
  \<^verbatim>\<open>internal/domain/risk\<close>, first part: reason codes, thresholds, the evaluation context, the twelve
  specifications and the composite policy. A specification is the pair of its two interface
  methods. The properties say that the policy never stops at the first violation, and spell out
  what the default policy lets through.
\<close>

section \<open>Reason codes and context\<close>

datatype ReasonCode = ReasonMaxDailyLossReached | ReasonMaxWeeklyLossReached | ReasonMaxDrawdownReached
  | ReasonMaxOpenPositions | ReasonMaxLeverageExceeded | ReasonInvalidStop | ReasonSignalExpired
  | ReasonMarketDataStale | ReasonCriticalEventActive | ReasonBrokerUnhealthy
  | ReasonInsufficientBalance | ReasonMaxSlippageExceeded | ReasonOperationalModeBlocked
  | ReasonCode_other string

definition ReasonCode_String :: "ReasonCode \<Rightarrow> string" where
  "ReasonCode_String r = (case r of
       ReasonMaxDailyLossReached \<Rightarrow> ''MAX_DAILY_LOSS_REACHED''
     | ReasonMaxWeeklyLossReached \<Rightarrow> ''MAX_WEEKLY_LOSS_REACHED''
     | ReasonMaxDrawdownReached \<Rightarrow> ''MAX_DRAWDOWN_REACHED''
     | ReasonMaxOpenPositions \<Rightarrow> ''MAX_OPEN_POSITIONS_REACHED''
     | ReasonMaxLeverageExceeded \<Rightarrow> ''MAX_LEVERAGE_EXCEEDED''
     | ReasonInvalidStop \<Rightarrow> ''INVALID_STOP''
     | ReasonSignalExpired \<Rightarrow> ''SIGNAL_EXPIRED''
     | ReasonMarketDataStale \<Rightarrow> ''MARKET_DATA_STALE''
     | ReasonCriticalEventActive \<Rightarrow> ''CRITICAL_EVENT_ACTIVE''
     | ReasonBrokerUnhealthy \<Rightarrow> ''BROKER_UNHEALTHY''
     | ReasonInsufficientBalance \<Rightarrow> ''INSUFFICIENT_BALANCE''
     | ReasonMaxSlippageExceeded \<Rightarrow> ''MAX_SLIPPAGE_EXCEEDED''
     | ReasonOperationalModeBlocked \<Rightarrow> ''OPERATIONAL_MODE_BLOCKS_ENTRY''
     | ReasonCode_other s \<Rightarrow> s)"

record Thresholds =
  th_PerTradePct :: Percentage
  th_MaxDailyLossPct :: Percentage
  th_MaxWeeklyLossPct :: Percentage
  th_MaxDrawdown :: Drawdown
  th_MaxOpenPositions :: int
  th_MaxLeverage :: Leverage
  th_MaxSignalAge :: duration
  th_MaxMarketDataAge :: duration
  th_MaxSlippage :: Slippage

text \<open>A nil \<^verbatim>\<open>Signal\<close> pointer is \<open>None\<close>; the account pointer is never nil where a context is built.\<close>

record Context =
  ctx_Now :: time
  ctx_Account :: Account
  ctx_OpenPositions :: "Position list"
  ctx_OpenOrders :: "Order list"
  ctx_Signal :: "TradeSignal option"
  ctx_ActiveEvents :: "MarketEvent list"
  ctx_MarketDataAge :: duration
  ctx_BrokerHealthy :: bool
  ctx_ExpectedFillPrice :: Price
  ctx_RequestedLeverage :: Leverage
  ctx_Thresholds :: Thresholds

record Result =
  res_Satisfied :: bool
  res_ReasonCode :: ReasonCode

definition satisfied :: Result where
  "satisfied = \<lparr>res_Satisfied = True, res_ReasonCode = ReasonCode_other ''''\<rparr>"

definition violated :: "ReasonCode \<Rightarrow> Result" where
  "violated code = \<lparr>res_Satisfied = False, res_ReasonCode = code\<rparr>"

record Specification =
  spec_Name :: string
  spec_Evaluate :: "Context \<Rightarrow> Result"

section \<open>The specifications\<close>

definition MaxDailyLossSpecification :: "decimal_ops \<Rightarrow> Context \<Rightarrow> Result" where
  "MaxDailyLossSpecification D ctx =
     (if \<not> Money_IsNegative D (acc_DailyPnL (ctx_Account ctx)) then satisfied
      else let limit = Percentage_Of D (th_MaxDailyLossPct (ctx_Thresholds ctx)) (acc_Balance (ctx_Account ctx));
               loss = Money_Neg D (acc_DailyPnL (ctx_Account ctx))
           in if Money_GreaterThanOrEqual D loss limit then violated ReasonMaxDailyLossReached
              else satisfied)"

definition MaxWeeklyLossSpecification :: "decimal_ops \<Rightarrow> Context \<Rightarrow> Result" where
  "MaxWeeklyLossSpecification D ctx =
     (if \<not> Money_IsNegative D (acc_WeeklyPnL (ctx_Account ctx)) then satisfied
      else let limit = Percentage_Of D (th_MaxWeeklyLossPct (ctx_Thresholds ctx)) (acc_Balance (ctx_Account ctx));
               loss = Money_Neg D (acc_WeeklyPnL (ctx_Account ctx))
           in if Money_GreaterThanOrEqual D loss limit then violated ReasonMaxWeeklyLossReached
              else satisfied)"

definition MaxDrawdownSpecification :: "decimal_ops \<Rightarrow> Context \<Rightarrow> Result" where
  "MaxDrawdownSpecification D ctx =
     (if Drawdown_GreaterThanOrEqual D (acc_CurrentDrawdown (ctx_Account ctx)) (th_MaxDrawdown (ctx_Thresholds ctx))
      then violated ReasonMaxDrawdownReached else satisfied)"

definition MaxOpenPositionsSpecification :: "Context \<Rightarrow> Result" where
  "MaxOpenPositionsSpecification ctx =
     (if int (length (ctx_OpenPositions ctx)) \<ge> th_MaxOpenPositions (ctx_Thresholds ctx)
      then violated ReasonMaxOpenPositions else satisfied)"

definition MaxLeverageSpecification :: "decimal_ops \<Rightarrow> Context \<Rightarrow> Result" where
  "MaxLeverageSpecification D ctx =
     (if Leverage_GreaterThan D (ctx_RequestedLeverage ctx) (th_MaxLeverage (ctx_Thresholds ctx))
      then violated ReasonMaxLeverageExceeded else satisfied)"

definition ValidStopSpecification :: "decimal_ops \<Rightarrow> Context \<Rightarrow> Result" where
  "ValidStopSpecification D ctx = (case ctx_Signal ctx of
       None \<Rightarrow> violated ReasonInvalidStop
     | Some s \<Rightarrow> if Price_Equal D (sig_StopPrice s) (sig_EntryPrice s) then violated ReasonInvalidStop
         else satisfied)"

definition SignalNotExpiredSpecification :: "Context \<Rightarrow> Result" where
  "SignalNotExpiredSpecification ctx = (case ctx_Signal ctx of
       None \<Rightarrow> violated ReasonSignalExpired
     | Some s \<Rightarrow> if Signal_IsExpired s (ctx_Now ctx) then violated ReasonSignalExpired
         else if time_Sub (ctx_Now ctx) (sig_CreatedAt s) > th_MaxSignalAge (ctx_Thresholds ctx)
         then violated ReasonSignalExpired
         else satisfied)"

definition MarketDataFreshSpecification :: "Context \<Rightarrow> Result" where
  "MarketDataFreshSpecification ctx =
     (if ctx_MarketDataAge ctx > th_MaxMarketDataAge (ctx_Thresholds ctx)
      then violated ReasonMarketDataStale else satisfied)"

fun critical_event_loop :: "MarketEvent list \<Rightarrow> Symbol \<Rightarrow> time \<Rightarrow> Result" where
  "critical_event_loop [] symbol now = satisfied"
| "critical_event_loop (ev # evs) symbol now =
     (if IsCritical ev \<and> AffectsSymbol ev symbol \<and> \<not> Event_IsExpired ev now
      then violated ReasonCriticalEventActive
      else critical_event_loop evs symbol now)"

definition NoCriticalEventSpecification :: "Context \<Rightarrow> Result" where
  "NoCriticalEventSpecification ctx = (case ctx_Signal ctx of
       None \<Rightarrow> satisfied
     | Some s \<Rightarrow> critical_event_loop (ctx_ActiveEvents ctx) (sig_Symbol s) (ctx_Now ctx))"

definition BrokerHealthySpecification :: "Context \<Rightarrow> Result" where
  "BrokerHealthySpecification ctx =
     (if \<not> ctx_BrokerHealthy ctx then violated ReasonBrokerUnhealthy else satisfied)"

definition SufficientBalanceSpecification :: "decimal_ops \<Rightarrow> Context \<Rightarrow> Result" where
  "SufficientBalanceSpecification D ctx =
     (if \<not> Money_IsPositive D (acc_AvailableBalance (ctx_Account ctx))
      then violated ReasonInsufficientBalance else satisfied)"

definition MaximumSlippageSpecification :: "decimal_ops \<Rightarrow> Context \<Rightarrow> Result" where
  "MaximumSlippageSpecification D ctx = (case ctx_Signal ctx of
       None \<Rightarrow> violated ReasonMaxSlippageExceeded
     | Some s \<Rightarrow> if Slippage_GreaterThan D (SlippageBetween D (sig_EntryPrice s) (ctx_ExpectedFillPrice ctx))
           (th_MaxSlippage (ctx_Thresholds ctx))
         then violated ReasonMaxSlippageExceeded else satisfied)"

section \<open>The composite policy\<close>

definition DefaultSpecifications :: "decimal_ops \<Rightarrow> Specification list" where
  "DefaultSpecifications D =
     [\<lparr>spec_Name = ''BrokerHealthySpecification'', spec_Evaluate = BrokerHealthySpecification\<rparr>,
      \<lparr>spec_Name = ''MarketDataFreshSpecification'', spec_Evaluate = MarketDataFreshSpecification\<rparr>,
      \<lparr>spec_Name = ''SignalNotExpiredSpecification'', spec_Evaluate = SignalNotExpiredSpecification\<rparr>,
      \<lparr>spec_Name = ''ValidStopSpecification'', spec_Evaluate = ValidStopSpecification D\<rparr>,
      \<lparr>spec_Name = ''NoCriticalEventSpecification'', spec_Evaluate = NoCriticalEventSpecification\<rparr>,
      \<lparr>spec_Name = ''MaxDrawdownSpecification'', spec_Evaluate = MaxDrawdownSpecification D\<rparr>,
      \<lparr>spec_Name = ''MaxDailyLossSpecification'', spec_Evaluate = MaxDailyLossSpecification D\<rparr>,
      \<lparr>spec_Name = ''MaxWeeklyLossSpecification'', spec_Evaluate = MaxWeeklyLossSpecification D\<rparr>,
      \<lparr>spec_Name = ''MaxOpenPositionsSpecification'', spec_Evaluate = MaxOpenPositionsSpecification\<rparr>,
      \<lparr>spec_Name = ''MaxLeverageSpecification'', spec_Evaluate = MaxLeverageSpecification D\<rparr>,
      \<lparr>spec_Name = ''SufficientBalanceSpecification'', spec_Evaluate = SufficientBalanceSpecification D\<rparr>,
      \<lparr>spec_Name = ''MaximumSlippageSpecification'', spec_Evaluate = MaximumSlippageSpecification D\<rparr>]"

record CompositeRiskPolicy =
  pol_specifications :: "Specification list"

definition NewCompositeRiskPolicy :: "Specification list \<Rightarrow> CompositeRiskPolicy" where
  "NewCompositeRiskPolicy specifications = \<lparr>pol_specifications = specifications\<rparr>"

definition NewDefaultRiskPolicy :: "decimal_ops \<Rightarrow> CompositeRiskPolicy" where
  "NewDefaultRiskPolicy D = NewCompositeRiskPolicy (DefaultSpecifications D)"

record Evaluation =
  ev_Allowed :: bool
  ev_ReasonCodes :: "ReasonCode list"
  ev_AppliedRules :: "string list"

text \<open>The loop of \<^verbatim>\<open>Evaluate\<close>, with the evaluation built so far.\<close>

fun evaluate_loop :: "Specification list \<Rightarrow> Context \<Rightarrow> Evaluation \<Rightarrow> Evaluation" where
  "evaluate_loop [] ctx eval = eval"
| "evaluate_loop (spec # specs) ctx eval =
     (let eval = eval\<lparr>ev_AppliedRules := ev_AppliedRules eval @ [spec_Name spec]\<rparr>;
          result = spec_Evaluate spec ctx;
          eval = (if \<not> res_Satisfied result
            then eval\<lparr>ev_Allowed := False, ev_ReasonCodes := ev_ReasonCodes eval @ [res_ReasonCode result]\<rparr>
            else eval)
      in evaluate_loop specs ctx eval)"

definition Policy_Evaluate :: "CompositeRiskPolicy \<Rightarrow> Context \<Rightarrow> Evaluation" where
  "Policy_Evaluate p ctx = evaluate_loop (pol_specifications p) ctx
     \<lparr>ev_Allowed = True, ev_ReasonCodes = [], ev_AppliedRules = []\<rparr>"

section \<open>Properties\<close>

lemma res_simps [simp]:
  "res_Satisfied satisfied" "\<not> res_Satisfied (violated c)" "res_ReasonCode (violated c) = c"
  by (simp_all add: satisfied_def violated_def)

lemma evaluate_loop_spec:
  "evaluate_loop specs ctx ev =
     ev\<lparr>ev_Allowed := ev_Allowed ev \<and> (\<forall>s\<in>set specs. res_Satisfied (spec_Evaluate s ctx)),
        ev_ReasonCodes := ev_ReasonCodes ev @
          map (\<lambda>s. res_ReasonCode (spec_Evaluate s ctx)) (filter (\<lambda>s. \<not> res_Satisfied (spec_Evaluate s ctx)) specs),
        ev_AppliedRules := ev_AppliedRules ev @ map spec_Name specs\<rparr>"
  by (induction specs arbitrary: ev) (simp_all add: Let_def)

text \<open>
  The policy shows the full picture: for any set of specifications it runs every one of
  them, lists all their names as applied rules, lists the reason codes of exactly the violated
  ones in evaluation order, and allows the signal exactly when none is violated.
\<close>

theorem policy_full_picture:
  "ev_AppliedRules (Policy_Evaluate p ctx) = map spec_Name (pol_specifications p) \<and>
   ev_ReasonCodes (Policy_Evaluate p ctx) =
     map (\<lambda>s. res_ReasonCode (spec_Evaluate s ctx))
       (filter (\<lambda>s. \<not> res_Satisfied (spec_Evaluate s ctx)) (pol_specifications p)) \<and>
   (ev_Allowed (Policy_Evaluate p ctx) \<longleftrightarrow> list_all (\<lambda>s. res_Satisfied (spec_Evaluate s ctx)) (pol_specifications p)) \<and>
   (ev_Allowed (Policy_Evaluate p ctx) \<longleftrightarrow> ev_ReasonCodes (Policy_Evaluate p ctx) = [])"
  by (auto simp: Policy_Evaluate_def evaluate_loop_spec list_all_iff filter_empty_conv)

lemma critical_event_loop_iff:
  "res_Satisfied (critical_event_loop evs symbol now) \<longleftrightarrow>
     \<not> (\<exists>ev\<in>set evs. IsCritical ev \<and> AffectsSymbol ev symbol \<and> \<not> Event_IsExpired ev now)"
  by (induction evs) auto

text \<open>What each specification asks, in terms of the numbers.\<close>

lemma spec_iff:
  assumes "decimal_lib D"
  shows "res_Satisfied (MaxDailyLossSpecification D ctx) \<longleftrightarrow>
      0 \<le> Money_Decimal (acc_DailyPnL (ctx_Account ctx)) \<or>
      - Money_Decimal (acc_DailyPnL (ctx_Account ctx)) <
        Money_Decimal (acc_Balance (ctx_Account ctx)) * Percentage_Decimal (th_MaxDailyLossPct (ctx_Thresholds ctx))"
    "res_Satisfied (MaxWeeklyLossSpecification D ctx) \<longleftrightarrow>
      0 \<le> Money_Decimal (acc_WeeklyPnL (ctx_Account ctx)) \<or>
      - Money_Decimal (acc_WeeklyPnL (ctx_Account ctx)) <
        Money_Decimal (acc_Balance (ctx_Account ctx)) * Percentage_Decimal (th_MaxWeeklyLossPct (ctx_Thresholds ctx))"
    "res_Satisfied (MaxDrawdownSpecification D ctx) \<longleftrightarrow>
      Drawdown_Decimal (acc_CurrentDrawdown (ctx_Account ctx)) < Drawdown_Decimal (th_MaxDrawdown (ctx_Thresholds ctx))"
    "res_Satisfied (MaxOpenPositionsSpecification ctx) \<longleftrightarrow>
      int (length (ctx_OpenPositions ctx)) < th_MaxOpenPositions (ctx_Thresholds ctx)"
    "res_Satisfied (MaxLeverageSpecification D ctx) \<longleftrightarrow>
      Leverage_Decimal (ctx_RequestedLeverage ctx) \<le> Leverage_Decimal (th_MaxLeverage (ctx_Thresholds ctx))"
    "res_Satisfied (MarketDataFreshSpecification ctx) \<longleftrightarrow>
      ctx_MarketDataAge ctx \<le> th_MaxMarketDataAge (ctx_Thresholds ctx)"
    "res_Satisfied (BrokerHealthySpecification ctx) \<longleftrightarrow> ctx_BrokerHealthy ctx"
    "res_Satisfied (SufficientBalanceSpecification D ctx) \<longleftrightarrow>
      0 < Money_Decimal (acc_AvailableBalance (ctx_Account ctx))"
  using assms
  by (auto simp: MaxDailyLossSpecification_def MaxWeeklyLossSpecification_def MaxDrawdownSpecification_def
      MaxOpenPositionsSpecification_def MaxLeverageSpecification_def MarketDataFreshSpecification_def
      BrokerHealthySpecification_def SufficientBalanceSpecification_def vo_defs Let_def)

lemma signal_spec_iff:
  assumes "decimal_lib D"
  shows "res_Satisfied (ValidStopSpecification D ctx) \<longleftrightarrow>
      (\<exists>s. ctx_Signal ctx = Some s \<and> sig_StopPrice s \<noteq> sig_EntryPrice s)"
    "res_Satisfied (SignalNotExpiredSpecification ctx) \<longleftrightarrow>
      (\<exists>s. ctx_Signal ctx = Some s \<and> ctx_Now ctx \<le> sig_ValidUntil s \<and>
        time_Sub (ctx_Now ctx) (sig_CreatedAt s) \<le> th_MaxSignalAge (ctx_Thresholds ctx))"
    "res_Satisfied (NoCriticalEventSpecification ctx) \<longleftrightarrow>
      (\<forall>s. ctx_Signal ctx = Some s \<longrightarrow> \<not> (\<exists>ev\<in>set (ctx_ActiveEvents ctx).
        IsCritical ev \<and> AffectsSymbol ev (sig_Symbol s) \<and> \<not> Event_IsExpired ev (ctx_Now ctx)))"
    "res_Satisfied (MaximumSlippageSpecification D ctx) \<longleftrightarrow>
      (\<exists>s. ctx_Signal ctx = Some s \<and>
        Slippage_Decimal (SlippageBetween D (sig_EntryPrice s) (ctx_ExpectedFillPrice ctx)) \<le>
          Slippage_Decimal (th_MaxSlippage (ctx_Thresholds ctx)))"
  using assms
  by (auto simp: ValidStopSpecification_def SignalNotExpiredSpecification_def NoCriticalEventSpecification_def
      MaximumSlippageSpecification_def critical_event_loop_iff Signal_IsExpired_def time_After_def
      vo_defs split: option.splits if_splits intro: Price.expand)

text \<open>
  The abstract rule book: what an entry must satisfy, written over the numbers and with no
  reference to the specifications.
\<close>

definition entry_permitted :: "decimal_ops \<Rightarrow> Context \<Rightarrow> bool" where
  "entry_permitted D ctx \<longleftrightarrow> (case ctx_Signal ctx of None \<Rightarrow> False | Some s \<Rightarrow>
     (let acc = ctx_Account ctx; th = ctx_Thresholds ctx; now = ctx_Now ctx in
      ctx_BrokerHealthy ctx \<and> ctx_MarketDataAge ctx \<le> th_MaxMarketDataAge th \<and>
      now \<le> sig_ValidUntil s \<and> time_Sub now (sig_CreatedAt s) \<le> th_MaxSignalAge th \<and>
      sig_StopPrice s \<noteq> sig_EntryPrice s \<and>
      \<not> list_ex (\<lambda>ev. IsCritical ev \<and> sig_Symbol s \<in> set (evt_AffectedAssets ev) \<and> now \<le> evt_ExpiresAt ev)
          (ctx_ActiveEvents ctx) \<and>
      Drawdown_Decimal (acc_CurrentDrawdown acc) < Drawdown_Decimal (th_MaxDrawdown th) \<and>
      (Money_Decimal (acc_DailyPnL acc) < 0 \<longrightarrow> - Money_Decimal (acc_DailyPnL acc) <
         Money_Decimal (acc_Balance acc) * Percentage_Decimal (th_MaxDailyLossPct th)) \<and>
      (Money_Decimal (acc_WeeklyPnL acc) < 0 \<longrightarrow> - Money_Decimal (acc_WeeklyPnL acc) <
         Money_Decimal (acc_Balance acc) * Percentage_Decimal (th_MaxWeeklyLossPct th)) \<and>
      int (length (ctx_OpenPositions ctx)) < th_MaxOpenPositions th \<and>
      Leverage_Decimal (ctx_RequestedLeverage ctx) \<le> Leverage_Decimal (th_MaxLeverage th) \<and>
      0 < Money_Decimal (acc_AvailableBalance acc) \<and>
      Slippage_Decimal (SlippageBetween D (sig_EntryPrice s) (ctx_ExpectedFillPrice ctx)) \<le>
        Slippage_Decimal (th_MaxSlippage th)))"

lemma default_policy_allowed:
  assumes "decimal_lib D"
  shows "ev_Allowed (Policy_Evaluate (NewDefaultRiskPolicy D) ctx) \<longleftrightarrow> entry_permitted D ctx"
proof (cases "ctx_Signal ctx")
  case None
  then show ?thesis
    by (auto simp: Policy_Evaluate_def evaluate_loop_spec NewDefaultRiskPolicy_def NewCompositeRiskPolicy_def
        DefaultSpecifications_def entry_permitted_def signal_spec_iff [OF assms])
next
  case (Some s)
  have ex: "list_ex (\<lambda>ev. IsCritical ev \<and> sig_Symbol s \<in> set (evt_AffectedAssets ev) \<and> ctx_Now ctx \<le> evt_ExpiresAt ev) evs \<longleftrightarrow>
    (\<exists>ev\<in>set evs. IsCritical ev \<and> AffectsSymbol ev (sig_Symbol s) \<and> \<not> Event_IsExpired ev (ctx_Now ctx))" for evs
    by (auto simp: list_ex_iff Event_IsExpired_def time_After_def not_less)
  show ?thesis
    unfolding entry_permitted_def Let_def Some option.case ex
    by (simp add: Some Policy_Evaluate_def evaluate_loop_spec NewDefaultRiskPolicy_def NewCompositeRiskPolicy_def
        DefaultSpecifications_def spec_iff [OF assms] signal_spec_iff [OF assms])
      (auto simp: not_less)
qed

text \<open>
  C15: The default policy implements the rule book: it lets a signal through exactly when the
  broker is healthy, data and signal are fresh, the stop is not degenerate, no critical event
  that is still running affects the symbol, drawdown, daily and weekly loss are below their
  limits, fewer positions are open than allowed, the leverage is within its limit, funds are
  available and the expected fill is within the slippage limit. It always reports all twelve
  rules as applied.
\<close>

theorem default_policy_rule_book:
  assumes "decimal_lib D"
  shows "(ev_Allowed (Policy_Evaluate (NewDefaultRiskPolicy D) ctx) \<longleftrightarrow> entry_permitted D ctx) \<and>
    length (ev_AppliedRules (Policy_Evaluate (NewDefaultRiskPolicy D) ctx)) = 12 \<and>
    distinct (ev_AppliedRules (Policy_Evaluate (NewDefaultRiskPolicy D) ctx))"
proof -
  have "ev_AppliedRules (Policy_Evaluate (NewDefaultRiskPolicy D) ctx) = map spec_Name (DefaultSpecifications D)"
    by (simp add: Policy_Evaluate_def evaluate_loop_spec NewDefaultRiskPolicy_def NewCompositeRiskPolicy_def)
  moreover have "length (map spec_Name (DefaultSpecifications D)) = 12"
    "distinct (map spec_Name (DefaultSpecifications D))"
    by (simp_all add: DefaultSpecifications_def)
  ultimately show ?thesis using default_policy_allowed [OF assms] by simp
qed

definition sample_thresholds :: Thresholds where
  "sample_thresholds = \<lparr>th_PerTradePct = Percentage (1 / 100), th_MaxDailyLossPct = Percentage (3 / 100),
     th_MaxWeeklyLossPct = Percentage (6 / 100), th_MaxDrawdown = Drawdown (15 / 100), th_MaxOpenPositions = 3,
     th_MaxLeverage = Leverage 2, th_MaxSignalAge = 60 * Second, th_MaxMarketDataAge = 90 * Second,
     th_MaxSlippage = Slippage (5 / 1000)\<rparr>"

definition sample_context :: Context where
  "sample_context = \<lparr>ctx_Now = 2000, ctx_Account = sample_account, ctx_OpenPositions = [], ctx_OpenOrders = [],
     ctx_Signal = Some sample_signal, ctx_ActiveEvents = [], ctx_MarketDataAge = 1000, ctx_BrokerHealthy = True,
     ctx_ExpectedFillPrice = Price 100, ctx_RequestedLeverage = Leverage 2, ctx_Thresholds = sample_thresholds\<rparr>"

lemmas sample_defs = sample_context_def sample_thresholds_def sample_signal_def sample_account_def

lemma sample_entry_permitted: "entry_permitted ref_decimal sample_context"
  by (simp add: entry_permitted_def sample_defs SlippageBetween_def DistanceTo_def time_Sub_def
      minDuration_def maxDuration_def Second_def)

theorem default_policy_rule_book_witness:
  "ev_Allowed (Policy_Evaluate (NewDefaultRiskPolicy ref_decimal) sample_context)"
  using default_policy_rule_book [OF decimal_lib_ref, of sample_context] sample_entry_permitted by simp

end
