(* ===== verification/Position_Sizing.thy ===== *)
theory Position_Sizing
  imports Risk_Policy
begin

text \<open>
  \<^verbatim>\<open>internal/domain/risk\<close>, second part: position sizing and the risk decision. The interface
  \<^verbatim>\<open>PositionSizer\<close> is the locale \<open>position_sizer\<close>; both strategies of the source are
  interpretations of it, and what a decision built from a sizer's result may approve is proved
  once, in the locale.
\<close>

section \<open>Sizing\<close>

record SizingInput =
  si_AvailableBalance :: Money
  si_RiskPerTrade :: Percentage
  si_EntryPrice :: Price
  si_StopPrice :: Price
  si_MinQuantity :: Quantity
  si_StepSize :: decimal
  si_MinNotional :: Money
  si_MaxLeverage :: Leverage
  si_ExistingExposure :: Money
  si_ATR :: "decimal option"

record SizingResult =
  sr_Quantity :: Quantity
  sr_Rejected :: bool
  sr_Reason :: string

definition rejected :: "string \<Rightarrow> SizingResult" where
  "rejected reason = \<lparr>sr_Quantity = Quantity 0, sr_Rejected = True, sr_Reason = reason\<rparr>"

definition roundDownToStep :: "decimal_ops \<Rightarrow> decimal \<Rightarrow> decimal \<Rightarrow> decimal" where
  "roundDownToStep D raw step =
     (if dIsZero D step then raw
      else let steps = dFloor D (dDiv D raw step) in dMul D steps step)"

definition capByLeverage :: "decimal_ops \<Rightarrow> decimal \<Rightarrow> SizingInput \<Rightarrow> decimal" where
  "capByLeverage D rawQuantity i =
     (let maxNotional = dMul D (Money_Decimal (si_AvailableBalance i)) (Leverage_Decimal (si_MaxLeverage i)) in
      if dIsZero D (Price_Decimal (si_EntryPrice i)) then rawQuantity
      else let maxQuantityByLeverage = dDiv D maxNotional (Price_Decimal (si_EntryPrice i)) in
        if dGreaterThan D rawQuantity maxQuantityByLeverage then maxQuantityByLeverage else rawQuantity)"

definition finalizeQuantity :: "decimal_ops \<Rightarrow> decimal \<Rightarrow> SizingInput \<Rightarrow> SizingResult" where
  "finalizeQuantity D rawQuantity i =
     (case NewQuantity D (roundDownToStep D rawQuantity (si_StepSize i)) of
        Inl _ \<Rightarrow> rejected ''quantity rounds down to zero''
      | Inr quantity \<Rightarrow>
          if Quantity_IsZero D quantity then rejected ''quantity rounds down to zero''
          else if Quantity_LessThan D quantity (si_MinQuantity i)
          then rejected ''below broker minimum quantity''
          else let notional = NewMoney (dMul D (Quantity_Decimal quantity) (Price_Decimal (si_EntryPrice i))) in
            if Money_LessThan D notional (si_MinNotional i) then rejected ''below broker minimum notional''
            else \<lparr>sr_Quantity = quantity, sr_Rejected = False, sr_Reason = ''''\<rparr>)"

definition FixedRisk_Size :: "decimal_ops \<Rightarrow> SizingInput \<Rightarrow> SizingResult" where
  "FixedRisk_Size D i =
     (if \<not> Money_IsPositive D (si_AvailableBalance i) then rejected ''insufficient balance''
      else let stopDistance = DistanceTo D (si_EntryPrice i) (si_StopPrice i) in
      if dIsZero D stopDistance then rejected ''zero stop distance''
      else let riskAmount = Percentage_Of D (si_RiskPerTrade i) (si_AvailableBalance i);
               rawQuantity = dDiv D (Money_Decimal riskAmount) stopDistance;
               rawQuantity = capByLeverage D rawQuantity i
           in finalizeQuantity D rawQuantity i)"

text \<open>The multiplier is the field of \<^verbatim>\<open>ATRPositionSizing\<close>; its default is 1.5.\<close>

definition ATR_Size :: "decimal_ops \<Rightarrow> decimal \<Rightarrow> SizingInput \<Rightarrow> SizingResult" where
  "ATR_Size D Multiplier i =
     (if \<not> Money_IsPositive D (si_AvailableBalance i) then rejected ''insufficient balance''
      else let stopDistance = DistanceTo D (si_EntryPrice i) (si_StopPrice i);
               stopDistance = (case si_ATR i of
                   Some atr \<Rightarrow> if \<not> dIsZero D atr
                     then let multiplier = (if dIsZero D Multiplier then 3 / 2 else Multiplier) in dMul D atr multiplier
                     else stopDistance
                 | None \<Rightarrow> stopDistance) in
      if dIsZero D stopDistance then rejected ''zero stop distance''
      else let riskAmount = Percentage_Of D (si_RiskPerTrade i) (si_AvailableBalance i);
               rawQuantity = dDiv D (Money_Decimal riskAmount) stopDistance;
               rawQuantity = capByLeverage D rawQuantity i
           in finalizeQuantity D rawQuantity i)"

section \<open>Decisions\<close>

record Decision =
  dec_ID :: RiskDecisionID
  dec_SignalID :: SignalID
  dec_Allowed :: bool
  dec_OriginalPositionSize :: Quantity
  dec_ApprovedPositionSize :: Quantity
  dec_ReasonCodes :: "ReasonCode list"
  dec_AppliedRules :: "string list"
  dec_EventRestrictions :: "string slice"
  dec_CreatedAt :: time

definition NewDecision :: "uuid \<Rightarrow> SignalID \<Rightarrow> Evaluation \<Rightarrow> Quantity \<Rightarrow> SizingResult \<Rightarrow> string slice \<Rightarrow> time \<Rightarrow> Decision" where
  "NewDecision fresh signalID evaluation originalSize sizing eventRestrictions now =
     (let allowed = (ev_Allowed evaluation \<and> \<not> sr_Rejected sizing);
          approvedSize = ZeroQuantity;
          reasonCodes = ev_ReasonCodes evaluation;
          reasonCodes = (if sr_Rejected sizing then reasonCodes @ [ReasonInsufficientBalance] else reasonCodes);
          approvedSize = (if allowed then sr_Quantity sizing else approvedSize)
      in \<lparr>dec_ID = RiskDecisionID fresh, dec_SignalID = signalID, dec_Allowed = allowed,
          dec_OriginalPositionSize = originalSize, dec_ApprovedPositionSize = approvedSize,
          dec_ReasonCodes = reasonCodes, dec_AppliedRules = ev_AppliedRules evaluation,
          dec_EventRestrictions = eventRestrictions, dec_CreatedAt = now\<rparr>)"

record RiskDecisionCreated =
  rdc_Decision :: Decision
  rdc_OccurredAt :: time

section \<open>The contract of a sizer\<close>

text \<open>
  Half a unit of the sixteenth digit: what one decimal division may be off. \<open>sizing_slack\<close> is
  what the two divisions of a sizer may add to a quantity.
\<close>

definition half_ulp :: decimal where
  "half_ulp = 1 / (2 * 10 ^ 16)"

definition sizing_slack :: "SizingInput \<Rightarrow> decimal" where
  "sizing_slack i = half_ulp * (1 + si_StepSize i)"

text \<open>Inputs as the rest of the program builds them: positive price, no negative step.\<close>

definition sizing_input_ok :: "SizingInput \<Rightarrow> bool" where
  "sizing_input_ok i \<longleftrightarrow> 0 < Price_Decimal (si_EntryPrice i) \<and> 0 \<le> si_StepSize i"

definition risk_quantity :: "SizingInput \<Rightarrow> decimal \<Rightarrow> decimal" where
  "risk_quantity i gap = Money_Decimal (si_AvailableBalance i) * Percentage_Decimal (si_RiskPerTrade i) / gap"

definition leverage_quantity :: "SizingInput \<Rightarrow> decimal" where
  "leverage_quantity i =
     Money_Decimal (si_AvailableBalance i) * Leverage_Decimal (si_MaxLeverage i) / Price_Decimal (si_EntryPrice i)"

text \<open>
  What an approved quantity promises, for a given distance to the stop: it is positive, a whole
  number of steps, not below the broker's minima, and within both the risk and the leverage
  limit; and it is the largest such number of steps.
\<close>

definition sized_within :: "SizingInput \<Rightarrow> decimal \<Rightarrow> decimal \<Rightarrow> bool" where
  "sized_within i gap q \<longleftrightarrow> 0 < q \<and> Quantity_Decimal (si_MinQuantity i) \<le> q \<and>
     Money_Decimal (si_MinNotional i) \<le> q * Price_Decimal (si_EntryPrice i) \<and>
     q \<le> risk_quantity i gap + sizing_slack i \<and> q \<le> leverage_quantity i + sizing_slack i \<and>
     (0 < si_StepSize i \<longrightarrow> q = of_int \<lfloor>q / si_StepSize i\<rfloor> * si_StepSize i) \<and>
     min (risk_quantity i gap) (leverage_quantity i) - sizing_slack i \<le> q + si_StepSize i"

locale position_sizer =
  fixes lib :: bool
    and Size :: "SizingInput \<Rightarrow> SizingResult"
    and gap :: "SizingInput \<Rightarrow> decimal"
  assumes approved: "lib \<Longrightarrow> sizing_input_ok i \<Longrightarrow> \<not> sr_Rejected (Size i) \<Longrightarrow>
      0 < Money_Decimal (si_AvailableBalance i) \<and> gap i \<noteq> 0 \<and> sized_within i (gap i) (Quantity_Decimal (sr_Quantity (Size i)))"
    and rejected_zero: "lib \<Longrightarrow> sr_Rejected (Size i) \<Longrightarrow> sr_Quantity (Size i) = ZeroQuantity \<and> sr_Reason (Size i) \<noteq> ''''"
begin

text \<open>The loss if the stop is hit is within the risk budget, and the exposure within the leverage.\<close>

lemma approved_loss:
  assumes "lib" "sizing_input_ok i" "\<not> sr_Rejected (Size i)" "0 < gap i"
  shows "Quantity_Decimal (sr_Quantity (Size i)) * gap i \<le>
    Money_Decimal (si_AvailableBalance i) * Percentage_Decimal (si_RiskPerTrade i) + sizing_slack i * gap i"
proof -
  have "Quantity_Decimal (sr_Quantity (Size i)) \<le> risk_quantity i (gap i) + sizing_slack i"
    using approved [OF assms(1-3)] by (simp add: sized_within_def)
  then have "Quantity_Decimal (sr_Quantity (Size i)) * gap i \<le> (risk_quantity i (gap i) + sizing_slack i) * gap i"
    using assms(4) by (intro mult_right_mono) auto
  with assms(4) show ?thesis by (simp add: risk_quantity_def distrib_right)
qed

lemma approved_exposure:
  assumes "lib" "sizing_input_ok i" "\<not> sr_Rejected (Size i)"
  shows "Quantity_Decimal (sr_Quantity (Size i)) * Price_Decimal (si_EntryPrice i) \<le>
    Money_Decimal (si_AvailableBalance i) * Leverage_Decimal (si_MaxLeverage i)
      + sizing_slack i * Price_Decimal (si_EntryPrice i)"
proof -
  have p: "0 < Price_Decimal (si_EntryPrice i)" using assms(2) by (simp add: sizing_input_ok_def)
  have "Quantity_Decimal (sr_Quantity (Size i)) \<le> leverage_quantity i + sizing_slack i"
    using approved [OF assms] by (simp add: sized_within_def)
  then have "Quantity_Decimal (sr_Quantity (Size i)) * Price_Decimal (si_EntryPrice i)
      \<le> (leverage_quantity i + sizing_slack i) * Price_Decimal (si_EntryPrice i)"
    using p by (intro mult_right_mono) auto
  with p show ?thesis by (simp add: leverage_quantity_def distrib_right)
qed

text \<open>A decision approves a positive size exactly when policy and sizer both agree.\<close>

lemma decision_sound:
  fixes u sid ev orig rs now
  assumes "lib" "sizing_input_ok i"
  defines "d \<equiv> NewDecision u sid ev orig (Size i) rs now"
  shows "(dec_Allowed d \<longleftrightarrow> ev_Allowed ev \<and> \<not> sr_Rejected (Size i)) \<and>
    (dec_Allowed d \<longrightarrow> sized_within i (gap i) (Quantity_Decimal (dec_ApprovedPositionSize d))) \<and>
    (\<not> dec_Allowed d \<longrightarrow> dec_ApprovedPositionSize d = ZeroQuantity)"
  using approved [OF assms(1,2)] by (auto simp: d_def NewDecision_def Let_def)

end

section \<open>Both strategies meet the contract\<close>

lemma half_ulp_pos: "0 < half_ulp"
  by (simp add: half_ulp_def)

lemma round_16: "round_to DivisionPrecision q \<le> q + half_ulp" "q - half_ulp \<le> round_to DivisionPrecision q"
  using round_to_error [of 16 q] unfolding DivisionPrecision_def half_ulp_def abs_le_iff by linarith+

lemma roundDownToStep_bounds:
  assumes "decimal_lib D" "0 \<le> step"
  shows "roundDownToStep D raw step \<le> raw + half_ulp * step" (is ?upper)
    and "raw - half_ulp * step \<le> roundDownToStep D raw step + step" (is ?lower)
    and "0 < step \<Longrightarrow> roundDownToStep D raw step = of_int \<lfloor>roundDownToStep D raw step / step\<rfloor> * step" (is "_ \<Longrightarrow> ?multiple")
proof -
  let ?r = "round_to DivisionPrecision (raw / step)"
  have eq: "roundDownToStep D raw step = of_int \<lfloor>?r\<rfloor> * step" if "0 < step"
    using assms that by (simp add: roundDownToStep_def)
  show ?upper
  proof (cases "step = 0")
    case False
    with assms have pos: "0 < step" by simp
    have "of_int \<lfloor>?r\<rfloor> \<le> raw / step + half_ulp"
      using round_16(1) [of "raw / step"] of_int_floor_le [of ?r] by linarith
    then have "of_int \<lfloor>?r\<rfloor> * step \<le> (raw / step + half_ulp) * step" using pos by (intro mult_right_mono) auto
    with pos show ?thesis by (simp add: eq distrib_right)
  qed (use assms in \<open>simp add: roundDownToStep_def\<close>)
  show ?lower
  proof (cases "step = 0")
    case False
    with assms have pos: "0 < step" by simp
    have "raw / step - half_ulp \<le> of_int \<lfloor>?r\<rfloor> + 1"
      using round_16(2) [of "raw / step"] floor_correct [of ?r] by linarith
    then have "(raw / step - half_ulp) * step \<le> (of_int \<lfloor>?r\<rfloor> + 1) * step" using pos by (intro mult_right_mono) auto
    with pos show ?thesis by (simp add: eq distrib_right left_diff_distrib)
  qed (use assms in \<open>simp add: roundDownToStep_def\<close>)
  show "0 < step \<Longrightarrow> ?multiple" by (simp add: eq)
qed

lemma capByLeverage_eq:
  assumes "decimal_lib D" "0 < Price_Decimal (si_EntryPrice i)"
  shows "capByLeverage D raw i = min raw (round_to DivisionPrecision (leverage_quantity i))"
  using assms by (auto simp: capByLeverage_def leverage_quantity_def Let_def min_def)

text \<open>The common tail of both strategies.\<close>

lemma finalizeQuantity_approved:
  assumes "decimal_lib D" "sizing_input_ok i" and "\<not> sr_Rejected (finalizeQuantity D raw i)"
  shows "Quantity_Decimal (sr_Quantity (finalizeQuantity D raw i)) = roundDownToStep D raw (si_StepSize i)"
    and "0 < roundDownToStep D raw (si_StepSize i)"
    and "Quantity_Decimal (si_MinQuantity i) \<le> roundDownToStep D raw (si_StepSize i)"
    and "Money_Decimal (si_MinNotional i) \<le> roundDownToStep D raw (si_StepSize i) * Price_Decimal (si_EntryPrice i)"
  using assms
  by (auto simp: finalizeQuantity_def NewQuantity_def Quantity_IsZero_def Quantity_LessThan_def Money_LessThan_def
      NewMoney_def rejected_def Let_def order_defs split: if_splits)

lemma finalizeQuantity_rejected:
  "sr_Rejected (finalizeQuantity D raw i) \<Longrightarrow>
     sr_Quantity (finalizeQuantity D raw i) = ZeroQuantity \<and> sr_Reason (finalizeQuantity D raw i) \<noteq> ''''"
  by (auto simp: finalizeQuantity_def rejected_def ZeroQuantity_def Let_def split: if_splits sum.splits)

lemma sizing_tail:
  assumes "decimal_lib D" "sizing_input_ok i" "gap \<noteq> 0"
  defines "raw \<equiv> capByLeverage D (dDiv D (Money_Decimal (Percentage_Of D (si_RiskPerTrade i) (si_AvailableBalance i))) gap) i"
  assumes "\<not> sr_Rejected (finalizeQuantity D raw i)"
  shows "sized_within i gap (Quantity_Decimal (sr_Quantity (finalizeQuantity D raw i)))"
proof -
  let ?q = "roundDownToStep D raw (si_StepSize i)" and ?h = "half_ulp * si_StepSize i"
  have ok: "0 < Price_Decimal (si_EntryPrice i)" "0 \<le> si_StepSize i"
    using assms(2) by (simp_all add: sizing_input_ok_def)
  have raw: "raw = min (round_to DivisionPrecision (risk_quantity i gap)) (round_to DivisionPrecision (leverage_quantity i))"
    using assms(1,3) ok by (simp add: raw_def capByLeverage_eq Percentage_Of_def risk_quantity_def)
  have slack: "sizing_slack i = half_ulp + ?h" by (simp add: sizing_slack_def distrib_left)
  have up: "?q \<le> raw + ?h" and low: "raw - ?h \<le> ?q + si_StepSize i"
    using roundDownToStep_bounds(1,2) [OF assms(1) ok(2)] by blast+
  have r1: "raw \<le> risk_quantity i gap + half_ulp" and r2: "raw \<le> leverage_quantity i + half_ulp"
    using round_16(1) [of "risk_quantity i gap"] round_16(1) [of "leverage_quantity i"] unfolding raw by linarith+
  have r3: "min (risk_quantity i gap) (leverage_quantity i) - half_ulp \<le> raw"
    using round_16(2) [of "risk_quantity i gap"] round_16(2) [of "leverage_quantity i"] unfolding raw by linarith
  note fin = finalizeQuantity_approved [OF assms(1,2,5)]
  show ?thesis
    unfolding sized_within_def slack fin(1)
  proof (intro conjI)
    show "?q \<le> risk_quantity i gap + (half_ulp + ?h)" using r1 up by linarith
    show "?q \<le> leverage_quantity i + (half_ulp + ?h)" using r2 up by linarith
    show "min (risk_quantity i gap) (leverage_quantity i) - (half_ulp + ?h) \<le> ?q + si_StepSize i"
      using r3 low by linarith
    show "0 < si_StepSize i \<longrightarrow> ?q = of_int \<lfloor>?q / si_StepSize i\<rfloor> * si_StepSize i"
      using roundDownToStep_bounds(3) [OF assms(1) ok(2), of raw] by blast
  qed (fact fin)+
qed

text \<open>The distance the ATR strategy sizes with.\<close>

definition atr_distance :: "decimal \<Rightarrow> SizingInput \<Rightarrow> decimal" where
  "atr_distance Multiplier i = (case si_ATR i of
       Some atr \<Rightarrow> if atr \<noteq> 0 then atr * (if Multiplier = 0 then 3 / 2 else Multiplier)
         else \<bar>Price_Decimal (si_EntryPrice i) - Price_Decimal (si_StopPrice i)\<bar>
     | None \<Rightarrow> \<bar>Price_Decimal (si_EntryPrice i) - Price_Decimal (si_StopPrice i)\<bar>)"

lemma ATR_Size_unfold:
  assumes "decimal_lib D"
  shows "ATR_Size D m i =
    (if \<not> 0 < Money_Decimal (si_AvailableBalance i) then rejected ''insufficient balance''
     else if atr_distance m i = 0 then rejected ''zero stop distance''
     else finalizeQuantity D (capByLeverage D (dDiv D (Money_Decimal (Percentage_Of D (si_RiskPerTrade i)
       (si_AvailableBalance i))) (atr_distance m i)) i) i)"
  using assms by (auto simp: ATR_Size_def atr_distance_def Money_IsPositive_def DistanceTo_def Let_def split: option.splits)

text \<open>Without an ATR value the ATR strategy is the fixed-risk strategy.\<close>

lemma FixedRisk_is_ATR:
  assumes "decimal_lib D" "si_ATR i = None \<or> si_ATR i = Some 0"
  shows "ATR_Size D m i = FixedRisk_Size D i"
  using assms by (auto simp: ATR_Size_def FixedRisk_Size_def Let_def)

lemma FixedRisk_as_ATR: "FixedRisk_Size D i = FixedRisk_Size D (i\<lparr>si_ATR := None\<rparr>)"
proof -
  have "capByLeverage D r (i\<lparr>si_ATR := None\<rparr>) = capByLeverage D r i"
    "finalizeQuantity D r (i\<lparr>si_ATR := None\<rparr>) = finalizeQuantity D r i" for r
    by (simp_all add: capByLeverage_def finalizeQuantity_def split: sum.split)
  then show ?thesis by (simp add: FixedRisk_Size_def Let_def)
qed

interpretation atr_sizer: position_sizer "decimal_lib D" "ATR_Size D m" "atr_distance m" for D m
  by unfold_locales
    (auto simp: ATR_Size_unfold rejected_def ZeroQuantity_def simp del: dDiv_round
      intro: sizing_tail dest: finalizeQuantity_rejected split: if_splits)

lemma sized_within_ATR [simp]: "sized_within (i\<lparr>si_ATR := a\<rparr>) gap q = sized_within i gap q"
  by (simp add: sized_within_def risk_quantity_def leverage_quantity_def sizing_slack_def)

definition stop_distance :: "SizingInput \<Rightarrow> decimal" where
  "stop_distance i = \<bar>Price_Decimal (si_EntryPrice i) - Price_Decimal (si_StopPrice i)\<bar>"

interpretation fixed_risk_sizer: position_sizer "decimal_lib D" "FixedRisk_Size D" stop_distance for D
proof unfold_locales
  fix i :: SizingInput
  let ?j = "i\<lparr>si_ATR := None\<rparr>"
  assume D: "decimal_lib D"
  have eq: "FixedRisk_Size D i = ATR_Size D 0 ?j" using FixedRisk_is_ATR [OF D, of ?j 0] FixedRisk_as_ATR by simp
  have gap: "atr_distance 0 ?j = stop_distance i" by (simp add: atr_distance_def stop_distance_def)
  show "0 < Money_Decimal (si_AvailableBalance i) \<and> stop_distance i \<noteq> 0 \<and>
      sized_within i (stop_distance i) (Quantity_Decimal (sr_Quantity (FixedRisk_Size D i)))"
    if "sizing_input_ok i" "\<not> sr_Rejected (FixedRisk_Size D i)"
    using atr_sizer.approved [OF D, of ?j 0] that by (simp add: eq gap sizing_input_ok_def)
  show "sr_Quantity (FixedRisk_Size D i) = ZeroQuantity \<and> sr_Reason (FixedRisk_Size D i) \<noteq> ''''"
    if "sr_Rejected (FixedRisk_Size D i)"
    using atr_sizer.rejected_zero [OF D, of 0 ?j] that by (simp add: eq)
qed

text \<open>
  C14: A quantity the fixed-risk sizer approves is positive, a whole number of broker steps, not
  below the broker's minimum quantity and notional, and bounded twice: being stopped out loses at
  most the configured share of the available balance, and the exposure is at most the balance
  times the leverage limit, both up to the rounding of the decimal divisions. It is also the
  largest such number of steps, up to one step and the same rounding.
\<close>

theorem fixed_risk_sizing_bounds:
  assumes "decimal_lib D" "sizing_input_ok i" "\<not> sr_Rejected (FixedRisk_Size D i)"
  defines "q \<equiv> Quantity_Decimal (sr_Quantity (FixedRisk_Size D i))"
  shows "sized_within i (stop_distance i) q \<and>
    q * stop_distance i \<le> Money_Decimal (si_AvailableBalance i) * Percentage_Decimal (si_RiskPerTrade i)
      + sizing_slack i * stop_distance i \<and>
    q * Price_Decimal (si_EntryPrice i) \<le> Money_Decimal (si_AvailableBalance i) * Leverage_Decimal (si_MaxLeverage i)
      + sizing_slack i * Price_Decimal (si_EntryPrice i)"
proof -
  have "0 < stop_distance i" using fixed_risk_sizer.approved [OF assms(1-3)] by (simp add: stop_distance_def)
  then show ?thesis
    using fixed_risk_sizer.approved [OF assms(1-3)] fixed_risk_sizer.approved_loss [OF assms(1-3)]
      fixed_risk_sizer.approved_exposure [OF assms(1-3)] by (simp add: q_def)
qed

definition sample_sizing :: SizingInput where
  "sample_sizing = \<lparr>si_AvailableBalance = Money 10000, si_RiskPerTrade = Percentage (1 / 100), si_EntryPrice = Price 100,
     si_StopPrice = Price 98, si_MinQuantity = Quantity (1 / 1000), si_StepSize = 1 / 1000, si_MinNotional = Money 10,
     si_MaxLeverage = Leverage 2, si_ExistingExposure = Money 0, si_ATR = None\<rparr>"

lemma sample_sizing_result:
  "FixedRisk_Size ref_decimal sample_sizing = \<lparr>sr_Quantity = Quantity 50, sr_Rejected = False, sr_Reason = ''''\<rparr>"
  by (simp add: FixedRisk_Size_def sample_sizing_def capByLeverage_def finalizeQuantity_def roundDownToStep_def
      vo_defs round_eval order_defs Let_def)

theorem fixed_risk_sizing_bounds_witness:
  "sr_Quantity (FixedRisk_Size ref_decimal sample_sizing) = Quantity 50 \<and> sized_within sample_sizing 2 50"
  using fixed_risk_sizing_bounds [OF decimal_lib_ref, of sample_sizing]
  by (simp add: sample_sizing_result) (simp add: sample_sizing_def sizing_input_ok_def stop_distance_def)

end
