(* ===== verification/Paper_Broker.thy ===== *)
theory Paper_Broker
  imports Position_Sizing
begin

text \<open>
  The broker port (\<^verbatim>\<open>internal/application/ports/output/broker.go\<close>) and the simulator that implements
  it (\<^verbatim>\<open>internal/infrastructure/external/broker/paper\<close>). The port is the record \<open>Broker\<close> of its
  operations over an arbitrary state; what its clients rely on is the locale \<open>idempotent_broker\<close>,
  which the simulator is proved to meet. Go maps that the code ranges over are association lists:
  the list order stands for the iteration order, which Go leaves open, so that statements about
  their contents are statements about sets and sums.
\<close>

section \<open>The port\<close>

record BrokerAccount =
  ba_Balance :: Money
  ba_Equity :: Money
  ba_AvailableBalance :: Money

record BrokerPosition =
  bp_Symbol :: Symbol
  bp_Side :: Side
  bp_Quantity :: Quantity
  bp_EntryPrice :: Price
  bp_MarkPrice :: Price

record BrokerOrder =
  bo_BrokerOrderID :: string
  bo_ClientOrderID :: string
  bo_Symbol :: Symbol
  bo_Side :: Side
  bo_Type :: string
  bo_Quantity :: Quantity
  bo_FilledQuantity :: Quantity
  bo_AveragePrice :: "Price option"
  bo_RawStatus :: string

text \<open>The zero value, which indexing a Go map with a missing key gives.\<close>

definition zeroBrokerOrder :: BrokerOrder where
  "zeroBrokerOrder = \<lparr>bo_BrokerOrderID = '''', bo_ClientOrderID = '''', bo_Symbol = Symbol '''',
     bo_Side = Side_other '''', bo_Type = '''', bo_Quantity = Quantity 0, bo_FilledQuantity = Quantity 0,
     bo_AveragePrice = None, bo_RawStatus = ''''\<rparr>"

record PlaceOrderRequest =
  por_ClientOrderID :: ClientOrderID
  por_Symbol :: Symbol
  por_Side :: Side
  por_Type :: string
  por_Quantity :: Quantity
  por_Price :: "Price option"

record PlaceStopRequest =
  psr_ClientOrderID :: ClientOrderID
  psr_Symbol :: Symbol
  psr_Side :: Side
  psr_Quantity :: Quantity
  psr_StopPrice :: Price

record 'b Broker =
  br_GetAccount :: "'b \<Rightarrow> BrokerAccount result \<times> 'b"
  br_GetPositions :: "'b \<Rightarrow> BrokerPosition list result \<times> 'b"
  br_GetOpenOrders :: "'b \<Rightarrow> BrokerOrder list result \<times> 'b"
  br_PlaceOrder :: "'b \<Rightarrow> PlaceOrderRequest \<Rightarrow> BrokerOrder result \<times> 'b"
  br_PlaceStop :: "'b \<Rightarrow> PlaceStopRequest \<Rightarrow> BrokerOrder result \<times> 'b"
  br_CancelOrder :: "'b \<Rightarrow> string \<Rightarrow> unit result \<times> 'b"
  br_GetOrder :: "'b \<Rightarrow> string \<Rightarrow> BrokerOrder result \<times> 'b"
  br_FindOrderByClientOrderID :: "'b \<Rightarrow> string \<Rightarrow> BrokerOrder result \<times> 'b"

section \<open>The simulator\<close>

text \<open>Writing and deleting a key of a Go map kept as an association list.\<close>

fun al_set :: "'k \<Rightarrow> 'v \<Rightarrow> ('k \<times> 'v) list \<Rightarrow> ('k \<times> 'v) list" where
  "al_set k v [] = [(k, v)]"
| "al_set k v ((k', v') # xs) = (if k' = k then (k, v) # xs else (k', v') # al_set k v xs)"

definition al_del :: "'k \<Rightarrow> ('k \<times> 'v) list \<Rightarrow> ('k \<times> 'v) list" where
  "al_del k xs = filter (\<lambda>(k', v). k' \<noteq> k) xs"

record PaperBroker =
  pb_startingBalance :: decimal
  pb_feePct :: decimal
  pb_slippagePct :: decimal
  pb_balance :: decimal
  pb_positions :: "(string \<times> BrokerPosition) list"
  pb_orders :: "(string \<times> BrokerOrder) list"
  pb_byClientID :: "(string \<times> string) list"
  pb_nextOrderSeq :: nat

definition resetLocked :: "PaperBroker \<Rightarrow> PaperBroker" where
  "resetLocked b = b\<lparr>pb_balance := pb_startingBalance b, pb_positions := [], pb_orders := [],
     pb_byClientID := [], pb_nextOrderSeq := 0\<rparr>"

definition NewBroker :: "decimal \<Rightarrow> decimal \<Rightarrow> decimal \<Rightarrow> PaperBroker" where
  "NewBroker startingBalance feePct slippagePct = resetLocked
     \<lparr>pb_startingBalance = startingBalance, pb_feePct = feePct, pb_slippagePct = slippagePct,
      pb_balance = 0, pb_positions = [], pb_orders = [], pb_byClientID = [], pb_nextOrderSeq = 0\<rparr>"

definition paper_Reset :: "PaperBroker \<Rightarrow> unit result \<times> PaperBroker" where
  "paper_Reset b = (Inr (), resetLocked b)"

fun equity_loop :: "decimal_ops \<Rightarrow> (string \<times> BrokerPosition) list \<Rightarrow> decimal \<Rightarrow> decimal" where
  "equity_loop D [] equity = equity"
| "equity_loop D ((_, pos) # ps) equity =
     (let diff = dSub D (Price_Decimal (bp_MarkPrice pos)) (Price_Decimal (bp_EntryPrice pos));
          diff = (if bp_Side pos = SideSell then dNeg D diff else diff)
      in equity_loop D ps (dAdd D equity (dMul D diff (Quantity_Decimal (bp_Quantity pos)))))"

definition paper_GetAccount :: "decimal_ops \<Rightarrow> PaperBroker \<Rightarrow> BrokerAccount result \<times> PaperBroker" where
  "paper_GetAccount D b =
     (Inr \<lparr>ba_Balance = NewMoney (pb_balance b), ba_Equity = NewMoney (equity_loop D (pb_positions b) (pb_balance b)),
           ba_AvailableBalance = NewMoney (pb_balance b)\<rparr>, b)"

definition paper_GetPositions :: "PaperBroker \<Rightarrow> BrokerPosition list result \<times> PaperBroker" where
  "paper_GetPositions b = (Inr (map snd (pb_positions b)), b)"

definition paper_GetOpenOrders :: "PaperBroker \<Rightarrow> BrokerOrder list result \<times> PaperBroker" where
  "paper_GetOpenOrders b =
     (Inr (filter (\<lambda>ord. bo_RawStatus ord = ''NEW'' \<or> bo_RawStatus ord = ''PARTIALLY_FILLED'') (map snd (pb_orders b))), b)"

definition order_at :: "PaperBroker \<Rightarrow> string \<Rightarrow> BrokerOrder" where
  "order_at b i = (case map_of (pb_orders b) i of Some ord \<Rightarrow> ord | None \<Rightarrow> zeroBrokerOrder)"

definition applySlippage :: "decimal_ops \<Rightarrow> Price \<Rightarrow> Side \<Rightarrow> decimal \<Rightarrow> Price result" where
  "applySlippage D reference side slippagePct =
     (let adjustment = dMul D (Price_Decimal reference) slippagePct;
          adjusted = dAdd D (Price_Decimal reference) adjustment;
          adjusted = (if side = SideSell then dSub D (Price_Decimal reference) adjustment else adjusted)
      in NewPrice D adjusted)"

text \<open>
  Folding a fill into the position book. Averaging divides by the total quantity, which panics
  when both quantities are zero.
\<close>

definition applyFillLocked :: "decimal_ops \<Rightarrow> PaperBroker \<Rightarrow> Symbol \<Rightarrow> Side \<Rightarrow> Quantity \<Rightarrow> Price \<Rightarrow>
    unit result \<times> PaperBroker" where
  "applyFillLocked D b symbol side quantity price =
     (let key = Symbol_String symbol in
      case map_of (pb_positions b) key of
        None \<Rightarrow> (Inr (), b\<lparr>pb_positions := al_set key \<lparr>bp_Symbol = symbol, bp_Side = side, bp_Quantity = quantity,
            bp_EntryPrice = price, bp_MarkPrice = price\<rparr> (pb_positions b)\<rparr>)
      | Some existing \<Rightarrow>
        if bp_Side existing = side then
          (let totalNotional = dAdd D (dMul D (Quantity_Decimal (bp_Quantity existing)) (Price_Decimal (bp_EntryPrice existing)))
                 (dMul D (Quantity_Decimal quantity) (Price_Decimal price));
               totalQuantity = dAdd D (Quantity_Decimal (bp_Quantity existing)) (Quantity_Decimal quantity) in
           if totalQuantity = 0 then (Inl (Panic ''decimal division by 0''), b)
           else let avgPrice = (case NewPrice D (dDiv D totalNotional totalQuantity) of
                      Inr p \<Rightarrow> p | Inl _ \<Rightarrow> bp_EntryPrice existing);
                    newQuantity = (case NewQuantity D totalQuantity of
                      Inr q \<Rightarrow> q | Inl _ \<Rightarrow> bp_Quantity existing)
                in (Inr (), b\<lparr>pb_positions := al_set key \<lparr>bp_Symbol = symbol, bp_Side = side, bp_Quantity = newQuantity,
                     bp_EntryPrice = avgPrice, bp_MarkPrice = price\<rparr> (pb_positions b)\<rparr>))
        else
          (let diff = dSub D (Price_Decimal price) (Price_Decimal (bp_EntryPrice existing));
               diff = (if bp_Side existing = SideSell then dNeg D diff else diff);
               closedQuantity = (if Quantity_GreaterThan D quantity (bp_Quantity existing)
                 then bp_Quantity existing else quantity);
               realized = dMul D diff (Quantity_Decimal closedQuantity);
               b = b\<lparr>pb_balance := dAdd D (pb_balance b) realized\<rparr>;
               remaining = (case Quantity_Sub D (bp_Quantity existing) closedQuantity of
                 Inr r \<Rightarrow> r | Inl _ \<Rightarrow> ZeroQuantity) in
           if Quantity_IsZero D remaining then
             (case Quantity_Sub D quantity closedQuantity of
                Inr flipQuantity \<Rightarrow>
                  if Quantity_GreaterThan D flipQuantity ZeroQuantity
                  then (Inr (), b\<lparr>pb_positions := al_set key \<lparr>bp_Symbol = symbol, bp_Side = side,
                         bp_Quantity = flipQuantity, bp_EntryPrice = price, bp_MarkPrice = price\<rparr> (pb_positions b)\<rparr>)
                  else (Inr (), b\<lparr>pb_positions := al_del key (pb_positions b)\<rparr>)
              | Inl _ \<Rightarrow> (Inr (), b\<lparr>pb_positions := al_del key (pb_positions b)\<rparr>))
           else (Inr (), b\<lparr>pb_positions := al_set key \<lparr>bp_Symbol = symbol, bp_Side = bp_Side existing,
                  bp_Quantity = remaining, bp_EntryPrice = bp_EntryPrice existing, bp_MarkPrice = price\<rparr>
                  (pb_positions b)\<rparr>)))"

definition paper_order_id :: "nat \<Rightarrow> string" where
  "paper_order_id n = ''PAPER-'' @ zero_pad 8 (show_nat n)"

definition paper_stop_id :: "nat \<Rightarrow> string" where
  "paper_stop_id n = ''PAPER-STOP-'' @ zero_pad 8 (show_nat n)"

definition paper_PlaceOrder :: "decimal_ops \<Rightarrow> PaperBroker \<Rightarrow> PlaceOrderRequest \<Rightarrow> BrokerOrder result \<times> PaperBroker" where
  "paper_PlaceOrder D b req =
     (let cid = ClientOrderID_String (por_ClientOrderID req) in
      case map_of (pb_byClientID b) cid of
        Some existingID \<Rightarrow> (Inr (order_at b existingID), b)
      | None \<Rightarrow>
      (case por_Price req of
        None \<Rightarrow> (Inl (ErrorText (''paper broker: order '' @ cid @ '' has no reference price'')), b)
      | Some reference \<Rightarrow>
      (case applySlippage D reference (por_Side req) (pb_slippagePct b) of
        Inl e \<Rightarrow> (Inl e, b)
      | Inr execPrice \<Rightarrow>
        (let notional = dMul D (Quantity_Decimal (por_Quantity req)) (Price_Decimal execPrice);
             fee = dMul D notional (pb_feePct b) in
         if dLessThan D (pb_balance b) (dAdd D notional fee)
         then (Inl (ErrorText (''paper broker: insufficient simulated balance for order '' @ cid)), b)
         else
         (let b = b\<lparr>pb_nextOrderSeq := pb_nextOrderSeq b + 1\<rparr>;
              brokerOrderID = paper_order_id (pb_nextOrderSeq b);
              filled = \<lparr>bo_BrokerOrderID = brokerOrderID, bo_ClientOrderID = cid, bo_Symbol = por_Symbol req,
                bo_Side = por_Side req, bo_Type = por_Type req, bo_Quantity = por_Quantity req,
                bo_FilledQuantity = por_Quantity req, bo_AveragePrice = Some execPrice, bo_RawStatus = ''FILLED''\<rparr>;
              b = b\<lparr>pb_balance := dSub D (pb_balance b) fee\<rparr> in
          (case applyFillLocked D b (por_Symbol req) (por_Side req) (por_Quantity req) execPrice of
             (Inl e, b) \<Rightarrow> (Inl e, b)
           | (Inr _, b) \<Rightarrow> (Inr filled, b\<lparr>pb_orders := al_set brokerOrderID filled (pb_orders b),
               pb_byClientID := al_set cid brokerOrderID (pb_byClientID b)\<rparr>)))))))"

definition paper_PlaceStop :: "PaperBroker \<Rightarrow> PlaceStopRequest \<Rightarrow> BrokerOrder result \<times> PaperBroker" where
  "paper_PlaceStop b req =
     (let cid = ClientOrderID_String (psr_ClientOrderID req) in
      case map_of (pb_byClientID b) cid of
        Some existingID \<Rightarrow> (Inr (order_at b existingID), b)
      | None \<Rightarrow>
        (let b = b\<lparr>pb_nextOrderSeq := pb_nextOrderSeq b + 1\<rparr>;
             brokerOrderID = paper_stop_id (pb_nextOrderSeq b);
             resting = \<lparr>bo_BrokerOrderID = brokerOrderID, bo_ClientOrderID = cid, bo_Symbol = psr_Symbol req,
               bo_Side = psr_Side req, bo_Type = ''STOP_MARKET'', bo_Quantity = psr_Quantity req,
               bo_FilledQuantity = ZeroQuantity, bo_AveragePrice = Some (psr_StopPrice req), bo_RawStatus = ''NEW''\<rparr>
         in (Inr resting, b\<lparr>pb_orders := al_set brokerOrderID resting (pb_orders b),
               pb_byClientID := al_set cid brokerOrderID (pb_byClientID b)\<rparr>)))"

definition paper_CancelOrder :: "PaperBroker \<Rightarrow> string \<Rightarrow> unit result \<times> PaperBroker" where
  "paper_CancelOrder b brokerOrderID = (case map_of (pb_orders b) brokerOrderID of
       None \<Rightarrow> (Inl ErrNotFound, b)
     | Some ord \<Rightarrow> (Inr (), b\<lparr>pb_orders := al_set brokerOrderID (ord\<lparr>bo_RawStatus := ''CANCELLED''\<rparr>) (pb_orders b)\<rparr>))"

definition paper_GetOrder :: "PaperBroker \<Rightarrow> string \<Rightarrow> BrokerOrder result \<times> PaperBroker" where
  "paper_GetOrder b brokerOrderID = (case map_of (pb_orders b) brokerOrderID of
       None \<Rightarrow> (Inl ErrNotFound, b) | Some ord \<Rightarrow> (Inr ord, b))"

definition paper_FindOrderByClientOrderID :: "PaperBroker \<Rightarrow> string \<Rightarrow> BrokerOrder result \<times> PaperBroker" where
  "paper_FindOrderByClientOrderID b clientOrderID = (case map_of (pb_byClientID b) clientOrderID of
       None \<Rightarrow> (Inl ErrNotFound, b) | Some brokerOrderID \<Rightarrow> (Inr (order_at b brokerOrderID), b))"

definition paper_broker :: "decimal_ops \<Rightarrow> PaperBroker Broker" where
  "paper_broker D = \<lparr>br_GetAccount = paper_GetAccount D, br_GetPositions = paper_GetPositions,
     br_GetOpenOrders = paper_GetOpenOrders, br_PlaceOrder = paper_PlaceOrder D, br_PlaceStop = paper_PlaceStop,
     br_CancelOrder = paper_CancelOrder, br_GetOrder = paper_GetOrder,
     br_FindOrderByClientOrderID = paper_FindOrderByClientOrderID\<rparr>"

text \<open>A sequence of placements, with the answer to each.\<close>

fun place_all :: "'b Broker \<Rightarrow> 'b \<Rightarrow> PlaceOrderRequest list \<Rightarrow> BrokerOrder result list \<times> 'b" where
  "place_all B b [] = ([], b)"
| "place_all B b (req # reqs) = (case br_PlaceOrder B b req of (r, b') \<Rightarrow>
     (case place_all B b' reqs of (rs, b'') \<Rightarrow> (r # rs, b'')))"

section \<open>Association lists as maps\<close>

lemma map_of_al_set [simp]: "map_of (al_set k v xs) = (map_of xs)(k \<mapsto> v)"
  by (induction xs) (auto simp: fun_eq_iff)

lemma al_set_mem: "(j, w) \<in> set (al_set k v xs) \<Longrightarrow> (j, w) = (k, v) \<or> (j, w) \<in> set xs"
  by (induction k v xs rule: al_set.induct) (auto split: if_splits)

lemma map_of_al_del [simp]: "map_of (al_del k xs) = (map_of xs)(k := None)"
  by (induction xs) (auto simp: al_del_def fun_eq_iff)

section \<open>The contract the use cases rely on\<close>

text \<open>
  A broker is idempotent in the client order id: once an order is known under its id, placing it
  again returns that order and changes nothing; a fresh order that is accepted is known from then
  on under its client id and under its broker id; and one that is refused leaves no trace.
\<close>

locale idempotent_broker =
  fixes B :: "'b Broker" and inv :: "'b \<Rightarrow> bool"
  assumes find_pure: "inv b \<Longrightarrow> snd (br_FindOrderByClientOrderID B b cid) = b"
    and place_known: "inv b \<Longrightarrow> fst (br_FindOrderByClientOrderID B b (ClientOrderID_String (por_ClientOrderID req))) = Inr r \<Longrightarrow>
      br_PlaceOrder B b req = (Inr r, b)"
    and place_records: "inv b \<Longrightarrow> br_PlaceOrder B b req = (Inr r, b') \<Longrightarrow>
      fst (br_FindOrderByClientOrderID B b' (ClientOrderID_String (por_ClientOrderID req))) = Inr r \<and>
      bo_ClientOrderID r = ClientOrderID_String (por_ClientOrderID req) \<and>
      fst (br_GetOrder B b' (bo_BrokerOrderID r)) = Inr r \<and> inv b'"
    and place_keeps: "inv b \<Longrightarrow> br_PlaceOrder B b req = (Inr r, b') \<Longrightarrow> cid \<noteq> ClientOrderID_String (por_ClientOrderID req) \<Longrightarrow>
      fst (br_FindOrderByClientOrderID B b' cid) = fst (br_FindOrderByClientOrderID B b cid)"
    and place_refused: "inv b \<Longrightarrow> br_PlaceOrder B b req = (Inl e, b') \<Longrightarrow> (\<And>t. e \<noteq> Panic t) \<Longrightarrow> b' = b"
begin

lemma place_twice:
  assumes "inv b" "br_PlaceOrder B b req = (Inr r, b')"
    and "por_ClientOrderID req' = por_ClientOrderID req"
  shows "br_PlaceOrder B b' req' = (Inr r, b')"
  using place_known [of b' req' r] place_records [OF assms(1,2)] assms(3) by simp

text \<open>Any number of retries of an accepted order, in any form, amounts to placing it once.\<close>

lemma retries:
  assumes "inv b" "br_PlaceOrder B b req = (Inr r, b')"
    and "\<forall>q\<in>set reqs. por_ClientOrderID q = por_ClientOrderID req"
  shows "place_all B b' reqs = (replicate (length reqs) (Inr r), b')"
  using assms(3)
proof (induction reqs)
  case (Cons q qs)
  then have "place_all B b' qs = (replicate (length qs) (Inr r), b')" by (metis list.set_intros(2))
  moreover have "br_PlaceOrder B b' q = (Inr r, b')"
    by (rule place_twice [OF assms(1,2)]) (meson Cons.prems list.set_intros(1))
  ultimately show ?case by simp
qed simp

end

section \<open>The simulator meets the contract\<close>

lemma paper_id_inj:
  "paper_order_id m = paper_order_id n \<longleftrightarrow> m = n" "paper_stop_id m = paper_stop_id n \<longleftrightarrow> m = n"
  by (metis paper_order_id_def append_eq_append_conv read_nat_show_nat read_nat_zero_pad,
      metis paper_stop_id_def append_eq_append_conv read_nat_show_nat read_nat_zero_pad)

lemma zero_pad_digits:
  "c \<in> set (zero_pad w (show_nat n)) \<Longrightarrow> 48 \<le> (of_char c :: nat) \<and> (of_char c :: nat) \<le> 57"
  by (auto simp: zero_pad_def dest: show_nat_digits)

lemma paper_id_kinds: "paper_order_id m \<noteq> paper_stop_id n"
proof
  assume "paper_order_id m = paper_stop_id n"
  then have "CHR ''S'' \<in> set (zero_pad 8 (show_nat m))"
    by (simp add: paper_order_id_def paper_stop_id_def)
  then show False using zero_pad_digits by fastforce
qed

definition issued :: "nat \<Rightarrow> string set" where
  "issued n = {i. \<exists>k. k \<le> n \<and> (i = paper_order_id k \<or> i = paper_stop_id k)}"

lemma issued_fresh: "paper_order_id (Suc n) \<notin> issued n" "paper_stop_id (Suc n) \<notin> issued n"
  using paper_id_kinds [of "Suc n"] paper_id_kinds [of _ "Suc n"]
  by (auto simp: issued_def paper_id_inj dest: sym)

lemma issued_mono: "i \<in> issued n \<Longrightarrow> i \<in> issued (Suc n)"
  by (auto simp: issued_def intro: le_SucI)

lemma issued_Suc: "paper_order_id (Suc n) \<in> issued (Suc n)" "paper_stop_id (Suc n) \<in> issued (Suc n)"
  by (auto simp: issued_def)

text \<open>
  The invariant of the order book: every order is filed under its own broker id, which has been
  issued, and every client id leads to an order that carries it.
\<close>

definition pb_inv :: "PaperBroker \<Rightarrow> bool" where
  "pb_inv b \<longleftrightarrow>
     (\<forall>i ord. map_of (pb_orders b) i = Some ord \<longrightarrow> bo_BrokerOrderID ord = i \<and> i \<in> issued (pb_nextOrderSeq b)) \<and>
     (\<forall>c i. map_of (pb_byClientID b) c = Some i \<longrightarrow>
        (\<exists>ord. map_of (pb_orders b) i = Some ord \<and> bo_ClientOrderID ord = c))"

lemma applyFillLocked_frame:
  "applyFillLocked D b s sd q p = (r, b') \<Longrightarrow> pb_orders b' = pb_orders b \<and> pb_byClientID b' = pb_byClientID b \<and>
     pb_nextOrderSeq b' = pb_nextOrderSeq b \<and> pb_feePct b' = pb_feePct b \<and> pb_slippagePct b' = pb_slippagePct b"
  by (auto simp: applyFillLocked_def Let_def split: option.splits if_splits sum.splits)

lemma pb_inv_add:
  assumes "pb_inv b" "pb_nextOrderSeq b' = Suc (pb_nextOrderSeq b)"
    and "i = paper_order_id (Suc (pb_nextOrderSeq b)) \<or> i = paper_stop_id (Suc (pb_nextOrderSeq b))"
    and "map_of (pb_orders b') = (map_of (pb_orders b))(i \<mapsto> ord)" "map_of (pb_byClientID b') = (map_of (pb_byClientID b))(c \<mapsto> i)"
    and "bo_BrokerOrderID ord = i" "bo_ClientOrderID ord = c" "map_of (pb_byClientID b) c = None"
  shows "pb_inv b' \<and> map_of (pb_orders b) i = None"
proof -
  have "i \<notin> issued (pb_nextOrderSeq b)" "i \<in> issued (Suc (pb_nextOrderSeq b))"
    using assms(3) issued_fresh issued_Suc by auto
  moreover from this have "map_of (pb_orders b) i = None"
    using assms(1) by (cases "map_of (pb_orders b) i") (auto simp: pb_inv_def)
  moreover from this have "map_of (pb_byClientID b) c' \<noteq> Some i" for c'
    using assms(1) unfolding pb_inv_def by (metis option.distinct(1))
  ultimately show ?thesis
    using assms(1,2,4-) unfolding pb_inv_def by (auto dest: issued_mono)
qed

text \<open>What a successful placement of a new order does to the order book.\<close>

lemma paper_PlaceOrder_new:
  assumes "paper_PlaceOrder D b req = (Inr r, b')" "pb_inv b"
    and "map_of (pb_byClientID b) (ClientOrderID_String (por_ClientOrderID req)) = None"
  shows "pb_inv b' \<and> bo_ClientOrderID r = ClientOrderID_String (por_ClientOrderID req) \<and>
    bo_BrokerOrderID r = paper_order_id (Suc (pb_nextOrderSeq b)) \<and>
    map_of (pb_orders b) (bo_BrokerOrderID r) = None \<and>
    map_of (pb_orders b') = (map_of (pb_orders b))(bo_BrokerOrderID r \<mapsto> r) \<and>
    map_of (pb_byClientID b') = (map_of (pb_byClientID b))(bo_ClientOrderID r \<mapsto> bo_BrokerOrderID r) \<and>
    bo_FilledQuantity r = por_Quantity req \<and> bo_RawStatus r = ''FILLED''"
proof -
  let ?i = "paper_order_id (Suc (pb_nextOrderSeq b))"
  have r: "bo_ClientOrderID r = ClientOrderID_String (por_ClientOrderID req)" "bo_BrokerOrderID r = ?i"
    "bo_FilledQuantity r = por_Quantity req" "bo_RawStatus r = ''FILLED''"
    "map_of (pb_orders b') = (map_of (pb_orders b))(?i \<mapsto> r)"
    "map_of (pb_byClientID b') = (map_of (pb_byClientID b))(ClientOrderID_String (por_ClientOrderID req) \<mapsto> ?i)"
    "pb_nextOrderSeq b' = Suc (pb_nextOrderSeq b)"
    using assms(1,3)
    by (auto simp: paper_PlaceOrder_def Let_def split: option.splits sum.splits if_splits prod.splits
        dest!: applyFillLocked_frame)
  with pb_inv_add [OF assms(2), of b' ?i r "ClientOrderID_String (por_ClientOrderID req)"] assms(3)
  show ?thesis by simp
qed

lemma paper_PlaceOrder_old:
  assumes "map_of (pb_byClientID b) (ClientOrderID_String (por_ClientOrderID req)) = Some i"
  shows "paper_PlaceOrder D b req = (Inr (order_at b i), b)"
  using assms by (simp add: paper_PlaceOrder_def Let_def)

lemma paper_PlaceOrder_refused:
  assumes "paper_PlaceOrder D b req = (Inl e, b')" "\<And>t. e \<noteq> Panic t"
  shows "b' = b"
  using assms
  by (auto simp: paper_PlaceOrder_def Let_def applyFillLocked_def split: option.splits sum.splits if_splits prod.splits)

lemma order_at_known:
  assumes "pb_inv b" "map_of (pb_byClientID b) c = Some i"
  shows "map_of (pb_orders b) i = Some (order_at b i)" "bo_ClientOrderID (order_at b i) = c"
    "bo_BrokerOrderID (order_at b i) = i"
  using assms by (force simp: pb_inv_def order_at_def)+

interpretation paper: idempotent_broker "paper_broker D" pb_inv for D
proof unfold_locales
  fix b b' :: PaperBroker and req :: PlaceOrderRequest and r :: BrokerOrder and cid e
  let ?c = "ClientOrderID_String (por_ClientOrderID req)"
  note defs = paper_broker_def paper_FindOrderByClientOrderID_def paper_GetOrder_def
  assume inv: "pb_inv b"
  show "snd (br_FindOrderByClientOrderID (paper_broker D) b cid) = b"
    by (simp add: defs split: option.splits)
  show "br_PlaceOrder (paper_broker D) b req = (Inr r, b)"
    if "fst (br_FindOrderByClientOrderID (paper_broker D) b ?c) = Inr r"
    using that paper_PlaceOrder_old [of b req] by (auto simp: defs split: option.splits)
  show "fst (br_FindOrderByClientOrderID (paper_broker D) b' ?c) = Inr r \<and> bo_ClientOrderID r = ?c \<and>
      fst (br_GetOrder (paper_broker D) b' (bo_BrokerOrderID r)) = Inr r \<and> pb_inv b'"
    if "br_PlaceOrder (paper_broker D) b req = (Inr r, b')"
  proof (cases "map_of (pb_byClientID b) ?c")
    case None
    with that paper_PlaceOrder_new [of D b req r b'] inv show ?thesis
      by (simp add: defs order_at_def)
  next
    case (Some i)
    with that paper_PlaceOrder_old [OF Some, of D] order_at_known [OF inv Some] inv show ?thesis
      by (auto simp: defs)
  qed
  show "fst (br_FindOrderByClientOrderID (paper_broker D) b' cid) = fst (br_FindOrderByClientOrderID (paper_broker D) b cid)"
    if place: "br_PlaceOrder (paper_broker D) b req = (Inr r, b')" and "cid \<noteq> ?c"
  proof (cases "map_of (pb_byClientID b) ?c")
    case None
    note new = paper_PlaceOrder_new [of D b req r b', OF _ inv None]
    have "map_of (pb_orders b') i = map_of (pb_orders b) i" if "map_of (pb_byClientID b) cid = Some i" for i
      using new place order_at_known(1) [OF inv that] by (auto simp: defs)
    with new place \<open>cid \<noteq> ?c\<close> show ?thesis
      by (auto simp: defs order_at_def split: option.splits)
  next
    case (Some i)
    with that paper_PlaceOrder_old [OF Some, of D] show ?thesis by (simp add: defs)
  qed
  show "b' = b" if "br_PlaceOrder (paper_broker D) b req = (Inl e, b')" "\<And>t. e \<noteq> Panic t"
    using that paper_PlaceOrder_refused [of D b req e b'] by (simp add: defs)
qed

section \<open>The position book\<close>

definition side_sign :: "Side \<Rightarrow> decimal" where
  "side_sign s = (if s = SideSell then - 1 else 1)"

text \<open>
  The signed holding of a symbol (long positive, short negative), and what the account is worth
  with that holding marked at a price \<open>m\<close>.
\<close>

definition holding :: "PaperBroker \<Rightarrow> string \<Rightarrow> decimal" where
  "holding b key = (case map_of (pb_positions b) key of None \<Rightarrow> 0
     | Some pos \<Rightarrow> side_sign (bp_Side pos) * Quantity_Decimal (bp_Quantity pos))"

definition worth :: "PaperBroker \<Rightarrow> string \<Rightarrow> decimal \<Rightarrow> decimal" where
  "worth b key m = pb_balance b + (case map_of (pb_positions b) key of None \<Rightarrow> 0
     | Some pos \<Rightarrow> side_sign (bp_Side pos) * Quantity_Decimal (bp_Quantity pos) * (m - Price_Decimal (bp_EntryPrice pos)))"

text \<open>Prices that sixteen digits can hold: at least one unit of the last digit.\<close>

definition price_tick :: decimal where
  "price_tick = 1 / 10 ^ 16"

definition book_ok :: "PaperBroker \<Rightarrow> string \<Rightarrow> bool" where
  "book_ok b key \<longleftrightarrow> (case map_of (pb_positions b) key of None \<Rightarrow> True
     | Some pos \<Rightarrow> Side_Valid (bp_Side pos) \<and> 0 \<le> Quantity_Decimal (bp_Quantity pos) \<and>
         price_tick \<le> Price_Decimal (bp_EntryPrice pos))"

lemma round_to_tick: "price_tick \<le> q \<Longrightarrow> price_tick \<le> round_to DivisionPrecision q"
proof -
  have "round_to DivisionPrecision price_tick = price_tick"
    by (rule round_to_exact [of _ _ 1]) (simp add: price_tick_def DivisionPrecision_def)
  then show "price_tick \<le> q \<Longrightarrow> price_tick \<le> round_to DivisionPrecision q"
    using round_to_mono [of price_tick q DivisionPrecision] by simp
qed

lemma average_price:
  fixes q1 q2 p1 p2 m :: decimal
  assumes "0 \<le> q1" "0 < q2" "price_tick \<le> p1" "price_tick \<le> p2"
  defines "avg \<equiv> round_to DivisionPrecision ((q1 * p1 + q2 * p2) / (q1 + q2))"
  shows "price_tick \<le> avg" "\<bar>(q1 + q2) * (m - avg) - (q1 * (m - p1) + q2 * (m - p2))\<bar> \<le> half_ulp * (q1 + q2)"
proof -
  let ?a = "(q1 * p1 + q2 * p2) / (q1 + q2)"
  have pos: "0 < q1 + q2" using assms by simp
  have "price_tick * (q1 + q2) \<le> q1 * p1 + q2 * p2"
    using mult_left_mono [OF assms(3,1)] mult_left_mono [OF assms(4) less_imp_le [OF assms(2)]]
    by (simp add: algebra_simps)
  then have "price_tick \<le> ?a" using pos by (simp add: pos_le_divide_eq)
  then show "price_tick \<le> avg" unfolding avg_def by (rule round_to_tick)
  have "(q1 + q2) * ?a = q1 * p1 + q2 * p2" using pos by simp
  then have "(q1 + q2) * (m - avg) - (q1 * (m - p1) + q2 * (m - p2)) = (q1 + q2) * (?a - avg)"
    by (simp only: right_diff_distrib) (simp add: algebra_simps)
  moreover have "\<bar>?a - avg\<bar> \<le> half_ulp"
    using round_16 [of ?a] unfolding avg_def by (simp add: abs_le_iff)
  ultimately show "\<bar>(q1 + q2) * (m - avg) - (q1 * (m - p1) + q2 * (m - p2))\<bar> \<le> half_ulp * (q1 + q2)"
    using pos mult_left_mono [of "\<bar>?a - avg\<bar>" half_ulp "q1 + q2"] by (simp add: abs_mult mult.commute)
qed

text \<open>
  A fill against the book: no position, more of the same side, and the opposite side, which
  reduces, closes or turns the position.
\<close>

lemma applyFill_open:
  assumes "map_of (pb_positions b) (Symbol_String s) = None" "applyFillLocked D b s sd q p = (r, b')"
  shows "holding b' (Symbol_String s) = side_sign sd * Quantity_Decimal q"
    "worth b' (Symbol_String s) m = pb_balance b + side_sign sd * Quantity_Decimal q * (m - Price_Decimal p)"
  using assms by (auto simp: applyFillLocked_def holding_def worth_def Let_def)

lemma applyFill_add:
  assumes "decimal_lib D" "map_of (pb_positions b) (Symbol_String s) = Some pos" "bp_Side pos = sd"
    and "applyFillLocked D b s sd q p = (r, b')" "0 < Quantity_Decimal q" "price_tick \<le> Price_Decimal p"
    and "0 \<le> Quantity_Decimal (bp_Quantity pos)" "price_tick \<le> Price_Decimal (bp_EntryPrice pos)"
  shows "holding b' (Symbol_String s) = side_sign sd * (Quantity_Decimal (bp_Quantity pos) + Quantity_Decimal q)"
    "\<bar>worth b' (Symbol_String s) m - (worth b (Symbol_String s) m + side_sign sd * Quantity_Decimal q * (m - Price_Decimal p))\<bar>
      \<le> half_ulp * (Quantity_Decimal (bp_Quantity pos) + Quantity_Decimal q)"
proof -
  let ?q1 = "Quantity_Decimal (bp_Quantity pos)" and ?p1 = "Price_Decimal (bp_EntryPrice pos)"
  let ?q2 = "Quantity_Decimal q" and ?p2 = "Price_Decimal p"
  let ?avg = "round_to DivisionPrecision ((?q1 * ?p1 + ?q2 * ?p2) / (?q1 + ?q2))"
  note avg = average_price(1) [OF assms(7,5,8,6)] average_price(2) [OF assms(7,5,8,6), of m]
  have tick: "0 < price_tick" by (simp add: price_tick_def)
  have tq: "?q1 + ?q2 \<noteq> 0" "\<not> ?q1 + ?q2 < 0" using assms(5,7) by simp_all
  have avg0: "\<not> ?avg \<le> 0" using avg(1) tick by linarith
  have b': "b' = b\<lparr>pb_positions := al_set (Symbol_String s) \<lparr>bp_Symbol = s, bp_Side = sd, bp_Quantity = Quantity (?q1 + ?q2),
      bp_EntryPrice = Price ?avg, bp_MarkPrice = p\<rparr> (pb_positions b)\<rparr>"
    using assms(1-4) tq avg0 by (simp add: applyFillLocked_def NewPrice_def NewQuantity_def Let_def)
  then show "holding b' (Symbol_String s) = side_sign sd * (?q1 + ?q2)" by (simp add: holding_def)
  have "worth b' (Symbol_String s) m - (worth b (Symbol_String s) m + side_sign sd * ?q2 * (m - ?p2)) =
      side_sign sd * ((?q1 + ?q2) * (m - ?avg) - (?q1 * (m - ?p1) + ?q2 * (m - ?p2)))"
    using assms(2,3) by (simp add: b' worth_def algebra_simps)
  with avg(2) show "\<bar>worth b' (Symbol_String s) m - (worth b (Symbol_String s) m + side_sign sd * ?q2 * (m - ?p2))\<bar>
      \<le> half_ulp * (?q1 + ?q2)"
    by (simp add: abs_mult side_sign_def)
qed

lemma applyFill_opposite:
  assumes "decimal_lib D" "map_of (pb_positions b) (Symbol_String s) = Some pos" "bp_Side pos \<noteq> sd"
    and "applyFillLocked D b s sd q p = (r, b')" "Side_Valid sd" "Side_Valid (bp_Side pos)"
  shows "holding b' (Symbol_String s) = side_sign (bp_Side pos) * Quantity_Decimal (bp_Quantity pos) + side_sign sd * Quantity_Decimal q"
    "worth b' (Symbol_String s) m = worth b (Symbol_String s) m + side_sign sd * Quantity_Decimal q * (m - Price_Decimal p)"
proof -
  have sgn: "side_sign sd = - side_sign (bp_Side pos)" "bp_Side pos = SideSell \<longleftrightarrow> side_sign (bp_Side pos) = - 1"
    "side_sign (bp_Side pos) = 1 \<or> side_sign (bp_Side pos) = - 1"
    using assms(3,5,6) by (auto simp: side_sign_def Side_Valid_iff)
  show "holding b' (Symbol_String s) = side_sign (bp_Side pos) * Quantity_Decimal (bp_Quantity pos) + side_sign sd * Quantity_Decimal q"
    using assms(1-4) sgn
    by (auto simp: applyFillLocked_def holding_def Quantity_Sub_def Quantity_IsZero_def ZeroQuantity_def
        order_defs Let_def split: if_splits)
  show "worth b' (Symbol_String s) m = worth b (Symbol_String s) m + side_sign sd * Quantity_Decimal q * (m - Price_Decimal p)"
    using assms(1-4) sgn
    by (auto simp: applyFillLocked_def worth_def Quantity_Sub_def Quantity_IsZero_def ZeroQuantity_def
        order_defs Let_def algebra_simps split: if_splits)
qed

lemma applyFill_books:
  assumes "decimal_lib D" "applyFillLocked D b s sd q p = (r, b')" "Side_Valid sd" "0 < Quantity_Decimal q"
    and "price_tick \<le> Price_Decimal p" "book_ok b (Symbol_String s)"
  shows "holding b' (Symbol_String s) = holding b (Symbol_String s) + side_sign sd * Quantity_Decimal q"
    "\<bar>worth b' (Symbol_String s) m - (worth b (Symbol_String s) m + side_sign sd * Quantity_Decimal q * (m - Price_Decimal p))\<bar>
      \<le> half_ulp * (\<bar>holding b (Symbol_String s)\<bar> + Quantity_Decimal q)"
proof -
  have nonneg: "0 \<le> half_ulp * (\<bar>holding b (Symbol_String s)\<bar> + Quantity_Decimal q)"
    using half_ulp_pos assms(4) by (intro mult_nonneg_nonneg) auto
  have "holding b' (Symbol_String s) = holding b (Symbol_String s) + side_sign sd * Quantity_Decimal q \<and>
    \<bar>worth b' (Symbol_String s) m - (worth b (Symbol_String s) m + side_sign sd * Quantity_Decimal q * (m - Price_Decimal p))\<bar>
      \<le> half_ulp * (\<bar>holding b (Symbol_String s)\<bar> + Quantity_Decimal q)"
  proof (cases "map_of (pb_positions b) (Symbol_String s)")
    case None
    then have "worth b (Symbol_String s) m = pb_balance b" "holding b (Symbol_String s) = 0"
      by (simp_all add: worth_def holding_def)
    with applyFill_open [OF None assms(2)] nonneg show ?thesis by simp
  next
    case (Some pos)
    with assms(6) have ok: "Side_Valid (bp_Side pos)" "0 \<le> Quantity_Decimal (bp_Quantity pos)"
      "price_tick \<le> Price_Decimal (bp_EntryPrice pos)"
      by (simp_all add: book_ok_def)
    have h: "holding b (Symbol_String s) = side_sign (bp_Side pos) * Quantity_Decimal (bp_Quantity pos)"
      using Some by (simp add: holding_def)
    show ?thesis
    proof (cases "bp_Side pos = sd")
      case True
      have "\<bar>holding b (Symbol_String s)\<bar> = Quantity_Decimal (bp_Quantity pos)"
        using ok(2) by (simp add: h abs_mult side_sign_def)
      with applyFill_add [OF assms(1) Some True assms(2,4,5) ok(2,3)] h True show ?thesis
        by (simp add: distrib_left)
    next
      case False
      with applyFill_opposite [OF assms(1) Some False assms(2,3) ok(1)] h nonneg show ?thesis by simp
    qed
  qed
  then show "holding b' (Symbol_String s) = holding b (Symbol_String s) + side_sign sd * Quantity_Decimal q"
    "\<bar>worth b' (Symbol_String s) m - (worth b (Symbol_String s) m + side_sign sd * Quantity_Decimal q * (m - Price_Decimal p))\<bar>
      \<le> half_ulp * (\<bar>holding b (Symbol_String s)\<bar> + Quantity_Decimal q)"
    by blast+
qed

lemma applyFill_other:
  assumes "applyFillLocked D b s sd q p = (r, b')" "key \<noteq> Symbol_String s"
  shows "map_of (pb_positions b') key = map_of (pb_positions b) key"
  using assms by (auto simp: applyFillLocked_def Let_def split: option.splits if_splits sum.splits)

section \<open>Reachable states and properties\<close>

inductive paper_reachable :: "decimal_ops \<Rightarrow> PaperBroker \<Rightarrow> bool" for D where
  reach_new: "paper_reachable D (NewBroker s f sl)"
| reach_place: "paper_reachable D b \<Longrightarrow> paper_PlaceOrder D b req = (r, b') \<Longrightarrow> paper_reachable D b'"
| reach_stop: "paper_reachable D b \<Longrightarrow> paper_PlaceStop b sreq = (r, b') \<Longrightarrow> paper_reachable D b'"
| reach_cancel: "paper_reachable D b \<Longrightarrow> paper_CancelOrder b i = (u, b') \<Longrightarrow> paper_reachable D b'"
| reach_reset: "paper_reachable D b \<Longrightarrow> paper_Reset b = (u, b') \<Longrightarrow> paper_reachable D b'"

lemma pb_inv_empty: "pb_orders b = [] \<Longrightarrow> pb_byClientID b = [] \<Longrightarrow> pb_inv b"
  by (simp add: pb_inv_def)

lemma pb_inv_place:
  assumes "pb_inv b" "paper_PlaceOrder D b req = (r, b')"
  shows "pb_inv b'"
proof (cases r)
  case (Inr ord)
  show ?thesis
  proof (cases "map_of (pb_byClientID b) (ClientOrderID_String (por_ClientOrderID req))")
    case None
    with paper_PlaceOrder_new assms Inr show ?thesis by blast
  next
    case (Some i)
    with paper_PlaceOrder_old [OF Some, of D] assms show ?thesis by simp
  qed
next
  case (Inl e)
  have "pb_orders b' = pb_orders b \<and> pb_byClientID b' = pb_byClientID b \<and>
      (pb_nextOrderSeq b' = pb_nextOrderSeq b \<or> pb_nextOrderSeq b' = Suc (pb_nextOrderSeq b))"
    using assms(2) Inl
    by (auto simp: paper_PlaceOrder_def Let_def split: option.splits sum.splits if_splits prod.splits
        dest!: applyFillLocked_frame)
  with assms(1) show ?thesis by (auto simp: pb_inv_def intro!: issued_mono)
qed

lemma pb_inv_stop:
  assumes "pb_inv b" "paper_PlaceStop b req = (r, b')"
  shows "pb_inv b'"
proof (cases "map_of (pb_byClientID b) (ClientOrderID_String (psr_ClientOrderID req))")
  case None
  with assms(2) obtain ord where "r = Inr ord" by (auto simp: paper_PlaceStop_def Let_def)
  with assms(2) None pb_inv_add [OF assms(1), of b' "paper_stop_id (Suc (pb_nextOrderSeq b))" ord
      "ClientOrderID_String (psr_ClientOrderID req)"]
  show ?thesis by (auto simp: paper_PlaceStop_def Let_def)
next
  case (Some i)
  with assms show ?thesis by (simp add: paper_PlaceStop_def Let_def)
qed

lemma pb_inv_cancel:
  assumes "pb_inv b" "paper_CancelOrder b i = (u, b')"
  shows "pb_inv b'"
proof (cases "map_of (pb_orders b) i")
  case None
  with assms show ?thesis by (simp add: paper_CancelOrder_def)
next
  case (Some ord)
  with assms have b': "b' = b\<lparr>pb_orders := al_set i (ord\<lparr>bo_RawStatus := ''CANCELLED''\<rparr>) (pb_orders b)\<rparr>"
    by (simp add: paper_CancelOrder_def)
  have "\<exists>ord'. map_of (pb_orders b') j = Some ord' \<and> bo_ClientOrderID ord' = c" if "map_of (pb_byClientID b) c = Some j" for c j
    using order_at_known [OF assms(1) that] Some by (cases "j = i") (auto simp: b')
  with assms(1) Some show ?thesis by (auto simp: pb_inv_def b')
qed

lemma paper_reachable_inv: "paper_reachable D b \<Longrightarrow> pb_inv b"
  by (induction rule: paper_reachable.induct)
    (auto simp: NewBroker_def resetLocked_def paper_Reset_def intro: pb_inv_empty pb_inv_place pb_inv_stop pb_inv_cancel)

text \<open>
  C26: Placing an order with the simulator is idempotent: whatever happened before, an accepted
  order is found again under its client id and under its broker id, and any number of further
  placements with that client id, whatever else they ask for, return the same order and change
  nothing. An order with a new client id gets a broker id no earlier order has.
\<close>

theorem paper_placement_idempotent:
  assumes "paper_reachable D b" "paper_PlaceOrder D b req = (Inr r, b')"
    and "list_all (\<lambda>q. por_ClientOrderID q = por_ClientOrderID req) reqs"
  shows "place_all (paper_broker D) b' reqs = (replicate (length reqs) (Inr r), b') \<and>
    paper_FindOrderByClientOrderID b' (ClientOrderID_String (por_ClientOrderID req)) = (Inr r, b') \<and>
    paper_GetOrder b' (bo_BrokerOrderID r) = (Inr r, b') \<and>
    (map_of (pb_byClientID b) (ClientOrderID_String (por_ClientOrderID req)) = None \<longrightarrow>
      map_of (pb_orders b) (bo_BrokerOrderID r) = None)"
proof -
  let ?c = "ClientOrderID_String (por_ClientOrderID req)"
  have inv: "pb_inv b" and place: "br_PlaceOrder (paper_broker D) b req = (Inr r, b')"
    using assms(1,2) paper_reachable_inv by (auto simp: paper_broker_def)
  have "place_all (paper_broker D) b' reqs = (replicate (length reqs) (Inr r), b')"
    using paper.retries [OF inv place] assms(3) by (simp add: list_all_iff)
  moreover have "paper_FindOrderByClientOrderID b' ?c = (Inr r, b')" "paper_GetOrder b' (bo_BrokerOrderID r) = (Inr r, b')"
    using paper.place_records [OF inv place] paper.find_pure [of b' D ?c]
    by (auto simp: paper_broker_def paper_GetOrder_def prod_eq_iff split: option.splits)
  ultimately show ?thesis using paper_PlaceOrder_new [OF assms(2) inv] by blast
qed

definition sample_request :: PlaceOrderRequest where
  "sample_request = \<lparr>por_ClientOrderID = ClientOrderID ''order-0001'', por_Symbol = Symbol ''BTCUSDT'', por_Side = SideBuy,
     por_Type = ''MARKET'', por_Quantity = Quantity 2, por_Price = Some (Price 100)\<rparr>"

definition sample_fill :: BrokerOrder where
  "sample_fill = \<lparr>bo_BrokerOrderID = ''PAPER-00000001'', bo_ClientOrderID = ''order-0001'', bo_Symbol = Symbol ''BTCUSDT'',
     bo_Side = SideBuy, bo_Type = ''MARKET'', bo_Quantity = Quantity 2, bo_FilledQuantity = Quantity 2,
     bo_AveragePrice = Some (Price 101), bo_RawStatus = ''FILLED''\<rparr>"

definition sample_broker :: PaperBroker where
  "sample_broker = NewBroker 10000 (1 / 1000) (1 / 100)"

definition sample_broker_after :: PaperBroker where
  "sample_broker_after = sample_broker\<lparr>pb_balance := 10000 - 202 / 1000,
     pb_positions := [(''BTCUSDT'', \<lparr>bp_Symbol = Symbol ''BTCUSDT'', bp_Side = SideBuy, bp_Quantity = Quantity 2,
        bp_EntryPrice = Price 101, bp_MarkPrice = Price 101\<rparr>)],
     pb_orders := [(''PAPER-00000001'', sample_fill)],
     pb_byClientID := [(''order-0001'', ''PAPER-00000001'')], pb_nextOrderSeq := 1\<rparr>"

lemma paper_order_id_1: "paper_order_id (Suc 0) = ''PAPER-00000001''"
  by code_simp

lemma sample_placement:
  "paper_PlaceOrder ref_decimal sample_broker sample_request = (Inr sample_fill, sample_broker_after)"
  by (simp add: paper_PlaceOrder_def sample_broker_def sample_request_def sample_fill_def sample_broker_after_def
      NewBroker_def resetLocked_def applySlippage_def NewPrice_def applyFillLocked_def paper_order_id_1 Let_def)

theorem paper_placement_idempotent_witness:
  "place_all (paper_broker ref_decimal) sample_broker_after [sample_request, sample_request\<lparr>por_Quantity := Quantity 7\<rparr>] =
     ([Inr sample_fill, Inr sample_fill], sample_broker_after)"
  using paper_placement_idempotent [OF _ sample_placement,
      of "[sample_request, sample_request\<lparr>por_Quantity := Quantity 7\<rparr>]"]
  by (simp add: sample_broker_def reach_new numeral_2_eq_2)

text \<open>
  A fill of the simulator is booked correctly: the signed holding of the symbol moves by the
  signed quantity, whether the fill opens, adds to, reduces, closes or turns the position; no other
  symbol is touched; and at any mark price the account is worth what it was worth before, less the
  fee, plus the result of the new quantity from its execution price to the mark, exact unless entry
  prices are averaged, and then within half a unit of the sixteenth digit per unit held.
\<close>

theorem paper_fill_books:
  assumes "decimal_lib D" "paper_PlaceOrder D b req = (Inr r, b')" "bo_AveragePrice r = Some p"
    and "map_of (pb_byClientID b) (ClientOrderID_String (por_ClientOrderID req)) = None"
    and "Side_Valid (por_Side req)" "0 < Quantity_Decimal (por_Quantity req)"
    and "price_tick \<le> Price_Decimal p" "book_ok b (Symbol_String (por_Symbol req))"
  defines "key \<equiv> Symbol_String (por_Symbol req)" and "q \<equiv> Quantity_Decimal (por_Quantity req)"
  shows "holding b' key = holding b key + side_sign (por_Side req) * q \<and>
    (\<forall>k. k \<noteq> key \<longrightarrow> map_of (pb_positions b') k = map_of (pb_positions b) k) \<and>
    \<bar>worth b' key m - (worth b key m - q * Price_Decimal p * pb_feePct b
       + side_sign (por_Side req) * q * (m - Price_Decimal p))\<bar> \<le> half_ulp * (\<bar>holding b key\<bar> + q)"
proof -
  let ?b = "b\<lparr>pb_nextOrderSeq := pb_nextOrderSeq b + 1, pb_balance := pb_balance b - q * Price_Decimal p * pb_feePct b\<rparr>"
  obtain r' b'' where fill: "applyFillLocked D ?b (por_Symbol req) (por_Side req) (por_Quantity req) p = (r', b'')"
    and b'': "pb_positions b' = pb_positions b''" "pb_balance b' = pb_balance b''"
    using assms(1-4) unfolding q_def
    by (auto simp: paper_PlaceOrder_def Let_def split: option.splits sum.splits if_splits prod.splits)
  have same: "holding ?b key = holding b key" "worth ?b key m = worth b key m - q * Price_Decimal p * pb_feePct b"
    "book_ok ?b key" "holding b' key = holding b'' key" "worth b' key m = worth b'' key m"
    using assms(8) b'' by (simp_all add: holding_def worth_def book_ok_def key_def)
  note books = applyFill_books [OF assms(1) fill assms(5,6,7) same(3) [unfolded key_def]]
  show ?thesis
    using books(1) books(2) [of m] applyFill_other [OF fill] same b'' unfolding key_def q_def by auto
qed

theorem paper_fill_books_witness:
  "holding sample_broker_after ''BTCUSDT'' = 2 \<and>
   \<bar>worth sample_broker_after ''BTCUSDT'' 105 - (10000 - 202 / 1000 + 8)\<bar> \<le> half_ulp * 2"
  using paper_fill_books [OF decimal_lib_ref sample_placement, of "Price 101" 105]
  by (simp add: sample_request_def sample_fill_def sample_broker_def NewBroker_def resetLocked_def Side_Valid_def
      price_tick_def book_ok_def holding_def worth_def side_sign_def)

end
