(* ===== verification/Store_Aggregates.thy ===== *)
theory Store_Aggregates
  imports Paper_Broker
begin

text \<open>
  \<^verbatim>\<open>internal/infrastructure/database\<close>, first part: the SQL the repositories issue, over tables kept as
  association lists from the primary key to the row, and the four repositories of versioned
  aggregates (orders, positions, accounts, operational mode). Column types are those of the
  migrations: \<^verbatim>\<open>NUMERIC(p,s)\<close> rounds half away from zero to \<open>s\<close> digits and refuses what needs more
  than \<open>p - s\<close> digits before the point, \<^verbatim>\<open>TIMESTAMPTZ\<close> keeps microseconds. The interface
  \<open>versioned_store\<close> states what optimistic locking promises; all four repositories meet it.
\<close>

section \<open>SQL\<close>

definition numeric :: "nat \<Rightarrow> nat \<Rightarrow> decimal \<Rightarrow> decimal result" where
  "numeric p s x = (let y = round_to s x in
     if \<bar>y\<bar> \<ge> 10 ^ (p - s) then Inl (ErrorText ''numeric field overflow'') else Inr y)"

definition numeric_opt :: "nat \<Rightarrow> nat \<Rightarrow> decimal option \<Rightarrow> decimal option result" where
  "numeric_opt p s d = (case d of None \<Rightarrow> Inr None | Some x \<Rightarrow> rbind (numeric p s x) (\<lambda>y. Inr (Some y)))"

definition timestamptz :: "time \<Rightarrow> time" where
  "timestamptz t = 1000 * (t div 1000)"

type_synonym 'row table = "(string \<times> 'row) list"

text \<open>
  \<^verbatim>\<open>INSERT ... ON CONFLICT (id) DO UPDATE SET ... WHERE cond\<close> with a unique index \<open>clash\<close>: the number
  of affected rows and the new table, or an error when another row clashes with the result.
\<close>

definition sql_upsert :: "string \<Rightarrow> ('row \<Rightarrow> 'row \<Rightarrow> bool) \<Rightarrow> string \<Rightarrow> 'row \<Rightarrow> ('row \<Rightarrow> 'row) \<Rightarrow> ('row \<Rightarrow> bool) \<Rightarrow>
    'row table \<Rightarrow> (nat \<times> 'row table) result" where
  "sql_upsert index clash key new merge cond tbl =
     (let put = (\<lambda>row. if list_ex (\<lambda>(k, r). k \<noteq> key \<and> clash r row) tbl
        then Inl (ErrorText (''duplicate key value violates unique constraint '' @ index))
        else Inr (1, al_set key row tbl)) in
      case map_of tbl key of
        None \<Rightarrow> put new
      | Some old \<Rightarrow> if cond old then put (merge old) else Inr (0, tbl))"

definition no_clash :: "'row \<Rightarrow> 'row \<Rightarrow> bool" where
  "no_clash r s = False"

text \<open>Reading rows one by one; the first that does not convert ends the loop with its error.\<close>

fun scan_rows :: "('row \<Rightarrow> 'a result) \<Rightarrow> 'row list \<Rightarrow> 'a list result" where
  "scan_rows f [] = Inr []"
| "scan_rows f (r # rs) = rbind (f r) (\<lambda>x. rbind (scan_rows f rs) (\<lambda>xs. Inr (x # xs)))"

definition scan_one :: "('row \<Rightarrow> 'a result) \<Rightarrow> 'row option \<Rightarrow> 'a result" where
  "scan_one f r = (case r of None \<Rightarrow> Inl ErrNotFound | Some row \<Rightarrow> f row)"

text \<open>\<^verbatim>\<open>ORDER BY t DESC\<close> and \<^verbatim>\<open>LIMIT n\<close>.\<close>

definition order_desc :: "('row \<Rightarrow> time) \<Rightarrow> 'row list \<Rightarrow> 'row list" where
  "order_desc t rows = sort_key (\<lambda>r. - t r) rows"

definition sql_limit :: "int \<Rightarrow> 'row list \<Rightarrow> 'row list result" where
  "sql_limit n rows = (if n < 0 then Inl (ErrorText ''LIMIT must not be negative'') else Inr (take (nat n) rows))"

definition optionalPrice :: "decimal_ops \<Rightarrow> decimal option \<Rightarrow> Price option result" where
  "optionalPrice D d = (case d of None \<Rightarrow> Inr None | Some x \<Rightarrow> rbind (NewPrice D x) (\<lambda>p. Inr (Some p)))"

definition priceDecimal :: "Price option \<Rightarrow> decimal option" where
  "priceDecimal p = (case p of None \<Rightarrow> None | Some x \<Rightarrow> Some (Price_Decimal x))"

section \<open>Orders\<close>

record order_model =
  om_ID :: string
  om_ClientOrderID :: string
  om_BrokerOrderID :: string
  om_Symbol :: string
  om_Side :: string
  om_Type :: string
  om_Quantity :: decimal
  om_FilledQuantity :: decimal
  om_RequestedPrice :: "decimal option"
  om_AverageExecutionPrice :: "decimal option"
  om_StopPrice :: "decimal option"
  om_TargetPrice :: "decimal option"
  om_Status :: string
  om_StrategyName :: string
  om_SignalID :: string
  om_RiskDecisionID :: string
  om_FailureReason :: string
  om_Version :: int
  om_CreatedAt :: time
  om_UpdatedAt :: time

definition order_toDomain :: "decimal_ops \<Rightarrow> uuid_ops \<Rightarrow> order_model \<Rightarrow> Order result" where
  "order_toDomain D U m =
     rbind (ParseOrderID U (om_ID m)) (\<lambda>id'.
     rbind (NewClientOrderID (om_ClientOrderID m)) (\<lambda>clientOrderID.
     rbind (NewSymbol (om_Symbol m)) (\<lambda>symbol.
     rbind (NewQuantity D (om_Quantity m)) (\<lambda>quantity.
     rbind (NewQuantity D (om_FilledQuantity m)) (\<lambda>filledQuantity.
     rbind (ParseSignalID U (om_SignalID m)) (\<lambda>signalID.
     rbind (ParseRiskDecisionID U (om_RiskDecisionID m)) (\<lambda>riskDecisionID.
     rbind (optionalPrice D (om_RequestedPrice m)) (\<lambda>requestedPrice.
     rbind (optionalPrice D (om_AverageExecutionPrice m)) (\<lambda>averagePrice.
     rbind (optionalPrice D (om_StopPrice m)) (\<lambda>stopPrice.
     rbind (optionalPrice D (om_TargetPrice m)) (\<lambda>targetPrice.
     Inr \<lparr>ord_ID = id', ord_ClientOrderID = clientOrderID, ord_BrokerOrderID = om_BrokerOrderID m,
       ord_Symbol = symbol, ord_Side = Side_of_string (om_Side m), ord_Type = Type_of_string (om_Type m),
       ord_Quantity = quantity, ord_FilledQuantity = filledQuantity, ord_RequestedPrice = requestedPrice,
       ord_AverageExecutionPrice = averagePrice, ord_StopPrice = stopPrice, ord_TargetPrice = targetPrice,
       ord_Status = OrderStatus_of_string (om_Status m), ord_StrategyName = om_StrategyName m,
       ord_SignalID = signalID, ord_RiskDecisionID = riskDecisionID, ord_FailureReason = om_FailureReason m,
       ord_Version = om_Version m, ord_CreatedAt = om_CreatedAt m, ord_UpdatedAt = om_UpdatedAt m\<rparr>)))))))))))"

fun OrderID_String :: "uuid_ops \<Rightarrow> OrderID \<Rightarrow> string" where "OrderID_String U (OrderID u) = uString U u"
fun SignalID_String :: "uuid_ops \<Rightarrow> SignalID \<Rightarrow> string" where "SignalID_String U (SignalID u) = uString U u"
fun RiskDecisionID_String :: "uuid_ops \<Rightarrow> RiskDecisionID \<Rightarrow> string" where
  "RiskDecisionID_String U (RiskDecisionID u) = uString U u"
fun AccountID_String :: "uuid_ops \<Rightarrow> AccountID \<Rightarrow> string" where "AccountID_String U (AccountID u) = uString U u"
fun PositionID_String :: "uuid_ops \<Rightarrow> PositionID \<Rightarrow> string" where "PositionID_String U (PositionID u) = uString U u"

definition order_toModel :: "uuid_ops \<Rightarrow> Order \<Rightarrow> order_model" where
  "order_toModel U ord = \<lparr>om_ID = OrderID_String U (ord_ID ord),
     om_ClientOrderID = ClientOrderID_String (ord_ClientOrderID ord), om_BrokerOrderID = ord_BrokerOrderID ord,
     om_Symbol = Symbol_String (ord_Symbol ord), om_Side = Side_String (ord_Side ord), om_Type = Type_String (ord_Type ord),
     om_Quantity = Quantity_Decimal (ord_Quantity ord), om_FilledQuantity = Quantity_Decimal (ord_FilledQuantity ord),
     om_RequestedPrice = priceDecimal (ord_RequestedPrice ord),
     om_AverageExecutionPrice = priceDecimal (ord_AverageExecutionPrice ord),
     om_StopPrice = priceDecimal (ord_StopPrice ord), om_TargetPrice = priceDecimal (ord_TargetPrice ord),
     om_Status = OrderStatus_String (ord_Status ord), om_StrategyName = ord_StrategyName ord,
     om_SignalID = SignalID_String U (ord_SignalID ord), om_RiskDecisionID = RiskDecisionID_String U (ord_RiskDecisionID ord),
     om_FailureReason = ord_FailureReason ord, om_Version = ord_Version ord,
     om_CreatedAt = ord_CreatedAt ord, om_UpdatedAt = ord_UpdatedAt ord\<rparr>"

text \<open>What the columns of the \<^verbatim>\<open>orders\<close> table keep of a row.\<close>

definition order_columns :: "order_model \<Rightarrow> order_model result" where
  "order_columns m =
     rbind (numeric 24 8 (om_Quantity m)) (\<lambda>q.
     rbind (numeric 24 8 (om_FilledQuantity m)) (\<lambda>f.
     rbind (numeric_opt 24 8 (om_RequestedPrice m)) (\<lambda>rp.
     rbind (numeric_opt 24 8 (om_AverageExecutionPrice m)) (\<lambda>ap.
     rbind (numeric_opt 24 8 (om_StopPrice m)) (\<lambda>sp.
     rbind (numeric_opt 24 8 (om_TargetPrice m)) (\<lambda>tp.
     Inr (m\<lparr>om_Quantity := q, om_FilledQuantity := f, om_RequestedPrice := rp, om_AverageExecutionPrice := ap,
       om_StopPrice := sp, om_TargetPrice := tp, om_CreatedAt := timestamptz (om_CreatedAt m),
       om_UpdatedAt := timestamptz (om_UpdatedAt m)\<rparr>)))))))"

record execution_row =
  ex_ID :: string
  ex_OrderID :: string
  ex_Quantity :: decimal
  ex_Price :: decimal
  ex_ExecutedAt :: time

text \<open>The \<^verbatim>\<open>DO UPDATE SET\<close> list of \<^verbatim>\<open>upsertQuery\<close>.\<close>

definition order_merge :: "order_model \<Rightarrow> order_model \<Rightarrow> order_model" where
  "order_merge new old = old\<lparr>om_BrokerOrderID := om_BrokerOrderID new, om_FilledQuantity := om_FilledQuantity new,
     om_AverageExecutionPrice := om_AverageExecutionPrice new, om_Status := om_Status new,
     om_FailureReason := om_FailureReason new, om_Version := om_Version new, om_UpdatedAt := om_UpdatedAt new\<rparr>"

definition order_clash :: "order_model \<Rightarrow> order_model \<Rightarrow> bool" where
  "order_clash r s \<longleftrightarrow> om_ClientOrderID r = om_ClientOrderID s"

definition order_upsert :: "order_model \<Rightarrow> int \<Rightarrow> order_model table \<Rightarrow> (nat \<times> order_model table) result" where
  "order_upsert m expectedPreviousVersion tbl =
     rbind (order_columns m) (\<lambda>row. sql_upsert ''orders_client_order_id_idx'' order_clash (om_ID m) row (order_merge row)
       (\<lambda>old. om_Version old = expectedPreviousVersion) tbl)"

section \<open>Positions\<close>

record position_model =
  pm_ID :: string
  pm_Symbol :: string
  pm_Side :: string
  pm_Quantity :: decimal
  pm_EntryPrice :: decimal
  pm_CurrentPrice :: decimal
  pm_StopPrice :: "decimal option"
  pm_TargetPrice :: "decimal option"
  pm_UnrealizedPnL :: decimal
  pm_RealizedPnL :: decimal
  pm_Status :: string
  pm_Version :: int
  pm_OpenedAt :: time
  pm_ClosedAt :: "time option"

definition position_toDomain :: "decimal_ops \<Rightarrow> uuid_ops \<Rightarrow> position_model \<Rightarrow> Position result" where
  "position_toDomain D U m =
     rbind (ParsePositionID U (pm_ID m)) (\<lambda>id'.
     rbind (NewSymbol (pm_Symbol m)) (\<lambda>symbol.
     rbind (NewQuantity D (pm_Quantity m)) (\<lambda>quantity.
     rbind (NewPrice D (pm_EntryPrice m)) (\<lambda>entryPrice.
     rbind (NewPrice D (pm_CurrentPrice m)) (\<lambda>currentPrice.
     rbind (optionalPrice D (pm_StopPrice m)) (\<lambda>stopPrice.
     rbind (optionalPrice D (pm_TargetPrice m)) (\<lambda>targetPrice.
     Inr \<lparr>pos_ID = id', pos_Symbol = symbol, pos_Side = Side_of_string (pm_Side m), pos_Quantity = quantity,
       pos_EntryPrice = entryPrice, pos_CurrentPrice = currentPrice, pos_StopPrice = stopPrice,
       pos_TargetPrice = targetPrice, pos_UnrealizedPnL = NewMoney (pm_UnrealizedPnL m),
       pos_RealizedPnL = NewMoney (pm_RealizedPnL m), pos_Status = PositionStatus_of_string (pm_Status m),
       pos_Version = pm_Version m, pos_OpenedAt = pm_OpenedAt m, pos_ClosedAt = pm_ClosedAt m\<rparr>)))))))"

definition position_toModel :: "uuid_ops \<Rightarrow> Position \<Rightarrow> position_model" where
  "position_toModel U p = \<lparr>pm_ID = PositionID_String U (pos_ID p), pm_Symbol = Symbol_String (pos_Symbol p),
     pm_Side = Side_String (pos_Side p), pm_Quantity = Quantity_Decimal (pos_Quantity p),
     pm_EntryPrice = Price_Decimal (pos_EntryPrice p), pm_CurrentPrice = Price_Decimal (pos_CurrentPrice p),
     pm_StopPrice = priceDecimal (pos_StopPrice p), pm_TargetPrice = priceDecimal (pos_TargetPrice p),
     pm_UnrealizedPnL = Money_Decimal (pos_UnrealizedPnL p), pm_RealizedPnL = Money_Decimal (pos_RealizedPnL p),
     pm_Status = PositionStatus_String (pos_Status p), pm_Version = pos_Version p, pm_OpenedAt = pos_OpenedAt p,
     pm_ClosedAt = pos_ClosedAt p\<rparr>"

definition position_columns :: "position_model \<Rightarrow> position_model result" where
  "position_columns m =
     rbind (numeric 24 8 (pm_Quantity m)) (\<lambda>q.
     rbind (numeric 24 8 (pm_EntryPrice m)) (\<lambda>e.
     rbind (numeric 24 8 (pm_CurrentPrice m)) (\<lambda>c.
     rbind (numeric_opt 24 8 (pm_StopPrice m)) (\<lambda>sp.
     rbind (numeric_opt 24 8 (pm_TargetPrice m)) (\<lambda>tp.
     rbind (numeric 24 8 (pm_UnrealizedPnL m)) (\<lambda>u.
     rbind (numeric 24 8 (pm_RealizedPnL m)) (\<lambda>r.
     Inr (m\<lparr>pm_Quantity := q, pm_EntryPrice := e, pm_CurrentPrice := c, pm_StopPrice := sp, pm_TargetPrice := tp,
       pm_UnrealizedPnL := u, pm_RealizedPnL := r, pm_OpenedAt := timestamptz (pm_OpenedAt m),
       pm_ClosedAt := map_option timestamptz (pm_ClosedAt m)\<rparr>))))))))"

definition position_merge :: "position_model \<Rightarrow> position_model \<Rightarrow> position_model" where
  "position_merge new old = old\<lparr>pm_Quantity := pm_Quantity new, pm_CurrentPrice := pm_CurrentPrice new,
     pm_StopPrice := pm_StopPrice new, pm_TargetPrice := pm_TargetPrice new,
     pm_UnrealizedPnL := pm_UnrealizedPnL new, pm_RealizedPnL := pm_RealizedPnL new, pm_Status := pm_Status new,
     pm_Version := pm_Version new, pm_ClosedAt := pm_ClosedAt new\<rparr>"

text \<open>The partial unique index: one open position per symbol.\<close>

definition position_clash :: "position_model \<Rightarrow> position_model \<Rightarrow> bool" where
  "position_clash r s \<longleftrightarrow> pm_Symbol r = pm_Symbol s \<and> pm_Status r = ''OPEN'' \<and> pm_Status s = ''OPEN''"

definition position_upsert :: "position_model \<Rightarrow> int \<Rightarrow> position_model table \<Rightarrow> (nat \<times> position_model table) result" where
  "position_upsert m expectedPreviousVersion tbl =
     rbind (position_columns m) (\<lambda>row. sql_upsert ''positions_open_symbol_idx'' position_clash (pm_ID m) row (position_merge row)
       (\<lambda>old. pm_Version old = expectedPreviousVersion) tbl)"

section \<open>Accounts\<close>

text \<open>The table has one column more than the Go model, \<^verbatim>\<open>is_active\<close>: a row is the pair of both.\<close>

record account_model =
  am_ID :: string
  am_Balance :: decimal
  am_Equity :: decimal
  am_AvailableBalance :: decimal
  am_PeakEquity :: decimal
  am_DailyPnL :: decimal
  am_WeeklyPnL :: decimal
  am_CurrentDrawdown :: decimal
  am_OperationalMode :: string
  am_Version :: int
  am_UpdatedAt :: time

type_synonym account_row = "account_model \<times> bool"

definition account_toDomain :: "decimal_ops \<Rightarrow> uuid_ops \<Rightarrow> account_model \<Rightarrow> Account result" where
  "account_toDomain D U m =
     rbind (ParseAccountID U (am_ID m)) (\<lambda>id'.
     rbind (NewDrawdown D (am_CurrentDrawdown m)) (\<lambda>drawdown.
     Inr \<lparr>acc_ID = id', acc_Balance = NewMoney (am_Balance m), acc_Equity = NewMoney (am_Equity m),
       acc_AvailableBalance = NewMoney (am_AvailableBalance m), acc_PeakEquity = NewMoney (am_PeakEquity m),
       acc_DailyPnL = NewMoney (am_DailyPnL m), acc_WeeklyPnL = NewMoney (am_WeeklyPnL m),
       acc_CurrentDrawdown = drawdown, acc_OperationalMode = Mode_of_string (am_OperationalMode m),
       acc_Version = am_Version m, acc_UpdatedAt = am_UpdatedAt m\<rparr>))"

definition account_toModel :: "uuid_ops \<Rightarrow> Account \<Rightarrow> account_model" where
  "account_toModel U a = \<lparr>am_ID = AccountID_String U (acc_ID a), am_Balance = Money_Decimal (acc_Balance a),
     am_Equity = Money_Decimal (acc_Equity a), am_AvailableBalance = Money_Decimal (acc_AvailableBalance a),
     am_PeakEquity = Money_Decimal (acc_PeakEquity a), am_DailyPnL = Money_Decimal (acc_DailyPnL a),
     am_WeeklyPnL = Money_Decimal (acc_WeeklyPnL a), am_CurrentDrawdown = Drawdown_Decimal (acc_CurrentDrawdown a),
     am_OperationalMode = Mode_String (acc_OperationalMode a), am_Version = acc_Version a, am_UpdatedAt = acc_UpdatedAt a\<rparr>"

definition account_columns :: "account_model \<Rightarrow> account_model result" where
  "account_columns m =
     rbind (numeric 24 8 (am_Balance m)) (\<lambda>b.
     rbind (numeric 24 8 (am_Equity m)) (\<lambda>e.
     rbind (numeric 24 8 (am_AvailableBalance m)) (\<lambda>a.
     rbind (numeric 24 8 (am_PeakEquity m)) (\<lambda>p.
     rbind (numeric 24 8 (am_DailyPnL m)) (\<lambda>d.
     rbind (numeric 24 8 (am_WeeklyPnL m)) (\<lambda>w.
     rbind (numeric 10 6 (am_CurrentDrawdown m)) (\<lambda>c.
     Inr (m\<lparr>am_Balance := b, am_Equity := e, am_AvailableBalance := a, am_PeakEquity := p, am_DailyPnL := d,
       am_WeeklyPnL := w, am_CurrentDrawdown := c, am_UpdatedAt := timestamptz (am_UpdatedAt m)\<rparr>))))))))"

definition account_merge :: "account_model \<Rightarrow> account_row \<Rightarrow> account_row" where
  "account_merge new old = ((fst old)\<lparr>am_Balance := am_Balance new, am_Equity := am_Equity new,
     am_AvailableBalance := am_AvailableBalance new, am_PeakEquity := am_PeakEquity new, am_DailyPnL := am_DailyPnL new,
     am_WeeklyPnL := am_WeeklyPnL new, am_CurrentDrawdown := am_CurrentDrawdown new,
     am_OperationalMode := am_OperationalMode new, am_Version := am_Version new, am_UpdatedAt := am_UpdatedAt new\<rparr>, snd old)"

text \<open>The partial unique index on \<^verbatim>\<open>is_active\<close>: one active account.\<close>

definition account_clash :: "account_row \<Rightarrow> account_row \<Rightarrow> bool" where
  "account_clash r s \<longleftrightarrow> snd r \<and> snd s"

definition account_upsert :: "account_model \<Rightarrow> int \<Rightarrow> account_row table \<Rightarrow> (nat \<times> account_row table) result" where
  "account_upsert m expectedPreviousVersion tbl =
     rbind (account_columns m) (\<lambda>row. sql_upsert ''accounts_single_active_idx'' account_clash (am_ID m) (row, True) (account_merge row)
       (\<lambda>old. am_Version (fst old) = expectedPreviousVersion) tbl)"

section \<open>Operational mode\<close>

record mode_model =
  mm_CurrentMode :: string
  mm_ChangedBy :: string
  mm_Origin :: string
  mm_Reason :: string
  mm_ChangedAt :: time
  mm_Version :: int

definition mode_toDomain :: "mode_model \<Rightarrow> State" where
  "mode_toDomain m = RehydrateState (Mode_of_string (mm_CurrentMode m)) (mm_ChangedBy m) (mm_Origin m) (mm_Reason m)
     (mm_ChangedAt m) (mm_Version m)"

definition mode_toModel :: "State \<Rightarrow> mode_model" where
  "mode_toModel s = \<lparr>mm_CurrentMode = Mode_String (st_CurrentMode s), mm_ChangedBy = st_ChangedBy s,
     mm_Origin = st_Origin s, mm_Reason = st_Reason s, mm_ChangedAt = st_ChangedAt s, mm_Version = st_Version s\<rparr>"

text \<open>The table holds at most one row, with id 1.\<close>

definition mode_upsert :: "mode_model \<Rightarrow> int \<Rightarrow> mode_model table \<Rightarrow> (nat \<times> mode_model table) result" where
  "mode_upsert m expectedPreviousVersion tbl =
     (let row = m\<lparr>mm_ChangedAt := timestamptz (mm_ChangedAt m)\<rparr> in
      sql_upsert ''operational_modes_pkey'' no_clash ''1'' row (\<lambda>_. row)
        (\<lambda>old. mm_Version old = expectedPreviousVersion) tbl)"

section \<open>Saving a versioned aggregate\<close>

text \<open>
  The shape all four \<^verbatim>\<open>Save\<close> methods share: run the upsert that expects the previous version, report
  a statement error as it is, and an upsert that touched no row as a lock conflict.
\<close>

definition save_row :: "(int \<Rightarrow> 'row table \<Rightarrow> (nat \<times> 'row table) result) \<Rightarrow> int \<Rightarrow> string \<Rightarrow> 'row table \<Rightarrow>
    unit result \<times> 'row table" where
  "save_row upsert version what tbl =
     (let expectedPreviousVersion = version - 1 in
      case upsert expectedPreviousVersion tbl of
        Inl e \<Rightarrow> (Inl e, tbl)
      | Inr (affected, tbl') \<Rightarrow>
          if affected = 0
          then (Inl (WrapSuffix ErrOptimisticLock (what @ '' at version '' @ show_int expectedPreviousVersion)), tbl')
          else (Inr (), tbl'))"

definition order_save_row :: "uuid_ops \<Rightarrow> Order \<Rightarrow> order_model table \<Rightarrow> unit result \<times> order_model table" where
  "order_save_row U ord tbl =
     save_row (order_upsert (order_toModel U ord)) (om_Version (order_toModel U ord)) (''order '' @ OrderID_String U (ord_ID ord)) tbl"

definition position_save :: "uuid_ops \<Rightarrow> Position \<Rightarrow> position_model table \<Rightarrow> unit result \<times> position_model table" where
  "position_save U p tbl =
     save_row (position_upsert (position_toModel U p)) (pm_Version (position_toModel U p))
       (''position '' @ PositionID_String U (pos_ID p)) tbl"

definition account_save :: "uuid_ops \<Rightarrow> Account \<Rightarrow> account_row table \<Rightarrow> unit result \<times> account_row table" where
  "account_save U a tbl =
     save_row (account_upsert (account_toModel U a)) (am_Version (account_toModel U a))
       (''account '' @ AccountID_String U (acc_ID a)) tbl"

definition mode_save :: "State \<Rightarrow> mode_model table \<Rightarrow> unit result \<times> mode_model table" where
  "mode_save s tbl =
     save_row (mode_upsert (mode_toModel s)) (mm_Version (mode_toModel s)) ''operational mode'' tbl"

text \<open>A sequence of saves, stopped by the first that fails.\<close>

fun save_all :: "('a \<Rightarrow> 'row table \<Rightarrow> unit result \<times> 'row table) \<Rightarrow> 'a list \<Rightarrow> 'row table \<Rightarrow> 'row table option" where
  "save_all save [] tbl = Some tbl"
| "save_all save (a # as) tbl = (case save a tbl of (Inl _, _) \<Rightarrow> None | (Inr _, tbl') \<Rightarrow> save_all save as tbl')"

subsection \<open>The contract\<close>

locale versioned_store =
  fixes save :: "'a \<Rightarrow> 'row table \<Rightarrow> unit result \<times> 'row table"
    and key :: "'a \<Rightarrow> string"
    and ver :: "'a \<Rightarrow> int"
    and rver :: "'row \<Rightarrow> int"
  assumes save_error: "save a tbl = (Inl e, tbl') \<Longrightarrow> tbl' = tbl"
    and save_ok: "save a tbl = (Inr u, tbl') \<Longrightarrow> \<exists>r. map_of tbl' (key a) = Some r \<and> rver r = ver a"
    and save_other: "save a tbl = (Inr u, tbl') \<Longrightarrow> k \<noteq> key a \<Longrightarrow> map_of tbl' k = map_of tbl k"
    and save_expects: "save a tbl = (Inr u, tbl') \<Longrightarrow> map_of tbl (key a) = Some r \<Longrightarrow> rver r = ver a - 1"
begin

text \<open>Of two writers that started from the same version only the first gets through.\<close>

lemma no_lost_update:
  assumes "save a tbl = (Inr u, tbl1)" "key b = key a" "ver b = ver a"
  shows "\<exists>e. save b tbl1 = (Inl e, tbl1)"
proof (cases "save b tbl1")
  case (Pair res tbl2)
  obtain r where r: "map_of tbl1 (key b) = Some r" "rver r = ver a"
    using save_ok [OF assms(1)] assms(2) by auto
  show ?thesis
  proof (cases res)
    case (Inl e)
    with Pair save_error [of b tbl1 e tbl2] show ?thesis by simp
  next
    case (Inr v)
    with Pair save_expects [of b tbl1 v tbl2 r] r assms(3) show ?thesis by simp
  qed
qed

text \<open>A write of anything but the next version is refused.\<close>

lemma stale_write_refused:
  assumes "map_of tbl (key a) = Some r" "rver r \<noteq> ver a - 1"
  shows "\<exists>e. save a tbl = (Inl e, tbl)"
  using save_error save_expects assms by (cases "save a tbl"; cases "fst (save a tbl)") fastforce+

lemma other_keys:
  assumes "save a tbl = (r, tbl')" "k \<noteq> key a"
  shows "map_of tbl' k = map_of tbl k"
  using assms save_error [of a tbl _ tbl'] save_other [of a tbl _ tbl'] by (cases r) auto

text \<open>Every sequence of accepted writes to one key counts its version up by one per write.\<close>

lemma versions_count:
  assumes "map_of tbl k = Some r" "list_all (\<lambda>a. key a = k) as" "save_all save as tbl = Some tbl'"
  shows "\<exists>r'. map_of tbl' k = Some r' \<and> rver r' = rver r + int (length as)"
  using assms
proof (induction as arbitrary: tbl r)
  case (Cons a as)
  then obtain u t1 where s: "save a tbl = (Inr u, t1)" and rest: "save_all save as t1 = Some tbl'" and k: "key a = k"
    by (auto split: prod.splits sum.splits)
  obtain r1 where r1: "map_of t1 k = Some r1" "rver r1 = ver a" using save_ok [OF s] k by auto
  have "rver r = ver a - 1" using save_expects [OF s] Cons.prems(1) k by simp
  moreover have "\<exists>r'. map_of tbl' k = Some r' \<and> rver r' = rver r1 + int (length as)"
    using Cons.IH [OF r1(1)] Cons.prems(2) rest by simp
  ultimately show ?case using r1(2) by auto
qed simp

end

lemma sql_upsert_cases:
  assumes "sql_upsert i c k new merge cond tbl = Inr (n, tbl')"
  shows "(n = 0 \<and> tbl' = tbl \<and> (\<exists>old. map_of tbl k = Some old \<and> \<not> cond old)) \<or>
    (n = 1 \<and> (map_of tbl k = None \<and> tbl' = al_set k new tbl \<or>
       (\<exists>old. map_of tbl k = Some old \<and> cond old \<and> tbl' = al_set k (merge old) tbl)))"
  using assms by (auto simp: sql_upsert_def Let_def split: option.splits if_splits)

text \<open>What \<open>save_row\<close> over any of the upserts does.\<close>

lemma save_row_store:
  assumes "save_row (\<lambda>v t. rbind cols (\<lambda>row. sql_upsert i c k (new row) (merge row) (\<lambda>old. rv old = v) t)) v w tbl = (res, tbl')"
  shows "(case res of Inl _ \<Rightarrow> tbl' = tbl
    | Inr _ \<Rightarrow> (\<exists>row. cols = Inr row \<and>
       (map_of tbl k = None \<and> tbl' = al_set k (new row) tbl \<or>
        (\<exists>old. map_of tbl k = Some old \<and> rv old = v - 1 \<and> tbl' = al_set k (merge row old) tbl))))"
  using assms
  by (auto simp: save_row_def Let_def rbind_Inr_iff split: sum.splits prod.splits if_splits dest!: sql_upsert_cases)

lemma toModel_key [simp]:
  "om_ID (order_toModel U ord) = OrderID_String U (ord_ID ord)" "om_Version (order_toModel U ord) = ord_Version ord"
  "pm_ID (position_toModel U p) = PositionID_String U (pos_ID p)" "pm_Version (position_toModel U p) = pos_Version p"
  "am_ID (account_toModel U a) = AccountID_String U (acc_ID a)" "am_Version (account_toModel U a) = acc_Version a"
  "mm_Version (mode_toModel s) = st_Version s" "mm_ChangedAt (mode_toModel s) = st_ChangedAt s"
  by (simp_all add: order_toModel_def position_toModel_def account_toModel_def mode_toModel_def)

lemma order_save_row_store:
  assumes "order_save_row U ord tbl = (res, tbl')"
  shows "case res of Inl _ \<Rightarrow> tbl' = tbl
    | Inr _ \<Rightarrow> (\<exists>row. order_columns (order_toModel U ord) = Inr row \<and>
       (map_of tbl (OrderID_String U (ord_ID ord)) = None \<and> tbl' = al_set (OrderID_String U (ord_ID ord)) row tbl \<or>
        (\<exists>old. map_of tbl (OrderID_String U (ord_ID ord)) = Some old \<and> om_Version old = ord_Version ord - 1 \<and>
          tbl' = al_set (OrderID_String U (ord_ID ord)) (order_merge row old) tbl)))"
  by (rule save_row_store [OF assms [unfolded order_save_row_def order_upsert_def [abs_def] toModel_key]])

lemma position_save_store:
  assumes "position_save U p tbl = (res, tbl')"
  shows "case res of Inl _ \<Rightarrow> tbl' = tbl
    | Inr _ \<Rightarrow> (\<exists>row. position_columns (position_toModel U p) = Inr row \<and>
       (map_of tbl (PositionID_String U (pos_ID p)) = None \<and> tbl' = al_set (PositionID_String U (pos_ID p)) row tbl \<or>
        (\<exists>old. map_of tbl (PositionID_String U (pos_ID p)) = Some old \<and> pm_Version old = pos_Version p - 1 \<and>
          tbl' = al_set (PositionID_String U (pos_ID p)) (position_merge row old) tbl)))"
  by (rule save_row_store [OF assms [unfolded position_save_def position_upsert_def [abs_def] toModel_key]])

lemma account_save_store:
  assumes "account_save U a tbl = (res, tbl')"
  shows "case res of Inl _ \<Rightarrow> tbl' = tbl
    | Inr _ \<Rightarrow> (\<exists>row. account_columns (account_toModel U a) = Inr row \<and>
       (map_of tbl (AccountID_String U (acc_ID a)) = None \<and> tbl' = al_set (AccountID_String U (acc_ID a)) (row, True) tbl \<or>
        (\<exists>old. map_of tbl (AccountID_String U (acc_ID a)) = Some old \<and> am_Version (fst old) = acc_Version a - 1 \<and>
          tbl' = al_set (AccountID_String U (acc_ID a)) (account_merge row old) tbl)))"
  by (rule save_row_store [OF assms [unfolded account_save_def account_upsert_def [abs_def] toModel_key]])

lemma mode_save_store:
  assumes "mode_save s tbl = (res, tbl')"
  shows "case res of Inl _ \<Rightarrow> tbl' = tbl
    | Inr _ \<Rightarrow> (map_of tbl ''1'' = None \<or> (\<exists>old. map_of tbl ''1'' = Some old \<and> mm_Version old = st_Version s - 1)) \<and>
        tbl' = al_set ''1'' ((mode_toModel s)\<lparr>mm_ChangedAt := timestamptz (st_ChangedAt s)\<rparr>) tbl"
  using assms
  by (auto simp: mode_save_def save_row_def mode_upsert_def Let_def split: sum.splits prod.splits if_splits dest!: sql_upsert_cases)

lemma order_columns_version: "order_columns m = Inr row \<Longrightarrow> om_Version row = om_Version m"
  by (auto simp: order_columns_def rbind_Inr_iff)

lemma position_columns_version: "position_columns m = Inr row \<Longrightarrow> pm_Version row = pm_Version m"
  by (auto simp: position_columns_def rbind_Inr_iff)

lemma account_columns_version: "account_columns m = Inr row \<Longrightarrow> am_Version row = am_Version m"
  by (auto simp: account_columns_def rbind_Inr_iff)

interpretation order_store: versioned_store "order_save_row U" "\<lambda>ord. OrderID_String U (ord_ID ord)" ord_Version om_Version for U
  by unfold_locales
    (auto dest!: order_save_row_store order_columns_version simp: order_merge_def)

interpretation position_store: versioned_store "position_save U" "\<lambda>p. PositionID_String U (pos_ID p)" pos_Version pm_Version for U
  by unfold_locales
    (auto dest!: position_save_store position_columns_version simp: position_merge_def)

interpretation account_store: versioned_store "account_save U" "\<lambda>a. AccountID_String U (acc_ID a)" acc_Version "\<lambda>r. am_Version (fst r)" for U
  by unfold_locales
    (auto dest!: account_save_store account_columns_version simp: account_merge_def simp del: split_paired_Ex)

interpretation mode_store: versioned_store mode_save "\<lambda>_. ''1''" st_Version mm_Version
  by unfold_locales (auto dest!: mode_save_store)

text \<open>
  C27: Optimistic locking works for orders, positions, accounts and the operational mode alike: of
  two writers that both loaded the same version of an aggregate, once the first has saved, the
  second gets an error and the table stays as the first left it.
\<close>

theorem optimistic_locking:
  "(order_save_row U a1 ot = (Inr (), ot') \<and> ord_ID b1 = ord_ID a1 \<and> ord_Version b1 = ord_Version a1 \<longrightarrow>
      (\<exists>e. order_save_row U b1 ot' = (Inl e, ot'))) \<and>
   (position_save U a2 pt = (Inr (), pt') \<and> pos_ID b2 = pos_ID a2 \<and> pos_Version b2 = pos_Version a2 \<longrightarrow>
      (\<exists>e. position_save U b2 pt' = (Inl e, pt'))) \<and>
   (account_save U a3 ct = (Inr (), ct') \<and> acc_ID b3 = acc_ID a3 \<and> acc_Version b3 = acc_Version a3 \<longrightarrow>
      (\<exists>e. account_save U b3 ct' = (Inl e, ct'))) \<and>
   (mode_save a4 mt = (Inr (), mt') \<and> st_Version b4 = st_Version a4 \<longrightarrow>
      (\<exists>e. mode_save b4 mt' = (Inl e, mt')))"
  using order_store.no_lost_update [of U a1 ot "()" ot' b1] position_store.no_lost_update [of U a2 pt "()" pt' b2]
    account_store.no_lost_update [of U a3 ct "()" ct' b3] mode_store.no_lost_update [of a4 mt "()" mt' b4]
  by auto

theorem optimistic_locking_witness:
  "\<exists>mt' e. mode_save (NewState 5000) [] = (Inr (), mt') \<and>
     mode_save ((NewState 7000)\<lparr>st_Reason := ''late''\<rparr>) mt' = (Inl e, mt')"
proof -
  obtain mt' where "mode_save (NewState 5000) [] = (Inr (), mt')"
    by (simp add: mode_save_def save_row_def mode_upsert_def sql_upsert_def Let_def)
  then show ?thesis
    using optimistic_locking [where ?a4.0 = "NewState 5000" and mt = "[]" and ?b4.0 = "(NewState 7000)\<lparr>st_Reason := ''late''\<rparr>"]
    by (auto simp: NewState_def)
qed

section \<open>What is saved is what is loaded\<close>

text \<open>Numbers and instants a column holds exactly.\<close>

definition fits :: "nat \<Rightarrow> nat \<Rightarrow> decimal \<Rightarrow> bool" where
  "fits p s x \<longleftrightarrow> round_to s x = x \<and> \<bar>x\<bar> < 10 ^ (p - s)"

definition fits_price :: "Price \<Rightarrow> bool" where
  "fits_price p \<longleftrightarrow> fits 24 8 (Price_Decimal p) \<and> 0 < Price_Decimal p"

definition fits_price_opt :: "Price option \<Rightarrow> bool" where
  "fits_price_opt p \<longleftrightarrow> (case p of None \<Rightarrow> True | Some x \<Rightarrow> fits_price x)"

definition fits_quantity :: "Quantity \<Rightarrow> bool" where
  "fits_quantity q \<longleftrightarrow> fits 24 8 (Quantity_Decimal q) \<and> 0 \<le> Quantity_Decimal q"

lemma numeric_fits [simp]: "fits p s x \<Longrightarrow> numeric p s x = Inr x"
  by (simp add: numeric_def fits_def)

lemma numeric_opt_fits [simp]: "fits_price_opt p \<Longrightarrow> numeric_opt 24 8 (priceDecimal p) = Inr (priceDecimal p)"
  by (cases p) (simp_all add: fits_price_opt_def fits_price_def numeric_opt_def priceDecimal_def)

lemma optionalPrice_fits [simp]:
  "decimal_lib D \<Longrightarrow> fits_price_opt p \<Longrightarrow> optionalPrice D (priceDecimal p) = Inr p"
  by (cases p) (simp_all add: fits_price_opt_def fits_price_def optionalPrice_def priceDecimal_def NewPrice_def not_le)

lemma NewQuantity_fits [simp]:
  "decimal_lib D \<Longrightarrow> fits_quantity q \<Longrightarrow> NewQuantity D (Quantity_Decimal q) = Inr q"
  by (simp add: fits_quantity_def NewQuantity_def)

lemma NewPrice_fits [simp]: "decimal_lib D \<Longrightarrow> fits_price p \<Longrightarrow> NewPrice D (Price_Decimal p) = Inr p"
  by (simp add: fits_price_def NewPrice_def not_le)

lemma timestamptz_id [simp]: "1000 dvd t \<Longrightarrow> timestamptz t = t"
  by (simp add: timestamptz_def)

fun id_number :: "OrderID \<Rightarrow> uuid" where "id_number (OrderID u) = u"
fun sid_number :: "SignalID \<Rightarrow> uuid" where "sid_number (SignalID u) = u"
fun rid_number :: "RiskDecisionID \<Rightarrow> uuid" where "rid_number (RiskDecisionID u) = u"
fun aid_number :: "AccountID \<Rightarrow> uuid" where "aid_number (AccountID u) = u"
fun pid_number :: "PositionID \<Rightarrow> uuid" where "pid_number (PositionID u) = u"

lemma Parse_String [simp]:
  assumes "uuid_lib U"
  shows "id_number i < 2 ^ 128 \<Longrightarrow> ParseOrderID U (OrderID_String U i) = Inr i"
    "sid_number s < 2 ^ 128 \<Longrightarrow> ParseSignalID U (SignalID_String U s) = Inr s"
    "rid_number r < 2 ^ 128 \<Longrightarrow> ParseRiskDecisionID U (RiskDecisionID_String U r) = Inr r"
    "aid_number a < 2 ^ 128 \<Longrightarrow> ParseAccountID U (AccountID_String U a) = Inr a"
    "pid_number p < 2 ^ 128 \<Longrightarrow> ParsePositionID U (PositionID_String U p) = Inr p"
  using uuid_libD(1) [OF assms]
  by (cases i; cases s; cases r; cases a; cases p; simp add: Parse_defs)+

definition order_storable :: "Order \<Rightarrow> bool" where
  "order_storable ord \<longleftrightarrow> id_number (ord_ID ord) < 2 ^ 128 \<and> sid_number (ord_SignalID ord) < 2 ^ 128 \<and>
     rid_number (ord_RiskDecisionID ord) < 2 ^ 128 \<and>
     clientOrderIDPattern (ClientOrderID_String (ord_ClientOrderID ord)) \<and> symbolPattern (Symbol_String (ord_Symbol ord)) \<and>
     Side_Valid (ord_Side ord) \<and> Type_Valid (ord_Type ord) \<and> OrderStatus_Valid (ord_Status ord) \<and>
     fits_quantity (ord_Quantity ord) \<and> fits_quantity (ord_FilledQuantity ord) \<and>
     fits_price_opt (ord_RequestedPrice ord) \<and> fits_price_opt (ord_AverageExecutionPrice ord) \<and>
     fits_price_opt (ord_StopPrice ord) \<and> fits_price_opt (ord_TargetPrice ord) \<and>
     1000 dvd ord_CreatedAt ord \<and> 1000 dvd ord_UpdatedAt ord"

definition position_storable :: "Position \<Rightarrow> bool" where
  "position_storable p \<longleftrightarrow> pid_number (pos_ID p) < 2 ^ 128 \<and> symbolPattern (Symbol_String (pos_Symbol p)) \<and>
     Side_Valid (pos_Side p) \<and> pos_Status p \<in> {StatusOpen, StatusClosed} \<and> fits_quantity (pos_Quantity p) \<and>
     fits_price (pos_EntryPrice p) \<and> fits_price (pos_CurrentPrice p) \<and> fits_price_opt (pos_StopPrice p) \<and>
     fits_price_opt (pos_TargetPrice p) \<and> fits 24 8 (Money_Decimal (pos_UnrealizedPnL p)) \<and>
     fits 24 8 (Money_Decimal (pos_RealizedPnL p)) \<and> 1000 dvd pos_OpenedAt p \<and>
     (case pos_ClosedAt p of None \<Rightarrow> True | Some t \<Rightarrow> 1000 dvd t)"

definition account_storable :: "Account \<Rightarrow> bool" where
  "account_storable a \<longleftrightarrow> aid_number (acc_ID a) < 2 ^ 128 \<and> fits 24 8 (Money_Decimal (acc_Balance a)) \<and>
     fits 24 8 (Money_Decimal (acc_Equity a)) \<and> fits 24 8 (Money_Decimal (acc_AvailableBalance a)) \<and>
     fits 24 8 (Money_Decimal (acc_PeakEquity a)) \<and> fits 24 8 (Money_Decimal (acc_DailyPnL a)) \<and>
     fits 24 8 (Money_Decimal (acc_WeeklyPnL a)) \<and> fits 10 6 (Drawdown_Decimal (acc_CurrentDrawdown a)) \<and>
     0 \<le> Drawdown_Decimal (acc_CurrentDrawdown a) \<and> Drawdown_Decimal (acc_CurrentDrawdown a) \<le> 1 \<and>
     Mode_Valid (acc_OperationalMode a) \<and> 1000 dvd acc_UpdatedAt a"

lemma order_columns_id: "order_storable ord \<Longrightarrow> order_columns (order_toModel U ord) = Inr (order_toModel U ord)"
  by (simp add: order_storable_def order_columns_def order_toModel_def fits_quantity_def)

lemma order_roundtrip:
  assumes "decimal_lib D" "uuid_lib U" "order_storable ord"
  shows "order_toDomain D U (order_toModel U ord) = Inr ord"
  using assms client_order_id.mk_raw [of "ord_ClientOrderID ord"] symbol.mk_raw [of "ord_Symbol ord"]
  by (simp add: order_storable_def order_toDomain_def order_toModel_def)

lemma position_columns_id: "position_storable p \<Longrightarrow> position_columns (position_toModel U p) = Inr (position_toModel U p)"
  by (cases "pos_ClosedAt p")
    (simp_all add: position_storable_def position_columns_def position_toModel_def fits_quantity_def fits_price_def)

lemma position_roundtrip:
  assumes "decimal_lib D" "uuid_lib U" "position_storable p"
  shows "position_toDomain D U (position_toModel U p) = Inr p"
  using assms symbol.mk_raw [of "pos_Symbol p"]
  by (auto simp: position_storable_def position_toDomain_def position_toModel_def NewMoney_def)

lemma account_columns_id: "account_storable a \<Longrightarrow> account_columns (account_toModel U a) = Inr (account_toModel U a)"
  by (simp add: account_storable_def account_columns_def account_toModel_def)

lemma account_roundtrip:
  assumes "decimal_lib D" "uuid_lib U" "account_storable a"
  shows "account_toDomain D U (account_toModel U a) = Inr a"
  using assms by (simp add: account_storable_def account_toDomain_def account_toModel_def NewMoney_def NewDrawdown_def)

lemma mode_roundtrip: "Mode_Valid (st_CurrentMode s) \<Longrightarrow> mode_toDomain (mode_toModel s) = s"
  by (simp add: mode_toDomain_def mode_toModel_def RehydrateState_def)

text \<open>The columns the upsert does not update never change in an aggregate's operations.\<close>

lemma order_merge_complete:
  assumes "order_step D ord ord'"
  shows "order_merge (order_toModel U ord') (order_toModel U ord) = order_toModel U ord'"
  using assms
  by cases (auto simp: order_op_defs order_merge_def order_toModel_def rbind_def split: if_splits)

lemma position_merge_complete:
  assumes "Reduce D p q px now = Inr p' \<or> MarkPrice D p px now = Inr p' \<or> Close D p px now = Inr p'"
  shows "position_merge (position_toModel U p') (position_toModel U p) = position_toModel U p'"
  using assms
  by (auto simp: Reduce_def MarkPrice_def Close_def position_merge_def position_toModel_def Let_def
      split: if_splits sum.splits)

lemma account_merge_complete: "acc_ID a' = acc_ID a \<Longrightarrow> account_merge (account_toModel U a') (account_toModel U a, b) = (account_toModel U a', b)"
  by (simp add: account_merge_def account_toModel_def)


lemma sample_order_storable: "order_storable sample_order"
proof -
  have "clientOrderIDPattern ''abcdefgh''" "symbolPattern ''BTCUSDT''" by code_simp+
  then show ?thesis
    by (simp add: order_storable_def sample_order_def fits_quantity_def fits_price_opt_def fits_def Side_Valid_def
        Type_Valid_def OrderStatus_Valid_def round_to_def round_half_away_def)
qed



lemma sample_account_storable: "account_storable sample_account"
  by (simp add: account_storable_def sample_account_def fits_def Mode_Valid_def round_to_def round_half_away_def)


end
