(* ===== verification/Store_Records.thy ===== *)
theory Store_Records
  imports Store_Aggregates
begin

text \<open>
  \<^verbatim>\<open>internal/infrastructure/database\<close>, second part: the append-only records (signals, risk decisions,
  market events, incidents), the idempotency keys, the transactional outbox, and the database as
  the record of all tables with every repository operation the use cases call.
\<close>

section \<open>Domain events\<close>

datatype DomainEvent =
    EvOrder OrderEvent
  | EvPosition PositionEvent
  | EvKillSwitchActivated KillSwitchActivated
  | EvOperationalModeChanged OperationalModeChanged
  | EvReconciliationDivergenceDetected ReconciliationDivergenceDetected
  | EvCriticalEventDetected CriticalEventDetected
  | EvSignalCreated SignalCreated
  | EvRiskDecisionCreated RiskDecisionCreated
  | EvCandleClosed CandleClosed

definition EventName :: "DomainEvent \<Rightarrow> string" where
  "EventName e = (case e of EvOrder oe \<Rightarrow> OrderEvent_EventName oe | EvPosition pe \<Rightarrow> PositionEvent_EventName pe
     | EvKillSwitchActivated _ \<Rightarrow> ''KillSwitchActivated'' | EvOperationalModeChanged _ \<Rightarrow> ''OperationalModeChanged''
     | EvReconciliationDivergenceDetected _ \<Rightarrow> ''ReconciliationDivergenceDetected''
     | EvCriticalEventDetected _ \<Rightarrow> ''CriticalEventDetected'' | EvSignalCreated _ \<Rightarrow> ''SignalCreated''
     | EvRiskDecisionCreated _ \<Rightarrow> ''RiskDecisionCreated'' | EvCandleClosed _ \<Rightarrow> ''CandleClosed'')"

section \<open>Signals\<close>

record signal_model =
  sm_ID :: string
  sm_Symbol :: string
  sm_Side :: string
  sm_EntryPrice :: decimal
  sm_StopPrice :: decimal
  sm_TargetPrice :: decimal
  sm_Confidence :: decimal
  sm_StrategyName :: string
  sm_MarketRegime :: string
  sm_CreatedAt :: time
  sm_ValidUntil :: time

definition signal_toDomain :: "decimal_ops \<Rightarrow> uuid_ops \<Rightarrow> signal_model \<Rightarrow> TradeSignal result" where
  "signal_toDomain D U m =
     rbind (ParseSignalID U (sm_ID m)) (\<lambda>id'.
     rbind (NewSymbol (sm_Symbol m)) (\<lambda>symbol.
     rbind (NewPrice D (sm_EntryPrice m)) (\<lambda>entryPrice.
     rbind (NewPrice D (sm_StopPrice m)) (\<lambda>stopPrice.
     rbind (NewPrice D (sm_TargetPrice m)) (\<lambda>targetPrice.
     rbind (NewConfidence D (sm_Confidence m)) (\<lambda>confidence.
     Inr \<lparr>sig_ID = id', sig_Symbol = symbol, sig_Side = Side_of_string (sm_Side m), sig_EntryPrice = entryPrice,
       sig_StopPrice = stopPrice, sig_TargetPrice = targetPrice, sig_Confidence = confidence,
       sig_StrategyName = sm_StrategyName m, sig_MarketRegime = Regime_of_string (sm_MarketRegime m),
       sig_CreatedAt = sm_CreatedAt m, sig_ValidUntil = sm_ValidUntil m\<rparr>))))))"

definition signal_toModel :: "uuid_ops \<Rightarrow> TradeSignal \<Rightarrow> signal_model" where
  "signal_toModel U s = \<lparr>sm_ID = SignalID_String U (sig_ID s), sm_Symbol = Symbol_String (sig_Symbol s),
     sm_Side = Side_String (sig_Side s), sm_EntryPrice = Price_Decimal (sig_EntryPrice s),
     sm_StopPrice = Price_Decimal (sig_StopPrice s), sm_TargetPrice = Price_Decimal (sig_TargetPrice s),
     sm_Confidence = Confidence_Decimal (sig_Confidence s), sm_StrategyName = sig_StrategyName s,
     sm_MarketRegime = Regime_String (sig_MarketRegime s), sm_CreatedAt = sig_CreatedAt s, sm_ValidUntil = sig_ValidUntil s\<rparr>"

definition signal_columns :: "signal_model \<Rightarrow> signal_model result" where
  "signal_columns m =
     rbind (numeric 24 8 (sm_EntryPrice m)) (\<lambda>e.
     rbind (numeric 24 8 (sm_StopPrice m)) (\<lambda>s.
     rbind (numeric 24 8 (sm_TargetPrice m)) (\<lambda>t.
     rbind (numeric 5 4 (sm_Confidence m)) (\<lambda>c.
     Inr (m\<lparr>sm_EntryPrice := e, sm_StopPrice := s, sm_TargetPrice := t, sm_Confidence := c,
       sm_CreatedAt := timestamptz (sm_CreatedAt m), sm_ValidUntil := timestamptz (sm_ValidUntil m)\<rparr>)))))"

section \<open>Risk decisions\<close>

record decision_model =
  dm_ID :: string
  dm_SignalID :: string
  dm_Allowed :: bool
  dm_OriginalPositionSize :: decimal
  dm_ApprovedPositionSize :: decimal
  dm_ReasonCodes :: "string list"
  dm_AppliedRules :: "string list"
  dm_EventRestrictions :: "string slice"
  dm_CreatedAt :: time

definition ReasonCode_of_string :: "string \<Rightarrow> ReasonCode" where
  "ReasonCode_of_string s =
     (if s = ''MAX_DAILY_LOSS_REACHED'' then ReasonMaxDailyLossReached
      else if s = ''MAX_WEEKLY_LOSS_REACHED'' then ReasonMaxWeeklyLossReached
      else if s = ''MAX_DRAWDOWN_REACHED'' then ReasonMaxDrawdownReached
      else if s = ''MAX_OPEN_POSITIONS_REACHED'' then ReasonMaxOpenPositions
      else if s = ''MAX_LEVERAGE_EXCEEDED'' then ReasonMaxLeverageExceeded
      else if s = ''INVALID_STOP'' then ReasonInvalidStop
      else if s = ''SIGNAL_EXPIRED'' then ReasonSignalExpired
      else if s = ''MARKET_DATA_STALE'' then ReasonMarketDataStale
      else if s = ''CRITICAL_EVENT_ACTIVE'' then ReasonCriticalEventActive
      else if s = ''BROKER_UNHEALTHY'' then ReasonBrokerUnhealthy
      else if s = ''INSUFFICIENT_BALANCE'' then ReasonInsufficientBalance
      else if s = ''MAX_SLIPPAGE_EXCEEDED'' then ReasonMaxSlippageExceeded
      else if s = ''OPERATIONAL_MODE_BLOCKS_ENTRY'' then ReasonOperationalModeBlocked
      else ReasonCode_other s)"

definition decision_toDomain :: "decimal_ops \<Rightarrow> uuid_ops \<Rightarrow> decision_model \<Rightarrow> Decision result" where
  "decision_toDomain D U m =
     rbind (ParseRiskDecisionID U (dm_ID m)) (\<lambda>id'.
     rbind (ParseSignalID U (dm_SignalID m)) (\<lambda>signalID.
     rbind (NewQuantity D (dm_OriginalPositionSize m)) (\<lambda>originalSize.
     rbind (NewQuantity D (dm_ApprovedPositionSize m)) (\<lambda>approvedSize.
     Inr \<lparr>dec_ID = id', dec_SignalID = signalID, dec_Allowed = dm_Allowed m, dec_OriginalPositionSize = originalSize,
       dec_ApprovedPositionSize = approvedSize, dec_ReasonCodes = map ReasonCode_of_string (dm_ReasonCodes m),
       dec_AppliedRules = dm_AppliedRules m, dec_EventRestrictions = dm_EventRestrictions m,
       dec_CreatedAt = dm_CreatedAt m\<rparr>))))"

definition decision_toModel :: "uuid_ops \<Rightarrow> Decision \<Rightarrow> decision_model" where
  "decision_toModel U d = \<lparr>dm_ID = RiskDecisionID_String U (dec_ID d), dm_SignalID = SignalID_String U (dec_SignalID d),
     dm_Allowed = dec_Allowed d, dm_OriginalPositionSize = Quantity_Decimal (dec_OriginalPositionSize d),
     dm_ApprovedPositionSize = Quantity_Decimal (dec_ApprovedPositionSize d),
     dm_ReasonCodes = map ReasonCode_String (dec_ReasonCodes d), dm_AppliedRules = dec_AppliedRules d,
     dm_EventRestrictions = dec_EventRestrictions d, dm_CreatedAt = dec_CreatedAt d\<rparr>"

text \<open>
  The three array columns are NOT NULL and a nil slice arrives as NULL. The reason codes are copied
  into a slice made for them and a policy has rules, so only the restrictions can be nil.
\<close>

definition decision_columns :: "decision_model \<Rightarrow> decision_model result" where
  "decision_columns m =
     rbind (numeric 24 8 (dm_OriginalPositionSize m)) (\<lambda>x.
     rbind (numeric 24 8 (dm_ApprovedPositionSize m)) (\<lambda>a.
     case dm_EventRestrictions m of
       None \<Rightarrow> Inl (ErrorText ''null value in column event_restrictions violates not-null constraint'')
     | Some _ \<Rightarrow> Inr (m\<lparr>dm_OriginalPositionSize := x, dm_ApprovedPositionSize := a, dm_CreatedAt := timestamptz (dm_CreatedAt m)\<rparr>)))"

section \<open>Market events\<close>

record event_model =
  em_ID :: string
  em_EventType :: string
  em_Direction :: string
  em_Severity :: string
  em_Confidence :: decimal
  em_AffectedAssets :: "string list"
  em_Action :: string
  em_SourceCount :: int
  em_HasOfficialSource :: bool
  em_PublishedAt :: time
  em_DetectedAt :: time
  em_ExpiresAt :: time
  em_Status :: string

fun MarketEventID_String :: "uuid_ops \<Rightarrow> MarketEventID \<Rightarrow> string" where
  "MarketEventID_String U (MarketEventID u) = uString U u"
fun IncidentID_String :: "uuid_ops \<Rightarrow> IncidentID \<Rightarrow> string" where
  "IncidentID_String U (IncidentID u) = uString U u"

definition event_toDomain :: "decimal_ops \<Rightarrow> uuid_ops \<Rightarrow> event_model \<Rightarrow> MarketEvent result" where
  "event_toDomain D U m =
     rbind (ParseMarketEventID U (em_ID m)) (\<lambda>id'.
     rbind (NewConfidence D (em_Confidence m)) (\<lambda>confidence.
     rbind (scan_rows NewSymbol (em_AffectedAssets m)) (\<lambda>assets.
     Inr \<lparr>evt_ID = id', evt_EventType = em_EventType m, evt_Direction = Direction_of_string (em_Direction m),
       evt_Severity = Severity_of_string (em_Severity m), evt_Confidence = confidence, evt_AffectedAssets = assets,
       evt_Action = Action_of_string (em_Action m), evt_SourceCount = em_SourceCount m,
       evt_HasOfficialSource = em_HasOfficialSource m, evt_PublishedAt = em_PublishedAt m,
       evt_DetectedAt = em_DetectedAt m, evt_ExpiresAt = em_ExpiresAt m,
       evt_Status = EventStatus_of_string (em_Status m)\<rparr>)))"

definition event_toModel :: "uuid_ops \<Rightarrow> MarketEvent \<Rightarrow> event_model" where
  "event_toModel U e = \<lparr>em_ID = MarketEventID_String U (evt_ID e), em_EventType = evt_EventType e,
     em_Direction = Direction_String (evt_Direction e), em_Severity = Severity_String (evt_Severity e),
     em_Confidence = Confidence_Decimal (evt_Confidence e), em_AffectedAssets = map Symbol_String (evt_AffectedAssets e),
     em_Action = Action_String (evt_Action e), em_SourceCount = evt_SourceCount e,
     em_HasOfficialSource = evt_HasOfficialSource e, em_PublishedAt = evt_PublishedAt e,
     em_DetectedAt = evt_DetectedAt e, em_ExpiresAt = evt_ExpiresAt e, em_Status = EventStatus_String (evt_Status e)\<rparr>"

definition event_columns :: "event_model \<Rightarrow> event_model result" where
  "event_columns m =
     rbind (numeric 5 4 (em_Confidence m)) (\<lambda>c.
     Inr (m\<lparr>em_Confidence := c, em_PublishedAt := timestamptz (em_PublishedAt m),
       em_DetectedAt := timestamptz (em_DetectedAt m), em_ExpiresAt := timestamptz (em_ExpiresAt m)\<rparr>))"

section \<open>Incidents\<close>

definition IncidentType_String :: "IncidentType \<Rightarrow> string" where
  "IncidentType_String t = (case t of ReconciliationDivergence \<Rightarrow> ''RECONCILIATION_DIVERGENCE''
     | BrokerUnavailable \<Rightarrow> ''BROKER_UNAVAILABLE'' | QuantEngineUnavailable \<Rightarrow> ''QUANT_ENGINE_UNAVAILABLE''
     | LLMUnavailable \<Rightarrow> ''LLM_UNAVAILABLE'' | UnknownOrderState \<Rightarrow> ''UNKNOWN_ORDER_STATE''
     | KillSwitchActivatedIncident \<Rightarrow> ''KILL_SWITCH_ACTIVATED'' | CriticalMarketEvent \<Rightarrow> ''CRITICAL_MARKET_EVENT''
     | IncidentType_other s \<Rightarrow> s)"

definition IncidentSeverity_String :: "IncidentSeverity \<Rightarrow> string" where
  "IncidentSeverity_String v = (case v of IncidentSeverityLow \<Rightarrow> ''LOW'' | IncidentSeverityMedium \<Rightarrow> ''MEDIUM''
     | IncidentSeverityHigh \<Rightarrow> ''HIGH'' | IncidentSeverityCritical \<Rightarrow> ''CRITICAL'' | IncidentSeverity_other s \<Rightarrow> s)"

definition IncidentStatus_String :: "IncidentStatus \<Rightarrow> string" where
  "IncidentStatus_String v = (case v of IncidentStatusOpen \<Rightarrow> ''OPEN'' | IncidentStatusResolved \<Rightarrow> ''RESOLVED''
     | IncidentStatus_other s \<Rightarrow> s)"

definition IncidentType_of_string :: "string \<Rightarrow> IncidentType" where
  "IncidentType_of_string s = (if s = ''RECONCILIATION_DIVERGENCE'' then ReconciliationDivergence
     else if s = ''BROKER_UNAVAILABLE'' then BrokerUnavailable
     else if s = ''QUANT_ENGINE_UNAVAILABLE'' then QuantEngineUnavailable
     else if s = ''LLM_UNAVAILABLE'' then LLMUnavailable else if s = ''UNKNOWN_ORDER_STATE'' then UnknownOrderState
     else if s = ''KILL_SWITCH_ACTIVATED'' then KillSwitchActivatedIncident
     else if s = ''CRITICAL_MARKET_EVENT'' then CriticalMarketEvent else IncidentType_other s)"

definition IncidentSeverity_of_string :: "string \<Rightarrow> IncidentSeverity" where
  "IncidentSeverity_of_string s = (if s = ''LOW'' then IncidentSeverityLow else if s = ''MEDIUM'' then IncidentSeverityMedium
     else if s = ''HIGH'' then IncidentSeverityHigh else if s = ''CRITICAL'' then IncidentSeverityCritical
     else IncidentSeverity_other s)"

definition IncidentStatus_of_string :: "string \<Rightarrow> IncidentStatus" where
  "IncidentStatus_of_string s = (if s = ''OPEN'' then IncidentStatusOpen else if s = ''RESOLVED'' then IncidentStatusResolved
     else IncidentStatus_other s)"

record incident_model =
  im_ID :: string
  im_Type :: string
  im_Severity :: string
  im_Description :: string
  im_Source :: string
  im_RelatedEntityID :: string
  im_Status :: string
  im_DetectedAt :: time
  im_ResolvedAt :: "time option"
  im_Resolution :: string
  im_CreatedAt :: time
  im_UpdatedAt :: time

definition incident_toDomain :: "uuid_ops \<Rightarrow> incident_model \<Rightarrow> Incident result" where
  "incident_toDomain U m =
     rbind (ParseIncidentID U (im_ID m)) (\<lambda>id'.
     Inr \<lparr>inc_ID = id', inc_Type = IncidentType_of_string (im_Type m), inc_Severity = IncidentSeverity_of_string (im_Severity m),
       inc_Description = im_Description m, inc_Source = im_Source m, inc_RelatedEntityID = im_RelatedEntityID m,
       inc_Status = IncidentStatus_of_string (im_Status m), inc_DetectedAt = im_DetectedAt m,
       inc_ResolvedAt = im_ResolvedAt m, inc_Resolution = im_Resolution m, inc_CreatedAt = im_CreatedAt m,
       inc_UpdatedAt = im_UpdatedAt m\<rparr>)"

definition incident_toModel :: "uuid_ops \<Rightarrow> Incident \<Rightarrow> incident_model" where
  "incident_toModel U i = \<lparr>im_ID = IncidentID_String U (inc_ID i), im_Type = IncidentType_String (inc_Type i),
     im_Severity = IncidentSeverity_String (inc_Severity i), im_Description = inc_Description i,
     im_Source = inc_Source i, im_RelatedEntityID = inc_RelatedEntityID i, im_Status = IncidentStatus_String (inc_Status i),
     im_DetectedAt = inc_DetectedAt i, im_ResolvedAt = inc_ResolvedAt i, im_Resolution = inc_Resolution i,
     im_CreatedAt = inc_CreatedAt i, im_UpdatedAt = inc_UpdatedAt i\<rparr>"

definition incident_columns :: "incident_model \<Rightarrow> incident_model" where
  "incident_columns m = m\<lparr>im_DetectedAt := timestamptz (im_DetectedAt m),
     im_ResolvedAt := map_option timestamptz (im_ResolvedAt m), im_CreatedAt := timestamptz (im_CreatedAt m),
     im_UpdatedAt := timestamptz (im_UpdatedAt m)\<rparr>"

definition incident_merge :: "incident_model \<Rightarrow> incident_model \<Rightarrow> incident_model" where
  "incident_merge new old = old\<lparr>im_Status := im_Status new, im_ResolvedAt := im_ResolvedAt new,
     im_Resolution := im_Resolution new, im_UpdatedAt := im_UpdatedAt new\<rparr>"

section \<open>Idempotency keys and the outbox\<close>

record idempotency_row =
  ik_CreatedAt :: time
  ik_ExpiresAt :: time

datatype OutboxStatus = OutboxStatusPending | OutboxStatusProcessing | OutboxStatusProcessed | OutboxStatusFailed

text \<open>
  The payload column holds the JSON text of the event; it is represented by the event it encodes.
\<close>

record OutboxEvent =
  oe_ID :: string
  oe_EventType :: string
  oe_Payload :: DomainEvent
  oe_Status :: OutboxStatus
  oe_Attempts :: int
  oe_CreatedAt :: time
  oe_ProcessedAt :: "time option"
  oe_LastError :: string

section \<open>The database\<close>

record DB =
  db_orders :: "order_model table"
  db_executions :: "execution_row table"
  db_positions :: "position_model table"
  db_accounts :: "account_row table"
  db_modes :: "mode_model table"
  db_signals :: "signal_model table"
  db_decisions :: "decision_model table"
  db_events :: "event_model table"
  db_incidents :: "incident_model table"
  db_idempotency :: "((string \<times> string) \<times> idempotency_row) list"
  db_outbox :: "OutboxEvent table"

definition emptyDB :: DB where
  "emptyDB = \<lparr>db_orders = [], db_executions = [], db_positions = [], db_accounts = [], db_modes = [], db_signals = [],
     db_decisions = [], db_events = [], db_incidents = [], db_idempotency = [], db_outbox = []\<rparr>"

text \<open>A plain \<^verbatim>\<open>INSERT\<close> fails on a key that is taken.\<close>

definition sql_insert :: "string \<Rightarrow> 'row \<Rightarrow> 'row table \<Rightarrow> unit result \<times> 'row table" where
  "sql_insert key row tbl = (case map_of tbl key of
       Some _ \<Rightarrow> (Inl (ErrorText ''duplicate key value violates unique constraint''), tbl)
     | None \<Rightarrow> (Inr (), al_set key row tbl))"

subsection \<open>Orders\<close>

definition orders_GetByID :: "decimal_ops \<Rightarrow> uuid_ops \<Rightarrow> OrderID \<Rightarrow> DB \<Rightarrow> Order result" where
  "orders_GetByID D U i db = scan_one (order_toDomain D U) (map_of (db_orders db) (OrderID_String U i))"

definition orders_GetByClientOrderID :: "decimal_ops \<Rightarrow> uuid_ops \<Rightarrow> ClientOrderID \<Rightarrow> DB \<Rightarrow> Order result" where
  "orders_GetByClientOrderID D U cid db = scan_one (order_toDomain D U)
     (find (\<lambda>m. om_ClientOrderID m = ClientOrderID_String cid) (map snd (db_orders db)))"

definition orders_ListOpen :: "decimal_ops \<Rightarrow> uuid_ops \<Rightarrow> DB \<Rightarrow> Order list result" where
  "orders_ListOpen D U db = scan_rows (order_toDomain D U) (order_desc om_CreatedAt
     (filter (\<lambda>m. om_Status m \<notin> set [''FILLED'', ''CANCELLED'', ''REJECTED'', ''FAILED'']) (map snd (db_orders db))))"

definition orders_ListBySignalID :: "decimal_ops \<Rightarrow> uuid_ops \<Rightarrow> SignalID \<Rightarrow> DB \<Rightarrow> Order list result" where
  "orders_ListBySignalID D U sid db = scan_rows (order_toDomain D U) (order_desc om_CreatedAt
     (filter (\<lambda>m. om_SignalID m = SignalID_String U sid) (map snd (db_orders db))))"

definition orders_List :: "decimal_ops \<Rightarrow> uuid_ops \<Rightarrow> int \<Rightarrow> DB \<Rightarrow> Order list result" where
  "orders_List D U limit db =
     rbind (sql_limit limit (order_desc om_CreatedAt (map snd (db_orders db)))) (scan_rows (order_toDomain D U))"

text \<open>
  \<^verbatim>\<open>Save\<close> writes the order and, once something was executed, an audit row in \<^verbatim>\<open>order_executions\<close>; its
  foreign key is the order just written. \<open>fresh\<close> and \<open>now\<close> are \<^verbatim>\<open>uuid.NewString()\<close> and \<^verbatim>\<open>time.Now()\<close>.
\<close>

definition orders_Save :: "uuid_ops \<Rightarrow> uuid \<Rightarrow> time \<Rightarrow> Order \<Rightarrow> DB \<Rightarrow> unit result \<times> DB" where
  "orders_Save U fresh now ord db =
     (case order_save_row U ord (db_orders db) of
        (Inl e, tbl) \<Rightarrow> (Inl e, db\<lparr>db_orders := tbl\<rparr>)
      | (Inr _, tbl) \<Rightarrow>
        (let db = db\<lparr>db_orders := tbl\<rparr> in
         if ord_Status ord = StatusFilled \<or> ord_Status ord = StatusPartiallyFilled then
           (case ord_AverageExecutionPrice ord of
              None \<Rightarrow> (Inr (), db)
            | Some price \<Rightarrow>
              (case rbind (numeric 24 8 (Quantity_Decimal (ord_FilledQuantity ord))) (\<lambda>q.
                    rbind (numeric 24 8 (Price_Decimal price)) (\<lambda>p.
                    Inr \<lparr>ex_ID = uString U fresh, ex_OrderID = OrderID_String U (ord_ID ord), ex_Quantity = q,
                      ex_Price = p, ex_ExecutedAt = timestamptz now\<rparr>)) of
                 Inl e \<Rightarrow> (Inl (WrapPrefix ''recording execution audit row'' e), db)
               | Inr row \<Rightarrow>
                 (case sql_insert (uString U fresh) row (db_executions db) of
                    (Inl e, _) \<Rightarrow> (Inl (WrapPrefix ''recording execution audit row'' e), db)
                  | (Inr _, ext) \<Rightarrow> (Inr (), db\<lparr>db_executions := ext\<rparr>))))
         else (Inr (), db)))"

subsection \<open>Positions, accounts and mode\<close>

definition positions_GetByID :: "decimal_ops \<Rightarrow> uuid_ops \<Rightarrow> PositionID \<Rightarrow> DB \<Rightarrow> Position result" where
  "positions_GetByID D U i db = scan_one (position_toDomain D U) (map_of (db_positions db) (PositionID_String U i))"

definition positions_GetOpenBySymbol :: "decimal_ops \<Rightarrow> uuid_ops \<Rightarrow> Symbol \<Rightarrow> DB \<Rightarrow> Position result" where
  "positions_GetOpenBySymbol D U symbol db = scan_one (position_toDomain D U)
     (find (\<lambda>m. pm_Symbol m = Symbol_String symbol \<and> pm_Status m = ''OPEN'') (map snd (db_positions db)))"

definition positions_ListOpen :: "decimal_ops \<Rightarrow> uuid_ops \<Rightarrow> DB \<Rightarrow> Position list result" where
  "positions_ListOpen D U db = scan_rows (position_toDomain D U) (order_desc pm_OpenedAt
     (filter (\<lambda>m. pm_Status m = ''OPEN'') (map snd (db_positions db))))"

definition positions_Save :: "uuid_ops \<Rightarrow> Position \<Rightarrow> DB \<Rightarrow> unit result \<times> DB" where
  "positions_Save U p db = (case position_save U p (db_positions db) of (r, tbl) \<Rightarrow> (r, db\<lparr>db_positions := tbl\<rparr>))"

definition accounts_GetByID :: "decimal_ops \<Rightarrow> uuid_ops \<Rightarrow> AccountID \<Rightarrow> DB \<Rightarrow> Account result" where
  "accounts_GetByID D U i db = scan_one (\<lambda>r. account_toDomain D U (fst r)) (map_of (db_accounts db) (AccountID_String U i))"

definition accounts_GetActive :: "decimal_ops \<Rightarrow> uuid_ops \<Rightarrow> DB \<Rightarrow> Account result" where
  "accounts_GetActive D U db = scan_one (\<lambda>r. account_toDomain D U (fst r)) (find snd (map snd (db_accounts db)))"

definition accounts_Save :: "uuid_ops \<Rightarrow> Account \<Rightarrow> DB \<Rightarrow> unit result \<times> DB" where
  "accounts_Save U a db = (case account_save U a (db_accounts db) of (r, tbl) \<Rightarrow> (r, db\<lparr>db_accounts := tbl\<rparr>))"

definition modes_Get :: "DB \<Rightarrow> State result" where
  "modes_Get db = scan_one (\<lambda>m. Inr (mode_toDomain m)) (map_of (db_modes db) ''1'')"

definition modes_Save :: "State \<Rightarrow> DB \<Rightarrow> unit result \<times> DB" where
  "modes_Save s db = (case mode_save s (db_modes db) of (r, tbl) \<Rightarrow> (r, db\<lparr>db_modes := tbl\<rparr>))"

subsection \<open>Records\<close>

text \<open>\<^verbatim>\<open>ON CONFLICT (id) DO NOTHING\<close>: an id that exists keeps its row and is no error.\<close>

definition insert_once :: "string \<Rightarrow> 'row \<Rightarrow> 'row table \<Rightarrow> 'row table" where
  "insert_once key row tbl = (case map_of tbl key of Some _ \<Rightarrow> tbl | None \<Rightarrow> al_set key row tbl)"

definition signals_GetByID :: "decimal_ops \<Rightarrow> uuid_ops \<Rightarrow> SignalID \<Rightarrow> DB \<Rightarrow> TradeSignal result" where
  "signals_GetByID D U i db = scan_one (signal_toDomain D U) (map_of (db_signals db) (SignalID_String U i))"

definition signals_List :: "decimal_ops \<Rightarrow> uuid_ops \<Rightarrow> int \<Rightarrow> DB \<Rightarrow> TradeSignal list result" where
  "signals_List D U limit db =
     rbind (sql_limit limit (order_desc sm_CreatedAt (map snd (db_signals db)))) (scan_rows (signal_toDomain D U))"

definition signals_Save :: "uuid_ops \<Rightarrow> TradeSignal \<Rightarrow> DB \<Rightarrow> unit result \<times> DB" where
  "signals_Save U s db = (case signal_columns (signal_toModel U s) of Inl e \<Rightarrow> (Inl e, db)
     | Inr row \<Rightarrow> (Inr (), db\<lparr>db_signals := insert_once (sm_ID row) row (db_signals db)\<rparr>))"

definition decisions_GetByID :: "decimal_ops \<Rightarrow> uuid_ops \<Rightarrow> RiskDecisionID \<Rightarrow> DB \<Rightarrow> Decision result" where
  "decisions_GetByID D U i db = scan_one (decision_toDomain D U) (map_of (db_decisions db) (RiskDecisionID_String U i))"

definition decisions_List :: "decimal_ops \<Rightarrow> uuid_ops \<Rightarrow> int \<Rightarrow> DB \<Rightarrow> Decision list result" where
  "decisions_List D U limit db =
     rbind (sql_limit limit (order_desc dm_CreatedAt (map snd (db_decisions db)))) (scan_rows (decision_toDomain D U))"

text \<open>The foreign key of a decision: its signal must be in \<^verbatim>\<open>trade_signals\<close>.\<close>

definition decisions_Save :: "uuid_ops \<Rightarrow> Decision \<Rightarrow> DB \<Rightarrow> unit result \<times> DB" where
  "decisions_Save U d db = (case decision_columns (decision_toModel U d) of Inl e \<Rightarrow> (Inl e, db)
     | Inr row \<Rightarrow>
       if map_of (db_decisions db) (dm_ID row) = None \<and> map_of (db_signals db) (dm_SignalID row) = None
       then (Inl (ErrorText ''violates foreign key constraint''), db)
       else (Inr (), db\<lparr>db_decisions := insert_once (dm_ID row) row (db_decisions db)\<rparr>))"

definition events_GetByID :: "decimal_ops \<Rightarrow> uuid_ops \<Rightarrow> MarketEventID \<Rightarrow> DB \<Rightarrow> MarketEvent result" where
  "events_GetByID D U i db = scan_one (event_toDomain D U) (map_of (db_events db) (MarketEventID_String U i))"

definition events_ListActive :: "decimal_ops \<Rightarrow> uuid_ops \<Rightarrow> DB \<Rightarrow> MarketEvent list result" where
  "events_ListActive D U db = scan_rows (event_toDomain D U) (order_desc em_DetectedAt
     (filter (\<lambda>m. em_Status m = ''ACTIVE'') (map snd (db_events db))))"

definition events_List :: "decimal_ops \<Rightarrow> uuid_ops \<Rightarrow> int \<Rightarrow> DB \<Rightarrow> MarketEvent list result" where
  "events_List D U limit db =
     rbind (sql_limit limit (order_desc em_DetectedAt (map snd (db_events db)))) (scan_rows (event_toDomain D U))"

definition events_Save :: "uuid_ops \<Rightarrow> MarketEvent \<Rightarrow> DB \<Rightarrow> unit result \<times> DB" where
  "events_Save U e db = (case rbind (event_columns (event_toModel U e)) (\<lambda>row.
       sql_upsert ''market_events_pkey'' no_clash (em_ID row) row (\<lambda>old. old\<lparr>em_Status := em_Status row\<rparr>) (\<lambda>_. True) (db_events db)) of
     Inl er \<Rightarrow> (Inl er, db) | Inr (_, tbl) \<Rightarrow> (Inr (), db\<lparr>db_events := tbl\<rparr>))"

definition incidents_GetByID :: "uuid_ops \<Rightarrow> IncidentID \<Rightarrow> DB \<Rightarrow> Incident result" where
  "incidents_GetByID U i db = scan_one (incident_toDomain U) (map_of (db_incidents db) (IncidentID_String U i))"

definition incidents_ListOpen :: "uuid_ops \<Rightarrow> DB \<Rightarrow> Incident list result" where
  "incidents_ListOpen U db = scan_rows (incident_toDomain U) (order_desc im_DetectedAt
     (filter (\<lambda>m. im_Status m = ''OPEN'') (map snd (db_incidents db))))"

definition incidents_List :: "uuid_ops \<Rightarrow> int \<Rightarrow> DB \<Rightarrow> Incident list result" where
  "incidents_List U limit db =
     rbind (sql_limit limit (order_desc im_DetectedAt (map snd (db_incidents db)))) (scan_rows (incident_toDomain U))"

definition incidents_Save :: "uuid_ops \<Rightarrow> Incident \<Rightarrow> DB \<Rightarrow> unit result \<times> DB" where
  "incidents_Save U i db = (let row = incident_columns (incident_toModel U i) in
     case sql_upsert ''system_incidents_pkey'' no_clash (im_ID row) row (incident_merge row) (\<lambda>_. True) (db_incidents db) of
       Inl e \<Rightarrow> (Inl e, db) | Inr (_, tbl) \<Rightarrow> (Inr (), db\<lparr>db_incidents := tbl\<rparr>))"

subsection \<open>Idempotency keys\<close>

text \<open>
  The upsert affects one row when the key is free or its reservation has expired, and none
  otherwise.
\<close>

definition idem_Reserve :: "string \<Rightarrow> string \<Rightarrow> duration \<Rightarrow> time \<Rightarrow> DB \<Rightarrow> bool result \<times> DB" where
  "idem_Reserve scope key ttl now db =
     (let row = \<lparr>ik_CreatedAt = timestamptz now, ik_ExpiresAt = timestamptz (time_Add now ttl)\<rparr> in
      case map_of (db_idempotency db) (scope, key) of
        None \<Rightarrow> (Inr True, db\<lparr>db_idempotency := al_set (scope, key) row (db_idempotency db)\<rparr>)
      | Some old \<Rightarrow>
          if ik_ExpiresAt old < ik_CreatedAt row
          then (Inr True, db\<lparr>db_idempotency := al_set (scope, key) row (db_idempotency db)\<rparr>)
          else (Inr False, db))"

subsection \<open>Outbox\<close>

definition maxAttempts :: int where
  "maxAttempts = 5"

definition outbox_Insert :: "time \<Rightarrow> OutboxEvent \<Rightarrow> DB \<Rightarrow> unit result \<times> DB" where
  "outbox_Insert now evt db =
     (case sql_insert (oe_ID evt) \<lparr>oe_ID = oe_ID evt, oe_EventType = oe_EventType evt, oe_Payload = oe_Payload evt,
         oe_Status = OutboxStatusPending, oe_Attempts = 0, oe_CreatedAt = timestamptz now, oe_ProcessedAt = None,
         oe_LastError = ''''\<rparr> (db_outbox db) of
        (r, tbl) \<Rightarrow> (r, db\<lparr>db_outbox := tbl\<rparr>))"

text \<open>The keys the \<^verbatim>\<open>WITH claimed\<close> clause selects: the oldest pending rows, up to the limit.\<close>

definition claimed :: "int \<Rightarrow> OutboxEvent table \<Rightarrow> OutboxEvent table" where
  "claimed limit tbl = take (nat limit) (sort_key (\<lambda>(k, r). oe_CreatedAt r) (filter (\<lambda>(k, r). oe_Status r = OutboxStatusPending) tbl))"

definition set_processing :: "string list \<Rightarrow> OutboxEvent table \<Rightarrow> OutboxEvent table" where
  "set_processing ks tbl = map (\<lambda>(k, r). (k, if k \<in> set ks then r\<lparr>oe_Status := OutboxStatusProcessing\<rparr> else r)) tbl"

text \<open>\<^verbatim>\<open>UPDATE ... RETURNING\<close> gives the claimed rows as updated; SQL leaves their order open.\<close>

definition FetchPendingBatch :: "int \<Rightarrow> DB \<Rightarrow> OutboxEvent list result \<times> DB" where
  "FetchPendingBatch limit db =
     (if limit < 0 then (Inl (ErrorText ''LIMIT must not be negative''), db)
      else let ks = claimed limit (db_outbox db) in
        (Inr (map (\<lambda>(k, r). r\<lparr>oe_Status := OutboxStatusProcessing\<rparr>) ks),
         db\<lparr>db_outbox := set_processing (map fst ks) (db_outbox db)\<rparr>))"

definition update_row :: "string \<Rightarrow> ('row \<Rightarrow> 'row) \<Rightarrow> 'row table \<Rightarrow> 'row table" where
  "update_row key f tbl = map (\<lambda>(k, r). (k, if k = key then f r else r)) tbl"

definition MarkProcessed :: "string \<Rightarrow> time \<Rightarrow> DB \<Rightarrow> unit result \<times> DB" where
  "MarkProcessed key now db = (Inr (), db\<lparr>db_outbox := update_row key
     (\<lambda>r. r\<lparr>oe_Status := OutboxStatusProcessed, oe_ProcessedAt := Some (timestamptz now)\<rparr>) (db_outbox db)\<rparr>)"

definition MarkFailed :: "string \<Rightarrow> string \<Rightarrow> DB \<Rightarrow> unit result \<times> DB" where
  "MarkFailed key errMsg db = (Inr (), db\<lparr>db_outbox := update_row key
     (\<lambda>r. r\<lparr>oe_Attempts := oe_Attempts r + 1, oe_LastError := errMsg,
            oe_Status := (if oe_Attempts r + 1 \<ge> maxAttempts then OutboxStatusFailed else OutboxStatusPending)\<rparr>)
     (db_outbox db)\<rparr>)"

end
