(* ===== verification/World.thy ===== *)
theory World
  imports Store_Records
begin

text \<open>
  What a use case runs in: the state of the database, of the broker, of the event bus and of the
  notifier, the environment that decides every clock reading, every fresh identifier and every
  infrastructure fault, the transaction manager (\<^verbatim>\<open>database/transaction\<close>), the in-memory event bus
  (\<^verbatim>\<open>messaging/memory\<close>) and the repository calls as the use cases see them. A use case is a function
  from the world to a result and a world; theorems about it hold for every environment, so for
  every pattern of clock readings and faults.
\<close>

section \<open>Environment and world\<close>

text \<open>
  What may go wrong in a call that leaves the process: nothing, an error before the call took
  effect, or an error after it did (a lost answer).
\<close>

datatype fault = NoFault | FailBefore error | FailAfter error

datatype NotificationSeverity = NotificationInfo | NotificationWarning | NotificationCritical

record Notification =
  nt_Title :: string
  nt_Message :: string
  nt_Severity :: NotificationSeverity

type_synonym handler = "DomainEvent \<Rightarrow> error option"

text \<open>
  The n-th clock reading, fresh identifier and fault; the handlers subscribed to an event name,
  in registration order; the configured broker adapter and the two packages.
\<close>

record 'b Env =
  en_D :: decimal_ops
  en_U :: uuid_ops
  en_B :: "'b Broker"
  en_clock :: "nat \<Rightarrow> time"
  en_uuid :: "nat \<Rightarrow> uuid"
  en_fault :: "nat \<Rightarrow> fault"
  en_handlers :: "string \<Rightarrow> handler list"

record 'b World =
  w_db :: DB
  w_broker :: 'b
  w_tick :: nat
  w_inTx :: bool
  w_published :: "DomainEvent list"
  w_notified :: "Notification list"

type_synonym ('b, 'a) usecase = "'b World \<Rightarrow> 'a result \<times> 'b World"

section \<open>Sequencing\<close>

definition uret :: "'a \<Rightarrow> ('b, 'a) usecase" where
  "uret x w = (Inr x, w)"

definition ufail :: "error \<Rightarrow> ('b, 'a) usecase" where
  "ufail e w = (Inl e, w)"

text \<open>\<^verbatim>\<open>if err != nil { return err }\<close>.\<close>

definition ubind :: "('b, 'a) usecase \<Rightarrow> ('a \<Rightarrow> ('b, 'c) usecase) \<Rightarrow> ('b, 'c) usecase" where
  "ubind m f w = (case m w of (Inl e, w') \<Rightarrow> (Inl e, w') | (Inr x, w') \<Rightarrow> f x w')"

definition is_panic :: "error \<Rightarrow> bool" where
  "is_panic e = (case e of Panic _ \<Rightarrow> True | _ \<Rightarrow> False)"

text \<open>Inspecting the result of a call; a panic cannot be inspected and goes on.\<close>

definition attempt :: "('b, 'a) usecase \<Rightarrow> ('a result \<Rightarrow> ('b, 'c) usecase) \<Rightarrow> ('b, 'c) usecase" where
  "attempt m f w = (case m w of
       (Inl e, w') \<Rightarrow> if is_panic e then (Inl e, w') else f (Inl e) w'
     | (Inr x, w') \<Rightarrow> f (Inr x) w')"

text \<open>\<^verbatim>\<open>fmt.Errorf("c: %w", err)\<close> around a call.\<close>

definition wrap_error :: "string \<Rightarrow> error \<Rightarrow> error" where
  "wrap_error c e = (if is_panic e then e else WrapPrefix c e)"

definition wrapped :: "string \<Rightarrow> ('b, 'a) usecase \<Rightarrow> ('b, 'a) usecase" where
  "wrapped c m w = (case m w of (Inl e, w') \<Rightarrow> (Inl (wrap_error c e), w') | (Inr x, w') \<Rightarrow> (Inr x, w'))"

text \<open>A pure step that may fail.\<close>

definition lift :: "'a result \<Rightarrow> ('b, 'a) usecase" where
  "lift r w = (r, w)"

section \<open>Clock, identifiers and infrastructure calls\<close>

definition tick :: "'b World \<Rightarrow> 'b World" where
  "tick w = w\<lparr>w_tick := w_tick w + 1\<rparr>"

definition Now :: "'b Env \<Rightarrow> ('b, time) usecase" where
  "Now E w = (Inr (en_clock E (w_tick w)), tick w)"

definition NewUUID :: "'b Env \<Rightarrow> ('b, uuid) usecase" where
  "NewUUID E w = (Inr (en_uuid E (w_tick w)), tick w)"

definition infra :: "'b Env \<Rightarrow> ('b, 'a) usecase \<Rightarrow> ('b, 'a) usecase" where
  "infra E m w = (case en_fault E (w_tick w) of
       NoFault \<Rightarrow> m (tick w)
     | FailBefore e \<Rightarrow> (Inl e, tick w)
     | FailAfter e \<Rightarrow> (Inl e, snd (m (tick w))))"

definition db_read :: "'b Env \<Rightarrow> (DB \<Rightarrow> 'a result) \<Rightarrow> ('b, 'a) usecase" where
  "db_read E f = infra E (\<lambda>w. (f (w_db w), w))"

definition db_write :: "'b Env \<Rightarrow> (DB \<Rightarrow> 'a result \<times> DB) \<Rightarrow> ('b, 'a) usecase" where
  "db_write E f = infra E (\<lambda>w. case f (w_db w) of (r, db) \<Rightarrow> (r, w\<lparr>w_db := db\<rparr>))"

definition broker_call :: "'b Env \<Rightarrow> ('b \<Rightarrow> 'a result \<times> 'b) \<Rightarrow> ('b, 'a) usecase" where
  "broker_call E f = infra E (\<lambda>w. case f (w_broker w) of (r, b) \<Rightarrow> (r, w\<lparr>w_broker := b\<rparr>))"

section \<open>The transaction manager\<close>

text \<open>
  Inside an open transaction the function just runs. Otherwise begin, run, and commit; an error of
  the function or of the commit rolls the database back to where it was, and only the database.
  A commit whose answer is lost has taken effect although an error is returned.
\<close>

definition WithinTransaction :: "'b Env \<Rightarrow> ('b, 'a) usecase \<Rightarrow> ('b, 'a) usecase" where
  "WithinTransaction E fn w =
     (if w_inTx w then fn w
      else case infra E (uret ()) w of
        (Inl e, w1) \<Rightarrow> (Inl e, w1)
      | (Inr _, w1) \<Rightarrow>
        (case fn (w1\<lparr>w_inTx := True\<rparr>) of
           (Inl e, w2) \<Rightarrow> (Inl e, w2\<lparr>w_inTx := False, w_db := w_db w\<rparr>)
         | (Inr x, w2) \<Rightarrow>
           (case en_fault E (w_tick w2) of
              NoFault \<Rightarrow> (Inr x, (tick w2)\<lparr>w_inTx := False\<rparr>)
            | FailBefore e \<Rightarrow> (Inl e, (tick w2)\<lparr>w_inTx := False, w_db := w_db w\<rparr>)
            | FailAfter e \<Rightarrow> (Inl e, (tick w2)\<lparr>w_inTx := False\<rparr>))))"

section \<open>The event bus\<close>

text \<open>\<^verbatim>\<open>errors.Join\<close>: nil for no error, otherwise the texts, one per line.\<close>

fun join_lines :: "error list \<Rightarrow> string" where
  "join_lines [] = ''''"
| "join_lines [e] = error_string e"
| "join_lines (e # es) = error_string e @ [char_of (10::nat)] @ join_lines es"

definition errors_Join :: "error list \<Rightarrow> unit result" where
  "errors_Join es = (if es = [] then Inr () else Inl (ErrorText (join_lines es)))"

fun run_handlers :: "handler list \<Rightarrow> DomainEvent \<Rightarrow> error list" where
  "run_handlers [] event = []"
| "run_handlers (h # hs) event = (case h event of Some e \<Rightarrow> e # run_handlers hs event | None \<Rightarrow> run_handlers hs event)"

definition Publish :: "'b Env \<Rightarrow> DomainEvent \<Rightarrow> ('b, unit) usecase" where
  "Publish E event w =
     (errors_Join (run_handlers (en_handlers E (EventName event)) event), w\<lparr>w_published := w_published w @ [event]\<rparr>)"

definition Notify :: "'b Env \<Rightarrow> Notification \<Rightarrow> ('b, unit) usecase" where
  "Notify E n = infra E (\<lambda>w. (Inr (), w\<lparr>w_notified := w_notified w @ [n]\<rparr>))"

section \<open>Repository calls\<close>

definition uc_orders_Save :: "'b Env \<Rightarrow> Order \<Rightarrow> ('b, unit) usecase" where
  "uc_orders_Save E ord = ubind (NewUUID E) (\<lambda>fresh. ubind (Now E) (\<lambda>now. db_write E (orders_Save (en_U E) fresh now ord)))"

definition uc_outbox_Insert :: "'b Env \<Rightarrow> OutboxEvent \<Rightarrow> ('b, unit) usecase" where
  "uc_outbox_Insert E evt = ubind (Now E) (\<lambda>now. db_write E (outbox_Insert now evt))"

definition uc_Reserve :: "'b Env \<Rightarrow> string \<Rightarrow> string \<Rightarrow> duration \<Rightarrow> ('b, bool) usecase" where
  "uc_Reserve E scope key ttl = ubind (Now E) (\<lambda>now. db_write E (idem_Reserve scope key ttl now))"

text \<open>
  \<^verbatim>\<open>newOutboxEvent\<close>: the payload stands for its JSON text; marshalling these structures does not fail.
\<close>

definition newOutboxEvent :: "'b Env \<Rightarrow> string \<Rightarrow> DomainEvent \<Rightarrow> time \<Rightarrow> ('b, OutboxEvent) usecase" where
  "newOutboxEvent E eventType payload now =
     ubind (NewUUID E) (\<lambda>u. uret \<lparr>oe_ID = uString (en_U E) u, oe_EventType = eventType, oe_Payload = payload,
       oe_Status = OutboxStatusPending, oe_Attempts = 0, oe_CreatedAt = now, oe_ProcessedAt = None, oe_LastError = ''''\<rparr>)"

section \<open>Lemmas on sequencing\<close>

lemma ubind_assoc: "ubind (ubind m f) g = ubind m (\<lambda>x. ubind (f x) g)"
  by (rule ext) (auto simp: ubind_def split: prod.splits sum.splits)

lemma useq_simps [simp]:
  "uret x w = (Inr x, w)" "ufail e w = (Inl e, w)" "lift r w = (r, w)"
  by (simp_all add: uret_def ufail_def lift_def)

lemma ubind_Inr: "ubind m f w = (Inr y, w') \<longleftrightarrow> (\<exists>x w1. m w = (Inr x, w1) \<and> f x w1 = (Inr y, w'))"
  by (auto simp: ubind_def split: prod.splits sum.splits)

lemma wrapped_Inr: "wrapped c m w = (Inr x, w') \<longleftrightarrow> m w = (Inr x, w')"
  by (auto simp: wrapped_def split: prod.splits sum.splits)

lemma attempt_result: "attempt m f w = (Inr y, w') \<Longrightarrow> \<exists>r w1. m w = (r, w1) \<and> f r w1 = (Inr y, w')"
  by (auto simp: attempt_def split: prod.splits sum.splits if_splits)

lemma lift_Inr: "lift r w = (Inr x, w') \<longleftrightarrow> r = Inr x \<and> w' = w"
  by auto

lemma tick_simps [simp]:
  "w_db (tick w) = w_db w" "w_broker (tick w) = w_broker w" "w_inTx (tick w) = w_inTx w"
  "w_published (tick w) = w_published w" "w_notified (tick w) = w_notified w"
  by (simp_all add: tick_def)

text \<open>
  What a piece of a use case keeps, whatever its outcome: \<open>keeps P m\<close> says that \<open>P\<close> is a property of
  the world before and after. It composes along the sequencing operators, so that frame
  properties of whole use cases follow from those of their calls.
\<close>

definition keeps :: "('b World \<Rightarrow> 'b World \<Rightarrow> bool) \<Rightarrow> ('b, 'a) usecase \<Rightarrow> bool" where
  "keeps R m \<longleftrightarrow> (\<forall>w. R w (snd (m w)))"

locale world_relation =
  fixes R :: "'b World \<Rightarrow> 'b World \<Rightarrow> bool"
  assumes refl: "R w w" and trans: "R u v \<Longrightarrow> R v w \<Longrightarrow> R u w"
    and tick: "R w (tick w)"
begin

lemma keeps_uret: "keeps R (uret x)"
  by (simp add: keeps_def refl)

lemma keeps_ufail: "keeps R (ufail e)"
  by (simp add: keeps_def refl)

lemma keeps_lift: "keeps R (lift r)"
  by (simp add: keeps_def refl)

lemma keeps_ubind:
  assumes "keeps R m" "\<And>x. keeps R (f x)"
  shows "keeps R (ubind m f)"
  unfolding keeps_def
proof
  fix w
  obtain r w1 where m: "m w = (r, w1)" by (cases "m w")
  have 1: "R w w1" using assms(1) m by (auto simp: keeps_def dest: spec [of _ w])
  show "R w (snd (ubind m f w))"
  proof (cases r)
    case (Inl e)
    with m 1 show ?thesis by (simp add: ubind_def)
  next
    case (Inr x)
    have "R w1 (snd (f x w1))" using assms(2) by (auto simp: keeps_def)
    with m 1 Inr trans show ?thesis by (auto simp: ubind_def)
  qed
qed

lemma keeps_attempt:
  assumes "keeps R m" "\<And>x. keeps R (f x)"
  shows "keeps R (attempt m f)"
  unfolding keeps_def
proof
  fix w
  obtain r w1 where m: "m w = (r, w1)" by (cases "m w")
  have 1: "R w w1" using assms(1) m by (auto simp: keeps_def dest: spec [of _ w])
  have 2: "R w1 (snd (f r w1))" using assms(2) by (auto simp: keeps_def)
  from m 1 2 trans show "R w (snd (attempt m f w))"
    by (cases r) (auto simp: attempt_def)
qed

lemma keeps_wrapped: "keeps R m \<Longrightarrow> keeps R (wrapped c m)"
  unfolding keeps_def wrapped_def by (auto split: prod.splits sum.splits) (metis snd_conv)+

lemma keeps_Now: "keeps R (Now E)"
  by (simp add: keeps_def Now_def tick)

lemma keeps_NewUUID: "keeps R (NewUUID E)"
  by (simp add: keeps_def NewUUID_def tick)

lemma keeps_infra:
  assumes "keeps R m"
  shows "keeps R (infra E m)"
  using assms tick trans by (fastforce simp: keeps_def infra_def split: fault.splits)

lemma keeps_db_read: "keeps R (db_read E f)"
  unfolding db_read_def by (rule keeps_infra) (simp add: keeps_def refl)

lemma keeps_if: "(b \<Longrightarrow> keeps R m) \<Longrightarrow> (\<not> b \<Longrightarrow> keeps R n) \<Longrightarrow> keeps R (if b then m else n)"
  by simp

lemmas keeps_intros = keeps_uret keeps_ufail keeps_lift keeps_ubind keeps_attempt keeps_wrapped keeps_Now
  keeps_NewUUID keeps_db_read keeps_if

lemma keeps_app: "keeps R m \<Longrightarrow> m w = (r, w') \<Longrightarrow> R w w'"
  unfolding keeps_def by (metis snd_conv)

end

text \<open>
  A relation that does not look at the database survives every database write and the
  transaction manager's commits and rollbacks as well.
\<close>

locale db_blind = world_relation +
  assumes db_free: "R w (w\<lparr>w_db := d\<rparr>)" and tx_free: "R w (w\<lparr>w_inTx := t\<rparr>)"
begin

lemma keeps_db_write: "keeps R (db_write E f)"
  unfolding db_write_def by (rule keeps_infra) (auto simp: keeps_def db_free split: prod.splits)

lemma keeps_WithinTransaction:
  assumes "keeps R fn"
  shows "keeps R (WithinTransaction E fn)"
proof -
  have fn: "\<And>v. R v (snd (fn v))" using assms by (simp add: keeps_def)
  have opened: "R w (snd (fn ((snd (infra E (uret ()) w))\<lparr>w_inTx := True\<rparr>)))" for w
    using fn trans tx_free keeps_infra [OF keeps_uret] unfolding keeps_def by meson
  have finish: "R v w \<Longrightarrow> R v (w\<lparr>w_inTx := t\<rparr>)" "R v w \<Longrightarrow> R v (w\<lparr>w_inTx := t, w_db := d\<rparr>)"
    "R v w \<Longrightarrow> R v ((tick w)\<lparr>w_inTx := t\<rparr>)" "R v w \<Longrightarrow> R v ((tick w)\<lparr>w_inTx := t, w_db := d\<rparr>)" for v w t d
    using trans tx_free db_free tick by meson+
  show ?thesis
    unfolding keeps_def
  proof
    fix w
    obtain r w1 where r: "infra E (uret ()) w = (r, w1)" by (cases "infra E (uret ()) w")
    obtain q w2 where q: "fn (w1\<lparr>w_inTx := True\<rparr>) = (q, w2)" by (cases "fn (w1\<lparr>w_inTx := True\<rparr>)")
    have "R w w2" using opened [of w] r q by simp
    moreover have "R w w1" using keeps_app [OF keeps_infra [OF keeps_uret] r] .
    ultimately show "R w (snd (WithinTransaction E fn w))"
      using fn finish r q by (auto simp: WithinTransaction_def split: sum.splits fault.splits)
  qed
qed

lemma keeps_saves: "keeps R (uc_orders_Save E ord)" "keeps R (uc_outbox_Insert E evt)" "keeps R (uc_Reserve E sc key ttl)"
  "keeps R (newOutboxEvent E ty payload now)"
  unfolding uc_orders_Save_def uc_outbox_Insert_def uc_Reserve_def newOutboxEvent_def
  by (intro keeps_intros keeps_db_write)+

lemmas keeps_db_intros = keeps_intros keeps_db_write keeps_WithinTransaction keeps_saves

end

text \<open>The relations the use cases are shown to keep.\<close>

definition same_db :: "'b World \<Rightarrow> 'b World \<Rightarrow> bool" where
  "same_db w w' \<longleftrightarrow> w_db w' = w_db w \<and> w_inTx w' = w_inTx w"

definition same_broker :: "'b World \<Rightarrow> 'b World \<Rightarrow> bool" where
  "same_broker w w' \<longleftrightarrow> w_broker w' = w_broker w"

definition same_published :: "'b World \<Rightarrow> 'b World \<Rightarrow> bool" where
  "same_published w w' \<longleftrightarrow> w_published w' = w_published w"

interpretation same_db: world_relation same_db
  by unfold_locales (simp_all add: same_db_def)

interpretation same_broker: db_blind same_broker
  by unfold_locales (simp_all add: same_broker_def)

interpretation same_published: db_blind same_published
  by unfold_locales (simp_all add: same_published_def)

lemma keeps_Publish: "keeps same_db (Publish E event)" "keeps same_broker (Publish E event)"
  by (simp_all add: keeps_def Publish_def same_db_def same_broker_def)

lemma keeps_Notify: "keeps same_db (Notify E n)" "keeps same_broker (Notify E n)" "keeps same_published (Notify E n)"
  unfolding Notify_def
  by (intro same_db.keeps_infra same_broker.keeps_infra same_published.keeps_infra;
      simp add: keeps_def same_db_def same_broker_def same_published_def)+

section \<open>Stepping through a use case\<close>

lemma ubindE:
  assumes "ubind m f w = (r, w')"
  obtains (fail) e where "m w = (Inl e, w')" "r = Inl e" | (go) x w1 where "m w = (Inr x, w1)" "f x w1 = (r, w')"
  using assms by (auto simp: ubind_def split: prod.splits sum.splits)

lemma wrappedE:
  assumes "wrapped c m w = (r, w')"
  obtains (fail) e where "m w = (Inl e, w')" "r = Inl (wrap_error c e)" | (go) x where "m w = (Inr x, w')" "r = Inr x"
  using assms by (auto simp: wrapped_def split: prod.splits sum.splits)

lemma Now_eq: "Now E w = (r, w') \<longleftrightarrow> r = Inr (en_clock E (w_tick w)) \<and> w' = tick w"
  by (auto simp: Now_def)

lemma NewUUID_eq: "NewUUID E w = (r, w') \<longleftrightarrow> r = Inr (en_uuid E (w_tick w)) \<and> w' = tick w"
  by (auto simp: NewUUID_def)

lemma db_read_Inr: "db_read E f w = (Inr x, w') \<Longrightarrow> f (w_db w) = Inr x \<and> w' = tick w"
  by (auto simp: db_read_def infra_def split: fault.splits)

lemma db_read_same: "db_read E f w = (r, w') \<Longrightarrow> w' = tick w"
  by (auto simp: db_read_def infra_def split: fault.splits)

lemma db_write_Inr: "db_write E f w = (Inr x, w') \<Longrightarrow> f (w_db w) = (Inr x, w_db w') \<and> w' = (tick w)\<lparr>w_db := w_db w'\<rparr>"
  by (auto simp: db_write_def infra_def split: fault.splits prod.splits)

text \<open>
  A transaction, run from outside of one: the database is as before or as the function left it,
  and a success means the latter.
\<close>

lemma WithinTransaction_db:
  assumes "WithinTransaction E fn w = (r, w')" "\<not> w_inTx w"
  shows "\<not> w_inTx w' \<and> ((\<exists>e. r = Inl e) \<and> w_db w' = w_db w \<or>
    (\<exists>x w2. fn ((tick w)\<lparr>w_inTx := True\<rparr>) = (Inr x, w2) \<and> w_db w' = w_db w2))"
  using assms by (auto simp: WithinTransaction_def infra_def split: fault.splits sum.splits prod.splits)

text \<open>The calls as case distinctions, for elimination.\<close>

lemma db_readE:
  assumes "db_read E f w = (r, w')"
  obtains (fail) e where "r = Inl e" "w' = tick w" | (go) x where "r = Inr x" "f (w_db w) = Inr x" "w' = tick w"
proof (cases r)
  case (Inl e)
  then show ?thesis using fail db_read_same [OF assms] by blast
next
  case (Inr x)
  then show ?thesis using go db_read_Inr [of E f w x w'] assms by blast
qed

lemma transactionE:
  assumes "WithinTransaction E fn w = (r, w')" "\<not> w_inTx w"
  obtains (rolled_back) e where "r = Inl e" "w_db w' = w_db w" "\<not> w_inTx w'"
  | (committed) x w2 where "fn ((tick w)\<lparr>w_inTx := True\<rparr>) = (Inr x, w2)" "w_db w' = w_db w2" "\<not> w_inTx w'"
  using WithinTransaction_db [OF assms] by blast

lemmas usecase_elims = ubindE wrappedE db_readE transactionE

lemmas usecase_steps = Now_eq NewUUID_eq lift_def uret_def ufail_def

text \<open>A notification whose error is ignored changes only what was notified.\<close>

lemma notify_same_db:
  assumes "attempt (Notify E n) (\<lambda>_. uret x) w = (r, w')"
  shows "w_db w' = w_db w"
  using same_db.keeps_app [OF same_db.keeps_attempt [OF keeps_Notify(1) same_db.keeps_uret] assms] by (simp add: same_db_def)

section \<open>A run without faults\<close>

definition no_faults :: "'b Env \<Rightarrow> bool" where
  "no_faults E \<longleftrightarrow> (\<forall>n. en_fault E n = NoFault)"

lemma infra_ok: "no_faults E \<Longrightarrow> infra E m w = m (tick w)"
  by (simp add: infra_def no_faults_def)

lemma db_read_ok: "no_faults E \<Longrightarrow> db_read E f w = (f (w_db w), tick w)"
  by (simp add: db_read_def infra_ok)

lemma db_write_ok: "no_faults E \<Longrightarrow> f (w_db w) = (r, d) \<Longrightarrow> db_write E f w = (r, (tick w)\<lparr>w_db := d\<rparr>)"
  by (simp add: db_write_def infra_ok)

lemma Notify_ok: "no_faults E \<Longrightarrow> Notify E n w = (Inr (), (tick w)\<lparr>w_notified := w_notified w @ [n]\<rparr>)"
  by (simp add: Notify_def infra_ok)

lemma ubind_go: "m w = (Inr x, w1) \<Longrightarrow> ubind m f w = f x w1"
  by (simp add: ubind_def)

lemma wrapped_go: "m w = (Inr x, w1) \<Longrightarrow> wrapped c m w = (Inr x, w1)"
  by (simp add: wrapped_def)

lemma attempt_Inr: "m w = (Inr x, w1) \<Longrightarrow> attempt m f w = f (Inr x) w1"
  by (simp add: attempt_def)

lemma WithinTransaction_ok:
  assumes "no_faults E" "\<not> w_inTx w" "fn ((tick w)\<lparr>w_inTx := True\<rparr>) = (Inr x, w2)"
  shows "WithinTransaction E fn w = (Inr x, (tick w2)\<lparr>w_inTx := False\<rparr>)"
  using assms by (simp add: WithinTransaction_def infra_ok no_faults_def)

text \<open>A concrete environment: the paper broker, a clock that moves, fresh numbers, no faults, no subscribers.\<close>

definition quiet_env :: "PaperBroker Env" where
  "quiet_env = \<lparr>en_D = ref_decimal, en_U = ref_uuid, en_B = paper_broker ref_decimal, en_clock = (\<lambda>n. 1000 * int n),
     en_uuid = (\<lambda>n. n + 1), en_fault = (\<lambda>_. NoFault), en_handlers = (\<lambda>_. [])\<rparr>"

definition sample_db :: DB where
  "sample_db = emptyDB\<lparr>db_accounts := [(uString ref_uuid 1, account_toModel ref_uuid sample_account, True)],
     db_modes := [(''1'', mode_toModel (NewState 0))]\<rparr>"

definition sample_world :: "PaperBroker World" where
  "sample_world = \<lparr>w_db = sample_db, w_broker = sample_broker, w_tick = 0, w_inTx = False, w_published = [], w_notified = []\<rparr>"

lemma quiet_env_simps [simp]: "en_D quiet_env = ref_decimal" "en_U quiet_env = ref_uuid" "en_B quiet_env = paper_broker ref_decimal"
  "no_faults quiet_env"
  by (simp_all add: quiet_env_def no_faults_def)

lemma sample_world_simps [simp]: "w_db sample_world = sample_db" "w_broker sample_world = sample_broker" "\<not> w_inTx sample_world"
  by (simp_all add: sample_world_def)

lemma db_write_frame:
  assumes "db_write E f w = (Inr x, w')"
  shows "f (w_db w) = (Inr x, w_db w') \<and> w_inTx w' = w_inTx w \<and> w_broker w' = w_broker w \<and> w_published w' = w_published w"
  using assms by (auto simp: db_write_def infra_def split: fault.splits prod.splits)

lemma attemptE:
  assumes "attempt m f w = (r, w')"
  obtains (panic) e where "m w = (Inl e, w')" "r = Inl e" "is_panic e" | (go) q w1 where "m w = (q, w1)" "f q w1 = (r, w')"
  using assms by (auto simp: attempt_def split: prod.splits sum.splits if_splits)

section \<open>What is never lost from the database\<close>

text \<open>
  A property of two databases that every repository call keeps is kept by the whole use case: a
  rollback returns to a database the relation already relates to the first.
\<close>

definition on_db :: "(DB \<Rightarrow> DB \<Rightarrow> bool) \<Rightarrow> 'b World \<Rightarrow> 'b World \<Rightarrow> bool" where
  "on_db P w w' \<longleftrightarrow> P (w_db w) (w_db w')"

locale db_relation =
  fixes P :: "DB \<Rightarrow> DB \<Rightarrow> bool"
  assumes db_refl: "P d d" and db_trans: "P a b \<Longrightarrow> P b c \<Longrightarrow> P a c"
begin

sublocale world_relation "on_db P"
  by unfold_locales (auto simp: on_db_def db_refl intro: db_trans)

lemma keeps_write: "(\<And>d. P d (snd (f d))) \<Longrightarrow> keeps (on_db P) (db_write E f)"
  unfolding db_write_def
  by (rule keeps_infra) (auto simp: keeps_def on_db_def split: prod.splits, metis snd_conv)

lemma keeps_broker_call: "keeps (on_db P) (broker_call E g)"
  unfolding broker_call_def by (rule keeps_infra) (auto simp: keeps_def on_db_def db_refl split: prod.splits)

lemma keeps_tx:
  assumes "keeps (on_db P) fn"
  shows "keeps (on_db P) (WithinTransaction E fn)"
  unfolding keeps_def on_db_def
proof
  fix w
  have fn: "P (w_db v) (w_db (snd (fn v)))" for v using assms by (simp add: keeps_def on_db_def)
  show "P (w_db w) (w_db (snd (WithinTransaction E fn w)))"
    using fn [of w] fn [of "(tick w)\<lparr>w_inTx := True\<rparr>"] db_refl
    by (auto simp: WithinTransaction_def infra_def split: fault.splits sum.splits prod.splits)
qed

lemma keeps_publish: "keeps (on_db P) (Publish E event)"
  by (simp add: keeps_def on_db_def Publish_def db_refl)

lemma keeps_notify: "keeps (on_db P) (Notify E n)"
  unfolding Notify_def by (rule keeps_infra) (simp add: keeps_def on_db_def db_refl)

end

end
