(* ===== verification/Mode_UseCases.thy ===== *)
theory Mode_UseCases
  imports World
begin

text \<open>
  \<^verbatim>\<open>usecase/change_operational_mode.go\<close>, \<^verbatim>\<open>activate_kill_switch.go\<close>, \<^verbatim>\<open>reset_paper_state.go\<close> and the
  bootstrap of \<^verbatim>\<open>app/lifecycle.go\<close>. The mode is stored twice, in the singleton mode row and in the
  active account; the properties say that both are always written together, in every pattern of
  faults, and that the kill switch works whenever the infrastructure does.
\<close>

section \<open>Commands\<close>

record ActivateKillSwitchCommand =
  ks_ActivatedBy :: string
  ks_Origin :: string
  ks_Reason :: string
  ks_AllowClose :: bool

record ChangeOperationalModeCommand =
  cm_TargetMode :: string
  cm_ActedBy :: string
  cm_Origin :: string
  cm_Reason :: string
  cm_RealConfirmationToken :: string

text \<open>\<^verbatim>\<open>%q\<close>, for text with nothing to escape.\<close>

definition quoted :: "string \<Rightarrow> string" where
  "quoted s = [CHR 0x22] @ s @ [CHR 0x22]"

section \<open>Use cases\<close>

definition ChangeOperationalMode :: "'b Env \<Rightarrow> ChangeOperationalModeCommand \<Rightarrow> ('b, unit) usecase" where
  "ChangeOperationalMode E cmd =
     (let target = Mode_of_string (cm_TargetMode cmd) in
      if \<not> Mode_Valid target
      then ufail (WrapSuffix ErrOperationalModeBlocked (''unknown target mode '' @ quoted (cm_TargetMode cmd)))
      else
      ubind (Now E) (\<lambda>now.
      ubind (wrapped ''loading operational mode'' (db_read E modes_Get)) (\<lambda>state.
      let from = st_CurrentMode state;
          confirmation = \<lparr>conf_Enabled = cm_RealConfirmationToken cmd \<noteq> '''',
            conf_ConfirmationToken = cm_RealConfirmationToken cmd\<rparr> in
      ubind (wrapped ''transitioning operational mode''
        (lift (TransitionTo state target (cm_ActedBy cmd) (cm_Origin cmd) (cm_Reason cmd) now confirmation))) (\<lambda>state.
      ubind (wrapped ''loading account'' (db_read E (accounts_GetActive (en_D E) (en_U E)))) (\<lambda>acct.
      let acct = SetOperationalMode acct target now in
      ubind (wrapped ''persisting operational mode change'' (WithinTransaction E
        (ubind (db_write E (modes_Save state)) (\<lambda>_.
         db_write E (accounts_Save (en_U E) acct))))) (\<lambda>_.
      Publish E (EvOperationalModeChanged \<lparr>omc_From = from, omc_To = target, omc_ChangedBy = cm_ActedBy cmd,
        omc_Origin = cm_Origin cmd, omc_Reason = cm_Reason cmd, omc_OccurredAt = now\<rparr>)))))))"

text \<open>The function the activation runs in one transaction.\<close>

definition kill_switch_tx :: "'b Env \<Rightarrow> ActivateKillSwitchCommand \<Rightarrow> State \<Rightarrow> Account \<Rightarrow> Incident \<Rightarrow> time \<Rightarrow> ('b, unit) usecase" where
  "kill_switch_tx E cmd state acct incident now =
     ubind (db_write E (modes_Save state)) (\<lambda>_.
     ubind (db_write E (accounts_Save (en_U E) acct)) (\<lambda>_.
     ubind (db_write E (incidents_Save (en_U E) incident)) (\<lambda>_.
     ubind (newOutboxEvent E ''KillSwitchActivated'' (EvKillSwitchActivated \<lparr>ksa_ActivatedBy = ks_ActivatedBy cmd,
         ksa_Origin = ks_Origin cmd, ksa_Reason = ks_Reason cmd, ksa_AllowClose = ks_AllowClose cmd,
         ksa_OccurredAt = now\<rparr>) now) (\<lambda>evt.
     uc_outbox_Insert E evt))))"

definition ActivateKillSwitch :: "'b Env \<Rightarrow> ActivateKillSwitchCommand \<Rightarrow> ('b, unit) usecase" where
  "ActivateKillSwitch E cmd =
     ubind (Now E) (\<lambda>now.
     ubind (wrapped ''loading operational mode'' (db_read E modes_Get)) (\<lambda>state.
     ubind (wrapped ''transitioning to kill switch''
       (lift (TransitionTo state ModeKillSwitch (ks_ActivatedBy cmd) (ks_Origin cmd) (ks_Reason cmd) now noConfirmation))) (\<lambda>state.
     ubind (wrapped ''loading account'' (db_read E (accounts_GetActive (en_D E) (en_U E)))) (\<lambda>acct.
     let acct = SetOperationalMode acct ModeKillSwitch now in
     ubind (NewUUID E) (\<lambda>u.
     ubind (wrapped ''building incident''
       (lift (NewIncident u KillSwitchActivatedIncident IncidentSeverityCritical (ks_Reason cmd) (ks_Origin cmd) '''' now))) (\<lambda>incident.
     ubind (wrapped ''persisting kill switch activation'' (WithinTransaction E (kill_switch_tx E cmd state acct incident now))) (\<lambda>_.
     attempt (Notify E \<lparr>nt_Title = ''KILL SWITCH ACTIVATED'',
         nt_Message = ''Kill switch activated by '' @ ks_ActivatedBy cmd @ '' ('' @ ks_Origin cmd @ ''): '' @ ks_Reason cmd,
         nt_Severity = NotificationCritical\<rparr>) (\<lambda>_.
     uret ()))))))))"

text \<open>The loops of the reset: every open position is closed, every order that can be is cancelled.\<close>

fun reset_positions :: "'b Env \<Rightarrow> time \<Rightarrow> Position list \<Rightarrow> ('b, unit) usecase" where
  "reset_positions E now [] = uret ()"
| "reset_positions E now (pos # ps) =
     ubind (lift (Close (en_D E) pos (pos_CurrentPrice pos) now)) (\<lambda>pos.
     ubind (db_write E (positions_Save (en_U E) pos)) (\<lambda>_.
     reset_positions E now ps))"

fun reset_orders :: "'b Env \<Rightarrow> time \<Rightarrow> Order list \<Rightarrow> ('b, unit) usecase" where
  "reset_orders E now [] = uret ()"
| "reset_orders E now (ord # os) =
     (case Cancel ord now of
        Inl _ \<Rightarrow> reset_orders E now os
      | Inr ord \<Rightarrow> ubind (uc_orders_Save E ord) (\<lambda>_. reset_orders E now os))"

text \<open>\<open>Reset\<close> is the broker's \<^verbatim>\<open>PaperResettable\<close> method, or \<open>None\<close> for an adapter that has none.\<close>

definition ResetPaperState :: "'b Env \<Rightarrow> ('b \<Rightarrow> unit result \<times> 'b) option \<Rightarrow> Money \<Rightarrow> ('b, unit) usecase" where
  "ResetPaperState E Reset startingBalance =
     ubind (wrapped ''loading account'' (db_read E (accounts_GetActive (en_D E) (en_U E)))) (\<lambda>acct.
     if acc_OperationalMode acct \<noteq> ModePaper
     then ufail (WrapSuffix ErrOperationalModeBlocked
       (''paper reset is only allowed in PAPER mode (current: '' @ Mode_String (acc_OperationalMode acct) @ '')''))
     else case Reset of
       None \<Rightarrow> ufail (ErrorText ''configured broker does not support reset'')
     | Some reset \<Rightarrow>
     ubind (Now E) (\<lambda>now.
     ubind (wrapped ''loading open positions'' (db_read E (positions_ListOpen (en_D E) (en_U E)))) (\<lambda>openPositions.
     ubind (wrapped ''loading open orders'' (db_read E (orders_ListOpen (en_D E) (en_U E)))) (\<lambda>openOrders.
     ubind (NewUUID E) (\<lambda>u.
     ubind (lift (NewPaperAccount (en_D E) u startingBalance now)) (\<lambda>fresh.
     let fresh = fresh\<lparr>acc_ID := acc_ID acct, acc_Version := acc_Version acct + 1\<rparr> in
     ubind (wrapped ''resetting paper state'' (WithinTransaction E
       (ubind (reset_positions E now openPositions) (\<lambda>_.
        ubind (reset_orders E now openOrders) (\<lambda>_.
        db_write E (accounts_Save (en_U E) fresh)))))) (\<lambda>_.
     broker_call E reset)))))))"

text \<open>The start-up hook: create what is missing, leave what is there.\<close>

definition bootstrap :: "'b Env \<Rightarrow> Money \<Rightarrow> ('b, unit) usecase" where
  "bootstrap E startingBalance =
     ubind (Now E) (\<lambda>now.
     ubind (attempt (db_read E (accounts_GetActive (en_D E) (en_U E))) (\<lambda>r. case r of
         Inr _ \<Rightarrow> uret ()
       | Inl e \<Rightarrow>
         if \<not> errors_Is e ErrNotFound then ufail e
         else ubind (NewUUID E) (\<lambda>u. ubind (lift (NewPaperAccount (en_D E) u startingBalance now)) (\<lambda>acct.
              db_write E (accounts_Save (en_U E) acct))))) (\<lambda>_.
     attempt (db_read E modes_Get) (\<lambda>r. case r of
         Inr _ \<Rightarrow> uret ()
       | Inl e \<Rightarrow>
         if \<not> errors_Is e ErrNotFound then ufail e
         else db_write E (modes_Save (NewState now)))))"

section \<open>The account table\<close>

text \<open>
  What the account table keeps: distinct keys, rows filed under their own canonical id, and at most
  one active row (the partial unique index).
\<close>

definition accounts_ok :: "uuid_ops \<Rightarrow> account_row table \<Rightarrow> bool" where
  "accounts_ok U tbl \<longleftrightarrow> distinct (map fst tbl) \<and>
     (\<forall>k m b. (k, m, b) \<in> set tbl \<longrightarrow> am_ID m = k \<and> (\<exists>u < 2 ^ 128. k = uString U u)) \<and>
     (\<forall>k m j n. (k, m, True) \<in> set tbl \<longrightarrow> (j, n, True) \<in> set tbl \<longrightarrow> j = k)"

definition active_row :: "account_row table \<Rightarrow> account_model option" where
  "active_row tbl = map_option fst (find snd (map snd tbl))"

lemma active_row_in: "active_row tbl = Some m \<Longrightarrow> \<exists>k. (k, m, True) \<in> set tbl"
  by (induction tbl) (auto simp: active_row_def split: if_splits)

lemma active_row_ex: "(k, m, True) \<in> set tbl \<Longrightarrow> \<exists>n. active_row tbl = Some n"
  by (induction tbl) (auto simp: active_row_def split: if_splits)

lemma accounts_ok_unique: "accounts_ok U tbl \<Longrightarrow> (k, m, True) \<in> set tbl \<Longrightarrow> (j, n, True) \<in> set tbl \<Longrightarrow> j = k \<and> n = m"
  unfolding accounts_ok_def by (metis eq_key_imp_eq_value fst_conv)

lemma active_row_iff:
  assumes "accounts_ok U tbl"
  shows "active_row tbl = Some m \<longleftrightarrow> (\<exists>k. (k, m, True) \<in> set tbl)"
  using active_row_in active_row_ex accounts_ok_unique [OF assms] by metis

lemma set_al_set: "distinct (map fst tbl) \<Longrightarrow> (k, v) \<in> set (al_set key x tbl) \<longleftrightarrow> k = key \<and> v = x \<or> k \<noteq> key \<and> (k, v) \<in> set tbl"
proof (induction tbl)
  case (Cons p tbl)
  then show ?case by (cases p) (auto simp: rev_image_eqI)
qed simp

lemma al_set_fst: "fst ` set (al_set k v tbl) = insert k (fst ` set tbl)"
  by (induction tbl rule: al_set.induct) auto

lemma distinct_al_set: "distinct (map fst tbl) \<Longrightarrow> distinct (map fst (al_set k v tbl))"
  by (induction k v tbl rule: al_set.induct) (auto simp: al_set_fst)

text \<open>Saving keeps the table in this form, the clash check of the unique index included.\<close>

lemma account_save_clash:
  assumes "account_save U a tbl = (Inr (), tbl')" "map_of tbl (AccountID_String U (acc_ID a)) = None"
  shows "list_all (\<lambda>(k, r). k \<noteq> AccountID_String U (acc_ID a) \<longrightarrow> \<not> snd r) tbl"
  using assms
  by (auto simp: account_save_def save_row_def account_upsert_def sql_upsert_def Let_def account_clash_def rbind_def
      list_all_iff list_ex_iff split: if_splits sum.splits)

lemma account_columns_keeps: "account_columns m = Inr row \<Longrightarrow> am_ID row = am_ID m \<and> am_OperationalMode row = am_OperationalMode m"
  by (auto simp: account_columns_def rbind_Inr_iff)

lemma accounts_ok_al_set:
  assumes "accounts_ok U tbl" "am_ID m = k" "\<exists>u < 2 ^ 128. k = uString U u"
    "\<And>j n. b \<Longrightarrow> (j, n, True) \<in> set tbl \<Longrightarrow> j = k"
  shows "accounts_ok U (al_set k (m, b) tbl)"
proof -
  have d: "distinct (map fst tbl)" using assms(1) by (simp add: accounts_ok_def)
  show ?thesis
    unfolding accounts_ok_def set_al_set [OF d]
  proof (intro conjI allI impI)
    show "distinct (map fst (al_set k (m, b) tbl))" by (rule distinct_al_set [OF d])
  next
    fix j n c assume "j = k \<and> (n, c) = (m, b) \<or> j \<noteq> k \<and> (j, n, c) \<in> set tbl"
    then show "am_ID n = j" "\<exists>u<2 ^ 128. j = uString U u" using assms(1-3) unfolding accounts_ok_def by blast+
  next
    fix i l j n
    assume "i = k \<and> (l, True) = (m, b) \<or> i \<noteq> k \<and> (i, l, True) \<in> set tbl"
      "j = k \<and> (n, True) = (m, b) \<or> j \<noteq> k \<and> (j, n, True) \<in> set tbl"
    then show "j = i" using assms(4) accounts_ok_unique [OF assms(1)] by blast
  qed
qed

lemma account_save_ok:
  assumes "accounts_ok U tbl" "account_save U a tbl = (Inr (), tbl')" "aid_number (acc_ID a) < 2 ^ 128"
  shows "accounts_ok U tbl'"
proof -
  let ?k = "AccountID_String U (acc_ID a)"
  have canon: "\<exists>u < 2 ^ 128. ?k = uString U u" using assms(3) by (cases "acc_ID a") auto
  obtain row where row: "am_ID row = ?k" and upd: "map_of tbl ?k = None \<and> tbl' = al_set ?k (row, True) tbl \<or>
      (\<exists>old. map_of tbl ?k = Some old \<and> tbl' = al_set ?k (account_merge row old) tbl)"
    using account_save_store [OF assms(2)] account_columns_keeps by fastforce
  from upd show ?thesis
  proof (elim disjE conjE exE)
    assume none: "map_of tbl ?k = None" and t: "tbl' = al_set ?k (row, True) tbl"
    have "\<And>j n. (j, n, True) \<in> set tbl \<Longrightarrow> j = ?k" using account_save_clash [OF assms(2) none] by (fastforce simp: list_all_iff)
    then show ?thesis unfolding t using accounts_ok_al_set [OF assms(1) row canon] by blast
  next
    fix old assume old: "map_of tbl ?k = Some old" and t: "tbl' = al_set ?k (account_merge row old) tbl"
    obtain m b where mb: "old = (m, b)" by (cases old)
    have in_tbl: "(?k, m, b) \<in> set tbl" using old mb by (blast dest: map_of_SomeD)
    have "am_ID (fst (account_merge row old)) = ?k" "snd (account_merge row old) = b"
      using in_tbl assms(1) mb by (auto simp: accounts_ok_def account_merge_def)
    moreover have "\<And>j n. b \<Longrightarrow> (j, n, True) \<in> set tbl \<Longrightarrow> j = ?k"
      using accounts_ok_unique [OF assms(1), of ?k m] in_tbl by fastforce
    ultimately show ?thesis
      unfolding t using accounts_ok_al_set [OF assms(1), of "fst (account_merge row old)" ?k b] canon by (metis prod.collapse)
  qed
qed

text \<open>An account loaded as the active one, saved again, is the active one with the new mode.\<close>

lemma active_account_saved:
  assumes "uuid_lib U" "accounts_ok U tbl" "active_row tbl = Some m" "account_toDomain D U m = Inr a0"
    "acc_ID a = acc_ID a0" "account_save U a tbl = (Inr (), tbl')"
  shows "accounts_ok U tbl' \<and> (\<exists>m'. active_row tbl' = Some m' \<and> am_OperationalMode m' = Mode_String (acc_OperationalMode a))"
proof -
  obtain k u where k: "(k, m, True) \<in> set tbl" and u: "u < 2 ^ 128" "k = uString U u" "am_ID m = k"
    using active_row_in [OF assms(3)] assms(2) unfolding accounts_ok_def by metis
  have id: "acc_ID a = AccountID u"
    using assms(4,5) u uuid_libD(1) [OF assms(1)] by (auto simp: account_toDomain_def rbind_Inr_iff Parse_defs)
  have mo: "map_of tbl k = Some (m, True)" using assms(2) k by (simp add: accounts_ok_def)
  have ok: "accounts_ok U tbl'" using account_save_ok [OF assms(2,6)] id u by simp
  obtain row where row: "account_columns (account_toModel U a) = Inr row"
    and t: "tbl' = al_set k (account_merge row (m, True)) tbl"
    using account_save_store [OF assms(6)] id mo u by auto
  have "(k, account_merge row (m, True)) \<in> set tbl'"
    unfolding t using assms(2) by (simp add: set_al_set accounts_ok_def)
  then have "active_row tbl' = Some (fst (account_merge row (m, True)))"
    unfolding active_row_iff [OF ok] by (metis account_merge_def prod.collapse snd_conv)
  then show ?thesis using ok account_columns_keeps [OF row] by (simp add: account_merge_def account_toModel_def)
qed

section \<open>The mode is written in both places or in none\<close>

definition mode_in_force :: "DB \<Rightarrow> Mode \<Rightarrow> bool" where
  "mode_in_force db md \<longleftrightarrow> (\<exists>m a. map_of (db_modes db) ''1'' = Some m \<and> mm_CurrentMode m = Mode_String md \<and>
     active_row (db_accounts db) = Some a \<and> am_OperationalMode a = Mode_String md)"

lemma modes_Save_Inr: "modes_Save s db = (Inr u, db') \<Longrightarrow> \<exists>mt. mode_save s (db_modes db) = (Inr (), mt) \<and> db' = db\<lparr>db_modes := mt\<rparr>"
  by (auto simp: modes_Save_def split: prod.splits)

lemma accounts_Save_Inr:
  "accounts_Save U a db = (Inr u, db') \<Longrightarrow> \<exists>ct. account_save U a (db_accounts db) = (Inr (), ct) \<and> db' = db\<lparr>db_accounts := ct\<rparr>"
  by (auto simp: accounts_Save_def split: prod.splits)

lemma accounts_GetActive_Inr: "accounts_GetActive D U db = Inr a \<Longrightarrow> \<exists>m. active_row (db_accounts db) = Some m \<and> account_toDomain D U m = Inr a"
  by (auto simp: accounts_GetActive_def scan_one_def active_row_def split: option.splits)

text \<open>The two writes both use cases share.\<close>

lemma both_rows_written:
  assumes "uuid_lib U" "accounts_ok U (db_accounts db)" "accounts_GetActive D U db = Inr a"
    "mode_save s (db_modes db) = (Inr (), mt)" "account_save U (SetOperationalMode a md now) (db_accounts db) = (Inr (), ct)"
    "st_CurrentMode s = md" "db_modes db' = mt" "db_accounts db' = ct"
  shows "accounts_ok U ct \<and> mode_in_force db' md"
proof -
  obtain m where m: "active_row (db_accounts db) = Some m" "account_toDomain D U m = Inr a"
    using accounts_GetActive_Inr [OF assms(3)] by blast
  have "map_of mt ''1'' = Some ((mode_toModel s)\<lparr>mm_ChangedAt := timestamptz (st_ChangedAt s)\<rparr>)"
    using mode_save_store [OF assms(4)] by simp
  then show ?thesis
    using active_account_saved [OF assms(1,2) m _ assms(5)] assms(6-8)
    by (auto simp: mode_in_force_def mode_toModel_def SetOperationalMode_def)
qed

lemma TransitionTo_target: "TransitionTo s md actor origin reason now c = Inr s' \<Longrightarrow> st_CurrentMode s' = md"
  by (auto simp: TransitionTo_def rbind_def split: if_splits sum.splits)

lemma ChangeOperationalMode_runs:
  assumes "ChangeOperationalMode E cmd w = (r, w')" "\<not> w_inTx w"
  shows "w_db w' = w_db w \<and> (\<exists>e. r = Inl e) \<or>
    (\<exists>s s' a now mt ct. modes_Get (w_db w) = Inr s \<and>
       TransitionTo s (Mode_of_string (cm_TargetMode cmd)) (cm_ActedBy cmd) (cm_Origin cmd) (cm_Reason cmd) now
         \<lparr>conf_Enabled = cm_RealConfirmationToken cmd \<noteq> '''', conf_ConfirmationToken = cm_RealConfirmationToken cmd\<rparr> = Inr s' \<and>
       accounts_GetActive (en_D E) (en_U E) (w_db w) = Inr a \<and> mode_save s' (db_modes (w_db w)) = (Inr (), mt) \<and>
       account_save (en_U E) (SetOperationalMode a (Mode_of_string (cm_TargetMode cmd)) now) (db_accounts (w_db w)) = (Inr (), ct) \<and>
       w_db w' = (w_db w)\<lparr>db_modes := mt, db_accounts := ct\<rparr>)"
  using assms unfolding ChangeOperationalMode_def Let_def
  by (auto elim!: usecase_elims simp: usecase_steps Publish_def ubind_Inr
      dest!: db_write_Inr modes_Save_Inr accounts_Save_Inr split: if_splits) blast+

text \<open>
  Changing the operational mode is all or nothing, whatever the clock, the database and the
  network do: either nothing was written and an error is returned, or the target mode is in force
  in the mode row and in the active account alike, by a transition the domain allows, and no other
  table was touched. The broker is never called, and success means the mode is in force.
\<close>

theorem mode_change_atomic:
  assumes "uuid_lib (en_U E)" "accounts_ok (en_U E) (db_accounts (w_db w))" "\<not> w_inTx w"
    "ChangeOperationalMode E cmd w = (r, w')"
  shows "accounts_ok (en_U E) (db_accounts (w_db w')) \<and> w_broker w' = w_broker w \<and>
    ((\<exists>e. r = Inl e) \<and> w_db w' = w_db w \<or>
     mode_in_force (w_db w') (Mode_of_string (cm_TargetMode cmd)) \<and>
     (\<exists>s. modes_Get (w_db w) = Inr s \<and> Mode_CanTransition (st_CurrentMode s) (Mode_of_string (cm_TargetMode cmd))) \<and>
     (\<exists>mt ct. w_db w' = (w_db w)\<lparr>db_modes := mt, db_accounts := ct\<rparr>))" (is "_ \<and> _ \<and> ?outcome")
proof -
  have "keeps same_broker (ChangeOperationalMode E cmd)"
    unfolding ChangeOperationalMode_def Let_def by (intro same_broker.keeps_db_intros keeps_Publish)
  then have "w_broker w' = w_broker w"
    using same_broker.keeps_app assms(4) by (fastforce simp: same_broker_def)
  moreover from ChangeOperationalMode_runs [OF assms(4,3)]
  have "accounts_ok (en_U E) (db_accounts (w_db w')) \<and> ?outcome"
  proof (elim disjE exE conjE)
    fix e assume "w_db w' = w_db w" "r = Inl e"
    then show ?thesis using assms(2) by simp
  next
    fix s s' a now mt ct
    assume *: "modes_Get (w_db w) = Inr s"
      "TransitionTo s (Mode_of_string (cm_TargetMode cmd)) (cm_ActedBy cmd) (cm_Origin cmd) (cm_Reason cmd) now
         \<lparr>conf_Enabled = cm_RealConfirmationToken cmd \<noteq> '''', conf_ConfirmationToken = cm_RealConfirmationToken cmd\<rparr> = Inr s'"
      "accounts_GetActive (en_D E) (en_U E) (w_db w) = Inr a" "mode_save s' (db_modes (w_db w)) = (Inr (), mt)"
      "account_save (en_U E) (SetOperationalMode a (Mode_of_string (cm_TargetMode cmd)) now) (db_accounts (w_db w)) = (Inr (), ct)"
      "w_db w' = (w_db w)\<lparr>db_modes := mt, db_accounts := ct\<rparr>"
    have "accounts_ok (en_U E) ct \<and> mode_in_force (w_db w') (Mode_of_string (cm_TargetMode cmd))"
      using both_rows_written [OF assms(1,2) *(3,4,5) TransitionTo_target [OF *(2)], of "w_db w'"] *(6) by simp
    then show ?thesis using *(1,2,6) by (auto simp: TransitionTo_Inr)
  qed
  ultimately show ?thesis by blast
qed

lemma incidents_Save_fresh:
  "map_of (db_incidents db) (IncidentID_String U (inc_ID i)) = None \<Longrightarrow>
   incidents_Save U i db = (Inr (), db\<lparr>db_incidents := al_set (IncidentID_String U (inc_ID i)) (incident_columns (incident_toModel U i)) (db_incidents db)\<rparr>)"
  by (simp add: incidents_Save_def sql_upsert_def Let_def no_clash_def incident_columns_def incident_toModel_def list_ex_iff case_prod_beta)

definition kill_switch_event :: "ActivateKillSwitchCommand \<Rightarrow> time \<Rightarrow> DomainEvent" where
  "kill_switch_event cmd now = EvKillSwitchActivated \<lparr>ksa_ActivatedBy = ks_ActivatedBy cmd, ksa_Origin = ks_Origin cmd,
     ksa_Reason = ks_Reason cmd, ksa_AllowClose = ks_AllowClose cmd, ksa_OccurredAt = now\<rparr>"

text \<open>What a committed activation has written: the audit incident and the pending outbox event.\<close>

definition kill_switch_recorded :: "ActivateKillSwitchCommand \<Rightarrow> DB \<Rightarrow> bool" where
  "kill_switch_recorded cmd db \<longleftrightarrow>
     (\<exists>k i. map_of (db_incidents db) k = Some i \<and> im_Type i = ''KILL_SWITCH_ACTIVATED'' \<and> im_Severity i = ''CRITICAL'' \<and>
        im_Status i = ''OPEN'' \<and> im_Description i = ks_Reason cmd \<and> im_Source i = ks_Origin cmd) \<and>
     (\<exists>k e now. map_of (db_outbox db) k = Some e \<and> oe_EventType e = ''KillSwitchActivated'' \<and>
        oe_Payload e = kill_switch_event cmd now \<and> oe_Status e = OutboxStatusPending \<and> oe_Attempts e = 0)"

lemma kill_switch_recordedI:
  assumes "NewIncident u KillSwitchActivatedIncident IncidentSeverityCritical (ks_Reason cmd) (ks_Origin cmd) rel now = Inr i"
    "map_of (db_incidents db) k = Some (incident_columns (incident_toModel U i))" "map_of (db_outbox db) j = Some e"
    "oe_EventType e = ''KillSwitchActivated''" "oe_Payload e = kill_switch_event cmd t" "oe_Status e = OutboxStatusPending" "oe_Attempts e = 0"
  shows "kill_switch_recorded cmd db"
proof -
  let ?i = "incident_columns (incident_toModel U i)"
  have "im_Type ?i = ''KILL_SWITCH_ACTIVATED'' \<and> im_Severity ?i = ''CRITICAL'' \<and> im_Status ?i = ''OPEN'' \<and>
      im_Description ?i = ks_Reason cmd \<and> im_Source ?i = ks_Origin cmd"
    using assms(1) by (auto simp: NewIncident_def incident_columns_def incident_toModel_def IncidentType_String_def
          IncidentSeverity_String_def IncidentStatus_String_def split: if_splits)
  with assms(2-) show ?thesis unfolding kill_switch_recorded_def by blast
qed

lemma outbox_Insert_Inr:
  "outbox_Insert now evt db = (Inr u, db') \<Longrightarrow> map_of (db_outbox db) (oe_ID evt) = None \<and>
     db' = db\<lparr>db_outbox := al_set (oe_ID evt) (evt\<lparr>oe_Status := OutboxStatusPending, oe_Attempts := 0,
       oe_CreatedAt := timestamptz now, oe_ProcessedAt := None, oe_LastError := ''''\<rparr>) (db_outbox db)\<rparr>"
  by (cases evt) (auto simp: outbox_Insert_def sql_insert_def split: option.splits)

lemma incidents_Save_Inr:
  "incidents_Save U i db = (Inr u, db') \<Longrightarrow> \<exists>it. db' = db\<lparr>db_incidents := it\<rparr>"
  by (auto simp: incidents_Save_def Let_def split: sum.splits)

lemma ActivateKillSwitch_runs:
  assumes "ActivateKillSwitch E cmd w = (r, w')" "\<not> w_inTx w"
  shows "w_db w' = w_db w \<and> (\<exists>e. r = Inl e) \<or>
    (\<exists>s s' a i u t evt mt ct db2 now. modes_Get (w_db w) = Inr s \<and>
       TransitionTo s ModeKillSwitch (ks_ActivatedBy cmd) (ks_Origin cmd) (ks_Reason cmd) now noConfirmation = Inr s' \<and>
       accounts_GetActive (en_D E) (en_U E) (w_db w) = Inr a \<and> mode_save s' (db_modes (w_db w)) = (Inr (), mt) \<and>
       account_save (en_U E) (SetOperationalMode a ModeKillSwitch now) (db_accounts (w_db w)) = (Inr (), ct) \<and>
       NewIncident (en_uuid E u) KillSwitchActivatedIncident IncidentSeverityCritical (ks_Reason cmd) (ks_Origin cmd) '''' now = Inr i \<and>
       incidents_Save (en_U E) i ((w_db w)\<lparr>db_modes := mt, db_accounts := ct\<rparr>) = (Inr (), db2) \<and>
       oe_EventType evt = ''KillSwitchActivated'' \<and> oe_Payload evt = kill_switch_event cmd now \<and>
       outbox_Insert t evt db2 = (Inr (), w_db w'))"
  using assms unfolding ActivateKillSwitch_def kill_switch_tx_def Let_def newOutboxEvent_def uc_outbox_Insert_def kill_switch_event_def [symmetric]
  by (auto elim!: usecase_elims simp: usecase_steps ubind_Inr
        dest!: db_write_Inr modes_Save_Inr accounts_Save_Inr notify_same_db split: if_splits)
text \<open>Fresh identifiers: none of those the environment will hand out is a key already.\<close>

definition fresh_ids :: "'b Env \<Rightarrow> DB \<Rightarrow> bool" where
  "fresh_ids E db \<longleftrightarrow> (\<forall>n. map_of (db_incidents db) (uString (en_U E) (en_uuid E n)) = None \<and>
     map_of (db_outbox db) (uString (en_U E) (en_uuid E n)) = None)"

lemma kill_switch_outcome:
  assumes "uuid_lib (en_U E)" "accounts_ok (en_U E) (db_accounts (w_db w))" "\<not> w_inTx w" "fresh_ids E (w_db w)"
    "ActivateKillSwitch E cmd w = (r, w')"
  shows "accounts_ok (en_U E) (db_accounts (w_db w')) \<and> w_broker w' = w_broker w \<and>
    ((\<exists>e. r = Inl e) \<and> w_db w' = w_db w \<or>
     mode_in_force (w_db w') ModeKillSwitch \<and> kill_switch_recorded cmd (w_db w'))" (is "_ \<and> _ \<and> ?outcome")
proof -
  have "keeps same_broker (ActivateKillSwitch E cmd)"
    unfolding ActivateKillSwitch_def kill_switch_tx_def Let_def by (intro same_broker.keeps_db_intros keeps_Notify)
  then have "w_broker w' = w_broker w"
    using same_broker.keeps_app assms(5) by (fastforce simp: same_broker_def)
  moreover from ActivateKillSwitch_runs [OF assms(5,3)]
  have "accounts_ok (en_U E) (db_accounts (w_db w')) \<and> ?outcome"
  proof (elim disjE exE conjE)
    fix e assume "w_db w' = w_db w" "r = Inl e"
    then show ?thesis using assms(2) by simp
  next
    fix s s' a i u t evt mt ct db2 now
    assume tr: "TransitionTo s ModeKillSwitch (ks_ActivatedBy cmd) (ks_Origin cmd) (ks_Reason cmd) now noConfirmation = Inr s'"
      and rows: "accounts_GetActive (en_D E) (en_U E) (w_db w) = Inr a" "mode_save s' (db_modes (w_db w)) = (Inr (), mt)"
      "account_save (en_U E) (SetOperationalMode a ModeKillSwitch now) (db_accounts (w_db w)) = (Inr (), ct)"
      and inc: "NewIncident (en_uuid E u) KillSwitchActivatedIncident IncidentSeverityCritical (ks_Reason cmd) (ks_Origin cmd) '''' now = Inr i"
      "incidents_Save (en_U E) i ((w_db w)\<lparr>db_modes := mt, db_accounts := ct\<rparr>) = (Inr (), db2)"
      and evt: "oe_EventType evt = ''KillSwitchActivated''" "oe_Payload evt = kill_switch_event cmd now"
      "outbox_Insert t evt db2 = (Inr (), w_db w')"
    have "map_of (db_incidents (w_db w)) (IncidentID_String (en_U E) (inc_ID i)) = None"
      using inc(1) assms(4) by (auto simp: NewIncident_def fresh_ids_def split: if_splits)
    then have db2: "db2 = (w_db w)\<lparr>db_modes := mt, db_accounts := ct, db_incidents :=
        al_set (IncidentID_String (en_U E) (inc_ID i)) (incident_columns (incident_toModel (en_U E) i)) (db_incidents (w_db w))\<rparr>"
      using incidents_Save_fresh [of "(w_db w)\<lparr>db_modes := mt, db_accounts := ct\<rparr>" "en_U E" i] inc(2) by simp
    note w' = conjunct2 [OF outbox_Insert_Inr [OF evt(3)]]
    have "accounts_ok (en_U E) ct \<and> mode_in_force (w_db w') ModeKillSwitch"
      using both_rows_written [OF assms(1,2) rows TransitionTo_target [OF tr], of "w_db w'"] w' db2 by simp
    moreover have "kill_switch_recorded cmd (w_db w')"
      by (rule kill_switch_recordedI [OF inc(1), of _ "IncidentID_String (en_U E) (inc_ID i)" "en_U E" "oe_ID evt"])
        (simp_all add: w' db2 evt(1,2), simp_all add: evt(1,2))
    ultimately show ?thesis using w' db2 by simp
  qed
  ultimately show ?thesis by blast
qed

text \<open>
  C7: Throwing the kill switch is all or nothing in every pattern of faults: either nothing was
  written and an error is returned, or KILL_SWITCH is in force in the mode row and in the active
  account, a critical open incident names the reason and the origin, and the activation event is
  pending in the outbox. The broker is never called.
\<close>

theorem kill_switch_atomic:
  assumes "uuid_lib (en_U E)" "accounts_ok (en_U E) (db_accounts (w_db w))" "\<not> w_inTx w" "fresh_ids E (w_db w)"
    "ActivateKillSwitch E cmd w = (r, w')"
  shows "accounts_ok (en_U E) (db_accounts (w_db w')) \<and> w_broker w' = w_broker w \<and>
    ((\<exists>e. r = Inl e) \<and> w_db w' = w_db w \<or>
     mode_in_force (w_db w') ModeKillSwitch \<and> kill_switch_recorded cmd (w_db w'))"
  by (rule kill_switch_outcome [OF assms])

text \<open>The next version of what is stored is accepted.\<close>

lemma mode_save_next:
  "map_of tbl ''1'' = Some row \<Longrightarrow> mm_Version row = st_Version s - 1 \<Longrightarrow> \<exists>mt. mode_save s tbl = (Inr (), mt)"
  by (simp add: mode_save_def save_row_def mode_upsert_def sql_upsert_def Let_def no_clash_def list_ex_iff case_prod_beta)

lemma account_save_next:
  assumes "uuid_lib U" "accounts_ok U tbl" "active_row tbl = Some m" "account_toDomain D U m = Inr a0"
    "acc_ID a = acc_ID a0" "acc_Version a = acc_Version a0 + 1" "account_columns (account_toModel U a) = Inr row"
  shows "\<exists>ct. account_save U a tbl = (Inr (), ct)"
proof -
  obtain k u where k: "(k, m, True) \<in> set tbl" and u: "u < 2 ^ 128" "k = uString U u" "am_ID m = k"
    using active_row_in [OF assms(3)] assms(2) unfolding accounts_ok_def by metis
  have id: "acc_ID a = AccountID u" and ver: "am_Version m = acc_Version a0"
    using assms(4,5) u uuid_libD(1) [OF assms(1)] by (auto simp: account_toDomain_def rbind_Inr_iff Parse_defs)
  have mo: "map_of tbl (uString U u) = Some (m, True)" using assms(2) k u(2) by (simp add: accounts_ok_def)
  have "\<not> list_ex (\<lambda>(j, r). j \<noteq> uString U u \<and> account_clash r (account_merge row (m, True))) tbl"
    using accounts_ok_unique [OF assms(2) k] u(2) by (fastforce simp: list_ex_iff account_clash_def)
  then show ?thesis
    using mo id ver assms(6,7) by (simp add: account_save_def save_row_def account_upsert_def sql_upsert_def Let_def)
qed

lemma SetOperationalMode_columns:
  "account_storable a \<Longrightarrow> \<exists>row. account_columns (account_toModel U (SetOperationalMode a md now)) = Inr row"
  by (simp add: account_storable_def account_columns_def account_toModel_def SetOperationalMode_def)

lemma outbox_Insert_fresh: "map_of (db_outbox db) (oe_ID evt) = None \<Longrightarrow> \<exists>db'. outbox_Insert now evt db = (Inr (), db')"
  by (simp add: outbox_Insert_def sql_insert_def)

lemma kill_switch_tx_ok:
  assumes "no_faults E" "fresh_ids E (w_db w)" "mode_save s (db_modes (w_db w)) = (Inr (), mt)"
    "account_save (en_U E) a (db_accounts (w_db w)) = (Inr (), ct)" "inc_ID i = IncidentID (en_uuid E n)"
  shows "\<exists>w'. kill_switch_tx E cmd s a i now w = (Inr (), w')"
proof -
  let ?w1 = "(tick w)\<lparr>w_db := (w_db w)\<lparr>db_modes := mt\<rparr>\<rparr>"
  let ?w2 = "(tick ?w1)\<lparr>w_db := (w_db w)\<lparr>db_modes := mt, db_accounts := ct\<rparr>\<rparr>"
  obtain it where it: "incidents_Save (en_U E) i (w_db ?w2) = (Inr (), (w_db ?w2)\<lparr>db_incidents := it\<rparr>)"
    using incidents_Save_fresh [of "w_db ?w2" "en_U E" i] assms(2,5) by (auto simp: fresh_ids_def)
  let ?w3 = "(tick ?w2)\<lparr>w_db := (w_db ?w2)\<lparr>db_incidents := it\<rparr>\<rparr>"
  have "db_write E (modes_Save s) w = (Inr (), ?w1)" "db_write E (accounts_Save (en_U E) a) ?w1 = (Inr (), ?w2)"
    "db_write E (incidents_Save (en_U E) i) ?w2 = (Inr (), ?w3)"
    using assms(1,3,4) it by (intro db_write_ok; simp add: modes_Save_def accounts_Save_def)+
  moreover have "\<exists>w'. ubind (newOutboxEvent E ty pl now) (uc_outbox_Insert E) ?w3 = (Inr (), w')" for ty pl
  proof -
    let ?evt = "\<lparr>oe_ID = uString (en_U E) (en_uuid E (w_tick ?w3)), oe_EventType = ty, oe_Payload = pl,
       oe_Status = OutboxStatusPending, oe_Attempts = 0, oe_CreatedAt = now, oe_ProcessedAt = None, oe_LastError = []\<rparr>"
    obtain db' where "outbox_Insert (en_clock E (w_tick (tick ?w3))) ?evt (w_db ?w3) = (Inr (), db')"
      using outbox_Insert_fresh [of "w_db ?w3" ?evt] assms(2) by (auto simp: fresh_ids_def)
    then show ?thesis
      using assms(1) by (simp add: newOutboxEvent_def uc_outbox_Insert_def ubind_go NewUUID_def Now_def db_write_ok)
  qed
  ultimately show ?thesis by (simp add: kill_switch_tx_def ubind_go)
qed

lemma kill_switch_succeeds:
  assumes "uuid_lib (en_U E)" "accounts_ok (en_U E) (db_accounts (w_db w))" "\<not> w_inTx w" "fresh_ids E (w_db w)" "no_faults E"
    "modes_Get (w_db w) = Inr s" "Mode_Valid (st_CurrentMode s)" "accounts_GetActive (en_D E) (en_U E) (w_db w) = Inr a"
    "account_storable a" "ks_ActivatedBy cmd \<noteq> ''''" "ks_Origin cmd \<noteq> ''''" "ks_Reason cmd \<noteq> ''''"
  shows "\<exists>w'. ActivateKillSwitch E cmd w = (Inr (), w') \<and> mode_in_force (w_db w') ModeKillSwitch \<and>
    kill_switch_recorded cmd (w_db w')"
proof -
  let ?now = "en_clock E (w_tick w)"
  obtain s' where s': "TransitionTo s ModeKillSwitch (ks_ActivatedBy cmd) (ks_Origin cmd) (ks_Reason cmd) ?now noConfirmation = Inr s'"
    and v: "st_Version s' = st_Version s + 1"
    using assms(7,10,12) by (cases "st_CurrentMode s") (auto simp: TransitionTo_Inr mode_defs)
  obtain m where m: "map_of (db_modes (w_db w)) ''1'' = Some m" "mm_Version m = st_Version s' - 1"
    using assms(6) v by (auto simp: modes_Get_def scan_one_def mode_toDomain_def RehydrateState_def split: option.splits)
  obtain mt where mt: "mode_save s' (db_modes (w_db w)) = (Inr (), mt)" using mode_save_next [OF m] by blast
  obtain am where am: "active_row (db_accounts (w_db w)) = Some am" "account_toDomain (en_D E) (en_U E) am = Inr a"
    using accounts_GetActive_Inr [OF assms(8)] by blast
  obtain row where row: "account_columns (account_toModel (en_U E) (SetOperationalMode a ModeKillSwitch ?now)) = Inr row"
    using SetOperationalMode_columns [OF assms(9)] by blast
  obtain ct where ct: "account_save (en_U E) (SetOperationalMode a ModeKillSwitch ?now) (db_accounts (w_db w)) = (Inr (), ct)"
    using account_save_next [OF assms(1,2) am _ _ row] by (auto simp: SetOperationalMode_def)
  let ?i = "\<lparr>inc_ID = IncidentID (en_uuid E (w_tick (tick (tick (tick w))))), inc_Type = KillSwitchActivatedIncident,
      inc_Severity = IncidentSeverityCritical, inc_Description = ks_Reason cmd, inc_Source = ks_Origin cmd,
      inc_RelatedEntityID = [], inc_Status = IncidentStatusOpen, inc_DetectedAt = ?now, inc_ResolvedAt = None,
      inc_Resolution = [], inc_CreatedAt = ?now, inc_UpdatedAt = ?now\<rparr>"
  let ?w4 = "tick (tick (tick (tick w)))" and ?a = "SetOperationalMode a ModeKillSwitch ?now"
  obtain w3 where w3: "kill_switch_tx E cmd s' ?a ?i ?now ((tick ?w4)\<lparr>w_inTx := True\<rparr>) = (Inr (), w3)"
    using kill_switch_tx_ok [OF assms(5), of "(tick ?w4)\<lparr>w_inTx := True\<rparr>" s' mt ?a ct ?i
      "w_tick (tick (tick (tick w)))" cmd ?now] assms(4) mt ct by auto
  have tx: "WithinTransaction E (kill_switch_tx E cmd s' ?a ?i ?now) ?w4 = (Inr (), (tick w3)\<lparr>w_inTx := False\<rparr>)"
    by (rule WithinTransaction_ok) (simp_all add: assms(3,5) w3)
  have "fst (ActivateKillSwitch E cmd w) = Inr ()"
    using assms(3,11,12) s' tx
    by (simp add: ActivateKillSwitch_def Let_def Now_def NewUUID_def ubind_go wrapped_go db_read_ok assms(5,6,8) lift_def
      NewIncident_def attempt_Inr Notify_ok)
  then obtain w' where run: "ActivateKillSwitch E cmd w = (Inr (), w')" by (cases "ActivateKillSwitch E cmd w") auto
  with kill_switch_outcome [OF assms(1-4) run] show ?thesis by auto
qed

text \<open>
  C8: When the infrastructure works, the kill switch works: from every stored mode, with an actor,
  an origin and a reason, the activation succeeds, KILL_SWITCH is then in force everywhere and is
  recorded.
\<close>

theorem kill_switch_effective:
  assumes "uuid_lib (en_U E)" "accounts_ok (en_U E) (db_accounts (w_db w))" "\<not> w_inTx w" "fresh_ids E (w_db w)" "no_faults E"
    "modes_Get (w_db w) = Inr s" "Mode_Valid (st_CurrentMode s)" "accounts_GetActive (en_D E) (en_U E) (w_db w) = Inr a"
    "account_storable a" "ks_ActivatedBy cmd \<noteq> ''''" "ks_Origin cmd \<noteq> ''''" "ks_Reason cmd \<noteq> ''''"
  shows "\<exists>w'. ActivateKillSwitch E cmd w = (Inr (), w') \<and> mode_in_force (w_db w') ModeKillSwitch \<and>
    kill_switch_recorded cmd (w_db w')"
  by (rule kill_switch_succeeds [OF assms])

text \<open>A run on the sample database.\<close>

definition sample_kill :: ActivateKillSwitchCommand where
  "sample_kill = \<lparr>ks_ActivatedBy = ''op'', ks_Origin = ''http'', ks_Reason = ''panic'', ks_AllowClose = True\<rparr>"

lemma sample_accounts_ok: "accounts_ok ref_uuid (db_accounts sample_db)"
  by (auto simp: accounts_ok_def sample_db_def emptyDB_def sample_account_def intro: exI [of _ 1])

lemma sample_fresh_ids: "fresh_ids quiet_env sample_db"
  by (simp add: fresh_ids_def sample_db_def emptyDB_def)

lemma sample_modes_Get: "modes_Get sample_db = Inr (NewState 0)"
  by (simp add: modes_Get_def sample_db_def emptyDB_def scan_one_def mode_roundtrip NewState_def Mode_Valid_def)

lemma sample_GetActive: "accounts_GetActive ref_decimal ref_uuid sample_db = Inr sample_account"
  by (simp add: accounts_GetActive_def sample_db_def emptyDB_def scan_one_def
      account_roundtrip [OF decimal_lib_ref uuid_lib_ref sample_account_storable])

theorem kill_switch_effective_witness:
  "\<exists>w'. ActivateKillSwitch quiet_env sample_kill sample_world = (Inr (), w') \<and> mode_in_force (w_db w') ModeKillSwitch \<and>
     kill_switch_recorded sample_kill (w_db w')"
  by (rule kill_switch_effective [where s = "NewState 0" and a = sample_account])
    (simp_all add: uuid_lib_ref sample_accounts_ok sample_fresh_ids sample_modes_Get sample_GetActive sample_account_storable
      sample_kill_def, simp add: NewState_def Mode_Valid_def)

text \<open>An environment in which every answer from the third call on is lost.\<close>

definition lossy_env :: "PaperBroker Env" where
  "lossy_env = quiet_env\<lparr>en_fault := (\<lambda>n. if n < 3 then NoFault else FailAfter (ErrorText ''lost''))\<rparr>"

lemma lossy_env_simps [simp]: "en_D lossy_env = ref_decimal" "en_U lossy_env = ref_uuid" "en_uuid lossy_env = en_uuid quiet_env"
  by (simp_all add: lossy_env_def)

theorem kill_switch_atomic_witness:
  "\<exists>r w'. ActivateKillSwitch lossy_env sample_kill sample_world = (r, w') \<and> w_broker w' = sample_broker \<and>
    ((\<exists>e. r = Inl e) \<and> w_db w' = sample_db \<or> mode_in_force (w_db w') ModeKillSwitch \<and> kill_switch_recorded sample_kill (w_db w'))"
proof -
  obtain r w' where run: "ActivateKillSwitch lossy_env sample_kill sample_world = (r, w')"
    by (cases "ActivateKillSwitch lossy_env sample_kill sample_world")
  show ?thesis
    using kill_switch_atomic [OF _ _ _ _ run] run sample_accounts_ok sample_fresh_ids by (simp add: fresh_ids_def)
qed

definition sample_pause :: ChangeOperationalModeCommand where
  "sample_pause = \<lparr>cm_TargetMode = ''PAUSED'', cm_ActedBy = ''op'', cm_Origin = ''http'', cm_Reason = ''lunch'', cm_RealConfirmationToken = ''''\<rparr>"

theorem mode_change_atomic_witness:
  "\<exists>r w'. ChangeOperationalMode quiet_env sample_pause sample_world = (r, w') \<and> w_broker w' = sample_broker \<and>
    ((\<exists>e. r = Inl e) \<and> w_db w' = sample_db \<or> mode_in_force (w_db w') ModePaused)"
proof -
  obtain r w' where run: "ChangeOperationalMode quiet_env sample_pause sample_world = (r, w')"
    by (cases "ChangeOperationalMode quiet_env sample_pause sample_world")
  show ?thesis
    using mode_change_atomic [OF _ _ _ run] run sample_accounts_ok by (auto simp: sample_pause_def Mode_of_string_def)
qed

section \<open>Reset and start-up\<close>

lemma keeps_reset:
  "keeps same_broker (reset_positions E now ps)" "keeps same_broker (reset_orders E now os)"
proof -
  show "keeps same_broker (reset_positions E now ps)"
    by (induction ps) (simp_all only: reset_positions.simps, (intro same_broker.keeps_db_intros; assumption?)+)
  show "keeps same_broker (reset_orders E now os)"
    by (induction os) (auto simp del: useq_simps intro!: same_broker.keeps_db_intros split: sum.splits)
qed

text \<open>
  C30: The paper reset is confined to paper trading: in every pattern of faults, if it changed the
  database or the broker at all, then the active account was in PAPER mode and the configured
  broker is one that can be reset; and the only thing that can have happened to the broker is one
  call of its reset.
\<close>

theorem reset_only_in_paper_mode:
  assumes "ResetPaperState E Reset bal w = (r, w')" "w_db w' \<noteq> w_db w \<or> w_broker w' \<noteq> w_broker w"
  shows "\<exists>a reset. accounts_GetActive (en_D E) (en_U E) (w_db w) = Inr a \<and> acc_OperationalMode a = ModePaper \<and> Reset = Some reset \<and>
    (w_broker w' = w_broker w \<and> (\<exists>e. r = Inl e) \<or> w_broker w' = snd (reset (w_broker w)))"
proof -
  have *: "w_broker w2 = w_broker w1" if "WithinTransaction E (ubind (reset_positions E now ps) (\<lambda>_.
      ubind (reset_orders E now os) (\<lambda>_. db_write E (accounts_Save U a)))) w1 = (q, w2)" for now ps os U a w1 q w2
    using same_broker.keeps_app [OF same_broker.keeps_WithinTransaction [OF same_broker.keeps_ubind [OF keeps_reset(1)
        same_broker.keeps_ubind [OF keeps_reset(2) same_broker.keeps_db_write]]] that] by (simp add: same_broker_def)
  show ?thesis
    using assms unfolding ResetPaperState_def Let_def
    by (auto elim!: ubindE wrappedE db_readE simp: usecase_steps broker_call_def infra_def
        split: if_splits option.splits fault.splits prod.splits dest!: *)
qed

lemma sample_reset_runs:
  "\<exists>w'. ResetPaperState quiet_env (Some paper_Reset) (Money 500) (sample_world\<lparr>w_broker := sample_broker_after\<rparr>) = (Inr (), w') \<and>
     w_broker w' = snd (paper_Reset sample_broker_after)"
proof -
  let ?w = "sample_world\<lparr>w_broker := sample_broker_after\<rparr>"
  let ?now = "en_clock quiet_env (w_tick (tick ?w))"
  let ?a = "sample_account\<lparr>acc_Balance := Money 500, acc_Equity := Money 500, acc_AvailableBalance := Money 500,
      acc_PeakEquity := Money 500, acc_Version := 2, acc_UpdatedAt := ?now\<rparr>"
  have opens: "positions_ListOpen ref_decimal ref_uuid sample_db = Inr []" "orders_ListOpen ref_decimal ref_uuid sample_db = Inr []"
    by (simp_all add: positions_ListOpen_def orders_ListOpen_def sample_db_def emptyDB_def order_desc_def)
  obtain b where fresh: "NewPaperAccount ref_decimal (en_uuid quiet_env 4) (Money 500) ?now = Inr b"
      "b\<lparr>acc_ID := acc_ID sample_account, acc_Version := acc_Version sample_account + 1\<rparr> = ?a"
    by (simp add: NewPaperAccount_def MustNewDrawdown_def NewDrawdown_def vo_defs sample_account_def)
  have st: "account_storable ?a"
    by (simp add: account_storable_def sample_account_def fits_def Mode_Valid_def round_to_def round_half_away_def quiet_env_def)
  obtain m where m: "active_row (db_accounts sample_db) = Some m" "account_toDomain ref_decimal ref_uuid m = Inr sample_account"
    using accounts_GetActive_Inr [OF sample_GetActive] by blast
  obtain ct where ct: "account_save ref_uuid ?a (db_accounts sample_db) = (Inr (), ct)"
    using account_save_next [OF uuid_lib_ref sample_accounts_ok m _ _ account_columns_id [OF st]] by (auto simp: sample_account_def)
  let ?tx = "ubind (uret ()) (\<lambda>_. ubind (uret ()) (\<lambda>_.
      db_write quiet_env (accounts_Save ref_uuid ?a)))"
  have w_tick: "w_tick (tick (tick (tick (tick ?w)))) = 4" by (simp add: tick_def sample_world_def)
  have tx: "WithinTransaction quiet_env ?tx w = (Inr (), (tick ((tick (tick w))\<lparr>w_inTx := True, w_db := sample_db\<lparr>db_accounts := ct\<rparr>\<rparr>))\<lparr>w_inTx := False\<rparr>)"
    if "w_db w = sample_db" "\<not> w_inTx w" for w
    by (rule WithinTransaction_ok) (simp_all add: that ubind_go db_write_ok accounts_Save_def ct, simp add: tick_def)
  have "acc_OperationalMode sample_account = ModePaper" by (simp add: sample_account_def)
  then show ?thesis
    by (simp add: ResetPaperState_def ubind_go wrapped_go db_read_ok sample_GetActive opens Now_def NewUUID_def lift_def w_tick fresh
      broker_call_def infra_ok paper_Reset_def Let_def tx)
qed

theorem reset_only_in_paper_mode_witness:
  "\<exists>r w' reset. ResetPaperState quiet_env (Some paper_Reset) (Money 500) (sample_world\<lparr>w_broker := sample_broker_after\<rparr>) = (r, w') \<and>
     Some paper_Reset = Some reset \<and> (w_broker w' = sample_broker_after \<and> (\<exists>e. r = Inl e) \<or> w_broker w' = snd (reset sample_broker_after))"
proof -
  obtain w' where run: "ResetPaperState quiet_env (Some paper_Reset) (Money 500) (sample_world\<lparr>w_broker := sample_broker_after\<rparr>) = (Inr (), w')"
    and b: "w_broker w' = snd (paper_Reset sample_broker_after)" using sample_reset_runs by blast
  have "w_broker w' \<noteq> w_broker (sample_world\<lparr>w_broker := sample_broker_after\<rparr>)"
    by (simp add: b paper_Reset_def resetLocked_def sample_broker_after_def sample_broker_def NewBroker_def)
  then show ?thesis using reset_only_in_paper_mode [OF run] run by fastforce
qed

lemma bootstrap_keeps:
  assumes "accounts_GetActive (en_D E) (en_U E) (w_db w) = Inr a" "modes_Get (w_db w) = Inr s" "bootstrap E bal w = (r, w')" "no_faults E"
  shows "w_db w' = w_db w \<and> r = Inr ()"
  using assms(3) unfolding bootstrap_def
  by (simp add: ubind_go attempt_Inr db_read_ok [OF assms(4)] assms(1,2) Now_def) auto

end
