(* ===== verification/Migration_Runner.thy ===== *)
theory Migration_Runner
  imports Mode_UseCases
begin

text \<open>
  \<^verbatim>\<open>database/migration\<close>: the runner that brings the schema up and down and the command line in front of
  it. What PostgreSQL does with a script is a parameter, and every statement may fail. The
  abstract view is a number: how many of the steps are applied; the runner refines it, whatever
  fails, so the bookkeeping table and the schema never disagree.
\<close>

section \<open>Steps from files\<close>

record step =
  stp_version :: int
  stp_name :: string
  stp_upSQL :: string
  stp_downSQL :: string

record dir_entry =
  ent_Name :: string
  ent_IsDir :: bool
  ent_Content :: "string result"

definition is_digit :: "char \<Rightarrow> bool" where
  "is_digit c \<longleftrightarrow> 48 \<le> (of_char c :: nat) \<and> (of_char c :: nat) \<le> 57"

definition cut_suffix :: "string \<Rightarrow> string \<Rightarrow> string option" where
  "cut_suffix suffix s = (let n = length s - length suffix in
     if length suffix \<le> length s \<and> drop n s = suffix then Some (take n s) else None)"

text \<open>\<^verbatim>\<open>^(\d+)_(.+)\.(up|down)\.sql$\<close>: the groups version, name and direction (up or not).\<close>

definition fileNamePattern :: "string \<Rightarrow> (string \<times> string \<times> bool) option" where
  "fileNamePattern s = (let digits = takeWhile is_digit s; rest = dropWhile is_digit s;
       named = (\<lambda>name. name \<noteq> [] \<and> char_of (10::nat) \<notin> set name) in
     if digits = [] then None
     else case rest of
       [] \<Rightarrow> None
     | c # tail \<Rightarrow>
       if c \<noteq> CHR ''_'' then None
       else case cut_suffix ''.up.sql'' tail of
         Some name \<Rightarrow> if named name then Some (digits, name, True) else None
       | None \<Rightarrow> (case cut_suffix ''.down.sql'' tail of
           Some name \<Rightarrow> if named name then Some (digits, name, False) else None
         | None \<Rightarrow> None))"

text \<open>\<^verbatim>\<open>strconv.ParseInt(s, 10, 64)\<close> of a text of digits.\<close>

definition parse_version :: "string \<Rightarrow> int result" where
  "parse_version s = (if int (read_nat s) < 2 ^ 63 then Inr (int (read_nat s))
     else Inl (ErrorText (''strconv.ParseInt: parsing '' @ quoted s @ '': value out of range'')))"

text \<open>One file: the step of its version is created or completed.\<close>

definition add_file :: "string \<Rightarrow> int \<Rightarrow> string \<Rightarrow> bool \<Rightarrow> (int \<times> step) list \<Rightarrow> (int \<times> step) list" where
  "add_file content version name up byVersion =
     (let s = (case map_of byVersion version of Some s \<Rightarrow> s
          | None \<Rightarrow> \<lparr>stp_version = version, stp_name = name, stp_upSQL = '''', stp_downSQL = ''''\<rparr>)
      in al_set version (if up then s\<lparr>stp_upSQL := content\<rparr> else s\<lparr>stp_downSQL := content\<rparr>) byVersion)"

fun read_entries :: "dir_entry list \<Rightarrow> (int \<times> step) list \<Rightarrow> (int \<times> step) list result" where
  "read_entries [] byVersion = Inr byVersion"
| "read_entries (entry # rest) byVersion =
     (if ent_IsDir entry then read_entries rest byVersion
      else case fileNamePattern (ent_Name entry) of
        None \<Rightarrow> read_entries rest byVersion
      | Some (digits, name, up) \<Rightarrow>
        (case parse_version digits of
           Inl e \<Rightarrow> Inl (WrapPrefix (''parsing migration version from '' @ ent_Name entry) e)
         | Inr version \<Rightarrow>
           (case ent_Content entry of
              Inl e \<Rightarrow> Inl (WrapPrefix (''reading migration file '' @ ent_Name entry) e)
            | Inr content \<Rightarrow> read_entries rest (add_file content version name up byVersion))))"

definition NewRunner :: "dir_entry list result \<Rightarrow> step list result" where
  "NewRunner entries = (case entries of
       Inl e \<Rightarrow> Inl (WrapPrefix ''reading migrations directory'' e)
     | Inr es \<Rightarrow> rbind (read_entries es []) (\<lambda>byVersion. Inr (sort_key stp_version (map snd byVersion))))"

section \<open>The database\<close>

text \<open>
  The table of versions, absent before the first run, the rest of the schema, and the number of
  the next call. The environment decides the fault of every call and what a script does.
\<close>

record 's MigState =
  ms_versions :: "int list option"
  ms_schema :: 's
  ms_tick :: nat

record 's MigEnv =
  mg_fault :: "nat \<Rightarrow> fault"
  mg_exec :: "string \<Rightarrow> 's \<Rightarrow> 's result"

type_synonym ('s, 'a) migration = "'s MigState \<Rightarrow> 'a result \<times> 's MigState"

definition next_call :: "'s MigState \<Rightarrow> 's MigState" where
  "next_call st = st\<lparr>ms_tick := ms_tick st + 1\<rparr>"

definition insert_version :: "int \<Rightarrow> int list option \<Rightarrow> int list option result" where
  "insert_version v vs = (case vs of
       None \<Rightarrow> Inl (ErrorText ''relation schema_migrations does not exist'')
     | Some xs \<Rightarrow> if v \<in> set xs then Inl (ErrorText ''duplicate key value violates unique constraint'') else Inr (Some (xs @ [v])))"

definition delete_version :: "int \<Rightarrow> int list option \<Rightarrow> int list option result" where
  "delete_version v vs = (case vs of
       None \<Rightarrow> Inl (ErrorText ''relation schema_migrations does not exist'')
     | Some xs \<Rightarrow> Inr (Some (filter (\<lambda>x. x \<noteq> v) xs)))"

definition ensureVersionTable :: "'s MigEnv \<Rightarrow> ('s, unit) migration" where
  "ensureVersionTable E st =
     (let created = (next_call st)\<lparr>ms_versions := Some (case ms_versions st of None \<Rightarrow> [] | Some xs \<Rightarrow> xs)\<rparr> in
      case mg_fault E (ms_tick st) of
        NoFault \<Rightarrow> (Inr (), created)
      | FailBefore e \<Rightarrow> (Inl e, next_call st)
      | FailAfter e \<Rightarrow> (Inl e, created))"

text \<open>\<^verbatim>\<open>COALESCE(MAX(version), 0)\<close>.\<close>

definition max_version :: "int list \<Rightarrow> int" where
  "max_version xs = (case xs of [] \<Rightarrow> 0 | x # rest \<Rightarrow> fold max rest x)"

definition Version :: "'s MigEnv \<Rightarrow> ('s, int) migration" where
  "Version E st = (case ensureVersionTable E st of
       (Inl e, st1) \<Rightarrow> (Inl e, st1)
     | (Inr _, st1) \<Rightarrow>
       (case mg_fault E (ms_tick st1) of
          NoFault \<Rightarrow> (case ms_versions st1 of
              None \<Rightarrow> (Inl (ErrorText ''relation schema_migrations does not exist''), next_call st1)
            | Some xs \<Rightarrow> (Inr (max_version xs), next_call st1))
        | FailBefore e \<Rightarrow> (Inl e, next_call st1)
        | FailAfter e \<Rightarrow> (Inl e, next_call st1)))"

text \<open>
  A transaction of two statements: it begins, runs the script and the bookkeeping on a copy, and
  commits both or neither; a commit whose answer is lost has taken effect.
\<close>

definition statement :: "'s MigEnv \<Rightarrow> nat \<Rightarrow> 'a result \<Rightarrow> 'a result" where
  "statement E n r = (case mg_fault E n of NoFault \<Rightarrow> r | FailBefore e \<Rightarrow> Inl e | FailAfter e \<Rightarrow> Inl e)"

definition runInTx :: "'s MigEnv \<Rightarrow> string \<Rightarrow> (int list option \<Rightarrow> int list option result) \<Rightarrow> ('s, unit) migration" where
  "runInTx E migrationSQL bookkeeping st =
     (let n = ms_tick st in
      case statement E n (Inr ()) of
        Inl e \<Rightarrow> (Inl e, st\<lparr>ms_tick := n + 1\<rparr>)
      | Inr _ \<Rightarrow>
      (case statement E (n + 1) (mg_exec E migrationSQL (ms_schema st)) of
        Inl e \<Rightarrow> (Inl e, st\<lparr>ms_tick := n + 2\<rparr>)
      | Inr schema \<Rightarrow>
      (case statement E (n + 2) (bookkeeping (ms_versions st)) of
        Inl e \<Rightarrow> (Inl e, st\<lparr>ms_tick := n + 3\<rparr>)
      | Inr versions \<Rightarrow>
        let committed = st\<lparr>ms_schema := schema, ms_versions := versions, ms_tick := n + 4\<rparr> in
        (case mg_fault E (n + 3) of
           NoFault \<Rightarrow> (Inr (), committed)
         | FailBefore e \<Rightarrow> (Inl e, st\<lparr>ms_tick := n + 4\<rparr>)
         | FailAfter e \<Rightarrow> (Inl e, committed)))))"

section \<open>Commands\<close>

definition step_label :: "step \<Rightarrow> string" where
  "step_label s = show_int (stp_version s) @ ''_'' @ stp_name s"

fun up_loop :: "'s MigEnv \<Rightarrow> int \<Rightarrow> step list \<Rightarrow> ('s, unit) migration" where
  "up_loop E current [] st = (Inr (), st)"
| "up_loop E current (s # rest) st =
     (if stp_version s \<le> current then up_loop E current rest st
      else if stp_upSQL s = '''' then (Inl (ErrorText (''migration '' @ step_label s @ '' has no up script'')), st)
      else case runInTx E (stp_upSQL s) (insert_version (stp_version s)) st of
        (Inl e, st1) \<Rightarrow> (Inl (WrapPrefix (''applying migration '' @ step_label s) e), st1)
      | (Inr _, st1) \<Rightarrow> up_loop E current rest st1)"

definition Up :: "'s MigEnv \<Rightarrow> step list \<Rightarrow> ('s, unit) migration" where
  "Up E steps st = (case Version E st of
       (Inl e, st1) \<Rightarrow> (Inl e, st1)
     | (Inr current, st1) \<Rightarrow> up_loop E current steps st1)"

text \<open>The loop of \<^verbatim>\<open>Down\<close> runs through the steps from the last to the first; \<open>earlier\<close> are the ones before.\<close>

definition previousVersion :: "step list \<Rightarrow> int" where
  "previousVersion earlier = (case earlier of [] \<Rightarrow> 0 | p # _ \<Rightarrow> stp_version p)"

fun down_loop :: "'s MigEnv \<Rightarrow> int \<Rightarrow> int \<Rightarrow> int \<Rightarrow> step list \<Rightarrow> ('s, unit) migration" where
  "down_loop E count reverted current [] st = (Inr (), st)"
| "down_loop E count reverted current (s # earlier) st =
     (if \<not> (reverted < count \<and> current > 0) then (Inr (), st)
      else if stp_version s \<noteq> current then down_loop E count reverted current earlier st
      else if stp_downSQL s = '''' then (Inl (ErrorText (''migration '' @ step_label s @ '' has no down script'')), st)
      else case runInTx E (stp_downSQL s) (delete_version (stp_version s)) st of
        (Inl e, st1) \<Rightarrow> (Inl (WrapPrefix (''reverting migration '' @ step_label s) e), st1)
      | (Inr _, st1) \<Rightarrow> down_loop E count (reverted + 1) (previousVersion earlier) earlier st1)"

definition Down :: "'s MigEnv \<Rightarrow> step list \<Rightarrow> int \<Rightarrow> ('s, unit) migration" where
  "Down E steps count st = (case Version E st of
       (Inl e, st1) \<Rightarrow> (Inl e, st1)
     | (Inr current, st1) \<Rightarrow> down_loop E count 0 current (rev steps) st1)"

definition Force :: "'s MigEnv \<Rightarrow> int \<Rightarrow> ('s, unit) migration" where
  "Force E version st = (case ensureVersionTable E st of
       (Inl e, st1) \<Rightarrow> (Inl e, st1)
     | (Inr _, st1) \<Rightarrow>
       (let n = ms_tick st1; row = version > 0; m = (if row then n + 2 else n + 1);
            forced = st1\<lparr>ms_versions := Some (if row then [version] else []), ms_tick := m + 2\<rparr> in
        case statement E n (Inr ()) of
          Inl e \<Rightarrow> (Inl e, st1\<lparr>ms_tick := n + 1\<rparr>)
        | Inr _ \<Rightarrow>
        (case statement E (n + 1) (Inr ()) of
          Inl e \<Rightarrow> (Inl e, st1\<lparr>ms_tick := n + 2\<rparr>)
        | Inr _ \<Rightarrow>
        (case (if row then statement E (n + 2) (Inr ()) else Inr ()) of
          Inl e \<Rightarrow> (Inl e, st1\<lparr>ms_tick := n + 3\<rparr>)
        | Inr _ \<Rightarrow>
          (case mg_fault E (m + 1) of
             NoFault \<Rightarrow> (Inr (), forced)
           | FailBefore e \<Rightarrow> (Inl e, st1\<lparr>ms_tick := m + 2\<rparr>)
           | FailAfter e \<Rightarrow> (Inl e, forced))))))"

text \<open>
  The command line: the text that is logged, or an error. \<open>atoi\<close> and \<open>parseInt\<close> read a number from an
  argument, as \<^verbatim>\<open>strconv.Atoi\<close> and \<^verbatim>\<open>strconv.ParseInt\<close>.
\<close>

definition then_version :: "'s MigEnv \<Rightarrow> string \<Rightarrow> unit result \<times> 's MigState \<Rightarrow> string result \<times> 's MigState" where
  "then_version E prefix outcome = (case outcome of
       (Inl e, st1) \<Rightarrow> (Inl e, st1)
     | (Inr _, st1) \<Rightarrow> (case Version E st1 of
         (Inl e, st2) \<Rightarrow> (Inl e, st2)
       | (Inr v, st2) \<Rightarrow> (Inr (prefix @ show_int v), st2)))"

definition migration_Execute :: "'s MigEnv \<Rightarrow> (string \<Rightarrow> int result) \<Rightarrow> step list \<Rightarrow> string list \<Rightarrow> ('s, string) migration" where
  "migration_Execute E parseInt steps args st = (case args of
       [] \<Rightarrow> (Inl (ErrorText ''usage: migrate <up|down|version|force> [args]''), st)
     | cmd # rest \<Rightarrow>
       if cmd = ''up'' then then_version E ''migrated up to version '' (Up E steps st)
       else if cmd = ''down'' then
         (case (case rest of [] \<Rightarrow> Inr 1 | a # _ \<Rightarrow> (case parseInt a of
               Inl e \<Rightarrow> Inl (WrapPrefix (''invalid step count '' @ quoted a) e) | Inr n \<Rightarrow> Inr n)) of
            Inl e \<Rightarrow> (Inl e, st)
          | Inr count \<Rightarrow> then_version E ''migrated down to version '' (Down E steps count st))
       else if cmd = ''version'' then then_version E ''current version: '' (Inr (), st)
       else if cmd = ''force'' then
         (case rest of
            [] \<Rightarrow> (Inl (ErrorText ''usage: migrate force <version>''), st)
          | a # _ \<Rightarrow> (case parseInt a of
              Inl e \<Rightarrow> (Inl (WrapPrefix (''invalid version '' @ quoted a) e), st)
            | Inr v \<Rightarrow> (case Force E v st of
                (Inl e, st1) \<Rightarrow> (Inl e, st1)
              | (Inr _, st1) \<Rightarrow> (Inr (''forced version to '' @ show_int v), st1))))
       else (Inl (ErrorText (''unknown migrate command '' @ quoted cmd @ '' (want up|down|version|force)'')), st))"

section \<open>The steps are in order\<close>

definition ordered :: "step list \<Rightarrow> bool" where
  "ordered steps \<longleftrightarrow> sorted_wrt (<) (map stp_version steps)"

text \<open>One step per version, under its version.\<close>

definition by_version :: "(int \<times> step) list \<Rightarrow> bool" where
  "by_version m \<longleftrightarrow> distinct (map fst m) \<and> (\<forall>(k, s)\<in>set m. stp_version s = k \<and> 0 \<le> k \<and> k < 2 ^ 63)"

lemma add_file_by_version: "by_version m \<Longrightarrow> 0 \<le> v \<Longrightarrow> v < 2 ^ 63 \<Longrightarrow> by_version (add_file content v name up m)"
  unfolding by_version_def add_file_def Let_def
  by (auto simp: al_set_fst distinct_al_set dest!: al_set_mem map_of_SomeD split: option.splits)

lemma parse_version_range: "parse_version s = Inr v \<Longrightarrow> 0 \<le> v \<and> v < 2 ^ 63"
  by (auto simp: parse_version_def split: if_splits)

lemma read_entries_by_version: "by_version m \<Longrightarrow> read_entries es m = Inr m' \<Longrightarrow> by_version m'"
proof (induction es arbitrary: m)
  case (Cons entry es)
  from Cons.prems(2) consider "read_entries es m = Inr m'"
    | content v name up where "0 \<le> v \<and> v < 2 ^ 63" "read_entries es (add_file content v name up m) = Inr m'"
    using parse_version_range by (auto split: if_splits option.splits sum.splits) metis
  then show ?case using Cons.IH Cons.prems(1) by cases (blast intro: add_file_by_version)+
qed simp

lemma sorted_distinct_strict: "sorted xs \<Longrightarrow> distinct xs \<Longrightarrow> sorted_wrt (<) (xs :: int list)"
  by (simp add: strict_sorted_iff)

lemma NewRunner_ordered:
  assumes "NewRunner entries = Inr steps"
  shows "ordered steps \<and> (\<forall>s\<in>set steps. 0 \<le> stp_version s \<and> stp_version s < 2 ^ 63)"
proof -
  obtain es m where m: "read_entries es [] = Inr m" and steps: "steps = sort_key stp_version (map snd m)"
    using assms by (auto simp: NewRunner_def rbind_Inr_iff split: sum.splits)
  have bv: "by_version m" by (rule read_entries_by_version [OF _ m]) (simp add: by_version_def)
  have "map stp_version (map snd m) = map fst m" using bv by (auto simp: by_version_def)
  moreover have "distinct (map fst m)" using bv by (simp add: by_version_def)
  ultimately have "distinct (map stp_version (map snd m))" by (simp only:)
  then have "distinct (map stp_version steps)" unfolding steps distinct_map [of stp_version] by simp
  then have "ordered steps" unfolding ordered_def by (intro sorted_distinct_strict) (simp_all add: steps)
  then show ?thesis using bv by (auto simp: steps by_version_def)
qed

section \<open>How many steps are applied\<close>

fun schema_after :: "'s MigEnv \<Rightarrow> step list \<Rightarrow> 's \<Rightarrow> 's result" where
  "schema_after E [] schema = Inr schema"
| "schema_after E (s # rest) schema = rbind (mg_exec E (stp_upSQL s) schema) (schema_after E rest)"

text \<open>The first \<open>n\<close> steps are applied to the schema \<open>s0\<close>: table and schema both say so.\<close>

definition applied :: "'s MigEnv \<Rightarrow> step list \<Rightarrow> 's \<Rightarrow> nat \<Rightarrow> 's MigState \<Rightarrow> bool" where
  "applied E steps s0 n st \<longleftrightarrow> n \<le> length steps \<and> schema_after E (take n steps) s0 = Inr (ms_schema st) \<and>
     (ms_versions st = Some (map stp_version (take n steps)) \<or> n = 0 \<and> ms_versions st = None)"

definition runnable :: "step list \<Rightarrow> bool" where
  "runnable steps \<longleftrightarrow> ordered steps \<and> (\<forall>s\<in>set steps. 0 < stp_version s)"

text \<open>Every down script undoes its up script, on the schemas the runner can meet.\<close>

definition reversible :: "'s MigEnv \<Rightarrow> step list \<Rightarrow> 's \<Rightarrow> bool" where
  "reversible E steps s0 \<longleftrightarrow> (\<forall>n < length steps. \<forall>a b. schema_after E (take n steps) s0 = Inr a \<longrightarrow>
     mg_exec E (stp_upSQL (steps ! n)) a = Inr b \<longrightarrow> mg_exec E (stp_downSQL (steps ! n)) b = Inr a)"

lemma schema_after_snoc: "schema_after E (xs @ [s]) a = rbind (schema_after E xs a) (mg_exec E (stp_upSQL s))"
  by (induction xs arbitrary: a) (auto simp: rbind_def split: sum.splits)

lemma max_version_last:
  assumes "sorted_wrt (<) xs" "xs \<noteq> []"
  shows "max_version xs = last xs"
proof -
  obtain x rest where xs: "xs = x # rest" using assms(2) by (cases xs) auto
  have "max_version xs = Max (set xs)" using Max.set_eq_fold [of x rest] by (simp add: xs max_version_def)
  moreover have "y \<le> last xs" if "y \<in> set xs" for y
    using that assms(1) by (induction xs) (auto simp: less_imp_le)
  ultimately show ?thesis using assms(2) by (simp add: Max_eqI)
qed

lemma runnable_take: "runnable steps \<Longrightarrow> sorted_wrt (<) (map stp_version (take n steps))"
  by (simp add: runnable_def ordered_def take_map [symmetric] sorted_wrt_take)

lemma max_version_applied:
  assumes "runnable steps" "n \<le> length steps"
  shows "max_version (map stp_version (take n steps)) = previousVersion (rev (take n steps))"
proof (cases n)
  case 0
  then show ?thesis by (simp add: max_version_def previousVersion_def)
next
  case (Suc k)
  then have t: "take n steps = take k steps @ [steps ! k]" using assms(2) by (simp add: take_Suc_conv_app_nth)
  show ?thesis using max_version_last [OF runnable_take [OF assms(1), of n]] by (simp add: t previousVersion_def)
qed

lemma Version_applied:
  assumes "Version E st = (r, st')" "applied E steps s0 n st" "runnable steps"
  shows "applied E steps s0 n st' \<and> (\<forall>v. r = Inr v \<longrightarrow> v = previousVersion (rev (take n steps)) \<and>
    ms_versions st' = Some (map stp_version (take n steps)))"
  using assms max_version_applied [OF assms(3), of n]
  by (auto simp: Version_def ensureVersionTable_def next_call_def applied_def Let_def split: fault.splits option.splits prod.splits)

lemma runInTx_cases:
  assumes "runInTx E sql bookkeeping st = (r, st')"
  obtains (kept) e where "r = Inl e" "ms_versions st' = ms_versions st" "ms_schema st' = ms_schema st"
  | (committed) "mg_exec E sql (ms_schema st) = Inr (ms_schema st')" "bookkeeping (ms_versions st) = Inr (ms_versions st')"
  using assms by (auto simp: runInTx_def statement_def Let_def split: fault.splits sum.splits)

lemma version_order:
  assumes "runnable steps" "i < length steps" "j < length steps"
  shows "stp_version (steps ! i) < stp_version (steps ! j) \<longleftrightarrow> i < j"
  using assms by (auto simp: runnable_def ordered_def sorted_wrt_iff_nth_less linorder_not_less)
    (metis linorder_neqE_nat not_less_iff_gr_or_eq)

lemma applied_Suc:
  assumes "applied E steps s0 n st" "n < length steps" "mg_exec E (stp_upSQL (steps ! n)) (ms_schema st) = Inr (ms_schema st')"
    "insert_version (stp_version (steps ! n)) (ms_versions st) = Inr (ms_versions st')"
  shows "applied E steps s0 (Suc n) st'"
proof -
  have t: "take (Suc n) steps = take n steps @ [steps ! n]" using assms(2) by (simp add: take_Suc_conv_app_nth)
  show ?thesis
    using assms unfolding applied_def t schema_after_snoc by (auto simp: insert_version_def rbind_def split: option.splits if_splits)
qed

lemma up_loop_pending:
  assumes "applied E steps s0 k st" "\<forall>s\<in>set (drop k steps). current < stp_version s" "up_loop E current (drop k steps) st = (r, st')"
  shows "\<exists>m\<ge>k. applied E steps s0 m st' \<and> (r = Inr () \<longrightarrow> m = length steps)"
  using assms
proof (induction "length steps - k" arbitrary: k st)
  case 0
  then have "k = length steps" by (simp add: applied_def)
  with 0 show ?case by auto
next
  case (Suc d)
  then have k: "k < length steps" by linarith
  let ?s = "steps ! k"
  have d: "drop k steps = ?s # drop (Suc k) steps" using k by (simp add: Cons_nth_drop_Suc)
  have pending: "\<not> stp_version ?s \<le> current" using Suc.prems(2) d by auto
  show ?case
  proof (cases "stp_upSQL ?s = ''''")
    case True
    with Suc.prems(1,3) d pending show ?thesis by auto
  next
    case False
    obtain q st1 where q: "runInTx E (stp_upSQL ?s) (insert_version (stp_version ?s)) st = (q, st1)" by (metis surj_pair)
    from q show ?thesis
    proof (cases rule: runInTx_cases)
      case (kept e)
      with Suc.prems(1,3) d pending False q show ?thesis by (auto simp: applied_def intro!: exI [of _ k])
    next
      case committed
      have a: "applied E steps s0 (Suc k) st1" by (rule applied_Suc [OF Suc.prems(1) k committed])
      show ?thesis
      proof (cases q)
        case (Inl e)
        with Suc.prems(3) d pending False q a show ?thesis by (auto intro!: exI [of _ "Suc k"])
      next
        case (Inr u)
        have "up_loop E current (drop (Suc k) steps) st1 = (r, st')" using Suc.prems(3) d pending False q Inr by simp
        moreover have "\<forall>s\<in>set (drop (Suc k) steps). current < stp_version s" using Suc.prems(2) d by auto
        moreover have "d = length steps - Suc k" using Suc.hyps(2) by linarith
        ultimately show ?thesis using Suc.hyps(1) [of "Suc k" st1] a by (meson Suc_leD)
      qed
    qed
  qed
qed

lemma up_loop_skip: "\<forall>s\<in>set xs. stp_version s \<le> current \<Longrightarrow> up_loop E current (xs @ ys) st = up_loop E current ys st"
  by (induction xs) auto

lemma applied_current:
  assumes "runnable steps" "n \<le> length steps"
  shows "\<forall>s\<in>set (take n steps). stp_version s \<le> previousVersion (rev (take n steps))"
    and "\<forall>s\<in>set (drop n steps). previousVersion (rev (take n steps)) < stp_version s"
proof -
  have cur: "previousVersion (rev (take n steps)) = (if n = 0 then 0 else stp_version (steps ! (n - 1)))"
    using assms(2) by (cases n) (auto simp: previousVersion_def take_Suc_conv_app_nth)
  show "\<forall>s\<in>set (take n steps). stp_version s \<le> previousVersion (rev (take n steps))"
  proof
    fix s assume "s \<in> set (take n steps)"
    then obtain i where i: "i < n" "s = steps ! i" using assms(2) by (auto simp: in_set_conv_nth)
    then have "\<not> stp_version (steps ! (n - 1)) < stp_version s" using version_order [OF assms(1), of "n - 1" i] assms(2) by auto
    then show "stp_version s \<le> previousVersion (rev (take n steps))" using i by (simp add: cur)
  qed
  show "\<forall>s\<in>set (drop n steps). previousVersion (rev (take n steps)) < stp_version s"
  proof
    fix s assume "s \<in> set (drop n steps)"
    then obtain i where i: "n \<le> i" "i < length steps" "s = steps ! i" using assms(2)
      by (auto simp: in_set_conv_nth) (metis add.commute le_add1 less_diff_conv)
    then show "previousVersion (rev (take n steps)) < stp_version s"
      using version_order [OF assms(1), of "n - 1" i] assms by (auto simp: cur runnable_def)
  qed
qed

lemma Up_applied:
  assumes "runnable steps" "applied E steps s0 n st" "Up E steps st = (r, st')"
  shows "\<exists>m\<ge>n. applied E steps s0 m st' \<and> (r = Inr () \<longrightarrow> m = length steps)"
proof -
  have n: "n \<le> length steps" using assms(2) by (simp add: applied_def)
  obtain q st1 where q: "Version E st = (q, st1)" by (metis surj_pair)
  note v = Version_applied [OF q assms(2,1)]
  show ?thesis
  proof (cases q)
    case (Inl e)
    with v q assms(3) show ?thesis by (auto simp: Up_def)
  next
    case (Inr current)
    then have cur: "current = previousVersion (rev (take n steps))" using v by simp
    have "up_loop E current (take n steps @ drop n steps) st1 = (r, st')" using assms(3) q Inr by (simp add: Up_def)
    then have "up_loop E current (drop n steps) st1 = (r, st')" using up_loop_skip [of "take n steps" current E "drop n steps" st1] applied_current(1) [OF assms(1) n] cur by simp
    from up_loop_pending [OF conjunct1 [OF v] _ this] applied_current(2) [OF assms(1) n] cur show ?thesis by simp
  qed
qed

lemma applied_pred:
  assumes "applied E steps s0 (Suc n) st" "runnable steps" "reversible E steps s0"
    "mg_exec E (stp_downSQL (steps ! n)) (ms_schema st) = Inr (ms_schema st')" "delete_version (stp_version (steps ! n)) (ms_versions st) = Inr (ms_versions st')"
  shows "applied E steps s0 n st'"
proof -
  have n: "n < length steps" using assms(1) by (simp add: applied_def)
  have t: "take (Suc n) steps = take n steps @ [steps ! n]" using n by (simp add: take_Suc_conv_app_nth)
  obtain a where a: "schema_after E (take n steps) s0 = Inr a" "mg_exec E (stp_upSQL (steps ! n)) a = Inr (ms_schema st)"
    using assms(1) unfolding applied_def t schema_after_snoc by (auto simp: rbind_Inr_iff)
  have "ms_schema st' = a" using assms(3,4) n a unfolding reversible_def by force
  moreover have "ms_versions st' = Some (filter (\<lambda>x. x \<noteq> stp_version (steps ! n)) (map stp_version (take n steps)))"
    using assms(1,5) unfolding applied_def t by (auto simp: delete_version_def)
  moreover have "x \<noteq> stp_version (steps ! n)" if "x \<in> set (map stp_version (take n steps))" for x
  proof -
    from that have "\<exists>i<n. x = stp_version (steps ! i)" using n by (force simp: in_set_conv_nth)
    then obtain i where "i < n" "x = stp_version (steps ! i)" by blast
    then show ?thesis using version_order [OF assms(2), of i n] n by auto
  qed
  then have "filter (\<lambda>x. x \<noteq> stp_version (steps ! n)) (map stp_version (take n steps)) = map stp_version (take n steps)"
    by (simp only: filter_id_conv) blast
  ultimately show ?thesis using a(1) n by (simp add: applied_def)
qed

lemma down_loop_applied:
  assumes "runnable steps" "reversible E steps s0" "applied E steps s0 n st"
    "down_loop E count reverted (previousVersion (rev (take n steps))) (rev (take n steps)) st = (r, st')"
  shows "\<exists>m\<le>n. applied E steps s0 m st' \<and> n - nat (count - reverted) \<le> m \<and> (r = Inr () \<longrightarrow> m = n - nat (count - reverted))"
  using assms(3,4)
proof (induction n arbitrary: st reverted)
  case (Suc n)
  let ?s = "steps ! n"
  have n: "n < length steps" using Suc.prems(1) by (simp add: applied_def)
  have t: "rev (take (Suc n) steps) = ?s # rev (take n steps)" using n by (simp add: take_Suc_conv_app_nth)
  have cur: "previousVersion (rev (take (Suc n) steps)) = stp_version ?s" "0 < stp_version ?s"
    using assms(1) n by (simp_all add: t previousVersion_def runnable_def)
  show ?case
  proof (cases "reverted < count")
    case False
    with Suc.prems t cur show ?thesis by (auto intro!: exI [of _ "Suc n"])
  next
    case True
    show ?thesis
    proof (cases "stp_downSQL ?s = ''''")
      case True
      with Suc.prems t cur \<open>reverted < count\<close> show ?thesis by (auto intro!: exI [of _ "Suc n"])
    next
      case False
      obtain q st1 where q: "runInTx E (stp_downSQL ?s) (delete_version (stp_version ?s)) st = (q, st1)" by (metis surj_pair)
      note run = Suc.prems(2) [unfolded t cur(1) [unfolded t]]
      from q show ?thesis
      proof (cases rule: runInTx_cases)
        case (kept e)
        with run True False cur q Suc.prems(1) show ?thesis by (auto simp: applied_def intro!: exI [of _ "Suc n"])
      next
        case committed
        have a: "applied E steps s0 n st1" by (rule applied_pred [OF Suc.prems(1) assms(1,2) committed])
        show ?thesis
        proof (cases q)
          case (Inl e)
          with run True False cur q a show ?thesis by (auto intro!: exI [of _ n])
        next
          case (Inr u)
          have "down_loop E count (reverted + 1) (previousVersion (rev (take n steps))) (rev (take n steps)) st1 = (r, st')"
            using run True False cur q Inr by simp
          from Suc.IH [OF a this] obtain m where m: "m \<le> n" "applied E steps s0 m st'" "n - nat (count - (reverted + 1)) \<le> m"
            "r = Inr () \<longrightarrow> m = n - nat (count - (reverted + 1))" by blast
          have "Suc n - nat (count - reverted) = n - nat (count - (reverted + 1))" using True by simp
          with m show ?thesis by (intro exI [of _ m]) auto
        qed
      qed
    qed
  qed
qed simp

lemma down_loop_skip:
  "\<forall>s\<in>set xs. stp_version s \<noteq> current \<Longrightarrow> down_loop E count reverted current (xs @ ys) st = down_loop E count reverted current ys st"
proof (induction xs)
  case (Cons x xs)
  have "down_loop E count reverted current zs st = (Inr (), st)" if "\<not> (reverted < count \<and> current > 0)" for zs
    using that by (cases zs) auto
  with Cons show ?case by auto
qed simp

lemma Down_applied:
  assumes "runnable steps" "reversible E steps s0" "applied E steps s0 n st" "Down E steps count st = (r, st')"
  shows "\<exists>m\<le>n. applied E steps s0 m st' \<and> n - nat count \<le> m \<and> (r = Inr () \<longrightarrow> m = n - nat count)"
proof -
  have n: "n \<le> length steps" using assms(3) by (simp add: applied_def)
  obtain q st1 where q: "Version E st = (q, st1)" by (metis surj_pair)
  note v = Version_applied [OF q assms(3,1)]
  show ?thesis
  proof (cases q)
    case (Inl e)
    with v q assms(4) show ?thesis by (auto simp: Down_def)
  next
    case (Inr current)
    then have cur: "current = previousVersion (rev (take n steps))" using v by simp
    have split: "rev steps = rev (drop n steps) @ rev (take n steps)" by (metis append_take_drop_id rev_append)
    have "\<forall>s\<in>set (rev (drop n steps)). stp_version s \<noteq> current" using applied_current(2) [OF assms(1) n] cur by auto
    then have "down_loop E count 0 current (rev (take n steps)) st1 = (r, st')"
      using assms(4) q Inr down_loop_skip [of "rev (drop n steps)" current E count 0 "rev (take n steps)" st1] by (simp add: Down_def split)
    from down_loop_applied [OF assms(1,2) conjunct1 [OF v] this [unfolded cur]] show ?thesis by simp
  qed
qed

text \<open>
  C21: Migrations refine a counter: from a database in which the first steps are applied, in the table
  of versions and in the schema alike, \<open>Up\<close> ends in one with at least as many applied and all of
  them if it reports no error, and \<open>Down\<close> in one with at most as many applied, at most \<open>count\<close> fewer
  and exactly \<open>count\<close> fewer (or none left) if it reports no error; whatever statement fails on the
  way, a lost answer to a commit included, table and schema agree. \<open>Down\<close> needs that the down
  scripts undo the up scripts.
\<close>

theorem migrations_refine_counter:
  assumes "runnable steps" "applied E steps s0 n st"
  shows "(\<forall>r st'. Up E steps st = (r, st') \<longrightarrow> (\<exists>m\<ge>n. applied E steps s0 m st' \<and> (r = Inr () \<longrightarrow> m = length steps))) \<and>
    (\<forall>count r st'. reversible E steps s0 \<longrightarrow> Down E steps count st = (r, st') \<longrightarrow>
      (\<exists>m\<le>n. applied E steps s0 m st' \<and> n - nat count \<le> m \<and> (r = Inr () \<longrightarrow> m = n - nat count)))"
  using Up_applied [OF assms] Down_applied [OF assms(1) _ assms(2)] by blast

section \<open>A concrete run\<close>

text \<open>A toy PostgreSQL: a schema is a list of objects, a script adds or drops one; the answer to the first commit is lost.\<close>

definition sample_exec :: "string \<Rightarrow> string list \<Rightarrow> string list result" where
  "sample_exec sql schema = (case sql of
       [] \<Rightarrow> Inl (ErrorText ''syntax error'')
     | c # name \<Rightarrow> if c = CHR ''+'' then Inr (name # schema)
       else (case schema of [] \<Rightarrow> Inl (ErrorText ''does not exist'') | x # rest \<Rightarrow> if x = name then Inr rest else Inl (ErrorText ''does not exist'')))"

definition sample_mig_env :: "string list MigEnv" where
  "sample_mig_env = \<lparr>mg_fault = (\<lambda>n. if n = 5 then FailAfter (ErrorText ''connection reset'') else NoFault), mg_exec = sample_exec\<rparr>"

definition sample_steps :: "step list" where
  "sample_steps = [\<lparr>stp_version = 1, stp_name = ''a'', stp_upSQL = ''+a'', stp_downSQL = ''-a''\<rparr>,
     \<lparr>stp_version = 2, stp_name = ''b'', stp_upSQL = ''+b'', stp_downSQL = ''-b''\<rparr>]"

definition fresh_db :: "string list MigState" where
  "fresh_db = \<lparr>ms_versions = None, ms_schema = [], ms_tick = 0\<rparr>"

lemma sample_steps_from_files:
  "NewRunner (Inr [\<lparr>ent_Name = ''000001_a.down.sql'', ent_IsDir = False, ent_Content = Inr ''-a''\<rparr>, \<lparr>ent_Name = ''000001_a.up.sql'', ent_IsDir = False, ent_Content = Inr ''+a''\<rparr>,
     \<lparr>ent_Name = ''000002_b.up.sql'', ent_IsDir = False, ent_Content = Inr ''+b''\<rparr>, \<lparr>ent_Name = ''000002_b.down.sql'', ent_IsDir = False, ent_Content = Inr ''-b''\<rparr>,
     \<lparr>ent_Name = ''migrations.go'', ent_IsDir = False, ent_Content = Inr ''''\<rparr>]) = Inr sample_steps"
  by code_simp

lemma sample_runnable: "runnable sample_steps"
  by (simp add: runnable_def ordered_def sample_steps_def)

lemma sample_reversible: "reversible sample_mig_env sample_steps []"
  unfolding reversible_def by (simp add: sample_mig_env_def sample_steps_def sample_exec_def less_Suc_eq rbind_def nth_Cons split: nat.splits)

theorem migrations_refine_counter_witness:
  "Up sample_mig_env sample_steps fresh_db = (Inl (WrapPrefix ''applying migration 1_a'' (ErrorText ''connection reset'')),
     \<lparr>ms_versions = Some [1], ms_schema = [''a''], ms_tick = 6\<rparr>) \<and>
   (\<exists>m\<ge>0. applied sample_mig_env sample_steps [] m \<lparr>ms_versions = Some [1], ms_schema = [''a''], ms_tick = 6\<rparr>) \<and>
   (\<exists>m\<le>0. applied sample_mig_env sample_steps [] m (snd (Down sample_mig_env sample_steps 1 fresh_db)))"
proof -
  have start: "applied sample_mig_env sample_steps [] 0 fresh_db" by (simp add: applied_def fresh_db_def)
  have up: "Up sample_mig_env sample_steps fresh_db = (Inl (WrapPrefix ''applying migration 1_a'' (ErrorText ''connection reset'')),
     \<lparr>ms_versions = Some [1], ms_schema = [''a''], ms_tick = 6\<rparr>)"
    by code_simp
  obtain r st' where down: "Down sample_mig_env sample_steps 1 fresh_db = (r, st')" by (metis surj_pair)
  from migrations_refine_counter [OF sample_runnable start] up down sample_reversible show ?thesis by (metis snd_conv)
qed

end
