(* ===== verification/Read_Models.thy ===== *)
theory Read_Models
  imports Mode_UseCases
begin

text \<open>
  The read side: the records of \<^verbatim>\<open>application/dto\<close>, the mappers of \<^verbatim>\<open>application/mapper\<close> that are the only
  way from an aggregate to what the outside sees, and the query service of
  \<^verbatim>\<open>usecase/query_service.go\<close>. The properties say that a query never changes anything and that the
  dashboard shows what the tables hold.
\<close>

section \<open>Read models\<close>

record AccountDTO =
  da_ID :: string
  da_Balance :: string
  da_Equity :: string
  da_AvailableBalance :: string
  da_PeakEquity :: string
  da_DailyPnL :: string
  da_WeeklyPnL :: string
  da_CurrentDrawdown :: string
  da_OperationalMode :: string
  da_Version :: int
  da_UpdatedAt :: time

record PositionDTO =
  dp_ID :: string
  dp_Symbol :: string
  dp_Side :: string
  dp_Quantity :: string
  dp_EntryPrice :: string
  dp_CurrentPrice :: string
  dp_StopPrice :: "string option"
  dp_TargetPrice :: "string option"
  dp_UnrealizedPnL :: string
  dp_RealizedPnL :: string
  dp_Status :: string
  dp_Version :: int
  dp_OpenedAt :: time
  dp_ClosedAt :: "time option"

record OrderDTO =
  do_ID :: string
  do_ClientOrderID :: string
  do_BrokerOrderID :: string
  do_Symbol :: string
  do_Side :: string
  do_Type :: string
  do_Quantity :: string
  do_FilledQuantity :: string
  do_RequestedPrice :: "string option"
  do_AverageExecutionPrice :: "string option"
  do_StopPrice :: "string option"
  do_TargetPrice :: "string option"
  do_Status :: string
  do_StrategyName :: string
  do_SignalID :: string
  do_RiskDecisionID :: string
  do_FailureReason :: string
  do_Version :: int
  do_CreatedAt :: time
  do_UpdatedAt :: time

record SignalDTO =
  ds_ID :: string
  ds_Symbol :: string
  ds_Side :: string
  ds_EntryPrice :: string
  ds_StopPrice :: string
  ds_TargetPrice :: string
  ds_Confidence :: string
  ds_StrategyName :: string
  ds_MarketRegime :: string
  ds_CreatedAt :: time
  ds_ValidUntil :: time

record RiskDecisionDTO =
  dr_ID :: string
  dr_SignalID :: string
  dr_Allowed :: bool
  dr_OriginalPositionSize :: string
  dr_ApprovedPositionSize :: string
  dr_ReasonCodes :: "string list"
  dr_AppliedRules :: "string list"
  dr_EventRestrictions :: "string slice"
  dr_CreatedAt :: time

record MarketEventDTO =
  de_ID :: string
  de_EventType :: string
  de_Direction :: string
  de_Severity :: string
  de_Confidence :: string
  de_AffectedAssets :: "string list"
  de_Action :: string
  de_SourceCount :: int
  de_HasOfficialSource :: bool
  de_PublishedAt :: time
  de_DetectedAt :: time
  de_ExpiresAt :: time
  de_Status :: string

record IncidentDTO =
  di_ID :: string
  di_Type :: string
  di_Severity :: string
  di_Description :: string
  di_Source :: string
  di_RelatedEntityID :: string
  di_Status :: string
  di_DetectedAt :: time
  di_ResolvedAt :: "time option"
  di_Resolution :: string
  di_CreatedAt :: time
  di_UpdatedAt :: time

record IntegrationsHealthDTO =
  dh_BrokerHealthy :: bool
  dh_QuantEngineHealthy :: bool
  dh_LLMHealthy :: bool

record DashboardDTO =
  dd_Account :: AccountDTO
  dd_Positions :: "PositionDTO list"
  dd_OpenOrders :: "OrderDTO list"
  dd_RecentSignals :: "SignalDTO list"
  dd_RecentRiskDecisions :: "RiskDecisionDTO list"
  dd_ActiveEvents :: "MarketEventDTO list"
  dd_ActiveIncidents :: "IncidentDTO list"
  dd_Integrations :: IntegrationsHealthDTO
  dd_OperationalMode :: string
  dd_LastReconciliationAt :: "time option"
section \<open>Mappers\<close>

definition price_text :: "decimal_ops \<Rightarrow> Price option \<Rightarrow> string option" where
  "price_text D p = (case p of None \<Rightarrow> None | Some x \<Rightarrow> Some (Price_String D x))"

definition ToAccountDTO :: "decimal_ops \<Rightarrow> uuid_ops \<Rightarrow> Account \<Rightarrow> AccountDTO" where
  "ToAccountDTO D U a = \<lparr>da_ID = AccountID_String U (acc_ID a), da_Balance = Money_String D (acc_Balance a),
     da_Equity = Money_String D (acc_Equity a), da_AvailableBalance = Money_String D (acc_AvailableBalance a),
     da_PeakEquity = Money_String D (acc_PeakEquity a), da_DailyPnL = Money_String D (acc_DailyPnL a),
     da_WeeklyPnL = Money_String D (acc_WeeklyPnL a), da_CurrentDrawdown = Drawdown_String D (acc_CurrentDrawdown a),
     da_OperationalMode = Mode_String (acc_OperationalMode a), da_Version = acc_Version a, da_UpdatedAt = acc_UpdatedAt a\<rparr>"

definition ToPositionDTO :: "decimal_ops \<Rightarrow> uuid_ops \<Rightarrow> Position \<Rightarrow> PositionDTO" where
  "ToPositionDTO D U p = (let stop = price_text D (pos_StopPrice p); target = price_text D (pos_TargetPrice p) in
     \<lparr>dp_ID = PositionID_String U (pos_ID p), dp_Symbol = Symbol_String (pos_Symbol p), dp_Side = Side_String (pos_Side p),
      dp_Quantity = Quantity_String D (pos_Quantity p), dp_EntryPrice = Price_String D (pos_EntryPrice p),
      dp_CurrentPrice = Price_String D (pos_CurrentPrice p), dp_StopPrice = stop, dp_TargetPrice = target,
      dp_UnrealizedPnL = Money_String D (pos_UnrealizedPnL p), dp_RealizedPnL = Money_String D (pos_RealizedPnL p),
      dp_Status = PositionStatus_String (pos_Status p), dp_Version = pos_Version p, dp_OpenedAt = pos_OpenedAt p,
      dp_ClosedAt = pos_ClosedAt p\<rparr>)"

definition ToOrderDTO :: "decimal_ops \<Rightarrow> uuid_ops \<Rightarrow> Order \<Rightarrow> OrderDTO" where
  "ToOrderDTO D U ord = (let requested = price_text D (ord_RequestedPrice ord); avg = price_text D (ord_AverageExecutionPrice ord);
       stop = price_text D (ord_StopPrice ord); target = price_text D (ord_TargetPrice ord) in
     \<lparr>do_ID = OrderID_String U (ord_ID ord), do_ClientOrderID = ClientOrderID_String (ord_ClientOrderID ord),
      do_BrokerOrderID = ord_BrokerOrderID ord, do_Symbol = Symbol_String (ord_Symbol ord), do_Side = Side_String (ord_Side ord),
      do_Type = Type_String (ord_Type ord), do_Quantity = Quantity_String D (ord_Quantity ord),
      do_FilledQuantity = Quantity_String D (ord_FilledQuantity ord), do_RequestedPrice = requested,
      do_AverageExecutionPrice = avg, do_StopPrice = stop, do_TargetPrice = target,
      do_Status = OrderStatus_String (ord_Status ord), do_StrategyName = ord_StrategyName ord,
      do_SignalID = SignalID_String U (ord_SignalID ord), do_RiskDecisionID = RiskDecisionID_String U (ord_RiskDecisionID ord),
      do_FailureReason = ord_FailureReason ord, do_Version = ord_Version ord, do_CreatedAt = ord_CreatedAt ord,
      do_UpdatedAt = ord_UpdatedAt ord\<rparr>)"

definition ToSignalDTO :: "decimal_ops \<Rightarrow> uuid_ops \<Rightarrow> TradeSignal \<Rightarrow> SignalDTO" where
  "ToSignalDTO D U s = \<lparr>ds_ID = SignalID_String U (sig_ID s), ds_Symbol = Symbol_String (sig_Symbol s),
     ds_Side = Side_String (sig_Side s), ds_EntryPrice = Price_String D (sig_EntryPrice s),
     ds_StopPrice = Price_String D (sig_StopPrice s), ds_TargetPrice = Price_String D (sig_TargetPrice s),
     ds_Confidence = Confidence_String D (sig_Confidence s), ds_StrategyName = sig_StrategyName s,
     ds_MarketRegime = Regime_String (sig_MarketRegime s), ds_CreatedAt = sig_CreatedAt s, ds_ValidUntil = sig_ValidUntil s\<rparr>"

definition ToRiskDecisionDTO :: "decimal_ops \<Rightarrow> uuid_ops \<Rightarrow> Decision \<Rightarrow> RiskDecisionDTO" where
  "ToRiskDecisionDTO D U d = (let reasonCodes = map ReasonCode_String (dec_ReasonCodes d) in
     \<lparr>dr_ID = RiskDecisionID_String U (dec_ID d), dr_SignalID = SignalID_String U (dec_SignalID d), dr_Allowed = dec_Allowed d,
      dr_OriginalPositionSize = Quantity_String D (dec_OriginalPositionSize d),
      dr_ApprovedPositionSize = Quantity_String D (dec_ApprovedPositionSize d), dr_ReasonCodes = reasonCodes,
      dr_AppliedRules = dec_AppliedRules d, dr_EventRestrictions = dec_EventRestrictions d, dr_CreatedAt = dec_CreatedAt d\<rparr>)"

definition ToMarketEventDTO :: "decimal_ops \<Rightarrow> uuid_ops \<Rightarrow> MarketEvent \<Rightarrow> MarketEventDTO" where
  "ToMarketEventDTO D U e = (let assets = map Symbol_String (evt_AffectedAssets e) in
     \<lparr>de_ID = MarketEventID_String U (evt_ID e), de_EventType = evt_EventType e, de_Direction = Direction_String (evt_Direction e),
      de_Severity = Severity_String (evt_Severity e), de_Confidence = Confidence_String D (evt_Confidence e),
      de_AffectedAssets = assets, de_Action = Action_String (evt_Action e), de_SourceCount = evt_SourceCount e,
      de_HasOfficialSource = evt_HasOfficialSource e, de_PublishedAt = evt_PublishedAt e, de_DetectedAt = evt_DetectedAt e,
      de_ExpiresAt = evt_ExpiresAt e, de_Status = EventStatus_String (evt_Status e)\<rparr>)"

definition ToIncidentDTO :: "uuid_ops \<Rightarrow> Incident \<Rightarrow> IncidentDTO" where
  "ToIncidentDTO U i = \<lparr>di_ID = IncidentID_String U (inc_ID i), di_Type = IncidentType_String (inc_Type i),
     di_Severity = IncidentSeverity_String (inc_Severity i), di_Description = inc_Description i, di_Source = inc_Source i,
     di_RelatedEntityID = inc_RelatedEntityID i, di_Status = IncidentStatus_String (inc_Status i), di_DetectedAt = inc_DetectedAt i,
     di_ResolvedAt = inc_ResolvedAt i, di_Resolution = inc_Resolution i, di_CreatedAt = inc_CreatedAt i, di_UpdatedAt = inc_UpdatedAt i\<rparr>"

fun mapToSlice :: "'t list \<Rightarrow> ('t \<Rightarrow> 'r) \<Rightarrow> 'r list" where
  "mapToSlice [] fn = []"
| "mapToSlice (x # xs) fn = fn x # mapToSlice xs fn"

section \<open>The query service\<close>

definition GetTradingDashboard :: "'b Env \<Rightarrow> ('b, DashboardDTO) usecase" where
  "GetTradingDashboard E = (let D = en_D E; U = en_U E in
     ubind (wrapped ''loading account'' (db_read E (accounts_GetActive D U))) (\<lambda>acct.
     ubind (wrapped ''loading positions'' (db_read E (positions_ListOpen D U))) (\<lambda>positions.
     ubind (wrapped ''loading open orders'' (db_read E (orders_ListOpen D U))) (\<lambda>openOrders.
     ubind (wrapped ''loading signals'' (db_read E (signals_List D U 20))) (\<lambda>signals.
     ubind (wrapped ''loading risk decisions'' (db_read E (decisions_List D U 20))) (\<lambda>decisions.
     ubind (wrapped ''loading active events'' (db_read E (events_ListActive D U))) (\<lambda>activeEvents.
     ubind (wrapped ''loading open incidents'' (db_read E (incidents_ListOpen U))) (\<lambda>openIncidents.
     attempt (broker_call E (br_GetAccount (en_B E))) (\<lambda>r.
     let brokerHealthy = (case r of Inl _ \<Rightarrow> False | Inr _ \<Rightarrow> True) in
     uret \<lparr>dd_Account = ToAccountDTO D U acct, dd_Positions = mapToSlice positions (ToPositionDTO D U),
       dd_OpenOrders = mapToSlice openOrders (ToOrderDTO D U), dd_RecentSignals = mapToSlice signals (ToSignalDTO D U),
       dd_RecentRiskDecisions = mapToSlice decisions (ToRiskDecisionDTO D U),
       dd_ActiveEvents = mapToSlice activeEvents (ToMarketEventDTO D U),
       dd_ActiveIncidents = mapToSlice openIncidents (ToIncidentDTO U),
       dd_Integrations = \<lparr>dh_BrokerHealthy = brokerHealthy, dh_QuantEngineHealthy = True, dh_LLMHealthy = True\<rparr>,
       dd_OperationalMode = Mode_String (acc_OperationalMode acct), dd_LastReconciliationAt = None\<rparr>)))))))))"

definition query_GetAccount :: "'b Env \<Rightarrow> ('b, AccountDTO) usecase" where
  "query_GetAccount E = ubind (db_read E (accounts_GetActive (en_D E) (en_U E))) (\<lambda>acct. uret (ToAccountDTO (en_D E) (en_U E) acct))"

definition ListPositions :: "'b Env \<Rightarrow> ('b, PositionDTO list) usecase" where
  "ListPositions E = ubind (db_read E (positions_ListOpen (en_D E) (en_U E))) (\<lambda>positions.
     uret (mapToSlice positions (ToPositionDTO (en_D E) (en_U E))))"

definition ListOrders :: "'b Env \<Rightarrow> int \<Rightarrow> ('b, OrderDTO list) usecase" where
  "ListOrders E limit = (let limit = (if limit \<le> 0 then 50 else limit) in
     ubind (db_read E (orders_List (en_D E) (en_U E) limit)) (\<lambda>orders.
     uret (mapToSlice orders (ToOrderDTO (en_D E) (en_U E)))))"

definition GetOrderByID :: "'b Env \<Rightarrow> string \<Rightarrow> ('b, OrderDTO) usecase" where
  "GetOrderByID E orderID = ubind (lift (ParseOrderID (en_U E) orderID)) (\<lambda>i.
     ubind (db_read E (orders_GetByID (en_D E) (en_U E) i)) (\<lambda>ord. uret (ToOrderDTO (en_D E) (en_U E) ord)))"

definition ListSignals :: "'b Env \<Rightarrow> int \<Rightarrow> ('b, SignalDTO list) usecase" where
  "ListSignals E limit = (let limit = (if limit \<le> 0 then 50 else limit) in
     ubind (db_read E (signals_List (en_D E) (en_U E) limit)) (\<lambda>signals.
     uret (mapToSlice signals (ToSignalDTO (en_D E) (en_U E)))))"

definition ListRiskDecisions :: "'b Env \<Rightarrow> int \<Rightarrow> ('b, RiskDecisionDTO list) usecase" where
  "ListRiskDecisions E limit = (let limit = (if limit \<le> 0 then 50 else limit) in
     ubind (db_read E (decisions_List (en_D E) (en_U E) limit)) (\<lambda>decisions.
     uret (mapToSlice decisions (ToRiskDecisionDTO (en_D E) (en_U E)))))"

definition ListEvents :: "'b Env \<Rightarrow> int \<Rightarrow> ('b, MarketEventDTO list) usecase" where
  "ListEvents E limit = (let limit = (if limit \<le> 0 then 50 else limit) in
     ubind (db_read E (events_List (en_D E) (en_U E) limit)) (\<lambda>events.
     uret (mapToSlice events (ToMarketEventDTO (en_D E) (en_U E)))))"

definition ListIncidents :: "'b Env \<Rightarrow> int \<Rightarrow> ('b, IncidentDTO list) usecase" where
  "ListIncidents E limit = (let limit = (if limit \<le> 0 then 50 else limit) in
     ubind (db_read E (incidents_List (en_U E) limit)) (\<lambda>incidents.
     uret (mapToSlice incidents (ToIncidentDTO (en_U E)))))"

section \<open>What a query shows\<close>

lemma mapToSlice_map: "mapToSlice xs fn = map fn xs"
  by (induction xs) simp_all

lemma scan_rows_map: "scan_rows f rows = Inr xs \<Longrightarrow> map f rows = map Inr xs"
proof (induction rows arbitrary: xs)
  case (Cons r rows)
  then obtain y ys where "f r = Inr y" "scan_rows f rows = Inr ys" "xs = y # ys" by (auto simp: rbind_Inr_iff)
  with Cons.IH [of ys] show ?case by simp
qed simp

lemma scan_rows_length: "scan_rows f rows = Inr xs \<Longrightarrow> length xs = length rows"
  using scan_rows_map [of f rows xs] by (metis length_map)

lemma sql_limit_length: "sql_limit n rows = Inr xs \<Longrightarrow> int (length xs) \<le> max 0 n"
  by (auto simp: sql_limit_def split: if_splits)

lemma keeps_query_reads:
  "keeps same_db (query_GetAccount E)" "keeps same_db (ListPositions E)" "keeps same_db (ListOrders E n)" "keeps same_db (GetOrderByID E i)"
  "keeps same_db (ListSignals E n)" "keeps same_db (ListRiskDecisions E n)" "keeps same_db (ListEvents E n)" "keeps same_db (ListIncidents E n)"
  "keeps same_broker (query_GetAccount E)" "keeps same_broker (ListPositions E)" "keeps same_broker (ListOrders E n)" "keeps same_broker (GetOrderByID E i)"
  "keeps same_broker (ListSignals E n)" "keeps same_broker (ListRiskDecisions E n)" "keeps same_broker (ListEvents E n)" "keeps same_broker (ListIncidents E n)"
  unfolding query_GetAccount_def ListPositions_def ListOrders_def GetOrderByID_def ListSignals_def ListRiskDecisions_def
    ListEvents_def ListIncidents_def Let_def
  by (intro same_db.keeps_intros same_broker.keeps_intros)+

lemma keeps_broker_query: "keeps same_db (broker_call E f)"
  unfolding broker_call_def by (rule same_db.keeps_infra) (auto simp: keeps_def same_db_def split: prod.splits)

lemma keeps_dashboard: "keeps same_db (GetTradingDashboard E)"
  unfolding GetTradingDashboard_def Let_def by (intro same_db.keeps_intros keeps_broker_query)

text \<open>A page of any list holds at most the requested number of rows, and 50 when none was asked for.\<close>

lemma page_bound:
  "orders_List D U n db = Inr os \<Longrightarrow> int (length os) \<le> max 0 n" "signals_List D U n db = Inr ss \<Longrightarrow> int (length ss) \<le> max 0 n"
  "decisions_List D U n db = Inr ds \<Longrightarrow> int (length ds) \<le> max 0 n" "events_List D U n db = Inr es \<Longrightarrow> int (length es) \<le> max 0 n"
  "incidents_List U n db = Inr xs \<Longrightarrow> int (length xs) \<le> max 0 n"
  unfolding orders_List_def signals_List_def decisions_List_def events_List_def incidents_List_def
  by (auto simp: rbind_Inr_iff dest!: scan_rows_length sql_limit_length)

lemma db_read_value: "db_read E f w = (Inr x, w') \<Longrightarrow> f (w_db w) = Inr x"
  using db_read_Inr [of E f w x w'] by simp

lemma query_result: "ubind (db_read E f) (\<lambda>x. uret (g x)) w = (Inr y, w') \<Longrightarrow> \<exists>x. f (w_db w) = Inr x \<and> y = g x"
  by (auto simp: ubind_Inr dest: db_read_value)

definition page_size :: "int \<Rightarrow> int" where
  "page_size limit = (if limit \<le> 0 then 50 else limit)"

lemma page_query:
  assumes "fst (ubind (db_read E f) (\<lambda>x. uret (mapToSlice x g)) w) = Inr y"
    "\<And>x. f (w_db w) = Inr x \<Longrightarrow> int (length x) \<le> max 0 (page_size n)"
  shows "int (length y) \<le> page_size n"
proof -
  obtain w' where "ubind (db_read E f) (\<lambda>x. uret (mapToSlice x g)) w = (Inr y, w')"
    using assms(1) by (cases "ubind (db_read E f) (\<lambda>x. uret (mapToSlice x g)) w") simp
  then obtain x where "f (w_db w) = Inr x" "y = mapToSlice x g" using query_result [of E f "\<lambda>x. mapToSlice x g" w y w'] by blast
  with assms(2) [of x] show ?thesis by (simp add: mapToSlice_map page_size_def split: if_splits)
qed

text \<open>
  Every read of the query service leaves the database and the broker as they are, in every
  pattern of faults, and a page never holds more rows than were asked for, nor more than 50 when
  the request gives no positive limit.
\<close>

theorem queries_read_only:
  "(w_db (snd (query_GetAccount E w)) = w_db w \<and> w_broker (snd (query_GetAccount E w)) = w_broker w) \<and>
   (w_db (snd (ListPositions E w)) = w_db w \<and> w_broker (snd (ListPositions E w)) = w_broker w) \<and>
   (w_db (snd (GetOrderByID E i w)) = w_db w \<and> w_broker (snd (GetOrderByID E i w)) = w_broker w) \<and>
   (w_db (snd (ListOrders E n w)) = w_db w \<and> w_broker (snd (ListOrders E n w)) = w_broker w \<and>
     (\<forall>xs. fst (ListOrders E n w) = Inr xs \<longrightarrow> int (length xs) \<le> page_size n)) \<and>
   (w_db (snd (ListSignals E n w)) = w_db w \<and> w_broker (snd (ListSignals E n w)) = w_broker w \<and>
     (\<forall>xs. fst (ListSignals E n w) = Inr xs \<longrightarrow> int (length xs) \<le> page_size n)) \<and>
   (w_db (snd (ListRiskDecisions E n w)) = w_db w \<and> w_broker (snd (ListRiskDecisions E n w)) = w_broker w \<and>
     (\<forall>xs. fst (ListRiskDecisions E n w) = Inr xs \<longrightarrow> int (length xs) \<le> page_size n)) \<and>
   (w_db (snd (ListEvents E n w)) = w_db w \<and> w_broker (snd (ListEvents E n w)) = w_broker w \<and>
     (\<forall>xs. fst (ListEvents E n w) = Inr xs \<longrightarrow> int (length xs) \<le> page_size n)) \<and>
   (w_db (snd (ListIncidents E n w)) = w_db w \<and> w_broker (snd (ListIncidents E n w)) = w_broker w \<and>
     (\<forall>xs. fst (ListIncidents E n w) = Inr xs \<longrightarrow> int (length xs) \<le> page_size n))"
  using keeps_query_reads [of E, unfolded keeps_def same_db_def same_broker_def] page_bound [where n = "page_size n"]
  by (auto simp: ListOrders_def ListSignals_def ListRiskDecisions_def ListEvents_def ListIncidents_def Let_def
      page_size_def [symmetric] intro!: page_query)

lemma sample_lists:
  "orders_List ref_decimal ref_uuid 50 sample_db = Inr []" "positions_ListOpen ref_decimal ref_uuid sample_db = Inr []"
  "orders_ListOpen ref_decimal ref_uuid sample_db = Inr []" "signals_List ref_decimal ref_uuid 20 sample_db = Inr []"
  "decisions_List ref_decimal ref_uuid 20 sample_db = Inr []" "events_ListActive ref_decimal ref_uuid sample_db = Inr []"
  "incidents_ListOpen ref_uuid sample_db = Inr []"
  "accounts_GetActive ref_decimal ref_uuid sample_db = Inr sample_account"
  by (simp_all add: orders_List_def positions_ListOpen_def orders_ListOpen_def signals_List_def decisions_List_def events_ListActive_def
      incidents_ListOpen_def sample_db_def emptyDB_def order_desc_def sql_limit_def rbind_def accounts_GetActive_def scan_one_def
      account_roundtrip [OF decimal_lib_ref uuid_lib_ref sample_account_storable])

theorem queries_read_only_witness:
  "fst (ListOrders quiet_env 0 sample_world) = Inr [] \<and> int (length ([] :: OrderDTO list)) \<le> page_size 0"
proof -
  have run: "fst (ListOrders quiet_env 0 sample_world) = Inr []"
    by (simp add: ListOrders_def ubind_go db_read_ok sample_lists)
  with queries_read_only [of quiet_env sample_world _ 0] show ?thesis by blast
qed

lemma status_text [simp]: "PositionStatus_String (PositionStatus_of_string s) = s" "OrderStatus_String (OrderStatus_of_string s) = s"
  "EventStatus_String (EventStatus_of_string s) = s" "IncidentStatus_String (IncidentStatus_of_string s) = s"
  "Mode_String (Mode_of_string s) = s"
  by (auto simp: PositionStatus_String_def PositionStatus_of_string_def OrderStatus_String_def OrderStatus_of_string_def
      EventStatus_String_def EventStatus_of_string_def IncidentStatus_String_def IncidentStatus_of_string_def
      Mode_String_def Mode_of_string_def)

text \<open>What a list query returns, one element per selected row and in their order.\<close>

lemma scan_rows_sel:
  assumes "scan_rows f rows = Inr xs" "\<And>r x. f r = Inr x \<Longrightarrow> g x = h r"
  shows "map g xs = map h rows"
  using assms
proof (induction rows arbitrary: xs)
  case (Cons r rows)
  then obtain y ys where "f r = Inr y" "scan_rows f rows = Inr ys" "xs = y # ys" by (auto simp: rbind_Inr_iff)
  with Cons show ?case by simp
qed simp

lemma toDomain_status:
  "position_toDomain D U m = Inr p \<Longrightarrow> PositionStatus_String (pos_Status p) = pm_Status m \<and> pos_OpenedAt p = pm_OpenedAt m"
  "order_toDomain D U om = Inr ord \<Longrightarrow> OrderStatus_String (ord_Status ord) = om_Status om \<and> ord_CreatedAt ord = om_CreatedAt om"
  by (auto simp: position_toDomain_def order_toDomain_def rbind_Inr_iff)

definition terminal_texts :: "string list" where
  "terminal_texts = [''FILLED'', ''CANCELLED'', ''REJECTED'', ''FAILED'']"

lemma order_desc_sorted: "sorted_wrt (\<lambda>a b. b \<le> a) (map t (order_desc t rows))"
proof -
  have "sorted (map (\<lambda>r. - t r) (order_desc t rows))" by (simp add: order_desc_def)
  then show ?thesis by (simp add: sorted_wrt_map)
qed

lemma ListOpen_shows:
  assumes "positions_ListOpen D U db = Inr ps"
  shows "\<forall>p\<in>set ps. PositionStatus_String (pos_Status p) = ''OPEN''"
    "length ps = length (filter (\<lambda>m. pm_Status m = ''OPEN'') (map snd (db_positions db)))"
    "sorted_wrt (\<lambda>a b. b \<le> a) (map pos_OpenedAt ps)"
proof -
  let ?rows = "order_desc pm_OpenedAt (filter (\<lambda>m. pm_Status m = ''OPEN'') (map snd (db_positions db)))"
  have scan: "scan_rows (position_toDomain D U) ?rows = Inr ps" using assms by (simp add: positions_ListOpen_def)
  have "map (\<lambda>p. PositionStatus_String (pos_Status p)) ps = map pm_Status ?rows"
    by (rule scan_rows_sel [OF scan]) (simp add: toDomain_status)
  then have "set (map (\<lambda>p. PositionStatus_String (pos_Status p)) ps) \<subseteq> {''OPEN''}" by (auto simp: order_desc_def)
  then show "\<forall>p\<in>set ps. PositionStatus_String (pos_Status p) = ''OPEN''" by auto
  show "length ps = length (filter (\<lambda>m. pm_Status m = ''OPEN'') (map snd (db_positions db)))"
    using scan_rows_length [OF scan] by (simp add: order_desc_def)
  have "map pos_OpenedAt ps = map pm_OpenedAt ?rows"
    by (rule scan_rows_sel [OF scan]) (simp add: toDomain_status)
  then show "sorted_wrt (\<lambda>a b. b \<le> a) (map pos_OpenedAt ps)" by (simp add: order_desc_sorted)
qed

lemma orders_ListOpen_shows:
  assumes "orders_ListOpen D U db = Inr os"
  shows "\<forall>ord\<in>set os. OrderStatus_String (ord_Status ord) \<notin> set terminal_texts"
    "length os = length (filter (\<lambda>m. om_Status m \<notin> set terminal_texts) (map snd (db_orders db)))"
proof -
  let ?rows = "order_desc om_CreatedAt (filter (\<lambda>m. om_Status m \<notin> set terminal_texts) (map snd (db_orders db)))"
  have scan: "scan_rows (order_toDomain D U) ?rows = Inr os" using assms by (simp add: orders_ListOpen_def terminal_texts_def)
  have "map (\<lambda>p. OrderStatus_String (ord_Status p)) os = map om_Status ?rows"
    by (rule scan_rows_sel [OF scan]) (simp add: toDomain_status)
  then have "set (map (\<lambda>p. OrderStatus_String (ord_Status p)) os) \<inter> set terminal_texts = {}" by (auto simp: order_desc_def)
  then show "\<forall>ord\<in>set os. OrderStatus_String (ord_Status ord) \<notin> set terminal_texts" by auto
  show "length os = length (filter (\<lambda>m. om_Status m \<notin> set terminal_texts) (map snd (db_orders db)))"
    using scan_rows_length [OF scan] by (simp add: order_desc_def)
qed

text \<open>
  The dashboard shows what is stored: a position for every row whose status is OPEN and for no
  other, newest first, an order for every row that is not terminal and for no other, at most
  twenty signals and decisions, the mode of the active account, and a healthy broker exactly when
  the broker answered; the database is as it was.
\<close>

theorem dashboard_faithful:
  assumes "GetTradingDashboard E w = (Inr d, w')"
  shows "w_db w' = w_db w \<and>
    (\<exists>a. accounts_GetActive (en_D E) (en_U E) (w_db w) = Inr a \<and> dd_OperationalMode d = Mode_String (acc_OperationalMode a) \<and>
       dd_Account d = ToAccountDTO (en_D E) (en_U E) a) \<and>
    length (dd_Positions d) = length (filter (\<lambda>m. pm_Status m = ''OPEN'') (map snd (db_positions (w_db w)))) \<and>
    (\<forall>p\<in>set (dd_Positions d). dp_Status p = ''OPEN'') \<and> sorted_wrt (\<lambda>a b. b \<le> a) (map dp_OpenedAt (dd_Positions d)) \<and>
    length (dd_OpenOrders d) = length (filter (\<lambda>m. om_Status m \<notin> set terminal_texts) (map snd (db_orders (w_db w)))) \<and>
    (\<forall>ord\<in>set (dd_OpenOrders d). do_Status ord \<notin> set terminal_texts) \<and>
    length (dd_RecentSignals d) \<le> 20 \<and> length (dd_RecentRiskDecisions d) \<le> 20 \<and>
    (\<exists>w1. w_db w1 = w_db w \<and> w_broker w1 = w_broker w \<and>
       dh_BrokerHealthy (dd_Integrations d) = (\<not> isl (fst (broker_call E (br_GetAccount (en_B E)) w1))))"
proof -
  obtain a ps os ss ds es ins w1 where
    a: "accounts_GetActive (en_D E) (en_U E) (w_db w) = Inr a" and ps: "positions_ListOpen (en_D E) (en_U E) (w_db w) = Inr ps"
    and os: "orders_ListOpen (en_D E) (en_U E) (w_db w) = Inr os" and ss: "signals_List (en_D E) (en_U E) 20 (w_db w) = Inr ss"
    and ds: "decisions_List (en_D E) (en_U E) 20 (w_db w) = Inr ds" and w1: "w_db w1 = w_db w" "w_broker w1 = w_broker w"
    and d: "d = \<lparr>dd_Account = ToAccountDTO (en_D E) (en_U E) a, dd_Positions = map (ToPositionDTO (en_D E) (en_U E)) ps,
       dd_OpenOrders = map (ToOrderDTO (en_D E) (en_U E)) os, dd_RecentSignals = map (ToSignalDTO (en_D E) (en_U E)) ss,
       dd_RecentRiskDecisions = map (ToRiskDecisionDTO (en_D E) (en_U E)) ds,
       dd_ActiveEvents = map (ToMarketEventDTO (en_D E) (en_U E)) es, dd_ActiveIncidents = map (ToIncidentDTO (en_U E)) ins,
       dd_Integrations = \<lparr>dh_BrokerHealthy = (\<not> isl (fst (broker_call E (br_GetAccount (en_B E)) w1))), dh_QuantEngineHealthy = True, dh_LLMHealthy = True\<rparr>,
       dd_OperationalMode = Mode_String (acc_OperationalMode a), dd_LastReconciliationAt = None\<rparr>"
    using assms unfolding GetTradingDashboard_def Let_def mapToSlice_map
    by (auto simp: ubind_Inr wrapped_Inr dest!: db_read_Inr attempt_result split: sum.splits)
      (metis fst_conv sum.disc(1,2) tick_simps(1,2))+
  have "w_db w' = w_db w" using same_db.keeps_app [OF keeps_dashboard assms] by (simp add: same_db_def)
  with ListOpen_shows [OF ps] orders_ListOpen_shows [OF os] page_bound(2) [OF ss] page_bound(3) [OF ds] a w1 show ?thesis
    by (auto simp: d ToPositionDTO_def ToOrderDTO_def Let_def comp_def)
qed

theorem dashboard_faithful_witness:
  "\<exists>d w'. GetTradingDashboard quiet_env sample_world = (Inr d, w') \<and> dd_OperationalMode d = ''PAPER'' \<and>
     length (dd_Positions d) = 0 \<and> w_db w' = sample_db"
proof -
  obtain d w' where run: "GetTradingDashboard quiet_env sample_world = (Inr d, w')"
    by (simp add: GetTradingDashboard_def Let_def ubind_go wrapped_go db_read_ok sample_lists attempt_Inr broker_call_def infra_ok
        paper_broker_def paper_GetAccount_def split: prod.splits)
  have "filter (\<lambda>m. pm_Status m = ''OPEN'') (map snd (db_positions sample_db)) = []" by (simp add: sample_db_def emptyDB_def)
  with dashboard_faithful [OF run] run show ?thesis
    by (auto simp: sample_lists(8) sample_account_def Mode_String_def)
qed

end
