(* ===== verification/Execute_Order.thy ===== *)
theory Execute_Order
  imports Read_Models
begin

text \<open>
  \<^verbatim>\<open>usecase/execute_approved_order.go\<close>, the only use case that places orders: from a stored and allowed
  decision through the idempotency key, the pending order, the broker and the booking of an
  immediate fill to the protective stop. The properties hold for every broker and every pattern of
  faults, lost answers included: the broker is reached only behind every guard and only after the
  pending order is on disk, a decision is never sent twice, and what the use case reports as done
  is in the database.
\<close>

section \<open>Results and helpers\<close>

record ExecuteApprovedOrderResult =
  xr_Order :: "OrderDTO option"
  xr_Skipped :: bool
  xr_SkipReason :: string

definition skip :: "string \<Rightarrow> ExecuteApprovedOrderResult" where
  "skip reason = \<lparr>xr_Order = None, xr_Skipped = True, xr_SkipReason = reason\<rparr>"

text \<open>\<^verbatim>\<open>_ = f()\<close>: the error is dropped, a panic is not.\<close>

definition ignored :: "('b, 'a) usecase \<Rightarrow> ('b, unit) usecase" where
  "ignored m = attempt m (\<lambda>_. uret ())"

text \<open>\<^verbatim>\<open>_ = o.Fail(...)\<close>: a refused transition leaves the order as it is.\<close>

definition or_same :: "Order result \<Rightarrow> Order \<Rightarrow> Order" where
  "or_same r ord = (case r of Inl _ \<Rightarrow> ord | Inr ord' \<Rightarrow> ord')"

text \<open>\<^verbatim>\<open>orderID.String()[:34]\<close> panics on a shorter text.\<close>

definition mustStopClientOrderID :: "ClientOrderID \<Rightarrow> ClientOrderID result" where
  "mustStopClientOrderID orderID =
     (if length (ClientOrderID_String orderID) < 34 then Inl (Panic ''slice bounds out of range'')
      else case NewClientOrderID (''s-'' @ take 34 (ClientOrderID_String orderID)) of
        Inl _ \<Rightarrow> Inr orderID
      | Inr i \<Rightarrow> Inr i)"

definition raiseUnknownStateIncident :: "'b Env \<Rightarrow> Order \<Rightarrow> error \<Rightarrow> ('b, unit) usecase" where
  "raiseUnknownStateIncident E ord cause =
     ubind (Now E) (\<lambda>now.
     ubind (NewUUID E) (\<lambda>u.
     case NewIncident u UnknownOrderState IncidentSeverityHigh (error_string cause) ''ExecuteApprovedOrder''
         (OrderID_String (en_U E) (ord_ID ord)) now of
       Inl _ \<Rightarrow> uret ()
     | Inr incident \<Rightarrow> ignored (db_write E (incidents_Save (en_U E) incident))))"

text \<open>The transaction that writes an order together with its event.\<close>

definition order_tx :: "'b Env \<Rightarrow> Order \<Rightarrow> string \<Rightarrow> DomainEvent \<Rightarrow> time \<Rightarrow> ('b, unit) usecase" where
  "order_tx E ord name event now = WithinTransaction E
     (ubind (uc_orders_Save E ord) (\<lambda>_.
      ubind (newOutboxEvent E name event now) (\<lambda>evt.
      uc_outbox_Insert E evt)))"

section \<open>Booking an immediate fill\<close>

definition fill_tx :: "'b Env \<Rightarrow> Order \<Rightarrow> Position \<Rightarrow> Account \<Rightarrow> time \<Rightarrow> ('b, unit) usecase" where
  "fill_tx E localOrder pos acct fillNow =
     ubind (uc_orders_Save E localOrder) (\<lambda>_.
     ubind (db_write E (positions_Save (en_U E) pos)) (\<lambda>_.
     ubind (db_write E (accounts_Save (en_U E) acct)) (\<lambda>_.
     ubind (newOutboxEvent E ''OrderFilled'' (EvOrder (OrderFilled localOrder fillNow)) fillNow) (\<lambda>filledEvt.
     ubind (uc_outbox_Insert E filledEvt) (\<lambda>_.
     ubind (newOutboxEvent E ''PositionOpened'' (EvPosition (PositionOpened pos fillNow)) fillNow) (\<lambda>openedEvt.
     uc_outbox_Insert E openedEvt))))))"

text \<open>Reserving the margin; a shortage is recorded as an incident and leaves the account as it is.\<close>

definition reserve_margin :: "'b Env \<Rightarrow> Order \<Rightarrow> Position \<Rightarrow> Account \<Rightarrow> time \<Rightarrow> ('b, Account) usecase" where
  "reserve_margin E localOrder pos acct fillNow =
     (let notional = NewMoney (dMul (en_D E) (Quantity_Decimal (pos_Quantity pos)) (Price_Decimal (pos_EntryPrice pos))) in
      case ReserveMargin (en_D E) acct notional fillNow of
        Inl err \<Rightarrow> ubind (raiseUnknownStateIncident E localOrder err) (\<lambda>_. uret acct)
      | Inr acct \<Rightarrow> uret acct)"

text \<open>The protective stop on the other side; a failure is recorded as an incident.\<close>

definition place_stop :: "'b Env \<Rightarrow> Order \<Rightarrow> Price \<Rightarrow> ('b, unit) usecase" where
  "place_stop E localOrder stopPrice =
     ubind (lift (mustStopClientOrderID (ord_ClientOrderID localOrder))) (\<lambda>stopID.
     attempt (broker_call E (\<lambda>b. br_PlaceStop (en_B E) b \<lparr>psr_ClientOrderID = stopID, psr_Symbol = ord_Symbol localOrder,
         psr_Side = Side_Opposite (ord_Side localOrder), psr_Quantity = ord_Quantity localOrder, psr_StopPrice = stopPrice\<rparr>)) (\<lambda>r.
     case r of
       Inl err \<Rightarrow> raiseUnknownStateIncident E localOrder (WrapPrefix ''stop placement failed'' err)
     | Inr _ \<Rightarrow> uret ()))"

text \<open>The order is mutated in place in the code; here the result carries it back.\<close>

definition reconcileFreshOrder :: "'b Env \<Rightarrow> Order \<Rightarrow> BrokerOrder \<Rightarrow> Price \<Rightarrow> Price \<Rightarrow> Account \<Rightarrow> ('b, Order) usecase" where
  "reconcileFreshOrder E localOrder brokerOrder stopPrice targetPrice acct =
     (case bo_AveragePrice brokerOrder of
        None \<Rightarrow> uret localOrder
      | Some averagePrice \<Rightarrow>
     if bo_RawStatus brokerOrder \<noteq> ''FILLED'' then uret localOrder
     else
     ubind (Now E) (\<lambda>fillNow.
     ubind (wrapped ''recording fill'' (lift (MarkFilled localOrder averagePrice fillNow))) (\<lambda>localOrder.
     ubind (NewUUID E) (\<lambda>fresh.
     ubind (wrapped ''opening position'' (lift (Open (en_D E) fresh (ord_Symbol localOrder) (ord_Side localOrder)
         (ord_Quantity localOrder) averagePrice (Some stopPrice) (Some targetPrice) fillNow))) (\<lambda>pos.
     ubind (reserve_margin E localOrder pos acct fillNow) (\<lambda>acct.
     ubind (wrapped ''persisting fill and position'' (WithinTransaction E (fill_tx E localOrder pos acct fillNow))) (\<lambda>_.
     ubind (place_stop E localOrder stopPrice) (\<lambda>_.
     uret localOrder))))))))"

section \<open>Placing the order\<close>

text \<open>The part of \<^verbatim>\<open>Execute\<close> from the broker's answer on.\<close>

definition book_submission :: "'b Env \<Rightarrow> TradeSignal \<Rightarrow> Account \<Rightarrow> Order \<Rightarrow> BrokerOrder \<Rightarrow> ('b, ExecuteApprovedOrderResult) usecase" where
  "book_submission E tradeSignal acct newOrder brokerOrder =
     ubind (Now E) (\<lambda>submitNow.
     ubind (wrapped ''recording submission'' (lift (Submit newOrder (bo_BrokerOrderID brokerOrder) submitNow))) (\<lambda>newOrder.
     ubind (wrapped ''persisting submitted order''
       (order_tx E newOrder ''OrderSubmitted'' (EvOrder (OrderSubmitted newOrder submitNow)) submitNow)) (\<lambda>_.
     ubind (reconcileFreshOrder E newOrder brokerOrder (sig_StopPrice tradeSignal) (sig_TargetPrice tradeSignal) acct) (\<lambda>newOrder.
     uret \<lparr>xr_Order = Some (ToOrderDTO (en_D E) (en_U E) newOrder), xr_Skipped = False, xr_SkipReason = ''''\<rparr>))))"

text \<open>The part that talks to the broker, with the recovery of a lost answer.\<close>

definition place_at_broker :: "'b Env \<Rightarrow> Decision \<Rightarrow> TradeSignal \<Rightarrow> Account \<Rightarrow> ClientOrderID \<Rightarrow> Order \<Rightarrow>
    ('b, ExecuteApprovedOrderResult) usecase" where
  "place_at_broker E decision tradeSignal acct clientOrderID newOrder =
     attempt (broker_call E (\<lambda>b. br_PlaceOrder (en_B E) b \<lparr>por_ClientOrderID = clientOrderID, por_Symbol = sig_Symbol tradeSignal,
         por_Side = sig_Side tradeSignal, por_Type = Type_String TypeMarket, por_Quantity = dec_ApprovedPositionSize decision,
         por_Price = Some (sig_EntryPrice tradeSignal)\<rparr>)) (\<lambda>placed.
     case placed of
       Inr brokerOrder \<Rightarrow> book_submission E tradeSignal acct newOrder brokerOrder
     | Inl err \<Rightarrow>
       attempt (broker_call E (\<lambda>b. br_FindOrderByClientOrderID (en_B E) b (ClientOrderID_String clientOrderID))) (\<lambda>found.
       case found of
         Inr recovered \<Rightarrow> book_submission E tradeSignal acct newOrder recovered
       | Inl lookupErr \<Rightarrow>
         if errors_Is lookupErr ErrNotFound then
           ubind (Now E) (\<lambda>now.
           ubind (ignored (uc_orders_Save E (or_same (Order_Fail newOrder (error_string err) now) newOrder))) (\<lambda>_.
           ufail (WrapPrefix ''placing order'' err)))
         else
           ubind (Now E) (\<lambda>now.
           let newOrder = or_same (MarkUnknown newOrder now) newOrder in
           ubind (ignored (uc_orders_Save E newOrder)) (\<lambda>_.
           ubind (raiseUnknownStateIncident E newOrder err) (\<lambda>_.
           ufail (WrapSuffix ErrBrokerOrderStateUnknown (error_string err)))))))"

text \<open>The part behind the last guard: reserve the key, build and persist the order, place it.\<close>

definition reserve_and_place :: "'b Env \<Rightarrow> Decision \<Rightarrow> TradeSignal \<Rightarrow> Account \<Rightarrow> ClientOrderID \<Rightarrow> time \<Rightarrow>
    ('b, ExecuteApprovedOrderResult) usecase" where
  "reserve_and_place E decision tradeSignal acct clientOrderID now =
     ubind (wrapped ''reserving idempotency key''
       (uc_Reserve E ''execute_order'' (RiskDecisionID_String (en_U E) (dec_ID decision)) (10 * 60 * Second))) (\<lambda>reserved.
     if \<not> reserved then uret (skip ''execution for this risk decision is already in progress'')
     else
     ubind (NewUUID E) (\<lambda>fresh.
     ubind (wrapped ''building order'' (lift (NewPendingOrder (en_D E) fresh clientOrderID (sig_Symbol tradeSignal)
         (sig_Side tradeSignal) TypeMarket (dec_ApprovedPositionSize decision) None (Some (sig_StopPrice tradeSignal))
         (Some (sig_TargetPrice tradeSignal)) (sig_StrategyName tradeSignal) (sig_ID tradeSignal) (dec_ID decision) now))) (\<lambda>newOrder.
     ubind (wrapped ''persisting pending order''
       (order_tx E newOrder ''OrderCreated'' (EvOrder (OrderCreated newOrder now)) now)) (\<lambda>_.
     place_at_broker E decision tradeSignal acct clientOrderID newOrder))))"

definition ExecuteApprovedOrder :: "'b Env \<Rightarrow> RiskDecisionID \<Rightarrow> ('b, ExecuteApprovedOrderResult) usecase" where
  "ExecuteApprovedOrder E riskDecisionID =
     ubind (Now E) (\<lambda>now.
     ubind (wrapped ''loading risk decision'' (db_read E (decisions_GetByID (en_D E) (en_U E) riskDecisionID))) (\<lambda>decision.
     if \<not> dec_Allowed decision then uret (skip ''risk decision did not allow this signal'')
     else
     ubind (wrapped ''loading signal'' (db_read E (signals_GetByID (en_D E) (en_U E) (dec_SignalID decision)))) (\<lambda>tradeSignal.
     ubind (wrapped ''loading account'' (db_read E (accounts_GetActive (en_D E) (en_U E)))) (\<lambda>acct.
     if \<not> AllowsNewEntries (acc_OperationalMode acct)
     then uret (skip (''operational mode '' @ Mode_String (acc_OperationalMode acct) @ '' does not allow new entries''))
     else
     ubind (wrapped ''building client order id'' (lift (NewClientOrderID (RiskDecisionID_String (en_U E) (dec_ID decision))))) (\<lambda>clientOrderID.
     attempt (db_read E (orders_GetByClientOrderID (en_D E) (en_U E) clientOrderID)) (\<lambda>found.
     case found of
       Inr existing \<Rightarrow> uret \<lparr>xr_Order = Some (ToOrderDTO (en_D E) (en_U E) existing), xr_Skipped = True,
         xr_SkipReason = ''order already exists for this risk decision''\<rparr>
     | Inl e \<Rightarrow>
       if \<not> errors_Is e ErrNotFound then ufail (WrapPrefix ''checking existing order'' e)
       else reserve_and_place E decision tradeSignal acct clientOrderID now))))))"

section \<open>Orders are never lost\<close>

definition client_ids :: "DB \<Rightarrow> string set" where
  "client_ids db = (\<lambda>p. om_ClientOrderID (snd p)) ` set (db_orders db)"

definition ids_kept :: "DB \<Rightarrow> DB \<Rightarrow> bool" where
  "ids_kept a b \<longleftrightarrow> client_ids a \<subseteq> client_ids b \<and> db_decisions b = db_decisions a"

interpretation ids_kept: db_relation ids_kept
  by unfold_locales (auto simp: ids_kept_def)

lemma al_set_image_new: "map_of tbl k = None \<Longrightarrow> (\<lambda>p. f (snd p)) ` set (al_set k v tbl) = insert (f v) ((\<lambda>p. f (snd p)) ` set tbl)"
proof (induction tbl)
  case (Cons p tbl)
  then show ?case by (cases p) (simp add: insert_commute split: if_splits)
qed simp

lemma al_set_image_same:
  "map_of tbl k = Some old \<Longrightarrow> f v = f old \<Longrightarrow> (\<lambda>p. f (snd p)) ` set (al_set k v tbl) = (\<lambda>p. f (snd p)) ` set tbl"
proof (induction tbl)
  case (Cons p tbl)
  then show ?case by (cases p) (simp split: if_splits)
qed simp

lemma order_columns_keeps: "order_columns m = Inr row \<Longrightarrow> om_ClientOrderID row = om_ClientOrderID m \<and> om_Status row = om_Status m"
  by (auto simp: order_columns_def rbind_Inr_iff)

lemma order_save_row_ids:
  assumes "order_save_row U ord tbl = (r, tbl')"
  shows "(\<lambda>p. om_ClientOrderID (snd p)) ` set tbl \<subseteq> (\<lambda>p. om_ClientOrderID (snd p)) ` set tbl'"
proof (cases r)
  case (Inl e)
  with order_save_row_store [OF assms] show ?thesis by simp
next
  case (Inr u)
  have same: "om_ClientOrderID (order_merge row old) = om_ClientOrderID old" for row old by (simp add: order_merge_def)
  note new = al_set_image_new [where f = om_ClientOrderID] and upd = al_set_image_same [where f = om_ClientOrderID, OF _ same]
  from Inr order_save_row_store [OF assms]
  obtain row where "map_of tbl (OrderID_String U (ord_ID ord)) = None \<and> tbl' = al_set (OrderID_String U (ord_ID ord)) row tbl \<or>
      (\<exists>old. map_of tbl (OrderID_String U (ord_ID ord)) = Some old \<and> tbl' = al_set (OrderID_String U (ord_ID ord)) (order_merge row old) tbl)"
    by auto
  then show ?thesis
  proof (elim disjE exE conjE)
    assume none: "map_of tbl (OrderID_String U (ord_ID ord)) = None" and t: "tbl' = al_set (OrderID_String U (ord_ID ord)) row tbl"
    show ?thesis unfolding t new [OF none] by (rule subset_insertI)
  next
    fix old assume old: "map_of tbl (OrderID_String U (ord_ID ord)) = Some old"
      and t: "tbl' = al_set (OrderID_String U (ord_ID ord)) (order_merge row old) tbl"
    show ?thesis unfolding t upd [OF old] by (rule order_refl)
  qed
qed

lemma orders_Save_row: "orders_Save U fresh now ord db = (r, db') \<Longrightarrow> \<exists>r0. order_save_row U ord (db_orders db) = (r0, db_orders db') \<and>
    (r = Inr () \<longrightarrow> r0 = Inr ())"
  by (auto simp: orders_Save_def Let_def split: prod.splits sum.splits if_splits option.splits)

lemma orders_Save_ids: "ids_kept db (snd (orders_Save U fresh now ord db))"
proof -
  obtain r db' where save: "orders_Save U fresh now ord db = (r, db')" by (cases "orders_Save U fresh now ord db")
  have "db_decisions db' = db_decisions db"
    using save by (auto simp: orders_Save_def Let_def split: prod.splits sum.splits if_splits option.splits)
  moreover have "client_ids db \<subseteq> client_ids db'"
    using orders_Save_row [OF save] order_save_row_ids unfolding client_ids_def by blast
  ultimately show ?thesis by (simp add: save ids_kept_def)
qed

lemma other_tables_ids:
  "ids_kept db (snd (positions_Save U p db))" "ids_kept db (snd (accounts_Save U a db))" "ids_kept db (snd (modes_Save s db))"
  "ids_kept db (snd (incidents_Save U i db))" "ids_kept db (snd (outbox_Insert now evt db))"
  "ids_kept db (snd (idem_Reserve sc key ttl now db))"
  by (auto simp: ids_kept_def client_ids_def positions_Save_def accounts_Save_def modes_Save_def incidents_Save_def outbox_Insert_def
      idem_Reserve_def Let_def split: prod.splits sum.splits option.splits)

lemma keeps_ids_calls:
  "keeps (on_db ids_kept) (uc_orders_Save E ord)" "keeps (on_db ids_kept) (uc_outbox_Insert E evt)"
  "keeps (on_db ids_kept) (newOutboxEvent E ty pl now)"
  unfolding uc_orders_Save_def uc_outbox_Insert_def newOutboxEvent_def
  by (intro ids_kept.keeps_intros ids_kept.keeps_write orders_Save_ids other_tables_ids)+

lemma keeps_ids_incident: "keeps (on_db ids_kept) (raiseUnknownStateIncident E ord cause)"
  unfolding raiseUnknownStateIncident_def ignored_def
  by (intro ids_kept.keeps_ubind ids_kept.keeps_Now ids_kept.keeps_NewUUID)
    (auto simp del: useq_simps intro!: ids_kept.keeps_intros ids_kept.keeps_write other_tables_ids split: sum.splits)

lemmas ids_kept_rules = ids_kept.keeps_intros ids_kept.keeps_write orders_Save_ids other_tables_ids keeps_ids_calls
  keeps_ids_incident ids_kept.keeps_tx ids_kept.keeps_broker_call

lemma keeps_ids_fill: "keeps (on_db ids_kept) (reconcileFreshOrder E ord bo stop target acct)"
  unfolding reconcileFreshOrder_def fill_tx_def reserve_margin_def place_stop_def Let_def
  by (auto simp del: useq_simps intro!: ids_kept_rules split: option.splits sum.splits)

lemma keeps_ids_place: "keeps (on_db ids_kept) (place_at_broker E decision sig acct cid ord)"
  unfolding place_at_broker_def book_submission_def order_tx_def ignored_def Let_def
  by (auto simp del: useq_simps intro!: ids_kept_rules keeps_ids_fill split: sum.splits)

lemma keeps_ids_execute: "keeps (on_db ids_kept) (ExecuteApprovedOrder E rid)"
  unfolding ExecuteApprovedOrder_def reserve_and_place_def order_tx_def uc_Reserve_def
  by (auto simp del: useq_simps intro!: ids_kept_rules keeps_ids_place split: sum.splits)

section \<open>Behind which guards the broker is reached\<close>

text \<open>What the guards of \<^verbatim>\<open>Execute\<close> have established when the order is about to be built.\<close>

definition guards_passed :: "'b Env \<Rightarrow> RiskDecisionID \<Rightarrow> DB \<Rightarrow> Decision \<Rightarrow> TradeSignal \<Rightarrow> Account \<Rightarrow> ClientOrderID \<Rightarrow> bool" where
  "guards_passed E rid db decision tradeSignal acct cid \<longleftrightarrow>
     decisions_GetByID (en_D E) (en_U E) rid db = Inr decision \<and> dec_Allowed decision \<and>
     signals_GetByID (en_D E) (en_U E) (dec_SignalID decision) db = Inr tradeSignal \<and>
     accounts_GetActive (en_D E) (en_U E) db = Inr acct \<and> AllowsNewEntries (acc_OperationalMode acct) \<and>
     ClientOrderID_String cid = RiskDecisionID_String (en_U E) (dec_ID decision)"

text \<open>
  Infrastructure faults never claim that a row does not exist: the driver reports an empty result
  by its own sentinel and a broken connection by other errors.
\<close>

definition honest_faults :: "'b Env \<Rightarrow> bool" where
  "honest_faults E \<longleftrightarrow> (\<forall>n e. en_fault E n = FailBefore e \<or> en_fault E n = FailAfter e \<longrightarrow> \<not> errors_Is e ErrNotFound)"

lemma db_read_Inl:
  assumes "db_read E f w = (Inl e, w')"
  shows "w' = tick w \<and> (honest_faults E \<and> errors_Is e ErrNotFound \<longrightarrow> f (w_db w) = Inl e)"
  using assms unfolding honest_faults_def by (auto simp: db_read_def infra_def split: fault.splits)

lemma NewClientOrderID_text: "NewClientOrderID s = Inr c \<Longrightarrow> ClientOrderID_String c = s"
  by (auto simp: NewClientOrderID_def split: if_splits)

lemma ExecuteApprovedOrder_reaches:
  assumes "ExecuteApprovedOrder E rid w = (r, w')"
  shows "w_db w' = w_db w \<and> w_broker w' = w_broker w \<or>
    (\<exists>decision tradeSignal acct cid now w1 e. guards_passed E rid (w_db w) decision tradeSignal acct cid \<and>
       w_db w1 = w_db w \<and> w_broker w1 = w_broker w \<and> w_inTx w1 = w_inTx w \<and> errors_Is e ErrNotFound \<and>
       (honest_faults E \<longrightarrow> orders_GetByClientOrderID (en_D E) (en_U E) cid (w_db w) = Inl e) \<and>
       reserve_and_place E decision tradeSignal acct cid now w1 = (r, w'))"
  using assms unfolding ExecuteApprovedOrder_def guards_passed_def
  by (auto elim!: ubindE wrappedE attemptE simp: usecase_steps split: if_splits sum.splits
      dest!: NewClientOrderID_text db_read_Inr db_read_Inl) (metis tick_simps(1-3))+

lemma uc_orders_Save_Inr:
  assumes "uc_orders_Save E ord w = (Inr u, w')"
  shows "order_save_row (en_U E) ord (db_orders (w_db w)) = (Inr (), db_orders (w_db w')) \<and>
    db_positions (w_db w') = db_positions (w_db w) \<and> db_accounts (w_db w') = db_accounts (w_db w) \<and>
    db_outbox (w_db w') = db_outbox (w_db w) \<and> w_inTx w' = w_inTx w \<and> w_broker w' = w_broker w"
proof -
  obtain fresh now where save: "orders_Save (en_U E) fresh now ord (w_db w) = (Inr u, w_db w')" and w': "w_inTx w' = w_inTx w" "w_broker w' = w_broker w"
    using assms by (auto simp: uc_orders_Save_def ubind_Inr usecase_steps dest!: db_write_Inr) (metis World.select_convs tick_simps World.surjective World.update_convs(1))+
  have "db_positions (w_db w') = db_positions (w_db w) \<and> db_accounts (w_db w') = db_accounts (w_db w) \<and>
      db_outbox (w_db w') = db_outbox (w_db w)"
    using save by (auto simp: orders_Save_def Let_def split: prod.splits sum.splits if_splits option.splits)
      (metis DB.select_convs DB.surjective DB.update_convs(1,2))+
  with orders_Save_row [OF save] w' show ?thesis by auto
qed

lemma order_saved_id:
  assumes "order_save_row U ord tbl = (Inr (), tbl')" "map_of tbl (OrderID_String U (ord_ID ord)) = None"
  shows "ClientOrderID_String (ord_ClientOrderID ord) \<in> (\<lambda>p. om_ClientOrderID (snd p)) ` set tbl'"
proof -
  obtain row where row: "order_columns (order_toModel U ord) = Inr row" "tbl' = al_set (OrderID_String U (ord_ID ord)) row tbl"
    using order_save_row_store [OF assms(1)] assms(2) by auto
  have "om_ClientOrderID row = ClientOrderID_String (ord_ClientOrderID ord)"
    using order_columns_keeps [OF row(1)] by (simp add: order_toModel_def)
  then show ?thesis using al_set_image_new [OF assms(2), of om_ClientOrderID row] by (simp add: row(2))
qed
lemma uc_outbox_Insert_Inr:
  assumes "ubind (newOutboxEvent E ty pl t) (uc_outbox_Insert E) w = (Inr u, w')"
  shows "\<exists>k e. w_db w' = (w_db w)\<lparr>db_outbox := al_set k e (db_outbox (w_db w))\<rparr> \<and> map_of (db_outbox (w_db w)) k = None \<and>
    oe_EventType e = ty \<and> oe_Payload e = pl \<and> oe_Status e = OutboxStatusPending \<and> oe_Attempts e = 0 \<and>
    w_inTx w' = w_inTx w \<and> w_broker w' = w_broker w"
  using assms unfolding newOutboxEvent_def uc_outbox_Insert_def
  by (auto simp: ubind_Inr usecase_steps dest!: db_write_Inr outbox_Insert_Inr)
    (metis OutboxEvent.select_convs(2-5) OutboxEvent.update_convs(1-8) World.select_convs tick_simps World.surjective World.update_convs(1))+

definition event_pending :: "string \<Rightarrow> DomainEvent \<Rightarrow> DB \<Rightarrow> bool" where
  "event_pending name event db \<longleftrightarrow> (\<exists>k e. map_of (db_outbox db) k = Some e \<and> oe_EventType e = name \<and> oe_Payload e = event \<and>
     oe_Status e = OutboxStatusPending \<and> oe_Attempts e = 0)"

lemma event_pending_insert:
  "db_outbox db' = al_set k e (db_outbox db) \<Longrightarrow> map_of (db_outbox db) k = None \<Longrightarrow> event_pending nm ev db \<Longrightarrow> event_pending nm ev db'"
  unfolding event_pending_def by (metis fun_upd_apply map_of_al_set option.distinct(1))

lemma outbox_step:
  assumes "ubind (newOutboxEvent E ty pl t) (uc_outbox_Insert E) w = (Inr u, w')"
  shows "event_pending ty pl (w_db w')" "\<And>nm ev. event_pending nm ev (w_db w) \<Longrightarrow> event_pending nm ev (w_db w')"
    "db_orders (w_db w') = db_orders (w_db w)" "db_positions (w_db w') = db_positions (w_db w)" "db_accounts (w_db w') = db_accounts (w_db w)"
    "w_inTx w' = w_inTx w" "w_broker w' = w_broker w"
proof -
  obtain k e where ke: "w_db w' = (w_db w)\<lparr>db_outbox := al_set k e (db_outbox (w_db w))\<rparr>" "map_of (db_outbox (w_db w)) k = None"
    "oe_EventType e = ty" "oe_Payload e = pl" "oe_Status e = OutboxStatusPending" "oe_Attempts e = 0" and
    w: "w_inTx w' = w_inTx w" "w_broker w' = w_broker w"
    using uc_outbox_Insert_Inr [OF assms] by blast
  have "map_of (db_outbox (w_db w')) k = Some e" by (simp add: ke(1))
  then show "event_pending ty pl (w_db w')" unfolding event_pending_def using ke(3-6) by blast
  show "event_pending nm ev (w_db w) \<Longrightarrow> event_pending nm ev (w_db w')" for nm ev
    by (rule event_pending_insert [OF _ ke(2)]) (simp_all add: ke(1))
  show "db_orders (w_db w') = db_orders (w_db w)" "db_positions (w_db w') = db_positions (w_db w)"
    "db_accounts (w_db w') = db_accounts (w_db w)" "w_inTx w' = w_inTx w" "w_broker w' = w_broker w"
    by (simp_all add: ke(1) w)
qed

text \<open>A committed order transaction.\<close>

lemma order_tx_Inr:
  assumes "order_tx E ord name event now w = (Inr u, w')" "\<not> w_inTx w"
  shows "order_save_row (en_U E) ord (db_orders (w_db w)) = (Inr (), db_orders (w_db w')) \<and> event_pending name event (w_db w') \<and>
    db_positions (w_db w') = db_positions (w_db w) \<and> db_accounts (w_db w') = db_accounts (w_db w) \<and> \<not> w_inTx w'"
proof -
  obtain w2 where fn: "ubind (uc_orders_Save E ord) (\<lambda>_. ubind (newOutboxEvent E name event now) (uc_outbox_Insert E))
      ((tick w)\<lparr>w_inTx := True\<rparr>) = (Inr u, w2)" and db: "w_db w' = w_db w2" "\<not> w_inTx w'"
    using WithinTransaction_db [OF assms(1) [unfolded order_tx_def] assms(2)] by auto
  obtain w1 where s: "uc_orders_Save E ord ((tick w)\<lparr>w_inTx := True\<rparr>) = (Inr (), w1)"
    and o: "ubind (newOutboxEvent E name event now) (uc_outbox_Insert E) w1 = (Inr u, w2)"
    using fn by (auto simp: ubind_Inr)
  show ?thesis using uc_orders_Save_Inr [OF s] outbox_step [OF o] db by simp
qed

lemma keeps_broker_tx: "keeps same_broker (order_tx E ord name event now)"
  unfolding order_tx_def by (intro same_broker.keeps_db_intros)

text \<open>The identifiers the environment will hand out name no order yet.\<close>

definition fresh_orders :: "'b Env \<Rightarrow> DB \<Rightarrow> bool" where
  "fresh_orders E db \<longleftrightarrow> (\<forall>n. map_of (db_orders db) (uString (en_U E) (en_uuid E n)) = None)"

lemma uc_Reserve_result:
  assumes "uc_Reserve E sc key ttl w = (Inr b, w')"
  shows "\<exists>t. idem_Reserve sc key ttl t (w_db w) = (Inr b, w_db w') \<and> w_inTx w' = w_inTx w \<and> w_broker w' = w_broker w"
  using assms by (auto simp: uc_Reserve_def ubind_Inr usecase_steps dest!: db_write_frame)

lemma idem_Reserve_orders: "idem_Reserve sc key ttl t db = (r, db') \<Longrightarrow> db_orders db' = db_orders db \<and> db_accounts db' = db_accounts db \<and>
    db_positions db' = db_positions db"
  by (auto simp: idem_Reserve_def Let_def split: option.splits if_splits)

lemma reserve_and_place_reaches:
  assumes "reserve_and_place E decision tradeSignal acct cid now w = (r, w')" "\<not> w_inTx w" "fresh_orders E (w_db w)"
  shows "w_broker w' = w_broker w \<or>
    (\<exists>n ord w1. NewPendingOrder (en_D E) (en_uuid E n) cid (sig_Symbol tradeSignal)
         (sig_Side tradeSignal) TypeMarket (dec_ApprovedPositionSize decision) None (Some (sig_StopPrice tradeSignal))
         (Some (sig_TargetPrice tradeSignal)) (sig_StrategyName tradeSignal) (sig_ID tradeSignal) (dec_ID decision) now = Inr ord \<and>
       ClientOrderID_String cid \<in> client_ids (w_db w1) \<and> w_broker w1 = w_broker w \<and> \<not> w_inTx w1 \<and>
       map_of (db_orders (w_db w1)) (OrderID_String (en_U E) (ord_ID ord)) \<noteq> None \<and>
       place_at_broker E decision tradeSignal acct cid ord w1 = (r, w'))"
proof -
  have tx_broker: "order_tx E ord nm ev t v = (q, v') \<Longrightarrow> w_broker v' = w_broker v" for ord nm ev t v q v'
    using same_broker.keeps_app [OF keeps_broker_tx] by (fastforce simp: same_broker_def)
  have res_broker: "uc_Reserve E sc key ttl v = (q, v') \<Longrightarrow> w_broker v' = w_broker v" for sc key ttl v q v'
    using same_broker.keeps_app [OF same_broker.keeps_saves(3)] by (fastforce simp: same_broker_def)
  have saved: "ClientOrderID_String cid \<in> client_ids (w_db v') \<and> \<not> w_inTx v' \<and> map_of (db_orders (w_db v')) (OrderID_String (en_U E) (ord_ID ord)) \<noteq> None"
    if "order_tx E ord nm ev t v = (Inr (), v')" "\<not> w_inTx v" "db_orders (w_db v) = db_orders (w_db w)"
      "NewPendingOrder (en_D E) (en_uuid E n) cid sy sd ty q rp sp tp st si di now = Inr ord" for ord nm ev t v v' n sy sd ty q rp sp tp st si di
  proof -
    have ord: "ord_ClientOrderID ord = cid" "ord_ID ord = OrderID (en_uuid E n)"
      using that(4) by (auto simp: NewPendingOrder_def split: if_splits)
    have none: "map_of (db_orders (w_db v)) (OrderID_String (en_U E) (ord_ID ord)) = None"
      using assms(3) by (simp add: ord that(3) fresh_orders_def)
    note tx = order_tx_Inr [OF that(1,2)]
    show ?thesis
      using order_saved_id [OF conjunct1 [OF tx] none] order_store.save_ok [OF conjunct1 [OF tx]] tx by (auto simp: ord client_ids_def)
  qed
  consider (unplaced) "w_broker w' = w_broker w"
    | (placed) w1 ord w2 where "uc_Reserve E ''execute_order'' (RiskDecisionID_String (en_U E) (dec_ID decision)) (10 * 60 * Second) w = (Inr True, w1)"
      "NewPendingOrder (en_D E) (en_uuid E (w_tick w1)) cid (sig_Symbol tradeSignal)
         (sig_Side tradeSignal) TypeMarket (dec_ApprovedPositionSize decision) None (Some (sig_StopPrice tradeSignal))
         (Some (sig_TargetPrice tradeSignal)) (sig_StrategyName tradeSignal) (sig_ID tradeSignal) (dec_ID decision) now = Inr ord"
      "order_tx E ord ''OrderCreated'' (EvOrder (OrderCreated ord now)) now (tick w1) = (Inr (), w2)"
      "place_at_broker E decision tradeSignal acct cid ord w2 = (r, w')"
    using assms(1) unfolding reserve_and_place_def
    by (auto elim!: ubindE wrappedE simp: usecase_steps split: if_splits dest: res_broker tx_broker) (metis res_broker tx_broker tick_simps(2))+
  then show ?thesis
  proof cases
    case placed
    obtain t where t: "idem_Reserve ''execute_order'' (RiskDecisionID_String (en_U E) (dec_ID decision)) (10 * 60 * Second) t (w_db w) = (Inr True, w_db w1)"
        "w_inTx w1 = w_inTx w" "w_broker w1 = w_broker w"
      using uc_Reserve_result [OF placed(1)] by blast
    then have "db_orders (w_db (tick w1)) = db_orders (w_db w)" "\<not> w_inTx (tick w1)" using idem_Reserve_orders [OF t(1)] assms(2) by simp_all
    from saved [OF placed(3) this(2,1) placed(2)] placed(2,4) tx_broker [OF placed(3)] t(3) show ?thesis by auto
  qed simp
qed

text \<open>The errors of reading an order row are never the empty result.\<close>

lemma not_found_free:
  "parseID U s f = Inl e \<Longrightarrow> \<not> errors_Is e ErrNotFound" "NewClientOrderID s = Inl e \<Longrightarrow> \<not> errors_Is e ErrNotFound"
  "NewSymbol s = Inl e \<Longrightarrow> \<not> errors_Is e ErrNotFound" "NewQuantity D x = Inl e \<Longrightarrow> \<not> errors_Is e ErrNotFound"
  "NewPrice D x = Inl e \<Longrightarrow> \<not> errors_Is e ErrNotFound" "optionalPrice D xo = Inl e \<Longrightarrow> \<not> errors_Is e ErrNotFound"
  by (auto simp: parseID_def NewClientOrderID_def NewSymbol_def NewQuantity_def NewPrice_def optionalPrice_def rbind_def Let_def
      split: if_splits option.splits sum.splits)

lemma order_toDomain_error: "order_toDomain D U m = Inl e \<Longrightarrow> \<not> errors_Is e ErrNotFound"
  unfolding order_toDomain_def ParseOrderID_def ParseSignalID_def ParseRiskDecisionID_def
  by (auto simp: rbind_Inl_iff dest: not_found_free)

lemma no_order_with_id:
  assumes "orders_GetByClientOrderID D U cid db = Inl e" "errors_Is e ErrNotFound"
  shows "ClientOrderID_String cid \<notin> client_ids db"
proof (cases "find (\<lambda>m. om_ClientOrderID m = ClientOrderID_String cid) (map snd (db_orders db))")
  case None
  then show ?thesis by (force simp: find_None_iff client_ids_def)
next
  case (Some m)
  with assms order_toDomain_error show ?thesis by (auto simp: orders_GetByClientOrderID_def scan_one_def)
qed

lemma broker_guarded:
  assumes "ExecuteApprovedOrder E rid w = (r, w')" "w_broker w' \<noteq> w_broker w" "\<not> w_inTx w" "fresh_orders E (w_db w)" "honest_faults E"
  shows "\<exists>decision tradeSignal acct cid. guards_passed E rid (w_db w) decision tradeSignal acct cid \<and>
    ClientOrderID_String cid \<notin> client_ids (w_db w) \<and> ClientOrderID_String cid \<in> client_ids (w_db w')"
proof -
  obtain decision tradeSignal acct cid now w1 e where g: "guards_passed E rid (w_db w) decision tradeSignal acct cid"
    and w1: "w_db w1 = w_db w" "w_broker w1 = w_broker w" "w_inTx w1 = w_inTx w"
    and e: "errors_Is e ErrNotFound" "orders_GetByClientOrderID (en_D E) (en_U E) cid (w_db w) = Inl e"
    and run: "reserve_and_place E decision tradeSignal acct cid now w1 = (r, w')"
    using ExecuteApprovedOrder_reaches [OF assms(1)] assms(2,5) by auto
  obtain ord w2 where w2: "ClientOrderID_String cid \<in> client_ids (w_db w2)"
      "place_at_broker E decision tradeSignal acct cid ord w2 = (r, w')"
    using reserve_and_place_reaches [OF run] w1 assms(2-4) by auto
  have "ids_kept (w_db w2) (w_db w')"
    using ids_kept.keeps_app [OF keeps_ids_place w2(2)] by (simp add: on_db_def)
  with w2(1) no_order_with_id [OF e(2,1)] g show ?thesis unfolding ids_kept_def by blast
qed


section \<open>A decision is sent once\<close>

text \<open>
  A history of the system as far as one decision is concerned: executions of it in any
  environments, and anything else that keeps the orders and the decisions that are stored. The
  number counts the executions that changed the broker.
\<close>

inductive executions :: "uuid_ops \<Rightarrow> decimal_ops \<Rightarrow> RiskDecisionID \<Rightarrow> 'b World \<Rightarrow> nat \<Rightarrow> 'b World \<Rightarrow> bool"
  for U D rid w where
  start: "executions U D rid w 0 w"
| execute: "executions U D rid w n v \<Longrightarrow> ExecuteApprovedOrder E rid v = (r, v') \<Longrightarrow> en_U E = U \<Longrightarrow> en_D E = D \<Longrightarrow>
    \<not> w_inTx v \<Longrightarrow> fresh_orders E (w_db v) \<Longrightarrow> honest_faults E \<Longrightarrow>
    executions U D rid w (if w_broker v' = w_broker v then n else n + 1) v'"
| other: "executions U D rid w n v \<Longrightarrow> ids_kept (w_db v) (w_db v') \<Longrightarrow> executions U D rid w n v'"

definition sent :: "uuid_ops \<Rightarrow> decimal_ops \<Rightarrow> RiskDecisionID \<Rightarrow> DB \<Rightarrow> bool" where
  "sent U D rid db \<longleftrightarrow> (\<exists>decision. decisions_GetByID D U rid db = Inr decision \<and> RiskDecisionID_String U (dec_ID decision) \<in> client_ids db)"

lemma sent_kept: "sent U D rid a \<Longrightarrow> ids_kept a b \<Longrightarrow> sent U D rid b"
  unfolding sent_def ids_kept_def decisions_GetByID_def by auto

lemma executions_inv: "executions U D rid w n v \<Longrightarrow> n \<le> 1 \<and> (n = 1 \<longrightarrow> sent U D rid (w_db v))"
proof (induction rule: executions.induct)
  case (execute n v E r v')
  have kept: "ids_kept (w_db v) (w_db v')"
    using ids_kept.keeps_app [OF keeps_ids_execute execute.hyps(2)] by (simp add: on_db_def)
  show ?case
  proof (cases "w_broker v' = w_broker v")
    case True
    with execute.IH sent_kept [OF _ kept] show ?thesis by simp
  next
    case False
    obtain decision tradeSignal acct cid where g: "guards_passed E rid (w_db v) decision tradeSignal acct cid"
      and cid: "ClientOrderID_String cid \<notin> client_ids (w_db v)" "ClientOrderID_String cid \<in> client_ids (w_db v')"
      using broker_guarded [OF execute.hyps(2) False execute.hyps(5-7)] by blast
    have unsent: "\<not> sent U D rid (w_db v)" using g cid(1) execute.hyps(3,4) by (auto simp: guards_passed_def sent_def)
    have "decisions_GetByID D U rid (w_db v') = Inr decision"
      using g kept execute.hyps(3,4) by (auto simp: guards_passed_def ids_kept_def decisions_GetByID_def)
    then have "sent U D rid (w_db v')" using g cid(2) execute.hyps(3,4) by (auto simp: sent_def guards_passed_def)
    moreover have "n = 0" using execute.IH unsent by auto
    ultimately show ?thesis by (simp add: False)
  qed
qed (auto intro: sent_kept)

text \<open>
  C1: A risk decision reaches the broker at most once: over every history of executions of it, in
  whatever environments, with lost answers, restarts of the process, expired idempotency keys and
  anything in between that keeps the stored orders and decisions, at most one execution changes
  the broker.
\<close>

theorem decision_sent_at_most_once:
  assumes "executions U D rid w n v"
  shows "n \<le> 1"
  using executions_inv [OF assms] by simp

section \<open>What is reported is stored\<close>

definition order_stored :: "uuid_ops \<Rightarrow> Order \<Rightarrow> DB \<Rightarrow> bool" where
  "order_stored U ord db \<longleftrightarrow> (\<exists>row. map_of (db_orders db) (OrderID_String U (ord_ID ord)) = Some row \<and>
     om_Status row = OrderStatus_String (ord_Status ord) \<and> om_BrokerOrderID row = ord_BrokerOrderID ord \<and>
     om_FailureReason row = ord_FailureReason ord \<and> om_Version row = ord_Version ord)"

definition position_stored :: "uuid_ops \<Rightarrow> Position \<Rightarrow> DB \<Rightarrow> bool" where
  "position_stored U p db \<longleftrightarrow> (\<exists>row. map_of (db_positions db) (PositionID_String U (pos_ID p)) = Some row \<and>
     pm_Status row = PositionStatus_String (pos_Status p) \<and> pm_Version row = pos_Version p)"

definition same_books :: "DB \<Rightarrow> DB \<Rightarrow> bool" where
  "same_books a b \<longleftrightarrow> db_orders b = db_orders a \<and> db_positions b = db_positions a \<and> db_accounts b = db_accounts a \<and> db_outbox b = db_outbox a"

interpretation same_books: db_relation same_books
  by unfold_locales (auto simp: same_books_def)

lemma keeps_books_incident: "keeps (on_db same_books) (raiseUnknownStateIncident E ord cause)"
  unfolding raiseUnknownStateIncident_def ignored_def
  by (intro same_books.keeps_ubind same_books.keeps_Now same_books.keeps_NewUUID)
    (auto simp del: useq_simps intro!: same_books.keeps_intros same_books.keeps_write
      simp: same_books_def incidents_Save_def Let_def split: sum.splits)

lemma order_stored_books: "same_books a b \<Longrightarrow> order_stored U ord a \<Longrightarrow> order_stored U ord b"
  "same_books a b \<Longrightarrow> position_stored U p a \<Longrightarrow> position_stored U p b"
  "same_books a b \<Longrightarrow> event_pending nm ev a \<Longrightarrow> event_pending nm ev b"
  by (simp_all add: same_books_def order_stored_def position_stored_def event_pending_def)

lemma order_columns_fields:
  "order_columns m = Inr row \<Longrightarrow> om_Status row = om_Status m \<and> om_BrokerOrderID row = om_BrokerOrderID m \<and>
     om_FailureReason row = om_FailureReason m \<and> om_Version row = om_Version m"
  by (auto simp: order_columns_def rbind_Inr_iff)

lemma order_row_stored:
  assumes "order_save_row U ord tbl = (Inr (), db_orders db)"
  shows "order_stored U ord db"
proof -
  obtain row where row: "order_columns (order_toModel U ord) = Inr row"
    and t: "db_orders db = al_set (OrderID_String U (ord_ID ord)) row tbl \<or>
      (\<exists>old. db_orders db = al_set (OrderID_String U (ord_ID ord)) (order_merge row old) tbl)"
    using order_save_row_store [OF assms] by auto
  from t order_columns_fields [OF row] show ?thesis
    by (auto simp: order_stored_def order_merge_def order_toModel_def)
qed

lemma positions_Save_Inr:
  assumes "positions_Save U p db = (Inr u, db')"
  shows "position_stored U p db' \<and> db_orders db' = db_orders db \<and> db_outbox db' = db_outbox db \<and> db_accounts db' = db_accounts db"
proof -
  obtain tbl' where s: "position_save U p (db_positions db) = (Inr (), tbl')" and db': "db' = db\<lparr>db_positions := tbl'\<rparr>"
    using assms by (auto simp: positions_Save_def split: prod.splits)
  have cols: "pm_Status row = PositionStatus_String (pos_Status p) \<and> pm_Version row = pos_Version p"
    if "position_columns (position_toModel U p) = Inr row" for row
    using that by (auto simp: position_columns_def rbind_Inr_iff position_toModel_def)
  show ?thesis
    using position_save_store [OF s] cols by (auto simp: position_stored_def db' position_merge_def)
qed

lemma fill_tx_Inr:
  assumes "fill_tx E ord pos acct t w = (Inr u, w')"
  shows "order_stored (en_U E) ord (w_db w') \<and> position_stored (en_U E) pos (w_db w') \<and>
    event_pending ''OrderFilled'' (EvOrder (OrderFilled ord t)) (w_db w') \<and>
    event_pending ''PositionOpened'' (EvPosition (PositionOpened pos t)) (w_db w')"
proof -
  let ?ev = "\<lambda>nm ev. ubind (newOutboxEvent E nm ev t) (uc_outbox_Insert E)"
  obtain w1 w2 w3 w4 where s1: "uc_orders_Save E ord w = (Inr (), w1)" and s2: "db_write E (positions_Save (en_U E) pos) w1 = (Inr (), w2)"
    and s3: "db_write E (accounts_Save (en_U E) acct) w2 = (Inr (), w3)"
    and s4: "?ev ''OrderFilled'' (EvOrder (OrderFilled ord t)) w3 = (Inr (), w4)"
    and s5: "?ev ''PositionOpened'' (EvPosition (PositionOpened pos t)) w4 = (Inr u, w')"
    using assms unfolding fill_tx_def by (auto simp: ubind_Inr)
  have 1: "order_stored (en_U E) ord (w_db w1)" using order_row_stored uc_orders_Save_Inr [OF s1] by blast
  have 2: "position_stored (en_U E) pos (w_db w2)" "db_orders (w_db w2) = db_orders (w_db w1)"
    using positions_Save_Inr db_write_frame [OF s2] by blast+
  have 3: "db_orders (w_db w3) = db_orders (w_db w2)" "db_positions (w_db w3) = db_positions (w_db w2)"
    using accounts_Save_Inr [OF conjunct1 [OF db_write_frame [OF s3]]] by auto
  show ?thesis
    using 1 2 3 outbox_step [OF s4] outbox_step [OF s5] by (simp add: order_stored_def position_stored_def)
qed

lemma keeps_books_stop: "keeps (on_db same_books) (place_stop E ord stop)"
  unfolding place_stop_def
  by (auto simp del: useq_simps intro!: same_books.keeps_intros same_books.keeps_broker_call keeps_books_incident split: sum.splits)

lemma raise_inTx: "raiseUnknownStateIncident E ord cause w = (r, w') \<Longrightarrow> w_inTx w' = w_inTx w"
  by (auto simp: raiseUnknownStateIncident_def ignored_def db_write_def infra_def usecase_steps
      elim!: ubindE attemptE split: sum.splits fault.splits prod.splits)

lemma reserve_margin_inTx: "reserve_margin E ord pos acct t w = (r, w') \<Longrightarrow> w_inTx w' = w_inTx w"
  by (auto simp: reserve_margin_def Let_def usecase_steps elim!: ubindE split: sum.splits dest: raise_inTx)

text \<open>What a booked fill amounts to.\<close>

definition fill_booked :: "'b Env \<Rightarrow> Order \<Rightarrow> Price \<Rightarrow> Order \<Rightarrow> DB \<Rightarrow> bool" where
  "fill_booked E ord price ord' db \<longleftrightarrow> (\<exists>t n stop target pos. MarkFilled ord price t = Inr ord' \<and>
     Open (en_D E) (en_uuid E n) (ord_Symbol ord') (ord_Side ord') (ord_Quantity ord') price stop target t = Inr pos \<and>
     position_stored (en_U E) pos db \<and> event_pending ''OrderFilled'' (EvOrder (OrderFilled ord' t)) db \<and>
     event_pending ''PositionOpened'' (EvPosition (PositionOpened pos t)) db)"

lemma reconcileFreshOrder_Inr:
  assumes "reconcileFreshOrder E ord bo stop target acct w = (Inr ord', w')" "\<not> w_inTx w" "order_stored (en_U E) ord (w_db w)"
  shows "order_stored (en_U E) ord' (w_db w') \<and> (ord' = ord \<or> (\<exists>price. bo_RawStatus bo = ''FILLED'' \<and> bo_AveragePrice bo = Some price \<and>
    fill_booked E ord price ord' (w_db w')))"
proof -
  consider (resting) "ord' = ord" "w' = w"
    | (filled) price where "bo_AveragePrice bo = Some price" "bo_RawStatus bo = ''FILLED''"
    using assms(1) by (auto simp: reconcileFreshOrder_def split: option.splits if_splits)
  then show ?thesis
  proof cases
    case filled
    let ?t = "en_clock E (w_tick w)"
    obtain pos acct' w3 w4 w5 where m: "MarkFilled ord price ?t = Inr ord'"
      and o: "Open (en_D E) (en_uuid E (w_tick (tick w))) (ord_Symbol ord') (ord_Side ord') (ord_Quantity ord') price (Some stop) (Some target) ?t = Inr pos"
      and res: "reserve_margin E ord' pos acct ?t (tick (tick w)) = (Inr acct', w3)"
      and tx: "WithinTransaction E (fill_tx E ord' pos acct' ?t) w3 = (Inr (), w4)" and st: "place_stop E ord' stop w4 = (Inr (), w')"
      using assms(1) filled unfolding reconcileFreshOrder_def by (auto simp: ubind_Inr wrapped_Inr usecase_steps)
    have "\<not> w_inTx w3" using reserve_margin_inTx [OF res] assms(2) by simp
    then obtain u w2 where "fill_tx E ord' pos acct' ?t ((tick w3)\<lparr>w_inTx := True\<rparr>) = (Inr u, w2)" "w_db w4 = w_db w2"
      using WithinTransaction_db [OF tx] by auto
    note booked = fill_tx_Inr [OF this(1)] this(2)
    have books: "same_books (w_db w4) (w_db w')"
      using same_books.keeps_app [OF keeps_books_stop st] by (simp add: on_db_def)
    have "order_stored (en_U E) ord' (w_db w')" using booked order_stored_books(1) [OF books] by simp
    moreover have "fill_booked E ord price ord' (w_db w')"
      unfolding fill_booked_def using booked order_stored_books [OF books] m o by (metis (no_types))
    ultimately show ?thesis using filled by blast
  qed (use assms(3) in simp)
qed

text \<open>An order that went through: for the decision, stored, and booked if it is filled.\<close>

definition order_through :: "'b Env \<Rightarrow> Order \<Rightarrow> Order \<Rightarrow> DB \<Rightarrow> bool" where
  "order_through E pending ord db \<longleftrightarrow> order_stored (en_U E) ord db \<and> ord_ID ord = ord_ID pending \<and>
     ord_ClientOrderID ord = ord_ClientOrderID pending \<and> ord_Quantity ord = ord_Quantity pending \<and>
     (ord_Status ord = StatusSubmitted \<or> ord_Status ord = StatusFilled \<and> (\<exists>submitted price. fill_booked E submitted price ord db))"

lemma Submit_fields:
  "Submit ord i t = Inr ord' \<Longrightarrow> ord_ID ord' = ord_ID ord \<and> ord_ClientOrderID ord' = ord_ClientOrderID ord \<and>
     ord_Quantity ord' = ord_Quantity ord \<and> ord_Status ord' = StatusSubmitted"
  by (auto simp: Submit_def transition_def rbind_def split: if_splits)

lemma MarkFilled_fields:
  "MarkFilled ord p t = Inr ord' \<Longrightarrow> ord_ID ord' = ord_ID ord \<and> ord_ClientOrderID ord' = ord_ClientOrderID ord \<and>
     ord_Quantity ord' = ord_Quantity ord \<and> ord_Status ord' = StatusFilled"
  by (auto simp: MarkFilled_def transition_def rbind_def split: if_splits)

lemma book_submission_Inr:
  assumes "book_submission E tradeSignal acct pending bo w = (Inr res, w')" "\<not> w_inTx w"
  shows "\<exists>ord. res = \<lparr>xr_Order = Some (ToOrderDTO (en_D E) (en_U E) ord), xr_Skipped = False, xr_SkipReason = ''''\<rparr> \<and>
    order_through E pending ord (w_db w')"
proof -
  obtain t sub ord w1 where s: "Submit pending (bo_BrokerOrderID bo) t = Inr sub"
    and tx: "order_tx E sub ''OrderSubmitted'' (EvOrder (OrderSubmitted sub t)) t (tick w) = (Inr (), w1)"
    and f: "reconcileFreshOrder E sub bo (sig_StopPrice tradeSignal) (sig_TargetPrice tradeSignal) acct w1 = (Inr ord, w')"
    and res: "res = \<lparr>xr_Order = Some (ToOrderDTO (en_D E) (en_U E) ord), xr_Skipped = False, xr_SkipReason = ''''\<rparr>"
    using assms(1) unfolding book_submission_def by (auto simp: ubind_Inr wrapped_Inr usecase_steps)
  have stored: "order_stored (en_U E) sub (w_db w1)" "\<not> w_inTx w1"
    using order_tx_Inr [OF tx] assms(2) order_row_stored by auto
  from reconcileFreshOrder_Inr [OF f stored(2,1)]
  have "order_through E pending ord (w_db w')"
    using Submit_fields [OF s] MarkFilled_fields unfolding order_through_def fill_booked_def by metis
  with res show ?thesis by blast
qed

lemma place_at_broker_Inr:
  assumes "place_at_broker E decision tradeSignal acct cid pending w = (Inr res, w')" "\<not> w_inTx w"
  shows "\<exists>ord. res = \<lparr>xr_Order = Some (ToOrderDTO (en_D E) (en_U E) ord), xr_Skipped = False, xr_SkipReason = ''''\<rparr> \<and>
    order_through E pending ord (w_db w')"
proof -
  have tx: "broker_call E g v = (q, v') \<Longrightarrow> w_inTx v' = w_inTx v" for g :: "'a \<Rightarrow> BrokerOrder result \<times> 'a" and v q v'
    by (auto simp: broker_call_def infra_def split: fault.splits prod.splits)
  obtain bo w1 where "book_submission E tradeSignal acct pending bo w1 = (Inr res, w')" "w_inTx w1 = w_inTx w"
    using assms(1) unfolding place_at_broker_def Let_def
    by (auto simp: ubind_Inr ufail_def dest!: attempt_result tx split: sum.splits if_splits)
  from book_submission_Inr [OF this(1)] this(2) assms(2) show ?thesis by simp
qed

text \<open>
  C5: What the use case reports as done is done: an execution that returns an order and was not
  skipped passed every guard, and the order it shows, for the approved quantity and under the
  decision's identifier, is stored with its status; if it is filled, the open position and the
  two events are stored as well. Whatever faults occurred on the way.
\<close>

theorem reported_is_stored:
  assumes "ExecuteApprovedOrder E rid w = (Inr res, w')" "\<not> xr_Skipped res" "\<not> w_inTx w"
  shows "\<exists>decision tradeSignal acct cid pending ord. guards_passed E rid (w_db w) decision tradeSignal acct cid \<and>
    xr_Order res = Some (ToOrderDTO (en_D E) (en_U E) ord) \<and> ord_ClientOrderID ord = cid \<and>
    ord_Quantity ord = dec_ApprovedPositionSize decision \<and> order_through E pending ord (w_db w')"
proof -
  obtain decision tradeSignal acct cid now w1 where g: "guards_passed E rid (w_db w) decision tradeSignal acct cid"
    and w1: "w_inTx w1 = w_inTx w" and run: "reserve_and_place E decision tradeSignal acct cid now w1 = (Inr res, w')"
    using assms(1,2) unfolding ExecuteApprovedOrder_def guards_passed_def
    by (auto simp: ubind_Inr wrapped_Inr usecase_steps skip_def split: if_splits sum.splits
        dest!: db_read_Inr db_read_Inl NewClientOrderID_text attempt_result) (metis tick_simps(3))+
  obtain n pending w2 where p: "NewPendingOrder (en_D E) n cid (sig_Symbol tradeSignal)
         (sig_Side tradeSignal) TypeMarket (dec_ApprovedPositionSize decision) None (Some (sig_StopPrice tradeSignal))
         (Some (sig_TargetPrice tradeSignal)) (sig_StrategyName tradeSignal) (sig_ID tradeSignal) (dec_ID decision) now = Inr pending"
    and w2: "\<not> w_inTx w2" and place: "place_at_broker E decision tradeSignal acct cid pending w2 = (Inr res, w')"
    using run assms(2,3) w1 unfolding reserve_and_place_def
    by (auto simp: ubind_Inr wrapped_Inr usecase_steps skip_def dest!: uc_Reserve_result order_tx_Inr split: if_splits)
  have "ord_ClientOrderID pending = cid" "ord_Quantity pending = dec_ApprovedPositionSize decision"
    using p by (auto simp: NewPendingOrder_def split: if_splits)
  moreover obtain ord where "res = \<lparr>xr_Order = Some (ToOrderDTO (en_D E) (en_U E) ord), xr_Skipped = False, xr_SkipReason = ''''\<rparr>"
    and through: "order_through E pending ord (w_db w')"
    using place_at_broker_Inr [OF place w2] by blast
  ultimately have "xr_Order res = Some (ToOrderDTO (en_D E) (en_U E) ord)" "ord_ClientOrderID ord = cid"
    "ord_Quantity ord = dec_ApprovedPositionSize decision"
    by (simp_all add: order_through_def)
  with g through show ?thesis by blast
qed

section \<open>Two failures that are not recorded as meant\<close>

text \<open>A transaction whose account write is stale never commits.\<close>

lemma stale_fill_fails:
  assumes "fill_tx E ord pos acct t w = (r, w')"
    "map_of (db_accounts (w_db w)) (AccountID_String (en_U E) (acc_ID acct)) = Some row" "am_Version (fst row) \<noteq> acc_Version acct - 1"
  shows "\<exists>e. r = Inl e"
proof (rule ccontr)
  assume "\<nexists>e. r = Inl e"
  then obtain u where "r = Inr u" by (cases r) auto
  with assms(1) obtain w1 w2 w3 where s1: "uc_orders_Save E ord w = (Inr (), w1)" and s2: "db_write E (positions_Save (en_U E) pos) w1 = (Inr (), w2)"
    and s3: "db_write E (accounts_Save (en_U E) acct) w2 = (Inr (), w3)"
    unfolding fill_tx_def by (auto simp: ubind_Inr)
  have "db_accounts (w_db w2) = db_accounts (w_db w)"
    using uc_orders_Save_Inr [OF s1] positions_Save_Inr db_write_frame [OF s2] by metis
  then obtain e where "account_save (en_U E) acct (db_accounts (w_db w2)) = (Inl e, db_accounts (w_db w2))"
    using account_store.stale_write_refused [of "db_accounts (w_db w2)" "en_U E" acct row] assms(2,3) by auto
  with db_write_frame [OF s3] show False by (auto simp: accounts_Save_def)
qed

lemma keeps_broker_margin: "keeps same_broker (reserve_margin E ord pos acct t)"
  unfolding reserve_margin_def raiseUnknownStateIncident_def ignored_def Let_def
  by (auto simp del: useq_simps intro!: same_broker.keeps_db_intros split: sum.splits)

lemma keeps_books_margin: "keeps (on_db same_books) (reserve_margin E ord pos acct t)"
  unfolding reserve_margin_def Let_def
  by (auto simp del: useq_simps intro!: same_books.keeps_intros keeps_books_incident split: sum.splits)

text \<open>
  C37: A fill the account cannot carry is not recorded: when the broker has filled the order and the
  notional exceeds the available balance, the account is not changed and so keeps its version, its
  write is refused as stale, and the whole transaction is rolled back. The use case fails, orders
  and positions are as before, and no protective stop is placed, although the broker holds the
  position.
\<close>

theorem margin_shortage_loses_fill:
  assumes "reconcileFreshOrder E ord bo stop target acct w = (r, w')" "\<not> w_inTx w"
    "bo_RawStatus bo = ''FILLED''" "bo_AveragePrice bo = Some price"
    "map_of (db_accounts (w_db w)) (AccountID_String (en_U E) (acc_ID acct)) = Some row" "am_Version (fst row) = acc_Version acct"
    "Money_GreaterThan (en_D E) (NewMoney (dMul (en_D E) (Quantity_Decimal (ord_Quantity ord)) (Price_Decimal price))) (acc_AvailableBalance acct)"
  shows "(\<exists>e. r = Inl e) \<and> same_books (w_db w) (w_db w') \<and> w_broker w' = w_broker w"
proof -
  have tx: "(\<exists>e. q = Inl e) \<and> same_books (w_db w) (w_db w2) \<and> w_broker w2 = w_broker w"
    if res: "reserve_margin E ord' pos acct t (tick (tick w)) = (Inr acct', w1)"
      and run: "WithinTransaction E (fill_tx E ord' pos acct' t) w1 = (q, w2)"
      and pos: "pos_Quantity pos = ord_Quantity ord" "pos_EntryPrice pos = price" for ord' pos t acct' w1 q w2
  proof -
    have acct': "acct' = acct"
      using res pos assms(7) by (auto simp: reserve_margin_def ReserveMargin_def Let_def ubind_Inr usecase_steps)
    have books: "same_books (w_db w) (w_db w1)" using same_books.keeps_app [OF keeps_books_margin res] by (simp add: on_db_def)
    have inTx: "\<not> w_inTx w1" using reserve_margin_inTx [OF res] assms(2) by simp
    have broker: "w_broker w1 = w_broker w"
      using same_broker.keeps_app [OF keeps_broker_margin res] by (simp add: same_broker_def)
    have "keeps same_broker (WithinTransaction E (fill_tx E ord' pos acct' t))"
      unfolding fill_tx_def by (intro same_broker.keeps_db_intros)
    then have broker2: "w_broker w2 = w_broker w1" using same_broker.keeps_app run by (fastforce simp: same_broker_def)
    have "\<exists>e. fst (fill_tx E ord' pos acct' t ((tick w1)\<lparr>w_inTx := True\<rparr>)) = Inl e"
      using stale_fill_fails [of E ord' pos acct' t "(tick w1)\<lparr>w_inTx := True\<rparr>" _ _ row] books assms(5,6)
      by (cases "fill_tx E ord' pos acct' t ((tick w1)\<lparr>w_inTx := True\<rparr>)") (auto simp: same_books_def acct')
    then have "(\<exists>e. q = Inl e) \<and> w_db w2 = w_db w1" using WithinTransaction_db [OF run inTx] by auto
    with books broker broker2 show ?thesis by auto
  qed
  have opened: "pos_Quantity pos = ord_Quantity ord \<and> pos_EntryPrice pos = price"
    if "MarkFilled ord price t = Inr ord'" "Open D n (ord_Symbol ord') (ord_Side ord') (ord_Quantity ord') price s g t = Inr pos" for t ord' D n s g pos
    using that MarkFilled_fields [OF that(1)] by (auto simp: Open_def split: if_splits)
  have margin: "same_books (w_db w) (w_db w1) \<and> w_broker w1 = w_broker w" if "reserve_margin E ord' pos acct t (tick (tick w)) = (q, w1)" for ord' pos t q w1
    using same_books.keeps_app [OF keeps_books_margin that] same_broker.keeps_app [OF keeps_broker_margin that]
    by (simp add: on_db_def same_broker_def)
  show ?thesis
    using assms(1) unfolding reconcileFreshOrder_def
    by (auto simp: assms(3,4) usecase_steps same_books.db_refl elim!: ubindE wrappedE dest: margin)
      (metis opened tx sum.distinct(1))+
qed

text \<open>Only a panic leaves these steps as an error, and every other error of the booking is wrapped.\<close>

lemma ignored_panic: "ignored m w = (Inl e, w') \<Longrightarrow> is_panic e"
  by (auto simp: ignored_def attempt_def split: prod.splits sum.splits if_splits)

lemma raise_panic: "raiseUnknownStateIncident E ord cause w = (Inl e, w') \<Longrightarrow> is_panic e"
  by (auto simp: raiseUnknownStateIncident_def usecase_steps elim!: ubindE dest: ignored_panic split: sum.splits)

lemma wrap_error_cases: "is_panic (wrap_error c e) \<or> (\<exists>e'. wrap_error c e = WrapPrefix c e')"
  by (simp add: wrap_error_def)

definition state_unknown :: "error \<Rightarrow> bool" where
  "state_unknown e \<longleftrightarrow> (\<exists>s. e = WrapSuffix ErrBrokerOrderStateUnknown s)"

lemma not_unknown: "is_panic e \<Longrightarrow> \<not> state_unknown e" "\<not> state_unknown (wrap_error c e)"
  by (auto simp: state_unknown_def is_panic_def wrap_error_def split: error.splits)

lemma place_stop_panic: "place_stop E ord stop w = (Inl e, w') \<Longrightarrow> is_panic e"
  by (auto simp: place_stop_def usecase_steps mustStopClientOrderID_def is_panic_def attempt_def elim!: ubindE
      dest: raise_panic [unfolded is_panic_def] split: if_splits sum.splits prod.splits)

lemma reserve_margin_panic: "reserve_margin E ord pos acct t w = (Inl e, w') \<Longrightarrow> is_panic e"
  by (auto simp: reserve_margin_def Let_def usecase_steps elim!: ubindE dest: raise_panic split: sum.splits)

lemma book_submission_known: "book_submission E tradeSignal acct pending bo w = (Inl e, w') \<Longrightarrow> \<not> state_unknown e"
  unfolding book_submission_def reconcileFreshOrder_def
  by (auto simp: usecase_steps not_unknown elim!: ubindE wrappedE split: option.splits if_splits
      dest!: place_stop_panic reserve_margin_panic dest: not_unknown(1))

lemma stale_order_save:
  assumes "ord_Status pending = StatusPending" "order_stored (en_U E) pending (w_db w)"
    "ignored (uc_orders_Save E (or_same (MarkUnknown pending now) pending)) w = (r, w')"
  shows "order_stored (en_U E) pending (w_db w')"
proof -
  have same: "or_same (MarkUnknown pending now) pending = pending"
    using assms(1) by (simp add: or_same_def MarkUnknown_def transition_def OrderStatus_CanTransition_def allowedStatusTransitions_def)
  obtain row where row: "map_of (db_orders (w_db w)) (OrderID_String (en_U E) (ord_ID pending)) = Some row" "om_Version row = ord_Version pending"
    using assms(2) by (auto simp: order_stored_def)
  have refused: "db_orders (snd (orders_Save (en_U E) fresh t pending (w_db w))) = db_orders (w_db w)" for fresh t
  proof -
    obtain e where "order_save_row (en_U E) pending (db_orders (w_db w)) = (Inl e, db_orders (w_db w))"
      using order_store.stale_write_refused [of "db_orders (w_db w)" "en_U E" pending row] row by auto
    then show ?thesis by (simp add: orders_Save_def)
  qed
  have "db_orders (w_db (snd (uc_orders_Save E pending w))) = db_orders (w_db w)"
    using refused by (auto simp: uc_orders_Save_def ubind_def Now_def NewUUID_def db_write_def infra_def split: fault.splits prod.splits)
      (metis snd_conv)+
  then have "db_orders (w_db w') = db_orders (w_db w)"
    using assms(3) unfolding same by (auto simp: ignored_def attempt_def usecase_steps split: prod.splits sum.splits if_splits)
  with assms(2) show ?thesis by (simp add: order_stored_def)
qed

text \<open>
  C38: An order in an unknown state is not marked so: the transition from PENDING to UNKNOWN is not in
  the table, its error is dropped, and the save that follows writes the version that is already
  there and is refused. Whenever the execution reports that the state at the broker is unknown,
  the stored order still says PENDING.
\<close>

theorem unknown_state_stays_pending:
  assumes "place_at_broker E decision tradeSignal acct cid pending w = (Inl e, w')" "state_unknown e"
    "ord_Status pending = StatusPending" "order_stored (en_U E) pending (w_db w)"
  shows "order_stored (en_U E) pending (w_db w')"
proof -
  have call: "w_db v' = w_db v" if "broker_call E g v = (q, v')" for g :: "'a \<Rightarrow> BrokerOrder result \<times> 'a" and v q v'
    using that by (auto simp: broker_call_def infra_def split: fault.splits prod.splits)
  have not_found: "\<not> state_unknown (WrapPrefix c x)" for c x by (simp add: state_unknown_def)
  obtain now w1 w2 cause where w1: "w_db w1 = w_db w"
    and s: "ignored (uc_orders_Save E (or_same (MarkUnknown pending now) pending)) w1 = (Inr (), w2)"
    and i: "raiseUnknownStateIncident E (or_same (MarkUnknown pending now) pending) cause w2 = (Inr (), w')"
    using assms(1,2) unfolding place_at_broker_def Let_def
    by (auto elim!: ubindE attemptE simp: usecase_steps not_found dest!: call not_unknown(1) book_submission_known ignored_panic raise_panic
        split: sum.splits if_splits) (metis tick_simps(1))
  have "order_stored (en_U E) pending (w_db w2)"
    using stale_order_save [OF assms(3) _ s] assms(4) w1 by (simp add: order_stored_def)
  moreover have "same_books (w_db w2) (w_db w')"
    using same_books.keeps_app [OF keeps_books_incident i] by (simp add: on_db_def)
  ultimately show ?thesis by (rule order_stored_books(1) [rotated])
qed

section \<open>An execution that succeeds\<close>

text \<open>The row of an order as the sole owner of its client order id, ready for the next version.\<close>

definition order_slot :: "uuid_ops \<Rightarrow> Order \<Rightarrow> order_model table \<Rightarrow> bool" where
  "order_slot U ord tbl \<longleftrightarrow> (\<exists>old. map_of tbl (OrderID_String U (ord_ID ord)) = Some old \<and> om_Version old = ord_Version ord \<and>
     om_ClientOrderID old = ClientOrderID_String (ord_ClientOrderID ord)) \<and>
     (\<forall>k r. (k, r) \<in> set tbl \<longrightarrow> k \<noteq> OrderID_String U (ord_ID ord) \<longrightarrow> om_ClientOrderID r \<noteq> ClientOrderID_String (ord_ClientOrderID ord))"

lemma in_al_set: "(j, r) \<in> set (al_set k v tbl) \<Longrightarrow> j = k \<or> (j, r) \<in> set tbl"
  by (induction k v tbl rule: al_set.induct) (auto split: if_splits)

lemma order_save_new:
  assumes "map_of (db_orders db) (OrderID_String U (ord_ID ord)) = None" "ClientOrderID_String (ord_ClientOrderID ord) \<notin> client_ids db"
    "order_columns (order_toModel U ord) = Inr row"
  shows "\<exists>tbl'. order_save_row U ord (db_orders db) = (Inr (), tbl') \<and> order_slot U ord tbl'"
proof -
  let ?k = "OrderID_String U (ord_ID ord)" and ?c = "ClientOrderID_String (ord_ClientOrderID ord)"
  have f: "om_ClientOrderID row = ?c" "om_Version row = ord_Version ord"
    using order_columns_keeps [OF assms(3)] order_columns_fields [OF assms(3)] by (simp_all add: order_toModel_def)
  have others: "\<forall>k r. (k, r) \<in> set (db_orders db) \<longrightarrow> om_ClientOrderID r \<noteq> ?c"
    using assms(2) by (force simp: client_ids_def)
  then have "\<not> list_ex (\<lambda>(k, r). k \<noteq> ?k \<and> order_clash r row) (db_orders db)"
    by (auto simp: list_ex_iff order_clash_def f)
  then have "order_save_row U ord (db_orders db) = (Inr (), al_set ?k row (db_orders db))"
    using assms(1,3) by (simp add: order_save_row_def save_row_def order_upsert_def sql_upsert_def Let_def)
  moreover have "order_slot U ord (al_set ?k row (db_orders db))"
    using others f by (auto simp: order_slot_def dest!: in_al_set)
  ultimately show ?thesis by blast
qed

lemma order_save_next:
  assumes "order_slot U ord tbl" "ord_ID ord' = ord_ID ord" "ord_ClientOrderID ord' = ord_ClientOrderID ord"
    "ord_Version ord' = ord_Version ord + 1" "order_columns (order_toModel U ord') = Inr row"
  shows "\<exists>tbl'. order_save_row U ord' tbl = (Inr (), tbl') \<and> order_slot U ord' tbl'"
proof -
  let ?k = "OrderID_String U (ord_ID ord)" and ?c = "ClientOrderID_String (ord_ClientOrderID ord)"
  obtain old where old: "map_of tbl ?k = Some old" "om_Version old = ord_Version ord" "om_ClientOrderID old = ?c"
    and others: "\<forall>k r. (k, r) \<in> set tbl \<longrightarrow> k \<noteq> ?k \<longrightarrow> om_ClientOrderID r \<noteq> ?c"
    using assms(1) by (auto simp: order_slot_def)
  have f: "om_ClientOrderID (order_merge row old) = ?c" "om_Version (order_merge row old) = ord_Version ord'"
    using old order_columns_fields [OF assms(5)] by (simp_all add: order_merge_def order_toModel_def)
  have "\<not> list_ex (\<lambda>(k, r). k \<noteq> ?k \<and> order_clash r (order_merge row old)) tbl"
    using others by (auto simp: list_ex_iff order_clash_def f)
  then have "order_save_row U ord' tbl = (Inr (), al_set ?k (order_merge row old) tbl)"
    using assms(2-5) old by (simp add: order_save_row_def save_row_def order_upsert_def sql_upsert_def Let_def)
  moreover have "order_slot U ord' (al_set ?k (order_merge row old) tbl)"
    using others f by (auto simp: order_slot_def assms(2,3) dest!: in_al_set)
  ultimately show ?thesis by blast
qed

text \<open>
  The identifiers drawn in the next \<open>k\<close> steps are distinct, and no event and no audit row has them.
  There are finitely many identifiers, so this is asked of the steps of one run only.
\<close>

definition fresh_from :: "'b Env \<Rightarrow> nat \<Rightarrow> 'b World \<Rightarrow> bool" where
  "fresh_from E k w \<longleftrightarrow> (\<forall>n\<in>{w_tick w..<w_tick w + k}. map_of (db_outbox (w_db w)) (uString (en_U E) (en_uuid E n)) = None \<and>
     map_of (db_executions (w_db w)) (uString (en_U E) (en_uuid E n)) = None) \<and>
     inj_on (\<lambda>n. uString (en_U E) (en_uuid E n)) {w_tick w..<w_tick w + k}"

definition fresh_positions :: "'b Env \<Rightarrow> DB \<Rightarrow> bool" where
  "fresh_positions E db \<longleftrightarrow> (\<forall>n. map_of (db_positions db) (uString (en_U E) (en_uuid E n)) = None)"

text \<open>A run of \<open>k\<close> steps that keeps the transaction flag and the broker.\<close>

definition advances :: "nat \<Rightarrow> 'b World \<Rightarrow> 'b World \<Rightarrow> bool" where
  "advances k w w' \<longleftrightarrow> w_tick w' = w_tick w + k \<and> w_inTx w' = w_inTx w \<and> w_broker w' = w_broker w"

lemma tick_count [simp]: "w_tick (tick w) = w_tick w + 1"
  by (simp add: tick_def)

lemma fresh_from_key:
  assumes "fresh_from E k w" "0 < k"
  shows "map_of (db_outbox (w_db w)) (uString (en_U E) (en_uuid E (w_tick w))) = None"
    "map_of (db_executions (w_db w)) (uString (en_U E) (en_uuid E (w_tick w))) = None"
  using assms by (auto simp: fresh_from_def)

text \<open>Storing one row under the identifier just drawn leaves the later ones fresh.\<close>

lemma fresh_from_next:
  assumes "fresh_from E k w" "w_tick w' = w_tick w + j" "j + k' \<le> k" "0 < j"
    and "db_outbox (w_db w') = db_outbox (w_db w) \<or> (\<exists>r. db_outbox (w_db w') = al_set (uString (en_U E) (en_uuid E (w_tick w))) r (db_outbox (w_db w)))"
    and "db_executions (w_db w') = db_executions (w_db w) \<or>
      (\<exists>r. db_executions (w_db w') = al_set (uString (en_U E) (en_uuid E (w_tick w))) r (db_executions (w_db w)))"
  shows "fresh_from E k' w'"
proof -
  let ?S = "{w_tick w..<w_tick w + k}" and ?S' = "{w_tick w'..<w_tick w' + k'}"
  have sub: "?S' \<subseteq> ?S" "w_tick w \<notin> ?S'" "?S' \<noteq> {} \<Longrightarrow> w_tick w \<in> ?S" using assms(2-4) by auto
  have inj: "inj_on (\<lambda>n. uString (en_U E) (en_uuid E n)) ?S" using assms(1) by (simp add: fresh_from_def)
  have other: "uString (en_U E) (en_uuid E n) \<noteq> uString (en_U E) (en_uuid E (w_tick w))" if "n \<in> ?S'" for n
    using inj_on_eq_iff [OF inj, of n "w_tick w"] sub that by blast
  have "map_of (db_outbox (w_db w')) (uString (en_U E) (en_uuid E n)) = None \<and>
      map_of (db_executions (w_db w')) (uString (en_U E) (en_uuid E n)) = None" if n: "n \<in> ?S'" for n
  proof -
    have "map_of (db_outbox (w_db w)) (uString (en_U E) (en_uuid E n)) = None"
      "map_of (db_executions (w_db w)) (uString (en_U E) (en_uuid E n)) = None"
      using assms(1) sub(1) n unfolding fresh_from_def by blast+
    with assms(5,6) other [OF n] show ?thesis by auto
  qed
  with inj_on_subset [OF inj sub(1)] show ?thesis unfolding fresh_from_def by blast
qed

lemma fresh_from_mono: "fresh_from E k w \<Longrightarrow> w_tick w' = w_tick w + j \<Longrightarrow> j + k' \<le> k \<Longrightarrow> 0 < j \<Longrightarrow> db_outbox (w_db w') = db_outbox (w_db w) \<Longrightarrow>
    db_executions (w_db w') = db_executions (w_db w) \<Longrightarrow> fresh_from E k' w'"
  by (erule (2) fresh_from_next) simp_all

lemma outbox_step_ok:
  assumes "no_faults E" "fresh_from E (k + 3) w"
  shows "\<exists>w'. ubind (newOutboxEvent E ty pl t) (uc_outbox_Insert E) w = (Inr (), w') \<and> fresh_from E k w' \<and> advances 3 w w' \<and>
    db_orders (w_db w') = db_orders (w_db w) \<and> db_positions (w_db w') = db_positions (w_db w) \<and> db_accounts (w_db w') = db_accounts (w_db w)"
proof -
  let ?k = "uString (en_U E) (en_uuid E (w_tick w))"
  let ?evt = "\<lparr>oe_ID = ?k, oe_EventType = ty, oe_Payload = pl, oe_Status = OutboxStatusPending, oe_Attempts = 0, oe_CreatedAt = t,
      oe_ProcessedAt = None, oe_LastError = ''''\<rparr>"
  have none: "map_of (db_outbox (w_db w)) ?k = None" using fresh_from_key(1) [OF assms(2)] by simp
  let ?row = "?evt\<lparr>oe_CreatedAt := timestamptz (en_clock E (w_tick w + 1))\<rparr>"
  let ?w = "tick (tick (tick w))\<lparr>w_db := (w_db w)\<lparr>db_outbox := al_set ?k ?row (db_outbox (w_db w))\<rparr>\<rparr>"
  have run: "ubind (newOutboxEvent E ty pl t) (uc_outbox_Insert E) w = (Inr (), ?w)"
    using assms(1) none by (simp add: newOutboxEvent_def uc_outbox_Insert_def ubind_go NewUUID_def Now_def db_write_def infra_ok
        outbox_Insert_def sql_insert_def)
  have "fresh_from E k ?w"
    by (rule fresh_from_next [OF assms(2), where j = 3]) auto
  with run show ?thesis by (intro exI [of _ ?w]) (simp add: advances_def)
qed

text \<open>The audit row of an executed order fits its columns.\<close>

definition execution_fits :: "Order \<Rightarrow> bool" where
  "execution_fits ord \<longleftrightarrow> ((ord_Status ord = StatusFilled \<or> ord_Status ord = StatusPartiallyFilled) \<longrightarrow>
     fits 24 8 (Quantity_Decimal (ord_FilledQuantity ord)) \<and>
     (case ord_AverageExecutionPrice ord of None \<Rightarrow> True | Some p \<Rightarrow> fits 24 8 (Price_Decimal p)))"

lemma orders_step_ok:
  assumes "no_faults E" "fresh_from E (k + 3) w" "order_save_row (en_U E) ord (db_orders (w_db w)) = (Inr (), tbl')" "execution_fits ord"
  shows "\<exists>w'. uc_orders_Save E ord w = (Inr (), w') \<and> fresh_from E k w' \<and> advances 3 w w' \<and> db_orders (w_db w') = tbl' \<and>
    db_positions (w_db w') = db_positions (w_db w) \<and> db_accounts (w_db w') = db_accounts (w_db w)"
proof -
  let ?k = "uString (en_U E) (en_uuid E (w_tick w))" and ?t = "en_clock E (w_tick w + 1)"
  let ?db = "snd (orders_Save (en_U E) (en_uuid E (w_tick w)) ?t ord (w_db w))"
  have none: "map_of (db_executions (w_db w)) ?k = None" using fresh_from_key(2) [OF assms(2)] by simp
  have ok: "orders_Save (en_U E) (en_uuid E (w_tick w)) ?t ord (w_db w) = (Inr (), ?db) \<and> db_orders ?db = tbl' \<and>
      db_positions ?db = db_positions (w_db w) \<and> db_accounts ?db = db_accounts (w_db w) \<and> db_outbox ?db = db_outbox (w_db w) \<and>
      (db_executions ?db = db_executions (w_db w) \<or> (\<exists>r. db_executions ?db = al_set ?k r (db_executions (w_db w))))"
    using assms(3,4) none
    by (auto simp: orders_Save_def Let_def execution_fits_def sql_insert_def rbind_def split: option.splits)
  let ?w = "tick (tick (tick w))\<lparr>w_db := ?db\<rparr>"
  have run: "uc_orders_Save E ord w = (Inr (), ?w)"
    using assms(1) ok by (simp add: uc_orders_Save_def ubind_go NewUUID_def Now_def db_write_ok)
  have "fresh_from E k ?w"
    by (rule fresh_from_next [OF assms(2), where j = 3]) (use ok in auto)
  with run ok show ?thesis by (intro exI [of _ ?w]) (simp add: advances_def)
qed

lemma write_step_ok:
  assumes "no_faults E" "f (w_db w) = (Inr (), d)"
  shows "db_write E f w = (Inr (), (tick w)\<lparr>w_db := d\<rparr>)"
  using db_write_ok [of E f w] assms by simp

lemma order_tx_ok:
  assumes "no_faults E" "\<not> w_inTx w" "fresh_from E (k + 8) w" "order_save_row (en_U E) ord (db_orders (w_db w)) = (Inr (), tbl')" "execution_fits ord"
  shows "\<exists>w'. order_tx E ord nm ev t w = (Inr (), w') \<and> fresh_from E k w' \<and> advances 8 w w' \<and> db_orders (w_db w') = tbl' \<and>
    db_positions (w_db w') = db_positions (w_db w) \<and> db_accounts (w_db w') = db_accounts (w_db w)"
proof -
  let ?w0 = "(tick w)\<lparr>w_inTx := True\<rparr>"
  have "fresh_from E (k + 4 + 3) ?w0" by (rule fresh_from_mono [OF assms(3), where j = 1]) simp_all
  then obtain w1 where w1: "uc_orders_Save E ord ?w0 = (Inr (), w1)" "fresh_from E (k + 4) w1" "advances 3 ?w0 w1" "db_orders (w_db w1) = tbl'"
      "db_positions (w_db w1) = db_positions (w_db w)" "db_accounts (w_db w1) = db_accounts (w_db w)"
    using orders_step_ok [OF assms(1), of "k + 4" ?w0 ord tbl'] assms(4,5) by auto
  have "fresh_from E (k + 1 + 3) w1" using w1(2) by (simp add: ac_simps)
  then obtain w2 where w2: "ubind (newOutboxEvent E nm ev t) (uc_outbox_Insert E) w1 = (Inr (), w2)" "fresh_from E (k + 1) w2" "advances 3 w1 w2"
      "db_orders (w_db w2) = tbl'" "db_positions (w_db w2) = db_positions (w_db w)" "db_accounts (w_db w2) = db_accounts (w_db w)"
    using outbox_step_ok [OF assms(1), of "k + 1" w1 nm ev t] w1(4-6) by auto
  let ?fn = "ubind (uc_orders_Save E ord) (\<lambda>_. ubind (newOutboxEvent E nm ev t) (\<lambda>evt. uc_outbox_Insert E evt))"
  have "?fn ?w0 = (Inr (), w2)" using w1(1) w2(1) by (simp add: ubind_go)
  then have run: "order_tx E ord nm ev t w = (Inr (), (tick w2)\<lparr>w_inTx := False\<rparr>)"
    unfolding order_tx_def by (rule WithinTransaction_ok [OF assms(1,2), where fn = ?fn])
  have "fresh_from E k ((tick w2)\<lparr>w_inTx := False\<rparr>)" by (rule fresh_from_mono [OF w2(2), where j = 1]) simp_all
  with run w1(3) w2(3-6) assms(2) show ?thesis
    by (intro exI [of _ "(tick w2)\<lparr>w_inTx := False\<rparr>"]) (simp add: advances_def)
qed

lemma position_save_new:
  assumes "map_of tbl (PositionID_String U (pos_ID p)) = None" "position_columns (position_toModel U p) = Inr row"
    "\<forall>k r. (k, r) \<in> set tbl \<longrightarrow> \<not> (pm_Symbol r = Symbol_String (pos_Symbol p) \<and> pm_Status r = ''OPEN'')"
  shows "position_save U p tbl = (Inr (), al_set (PositionID_String U (pos_ID p)) row tbl)"
proof -
  have "pm_Symbol row = Symbol_String (pos_Symbol p)"
    using assms(2) by (auto simp: position_columns_def rbind_Inr_iff position_toModel_def)
  then have "\<not> list_ex (\<lambda>(k, r). k \<noteq> PositionID_String U (pos_ID p) \<and> position_clash r row) tbl"
    using assms(3) by (auto simp: list_ex_iff position_clash_def)
  then show ?thesis
    using assms(1,2) by (simp add: position_save_def save_row_def position_upsert_def sql_upsert_def Let_def)
qed

lemma fill_tx_ok:
  assumes "no_faults E" "fresh_from E 11 w" "order_save_row (en_U E) ord (db_orders (w_db w)) = (Inr (), tbl')" "execution_fits ord"
    "position_save (en_U E) pos (db_positions (w_db w)) = (Inr (), pt)" "account_save (en_U E) acct (db_accounts (w_db w)) = (Inr (), ct)"
  shows "\<exists>w'. fill_tx E ord pos acct t w = (Inr (), w')"
proof -
  have "fresh_from E (8 + 3) w" using assms(2) by simp
  then obtain w1 where w1: "uc_orders_Save E ord w = (Inr (), w1)" "fresh_from E 8 w1"
      "db_positions (w_db w1) = db_positions (w_db w)" "db_accounts (w_db w1) = db_accounts (w_db w)"
    using orders_step_ok [OF assms(1) _ assms(3,4)] by blast
  define w2 where "w2 = (tick w1)\<lparr>w_db := (w_db w1)\<lparr>db_positions := pt\<rparr>\<rparr>"
  have s2: "db_write E (positions_Save (en_U E) pos) w1 = (Inr (), w2)"
    unfolding w2_def by (rule write_step_ok [OF assms(1)]) (simp add: positions_Save_def w1(3) assms(5))
  define w3 where "w3 = (tick w2)\<lparr>w_db := (w_db w2)\<lparr>db_accounts := ct\<rparr>\<rparr>"
  have s3: "db_write E (accounts_Save (en_U E) acct) w2 = (Inr (), w3)"
    unfolding w3_def by (rule write_step_ok [OF assms(1)]) (simp add: accounts_Save_def w2_def w1(4) assms(6))
  have "fresh_from E (0 + 3 + 3) w3" by (rule fresh_from_mono [OF w1(2), where j = 2]) (simp_all add: w3_def w2_def)
  then obtain w4 where w4: "ubind (newOutboxEvent E ''OrderFilled'' (EvOrder (OrderFilled ord t)) t) (uc_outbox_Insert E) w3 = (Inr (), w4)"
      "fresh_from E (0 + 3) w4" using outbox_step_ok [OF assms(1)] by blast
  obtain w5 where w5: "ubind (newOutboxEvent E ''PositionOpened'' (EvPosition (PositionOpened pos t)) t) (uc_outbox_Insert E) w4 = (Inr (), w5)"
    using outbox_step_ok [OF assms(1) w4(2)] by blast
  have s4: "ubind (newOutboxEvent E ''OrderFilled'' (EvOrder (OrderFilled ord t)) t) (\<lambda>evt. ubind (uc_outbox_Insert E evt) k) w3 = k () w4"
    for k :: "unit \<Rightarrow> ('a, unit) usecase"
    unfolding ubind_assoc [symmetric] by (rule ubind_go) (rule w4(1))
  have "fill_tx E ord pos acct t w = (Inr (), w5)"
    using w1(1) s2 s3 s4 w5 by (simp add: fill_tx_def ubind_go)
  then show ?thesis by blast
qed

text \<open>What the success of an execution takes of the order, the broker's answer and the account.\<close>

definition order_fits :: "Order \<Rightarrow> bool" where
  "order_fits ord \<longleftrightarrow> fits_quantity (ord_Quantity ord) \<and> fits_quantity (ord_FilledQuantity ord) \<and> fits_price_opt (ord_RequestedPrice ord) \<and>
     fits_price_opt (ord_AverageExecutionPrice ord) \<and> fits_price_opt (ord_StopPrice ord) \<and> fits_price_opt (ord_TargetPrice ord)"

lemma order_fits_columns: "order_fits ord \<Longrightarrow> \<exists>row. order_columns (order_toModel U ord) = Inr row"
  by (simp add: order_fits_def order_columns_def order_toModel_def fits_quantity_def)

lemma order_fits_execution: "order_fits ord \<Longrightarrow> execution_fits ord"
  by (auto simp: order_fits_def execution_fits_def fits_quantity_def fits_price_opt_def fits_price_def split: option.splits)


lemma Submit_ok: "ord_Status ord = StatusPending \<Longrightarrow> i \<noteq> '''' \<Longrightarrow>
    Submit ord i t = Inr (ord\<lparr>ord_Status := StatusSubmitted, ord_UpdatedAt := t, ord_Version := ord_Version ord + 1, ord_BrokerOrderID := i\<rparr>)"
  by (simp add: Submit_def transition_def OrderStatus_CanTransition_def allowedStatusTransitions_def OrderStatus_Valid_def)

lemma MarkFilled_ok: "ord_Status ord = StatusSubmitted \<Longrightarrow>
    MarkFilled ord p t = Inr (ord\<lparr>ord_Status := StatusFilled, ord_UpdatedAt := t, ord_Version := ord_Version ord + 1,
      ord_FilledQuantity := ord_Quantity ord, ord_AverageExecutionPrice := Some p\<rparr>)"
  by (simp add: MarkFilled_def transition_def OrderStatus_CanTransition_def allowedStatusTransitions_def OrderStatus_Valid_def)

text \<open>The account can carry the position and is the one stored.\<close>

definition account_ready :: "'b Env \<Rightarrow> Account \<Rightarrow> Quantity \<Rightarrow> Price \<Rightarrow> account_row table \<Rightarrow> bool" where
  "account_ready E acct q price tbl \<longleftrightarrow> accounts_ok (en_U E) tbl \<and> account_storable acct \<and>
     (\<exists>m. active_row tbl = Some m \<and> account_toDomain (en_D E) (en_U E) m = Inr acct) \<and>
     Quantity_Decimal q * Price_Decimal price \<le> Money_Decimal (acc_AvailableBalance acct) \<and>
     fits 24 8 (Money_Decimal (acc_AvailableBalance acct) - Quantity_Decimal q * Price_Decimal price)"

lemma account_ready_saves:
  assumes "decimal_lib (en_D E)" "uuid_lib (en_U E)" "account_ready E acct q price tbl"
  shows "\<exists>acct' ct. ReserveMargin (en_D E) acct (NewMoney (dMul (en_D E) (Quantity_Decimal q) (Price_Decimal price))) t = Inr acct' \<and>
    account_save (en_U E) acct' tbl = (Inr (), ct)"
proof -
  let ?a = "acct\<lparr>acc_AvailableBalance := Money (Money_Decimal (acc_AvailableBalance acct) - Quantity_Decimal q * Price_Decimal price),
      acc_Version := acc_Version acct + 1, acc_UpdatedAt := t\<rparr>"
  have r: "ReserveMargin (en_D E) acct (NewMoney (dMul (en_D E) (Quantity_Decimal q) (Price_Decimal price))) t = Inr ?a"
    using assms by (simp add: ReserveMargin_def account_ready_def vo_defs)
  have "\<exists>row. account_columns (account_toModel (en_U E) ?a) = Inr row"
    using assms(3) by (simp add: account_ready_def account_storable_def account_columns_def account_toModel_def)
  then obtain row where row: "account_columns (account_toModel (en_U E) ?a) = Inr row" ..
  obtain m where "active_row tbl = Some m" "account_toDomain (en_D E) (en_U E) m = Inr acct" "accounts_ok (en_U E) tbl"
    using assms(3) by (auto simp: account_ready_def)
  then have "\<exists>ct. account_save (en_U E) ?a tbl = (Inr (), ct)"
    using account_save_next [OF assms(2) _ _ _ _ _ row] by simp
  with r show ?thesis by blast
qed

text \<open>The request for the protective stop.\<close>

definition stop_request :: "Order \<Rightarrow> Price \<Rightarrow> ClientOrderID \<Rightarrow> PlaceStopRequest" where
  "stop_request ord stop i = \<lparr>psr_ClientOrderID = i, psr_Symbol = ord_Symbol ord, psr_Side = Side_Opposite (ord_Side ord),
     psr_Quantity = ord_Quantity ord, psr_StopPrice = stop\<rparr>"

text \<open>A stop that is refused is no failure of the execution, as long as the adapter does not panic.\<close>

definition stop_answers :: "'b Env \<Rightarrow> bool" where
  "stop_answers E \<longleftrightarrow> (\<forall>b req e. fst (br_PlaceStop (en_B E) b req) = Inl e \<longrightarrow> \<not> is_panic e)"

lemma incidents_Save_error: "incidents_Save U i db = (Inl e, db') \<Longrightarrow> \<not> is_panic e"
  by (auto simp: incidents_Save_def sql_upsert_def Let_def is_panic_def split: sum.splits option.splits if_splits)

lemma raise_ok: "no_faults E \<Longrightarrow> \<exists>w'. raiseUnknownStateIncident E ord cause w = (Inr (), w') \<and> w_broker w' = w_broker w"
  by (auto simp: raiseUnknownStateIncident_def ubind_go Now_def NewUUID_def ignored_def attempt_def db_write_def infra_ok
      split: sum.splits prod.splits dest: incidents_Save_error)

lemma place_stop_ok:
  assumes "no_faults E" "stop_answers E" "34 \<le> length (ClientOrderID_String (ord_ClientOrderID ord))"
  shows "\<exists>w' i. place_stop E ord stop w = (Inr (), w') \<and> mustStopClientOrderID (ord_ClientOrderID ord) = Inr i \<and>
    w_broker w' = snd (br_PlaceStop (en_B E) (w_broker w) (stop_request ord stop i))"
proof -
  obtain i where i: "mustStopClientOrderID (ord_ClientOrderID ord) = Inr i"
    using assms(3)
    by (cases "NewClientOrderID (''s-'' @ take 34 (ClientOrderID_String (ord_ClientOrderID ord)))") (auto simp: mustStopClientOrderID_def)
  let ?req = "stop_request ord stop i"
  obtain r b where r: "br_PlaceStop (en_B E) (w_broker w) ?req = (r, b)" by (cases "br_PlaceStop (en_B E) (w_broker w) ?req")
  have call: "broker_call E (\<lambda>b. br_PlaceStop (en_B E) b ?req) w = (r, (tick w)\<lparr>w_broker := b\<rparr>)"
    using assms(1) r by (simp add: broker_call_def infra_ok)
  have "\<not> is_panic e" if "r = Inl e" for e using assms(2) that r unfolding stop_answers_def by (metis fst_conv)
  then have "\<exists>w'. place_stop E ord stop w = (Inr (), w') \<and> w_broker w' = b"
    using raise_ok [OF assms(1), of ord _ "(tick w)\<lparr>w_broker := b\<rparr>"] call [unfolded stop_request_def]
    by (cases r) (simp_all add: place_stop_def i ubind_def attempt_def)
  with i r show ?thesis by auto
qed

lemma reconcileFreshOrder_ok:
  assumes libs: "decimal_lib (en_D E)" "uuid_lib (en_U E)" and E: "no_faults E" "stop_answers E"
    and w: "\<not> w_inTx w" "fresh_from E 14 w" "fresh_positions E (w_db w)"
    and ord: "ord_Status ord = StatusSubmitted" "order_slot (en_U E) ord (db_orders (w_db w))" "order_fits ord" "Side_Valid (ord_Side ord)"
      "Quantity_Decimal (ord_Quantity ord) \<noteq> 0" "34 \<le> length (ClientOrderID_String (ord_ClientOrderID ord))"
    and bo: "bo_RawStatus bo = ''FILLED''" "bo_AveragePrice bo = Some price" "fits_price price" "fits_price stop" "fits_price target"
    and pos: "\<forall>k r. (k, r) \<in> set (db_positions (w_db w)) \<longrightarrow> \<not> (pm_Symbol r = Symbol_String (ord_Symbol ord) \<and> pm_Status r = ''OPEN'')"
    and acct: "account_ready E acct (ord_Quantity ord) price (db_accounts (w_db w))"
  shows "\<exists>ord' w' i. reconcileFreshOrder E ord bo stop target acct w = (Inr ord', w') \<and> ord_Status ord' = StatusFilled \<and>
    mustStopClientOrderID (ord_ClientOrderID ord) = Inr i \<and> w_broker w' = snd (br_PlaceStop (en_B E) (w_broker w) (stop_request ord stop i))"
proof -
  let ?t = "en_clock E (w_tick w)" and ?n = "w_tick w + 1"
  define ord' where "ord' = ord\<lparr>ord_Status := StatusFilled, ord_UpdatedAt := ?t, ord_Version := ord_Version ord + 1,
      ord_FilledQuantity := ord_Quantity ord, ord_AverageExecutionPrice := Some price\<rparr>"
  have m: "MarkFilled ord price ?t = Inr ord'" using MarkFilled_ok [OF ord(1)] by (simp add: ord'_def)
  define p where "p = \<lparr>pos_ID = PositionID (en_uuid E ?n), pos_Symbol = ord_Symbol ord, pos_Side = ord_Side ord, pos_Quantity = ord_Quantity ord,
        pos_EntryPrice = price, pos_CurrentPrice = price, pos_StopPrice = Some stop, pos_TargetPrice = Some target,
        pos_UnrealizedPnL = ZeroMoney, pos_RealizedPnL = ZeroMoney, pos_Status = StatusOpen, pos_Version = 1, pos_OpenedAt = ?t, pos_ClosedAt = None\<rparr>"
  have o: "Open (en_D E) (en_uuid E ?n) (ord_Symbol ord') (ord_Side ord') (ord_Quantity ord') price (Some stop) (Some target) ?t = Inr p"
    using ord(4,5) libs(1) by (simp add: Open_def ord'_def p_def Quantity_IsZero_def)
  obtain acct' ct where a: "ReserveMargin (en_D E) acct (NewMoney (dMul (en_D E) (Quantity_Decimal (ord_Quantity ord)) (Price_Decimal price))) ?t = Inr acct'"
      "account_save (en_U E) acct' (db_accounts (w_db w)) = (Inr (), ct)"
    using account_ready_saves [OF libs acct] by blast
  have res: "reserve_margin E ord' p acct ?t (tick (tick w)) = (Inr acct', tick (tick w))"
    using a(1) by (simp add: reserve_margin_def p_def)
  let ?w0 = "(tick (tick (tick w)))\<lparr>w_inTx := True\<rparr>"
  have fr: "fresh_from E 11 ?w0" by (rule fresh_from_mono [OF w(2), where j = 3]) simp_all
  have fits: "order_fits ord'" using ord(3) bo(3) by (simp add: order_fits_def ord'_def fits_price_opt_def)
  obtain row where row: "order_columns (order_toModel (en_U E) ord') = Inr row" using order_fits_columns [OF fits] by blast
  obtain tbl' where tbl': "order_save_row (en_U E) ord' (db_orders (w_db w)) = (Inr (), tbl')"
    using order_save_next [OF ord(2) _ _ _ row] by (auto simp: ord'_def)
  have zero: "numeric 24 8 0 = Inr 0" by (simp add: numeric_def round_to_def round_half_away_def)
  have "fits_price_opt (Some stop)" "fits_price_opt (Some target)" "fits 24 8 (Price_Decimal price)" "fits 24 8 (Quantity_Decimal (ord_Quantity ord))"
    using bo(3-5) ord(3) by (simp_all add: fits_price_opt_def fits_price_def order_fits_def fits_quantity_def)
  then obtain prow where prow: "position_columns (position_toModel (en_U E) p) = Inr prow"
    by (simp add: position_columns_def position_toModel_def p_def ZeroMoney_def zero)
  have "map_of (db_positions (w_db w)) (PositionID_String (en_U E) (pos_ID p)) = None" using w(3) by (simp add: fresh_positions_def p_def)
  then have ps: "position_save (en_U E) p (db_positions (w_db w)) = (Inr (), al_set (uString (en_U E) (en_uuid E ?n)) prow (db_positions (w_db w)))"
    using position_save_new [OF _ prow] pos by (simp add: p_def)
  obtain w1 where w1: "fill_tx E ord' p acct' ?t ?w0 = (Inr (), w1)"
    using fill_tx_ok [OF E(1) fr _ _ _ _, of ord' tbl' p _ acct' ct ?t] tbl' order_fits_execution [OF fits] ps a(2) by auto
  have tx: "WithinTransaction E (fill_tx E ord' p acct' ?t) (tick (tick w)) = (Inr (), (tick w1)\<lparr>w_inTx := False\<rparr>)"
    by (rule WithinTransaction_ok [OF E(1)]) (simp_all add: w(1) w1)
  have "34 \<le> length (ClientOrderID_String (ord_ClientOrderID ord'))" by (simp add: ord'_def ord(6))
  then obtain w2 i where w2: "place_stop E ord' stop ((tick w1)\<lparr>w_inTx := False\<rparr>) = (Inr (), w2)"
    and i: "mustStopClientOrderID (ord_ClientOrderID ord') = Inr i"
      "w_broker w2 = snd (br_PlaceStop (en_B E) (w_broker w1) (stop_request ord' stop i))"
    using place_stop_ok [OF E, of ord' stop "(tick w1)\<lparr>w_inTx := False\<rparr>"] by auto
  have kb: "keeps same_broker (fill_tx E ord' p acct' ?t)" unfolding fill_tx_def by (intro same_broker.keeps_db_intros)
  have "w_broker w1 = w_broker w" using same_broker.keeps_app [OF kb w1] by (simp add: same_broker_def)
  then have "mustStopClientOrderID (ord_ClientOrderID ord) = Inr i" "w_broker w2 = snd (br_PlaceStop (en_B E) (w_broker w) (stop_request ord stop i))"
    using i by (simp_all add: ord'_def stop_request_def)
  moreover have "reconcileFreshOrder E ord bo stop target acct w = (Inr ord', w2)"
    using m o res tx w2 by (simp add: reconcileFreshOrder_def bo(1,2) ubind_go wrapped_go Now_def NewUUID_def lift_def)
  moreover have "ord_Status ord' = StatusFilled" by (simp add: ord'_def)
  ultimately show ?thesis by blast
qed

text \<open>Everything a successful execution needs, beyond the guards.\<close>

definition executable :: "'b Env \<Rightarrow> Decision \<Rightarrow> TradeSignal \<Rightarrow> Account \<Rightarrow> BrokerOrder \<Rightarrow> 'b World \<Rightarrow> bool" where
  "executable E decision tradeSignal acct bo w \<longleftrightarrow>
     Side_Valid (sig_Side tradeSignal) \<and> sig_StrategyName tradeSignal \<noteq> '''' \<and>
     fits_quantity (dec_ApprovedPositionSize decision) \<and> Quantity_Decimal (dec_ApprovedPositionSize decision) \<noteq> 0 \<and>
     fits_price (sig_StopPrice tradeSignal) \<and> fits_price (sig_TargetPrice tradeSignal) \<and>
     bo_BrokerOrderID bo \<noteq> '''' \<and> bo_RawStatus bo = ''FILLED'' \<and>
     (\<exists>price. bo_AveragePrice bo = Some price \<and> fits_price price \<and>
        account_ready E acct (dec_ApprovedPositionSize decision) price (db_accounts (w_db w))) \<and>
     (\<forall>k r. (k, r) \<in> set (db_positions (w_db w)) \<longrightarrow> \<not> (pm_Symbol r = Symbol_String (sig_Symbol tradeSignal) \<and> pm_Status r = ''OPEN''))"

lemma book_submission_ok:
  assumes libs: "decimal_lib (en_D E)" "uuid_lib (en_U E)" and E: "no_faults E" "stop_answers E"
    and w: "\<not> w_inTx w" "fresh_from E 23 w" "fresh_positions E (w_db w)"
    and ex: "executable E decision tradeSignal acct bo w"
    and ord: "ord_Status pending = StatusPending" "order_slot (en_U E) pending (db_orders (w_db w))" "order_fits pending"
      "ord_Side pending = sig_Side tradeSignal" "ord_Symbol pending = sig_Symbol tradeSignal"
      "ord_Quantity pending = dec_ApprovedPositionSize decision" "34 \<le> length (ClientOrderID_String (ord_ClientOrderID pending))"
  shows "\<exists>ord w' i. book_submission E tradeSignal acct pending bo w =
    (Inr \<lparr>xr_Order = Some (ToOrderDTO (en_D E) (en_U E) ord), xr_Skipped = False, xr_SkipReason = ''''\<rparr>, w') \<and> ord_Status ord = StatusFilled \<and>
    mustStopClientOrderID (ord_ClientOrderID pending) = Inr i \<and>
    w_broker w' = snd (br_PlaceStop (en_B E) (w_broker w) (stop_request pending (sig_StopPrice tradeSignal) i))"
proof -
  let ?t = "en_clock E (w_tick w)"
  define sub where "sub = pending\<lparr>ord_Status := StatusSubmitted, ord_UpdatedAt := ?t, ord_Version := ord_Version pending + 1,
      ord_BrokerOrderID := bo_BrokerOrderID bo\<rparr>"
  have s: "Submit pending (bo_BrokerOrderID bo) ?t = Inr sub" using Submit_ok [OF ord(1)] ex by (simp add: sub_def executable_def)
  have fits: "order_fits sub" using ord(3) by (simp add: order_fits_def sub_def)
  obtain row where row: "order_columns (order_toModel (en_U E) sub) = Inr row" using order_fits_columns [OF fits] by blast
  obtain tbl' where tbl': "order_save_row (en_U E) sub (db_orders (w_db w)) = (Inr (), tbl')" "order_slot (en_U E) sub tbl'"
    using order_save_next [OF ord(2) _ _ _ row] by (auto simp: sub_def)
  have "fresh_from E (14 + 8) (tick w)" by (rule fresh_from_mono [OF w(2), where j = 1]) simp_all
  then obtain w1 where w1: "order_tx E sub ''OrderSubmitted'' (EvOrder (OrderSubmitted sub ?t)) ?t (tick w) = (Inr (), w1)" "fresh_from E 14 w1"
      "advances 8 (tick w) w1" "db_orders (w_db w1) = tbl'" "db_positions (w_db w1) = db_positions (w_db w)" "db_accounts (w_db w1) = db_accounts (w_db w)"
    using order_tx_ok [OF E(1), of "tick w" 14 sub tbl' "''OrderSubmitted''" "EvOrder (OrderSubmitted sub ?t)" ?t] w(1) tbl'(1)
      order_fits_execution [OF fits] by auto
  obtain price where price: "bo_AveragePrice bo = Some price" "fits_price price"
      "account_ready E acct (ord_Quantity sub) price (db_accounts (w_db w1))"
    using ex ord(6) by (auto simp: executable_def w1(6) sub_def)
  obtain ord w2 i where r: "reconcileFreshOrder E sub bo (sig_StopPrice tradeSignal) (sig_TargetPrice tradeSignal) acct w1 = (Inr ord, w2)"
      and filled: "ord_Status ord = StatusFilled" and i: "mustStopClientOrderID (ord_ClientOrderID sub) = Inr i"
        "w_broker w2 = snd (br_PlaceStop (en_B E) (w_broker w1) (stop_request sub (sig_StopPrice tradeSignal) i))"
    using reconcileFreshOrder_ok [OF libs E _ w1(2) _ _ _ fits _ _ _ _ price(1,2) _ _ _ price(3), of "sig_StopPrice tradeSignal" "sig_TargetPrice tradeSignal"]
      ex ord(4-7) tbl'(2) w1(3-5) w(1,3) by (auto simp: executable_def sub_def advances_def fresh_positions_def)
  have "book_submission E tradeSignal acct pending bo w =
      (Inr \<lparr>xr_Order = Some (ToOrderDTO (en_D E) (en_U E) ord), xr_Skipped = False, xr_SkipReason = ''''\<rparr>, w2)"
    using r s w1(1) by (simp add: book_submission_def ubind_go wrapped_go Now_def lift_def)
  moreover have "mustStopClientOrderID (ord_ClientOrderID pending) = Inr i"
    "w_broker w2 = snd (br_PlaceStop (en_B E) (w_broker w) (stop_request pending (sig_StopPrice tradeSignal) i))"
    using i w1(3) by (simp_all add: sub_def stop_request_def advances_def)
  ultimately show ?thesis using filled by blast
qed

lemma fits_zero: "fits_quantity ZeroQuantity"
  by (simp add: fits_quantity_def fits_def round_to_def round_half_away_def ZeroQuantity_def)

text \<open>Everything from the decision to the stop, step by step.\<close>

lemma execution_completes:
  assumes libs: "decimal_lib (en_D E)" "uuid_lib (en_U E)" and E: "no_faults E" "stop_answers E" and w: "\<not> w_inTx w" "fresh_from E 40 w"
    and fresh: "fresh_orders E (w_db w)" "fresh_positions E (w_db w)"
    and g: "guards_passed E rid (w_db w) decision tradeSignal acct cid" and len: "34 \<le> length (ClientOrderID_String cid)"
    and cid: "NewClientOrderID (ClientOrderID_String cid) = Inr cid"
    and new: "ClientOrderID_String cid \<notin> client_ids (w_db w)"
    and key: "map_of (db_idempotency (w_db w)) (''execute_order'', ClientOrderID_String cid) = None"
    and placed: "br_PlaceOrder (en_B E) (w_broker w) \<lparr>por_ClientOrderID = cid, por_Symbol = sig_Symbol tradeSignal,
         por_Side = sig_Side tradeSignal, por_Type = Type_String TypeMarket, por_Quantity = dec_ApprovedPositionSize decision,
         por_Price = Some (sig_EntryPrice tradeSignal)\<rparr> = (Inr bo, b)"
    and ex: "executable E decision tradeSignal acct bo w"
  shows "\<exists>ord w' i. ExecuteApprovedOrder E rid w =
    (Inr \<lparr>xr_Order = Some (ToOrderDTO (en_D E) (en_U E) ord), xr_Skipped = False, xr_SkipReason = ''''\<rparr>, w') \<and>
    ord_Status ord = StatusFilled \<and> mustStopClientOrderID cid = Inr i \<and>
    w_broker w' = snd (br_PlaceStop (en_B E) b \<lparr>psr_ClientOrderID = i, psr_Symbol = sig_Symbol tradeSignal,
      psr_Side = Side_Opposite (sig_Side tradeSignal), psr_Quantity = dec_ApprovedPositionSize decision, psr_StopPrice = sig_StopPrice tradeSignal\<rparr>)"
proof -
  let ?now = "en_clock E (w_tick w)" and ?w5 = "tick (tick (tick (tick (tick w))))"
  define w6 where "w6 = snd (uc_Reserve E ''execute_order'' (ClientOrderID_String cid) (10 * 60 * Second) ?w5)"
  have res: "uc_Reserve E ''execute_order'' (ClientOrderID_String cid) (10 * 60 * Second) ?w5 = (Inr True, w6)"
    and w6: "db_orders (w_db w6) = db_orders (w_db w)" "db_positions (w_db w6) = db_positions (w_db w)" "db_accounts (w_db w6) = db_accounts (w_db w)"
      "db_outbox (w_db w6) = db_outbox (w_db w)" "db_executions (w_db w6) = db_executions (w_db w)" "w_tick w6 = w_tick w + 7"
      "\<not> w_inTx w6" "w_broker w6 = w_broker w"
    using E(1) key w(1) by (simp_all add: w6_def uc_Reserve_def ubind_go Now_def db_write_def infra_ok idem_Reserve_def Let_def)
  define p where "p = \<lparr>ord_ID = OrderID (en_uuid E (w_tick w6)), ord_ClientOrderID = cid, ord_BrokerOrderID = '''',
        ord_Symbol = sig_Symbol tradeSignal, ord_Side = sig_Side tradeSignal, ord_Type = TypeMarket, ord_Quantity = dec_ApprovedPositionSize decision,
        ord_FilledQuantity = ZeroQuantity, ord_RequestedPrice = None, ord_AverageExecutionPrice = None,
        ord_StopPrice = Some (sig_StopPrice tradeSignal), ord_TargetPrice = Some (sig_TargetPrice tradeSignal),
        ord_Status = StatusPending, ord_StrategyName = sig_StrategyName tradeSignal, ord_SignalID = sig_ID tradeSignal,
        ord_RiskDecisionID = dec_ID decision, ord_FailureReason = '''', ord_Version = 1, ord_CreatedAt = ?now, ord_UpdatedAt = ?now\<rparr>"
  have pend: "NewPendingOrder (en_D E) (en_uuid E (w_tick w6)) cid (sig_Symbol tradeSignal) (sig_Side tradeSignal) TypeMarket
      (dec_ApprovedPositionSize decision) None (Some (sig_StopPrice tradeSignal)) (Some (sig_TargetPrice tradeSignal))
      (sig_StrategyName tradeSignal) (sig_ID tradeSignal) (dec_ID decision) ?now = Inr p"
    using ex libs(1) by (simp add: NewPendingOrder_def p_def executable_def Type_Valid_def Quantity_IsZero_def)
  have fits: "order_fits p"
    using ex fits_zero by (simp add: order_fits_def p_def executable_def fits_price_opt_def)
  obtain row where row: "order_columns (order_toModel (en_U E) p) = Inr row" using order_fits_columns [OF fits] by blast
  have "map_of (db_orders (w_db w)) (OrderID_String (en_U E) (ord_ID p)) = None" using fresh(1) by (simp add: p_def fresh_orders_def)
  then obtain tbl' where tbl': "order_save_row (en_U E) p (db_orders (w_db w)) = (Inr (), tbl')" "order_slot (en_U E) p tbl'"
    using order_save_new [OF _ _ row] new by (auto simp: p_def)
  have "fresh_from E (24 + 8) (tick w6)" by (rule fresh_from_mono [OF w(2), where j = 8]) (simp_all add: w6)
  then obtain w7 where w7: "order_tx E p ''OrderCreated'' (EvOrder (OrderCreated p ?now)) ?now (tick w6) = (Inr (), w7)" "fresh_from E 24 w7"
      "advances 8 (tick w6) w7" "db_orders (w_db w7) = tbl'" "db_positions (w_db w7) = db_positions (w_db w)" "db_accounts (w_db w7) = db_accounts (w_db w)"
    using order_tx_ok [OF E(1), of "tick w6" 24 p tbl' "''OrderCreated''" "EvOrder (OrderCreated p ?now)" ?now] tbl'(1)
      order_fits_execution [OF fits] by (auto simp: w6)
  define w8 where "w8 = (tick w7)\<lparr>w_broker := b\<rparr>"
  have "w_broker w7 = w_broker w" using w7(3) w6 by (simp add: advances_def)
  then have call: "broker_call E (\<lambda>b. br_PlaceOrder (en_B E) b \<lparr>por_ClientOrderID = cid, por_Symbol = sig_Symbol tradeSignal,
         por_Side = sig_Side tradeSignal, por_Type = Type_String TypeMarket, por_Quantity = dec_ApprovedPositionSize decision,
         por_Price = Some (sig_EntryPrice tradeSignal)\<rparr>) w7 = (Inr bo, w8)"
    using E(1) placed by (simp add: broker_call_def infra_ok w8_def)
  have "fresh_from E 23 w8" by (rule fresh_from_mono [OF w7(2), where j = 1]) (simp_all add: w8_def)
  moreover have "fresh_positions E (w_db w8)" using fresh(2) by (simp add: fresh_positions_def w8_def w7(5))
  moreover have "executable E decision tradeSignal acct bo w8" using ex by (simp add: executable_def w8_def w7(5,6))
  moreover have "\<not> w_inTx w8" using w7(3) w6(7) by (simp add: w8_def advances_def)
  moreover have "order_slot (en_U E) p (db_orders (w_db w8))" using tbl'(2) by (simp add: w8_def w7(4))
  ultimately obtain ord w9 i where book: "book_submission E tradeSignal acct p bo w8 =
      (Inr \<lparr>xr_Order = Some (ToOrderDTO (en_D E) (en_U E) ord), xr_Skipped = False, xr_SkipReason = ''''\<rparr>, w9)" "ord_Status ord = StatusFilled"
      "mustStopClientOrderID cid = Inr i" "w_broker w9 = snd (br_PlaceStop (en_B E) b (stop_request p (sig_StopPrice tradeSignal) i))"
    using book_submission_ok [OF libs E, of w8 decision tradeSignal acct bo p] fits len by (auto simp: p_def w8_def)
  have place: "place_at_broker E decision tradeSignal acct cid p w7 = book_submission E tradeSignal acct p bo w8"
    using call by (simp add: place_at_broker_def attempt_def)
  have none: "orders_GetByClientOrderID (en_D E) (en_U E) cid (w_db w) = Inl ErrNotFound"
  proof -
    have "find (\<lambda>m. om_ClientOrderID m = ClientOrderID_String cid) (map snd (db_orders (w_db w))) = None"
      using new by (force simp: find_None_iff client_ids_def)
    then show ?thesis by (simp add: orders_GetByClientOrderID_def scan_one_def)
  qed
  have cid_text: "RiskDecisionID_String (en_U E) (dec_ID decision) = ClientOrderID_String cid" using g by (simp add: guards_passed_def)
  have "reserve_and_place E decision tradeSignal acct cid ?now ?w5 = book_submission E tradeSignal acct p bo w8"
    using res pend w7(1) place by (simp add: reserve_and_place_def cid_text ubind_go wrapped_go NewUUID_def lift_def)
  moreover have "ExecuteApprovedOrder E rid w = reserve_and_place E decision tradeSignal acct cid ?now ?w5"
    using g none cid by (simp add: ExecuteApprovedOrder_def guards_passed_def ubind_go wrapped_go Now_def db_read_ok [OF E(1)] lift_def
        attempt_def is_panic_def cid_text)
  ultimately show ?thesis using book by (auto simp: stop_request_def p_def)
qed

text \<open>
  C6: A decision that can be executed is executed: without faults, for an allowed decision behind
  the guards that has no order and no reservation yet, when the broker fills the order at once,
  the account carries the notional and no position in the symbol is open, the use case succeeds
  with a FILLED order, and the broker's state is the one after the order and its protective stop:
  the other side, the approved quantity, the stop price of the signal, whatever it answers to it.
\<close>

theorem approved_order_executes:
  assumes libs: "decimal_lib (en_D E)" "uuid_lib (en_U E)" and E: "no_faults E" "stop_answers E" and w: "\<not> w_inTx w" "fresh_from E 40 w"
    and fresh: "fresh_orders E (w_db w)" "fresh_positions E (w_db w)"
    and g: "guards_passed E rid (w_db w) decision tradeSignal acct cid" and len: "34 \<le> length (ClientOrderID_String cid)"
    and cid: "NewClientOrderID (ClientOrderID_String cid) = Inr cid"
    and new: "ClientOrderID_String cid \<notin> client_ids (w_db w)"
    and key: "map_of (db_idempotency (w_db w)) (''execute_order'', ClientOrderID_String cid) = None"
    and placed: "br_PlaceOrder (en_B E) (w_broker w) \<lparr>por_ClientOrderID = cid, por_Symbol = sig_Symbol tradeSignal,
         por_Side = sig_Side tradeSignal, por_Type = Type_String TypeMarket, por_Quantity = dec_ApprovedPositionSize decision,
         por_Price = Some (sig_EntryPrice tradeSignal)\<rparr> = (Inr bo, b)"
    and ex: "executable E decision tradeSignal acct bo w"
  shows "\<exists>ord w' i. ExecuteApprovedOrder E rid w =
    (Inr \<lparr>xr_Order = Some (ToOrderDTO (en_D E) (en_U E) ord), xr_Skipped = False, xr_SkipReason = ''''\<rparr>, w') \<and>
    ord_Status ord = StatusFilled \<and> mustStopClientOrderID cid = Inr i \<and>
    w_broker w' = snd (br_PlaceStop (en_B E) b \<lparr>psr_ClientOrderID = i, psr_Symbol = sig_Symbol tradeSignal,
      psr_Side = Side_Opposite (sig_Side tradeSignal), psr_Quantity = dec_ApprovedPositionSize decision, psr_StopPrice = sig_StopPrice tradeSignal\<rparr>)"
  by (rule execution_completes [OF libs E w fresh g len cid new key placed ex])

section \<open>Concrete runs\<close>

text \<open>
  The sample account and signal with an allowed decision, executed on the paper broker. The
  decision's identifier is the client order id.
\<close>

definition sample_decision :: Decision where
  "sample_decision = \<lparr>dec_ID = RiskDecisionID 5, dec_SignalID = SignalID 3, dec_Allowed = True, dec_OriginalPositionSize = Quantity 2,
     dec_ApprovedPositionSize = Quantity 2, dec_ReasonCodes = [], dec_AppliedRules = [], dec_EventRestrictions = Some [], dec_CreatedAt = 2000\<rparr>"

definition sample_trade_db :: DB where
  "sample_trade_db = sample_db\<lparr>db_signals := [(uString ref_uuid 3, signal_toModel ref_uuid sample_signal)],
     db_decisions := [(uString ref_uuid 5, decision_toModel ref_uuid sample_decision)]\<rparr>"

definition trade_world :: "PaperBroker World" where
  "trade_world = sample_world\<lparr>w_db := sample_trade_db\<rparr>"

definition sample_cid :: ClientOrderID where
  "sample_cid = ClientOrderID (uString ref_uuid 5)"

definition trade_fill :: BrokerOrder where
  "trade_fill = \<lparr>bo_BrokerOrderID = ''PAPER-00000001'', bo_ClientOrderID = uString ref_uuid 5, bo_Symbol = Symbol ''BTCUSDT'',
     bo_Side = SideBuy, bo_Type = ''MARKET'', bo_Quantity = Quantity 2, bo_FilledQuantity = Quantity 2,
     bo_AveragePrice = Some (Price 101), bo_RawStatus = ''FILLED''\<rparr>"

definition trade_broker :: PaperBroker where
  "trade_broker = sample_broker_after\<lparr>pb_orders := [(''PAPER-00000001'', trade_fill)],
     pb_byClientID := [(uString ref_uuid 5, ''PAPER-00000001'')]\<rparr>"

lemma trade_placement:
  "paper_PlaceOrder ref_decimal sample_broker \<lparr>por_ClientOrderID = sample_cid, por_Symbol = Symbol ''BTCUSDT'', por_Side = SideBuy,
     por_Type = ''MARKET'', por_Quantity = Quantity 2, por_Price = Some (Price 100)\<rparr> = (Inr trade_fill, trade_broker)"
  by (simp add: paper_PlaceOrder_def sample_broker_def trade_fill_def trade_broker_def sample_broker_after_def sample_cid_def
      NewBroker_def resetLocked_def applySlippage_def NewPrice_def applyFillLocked_def paper_order_id_1 Let_def)

lemma trade_stop_kept: "pb_nextOrderSeq b \<le> pb_nextOrderSeq (snd (paper_PlaceStop b req))"
  by (simp add: paper_PlaceStop_def Let_def split: option.splits)

lemma sample_fits: "fits_price (Price 98)" "fits_price (Price 104)" "fits_price (Price 100)" "fits_price (Price 101)" "fits_quantity (Quantity 2)"
  by (simp_all add: fits_price_def fits_quantity_def fits_def round_to_def round_half_away_def)

lemma sample_symbol: "NewSymbol ''BTCUSDT'' = Inr (Symbol ''BTCUSDT'')"
  by code_simp

lemma sample_cid_valid: "NewClientOrderID (ClientOrderID_String sample_cid) = Inr sample_cid" "length (ClientOrderID_String sample_cid) = 36"
  using uuid_libD [OF uuid_lib_ref] is_uuid_char_id
  by (auto simp: sample_cid_def NewClientOrderID_def clientOrderIDPattern_def list_all_iff)

lemma trade_reads:
  "decisions_GetByID ref_decimal ref_uuid (RiskDecisionID 5) sample_trade_db = Inr sample_decision"
  "signals_GetByID ref_decimal ref_uuid (SignalID 3) sample_trade_db = Inr sample_signal"
  "accounts_GetActive ref_decimal ref_uuid sample_trade_db = Inr sample_account"
proof -
  show "decisions_GetByID ref_decimal ref_uuid (RiskDecisionID 5) sample_trade_db = Inr sample_decision"
    by (simp add: decisions_GetByID_def sample_trade_db_def scan_one_def decision_toDomain_def decision_toModel_def sample_decision_def
        Parse_defs NewQuantity_def uuid_libD(1) [OF uuid_lib_ref])
  show "signals_GetByID ref_decimal ref_uuid (SignalID 3) sample_trade_db = Inr sample_signal"
    by (simp add: signals_GetByID_def sample_trade_db_def scan_one_def signal_toDomain_def signal_toModel_def sample_signal_def
        Parse_defs NewPrice_def NewConfidence_def sample_symbol uuid_libD(1) [OF uuid_lib_ref] Side_of_string_def Side_String_def
        Regime_of_string_def Regime_String_def)
  show "accounts_GetActive ref_decimal ref_uuid sample_trade_db = Inr sample_account"
    using sample_GetActive by (simp add: accounts_GetActive_def sample_trade_db_def)
qed

lemma sample_guards: "guards_passed quiet_env (RiskDecisionID 5) sample_trade_db sample_decision sample_signal sample_account sample_cid"
  using trade_reads by (simp add: guards_passed_def sample_decision_def sample_account_def sample_cid_def AllowsNewEntries_def)


lemma ref_uuid_inj: "inj_on (\<lambda>n. uString ref_uuid (n + 1)) {..<40}"
  by (rule inj_onI, drule arg_cong [where f = "uParse ref_uuid"]) (simp add: uuid_libD(1) [OF uuid_lib_ref])

lemma trade_world_simps [simp]: "w_db trade_world = sample_trade_db" "w_broker trade_world = sample_broker" "w_tick trade_world = 0"
  "\<not> w_inTx trade_world"
  by (simp_all add: trade_world_def sample_world_def)

lemma trade_tables [simp]: "db_orders sample_trade_db = []" "db_positions sample_trade_db = []" "db_outbox sample_trade_db = []"
  "db_executions sample_trade_db = []" "db_idempotency sample_trade_db = []" "db_accounts sample_trade_db = db_accounts sample_db"
  by (simp_all add: sample_trade_db_def sample_db_def emptyDB_def)

lemma trade_fresh: "fresh_from quiet_env 40 trade_world" "fresh_orders quiet_env sample_trade_db" "fresh_positions quiet_env sample_trade_db"
  using ref_uuid_inj by (simp_all add: fresh_from_def fresh_orders_def fresh_positions_def quiet_env_def lessThan_atLeast0)

lemma paper_stop_answers: "stop_answers quiet_env"
  by (simp add: stop_answers_def paper_broker_def paper_PlaceStop_def Let_def split: option.splits)

lemma sample_account_ready: "account_ready quiet_env sample_account (Quantity 2) (Price 101) (db_accounts sample_db)"
  using sample_accounts_ok sample_account_storable account_roundtrip [OF decimal_lib_ref uuid_lib_ref sample_account_storable]
  by (simp add: account_ready_def sample_db_def emptyDB_def active_row_def)
    (simp add: sample_account_def fits_def round_to_def round_half_away_def)

lemma sample_executable: "executable quiet_env sample_decision sample_signal sample_account trade_fill trade_world"
  using sample_account_ready sample_fits
  by (simp add: executable_def sample_decision_def sample_signal_def trade_fill_def Side_Valid_def)

lemma sample_run:
  "\<exists>ord w'. ExecuteApprovedOrder quiet_env (RiskDecisionID 5) trade_world =
     (Inr \<lparr>xr_Order = Some (ToOrderDTO ref_decimal ref_uuid ord), xr_Skipped = False, xr_SkipReason = ''''\<rparr>, w') \<and>
     ord_Status ord = StatusFilled \<and> w_broker w' \<noteq> sample_broker"
proof -
  have "\<exists>ord w' i. ExecuteApprovedOrder quiet_env (RiskDecisionID 5) trade_world =
      (Inr \<lparr>xr_Order = Some (ToOrderDTO (en_D quiet_env) (en_U quiet_env) ord), xr_Skipped = False, xr_SkipReason = ''''\<rparr>, w') \<and>
      ord_Status ord = StatusFilled \<and> mustStopClientOrderID sample_cid = Inr i \<and>
      w_broker w' = snd (br_PlaceStop (en_B quiet_env) trade_broker \<lparr>psr_ClientOrderID = i, psr_Symbol = sig_Symbol sample_signal,
        psr_Side = Side_Opposite (sig_Side sample_signal), psr_Quantity = dec_ApprovedPositionSize sample_decision,
        psr_StopPrice = sig_StopPrice sample_signal\<rparr>)"
    by (rule execution_completes [where decision = sample_decision and acct = sample_account and bo = trade_fill])
      (simp_all add: trade_fresh paper_stop_answers sample_guards sample_cid_valid sample_executable client_ids_def,
        simp add: paper_broker_def sample_signal_def sample_decision_def Type_String_def trade_placement)
  then obtain ord w' i where run: "ExecuteApprovedOrder quiet_env (RiskDecisionID 5) trade_world =
      (Inr \<lparr>xr_Order = Some (ToOrderDTO ref_decimal ref_uuid ord), xr_Skipped = False, xr_SkipReason = ''''\<rparr>, w')" "ord_Status ord = StatusFilled"
    and b: "w_broker w' = snd (br_PlaceStop (en_B quiet_env) trade_broker \<lparr>psr_ClientOrderID = i, psr_Symbol = sig_Symbol sample_signal,
        psr_Side = Side_Opposite (sig_Side sample_signal), psr_Quantity = dec_ApprovedPositionSize sample_decision,
        psr_StopPrice = sig_StopPrice sample_signal\<rparr>)" by auto
  have "pb_nextOrderSeq trade_broker \<le> pb_nextOrderSeq (w_broker w')" unfolding b by (simp add: paper_broker_def trade_stop_kept)
  then have "w_broker w' \<noteq> sample_broker"
    by (auto simp: trade_broker_def sample_broker_after_def sample_broker_def NewBroker_def resetLocked_def)
  with run show ?thesis by blast
qed

theorem approved_order_executes_witness:
  "\<exists>ord w' i. ExecuteApprovedOrder quiet_env (RiskDecisionID 5) trade_world =
     (Inr \<lparr>xr_Order = Some (ToOrderDTO (en_D quiet_env) (en_U quiet_env) ord), xr_Skipped = False, xr_SkipReason = ''''\<rparr>, w') \<and>
     ord_Status ord = StatusFilled \<and> mustStopClientOrderID sample_cid = Inr i \<and>
     w_broker w' = snd (br_PlaceStop (en_B quiet_env) trade_broker \<lparr>psr_ClientOrderID = i, psr_Symbol = sig_Symbol sample_signal,
       psr_Side = Side_Opposite (sig_Side sample_signal), psr_Quantity = dec_ApprovedPositionSize sample_decision,
       psr_StopPrice = sig_StopPrice sample_signal\<rparr>)"
  by (rule approved_order_executes [where decision = sample_decision and acct = sample_account and bo = trade_fill])
    (simp_all add: trade_fresh paper_stop_answers sample_guards sample_cid_valid sample_executable client_ids_def,
      simp add: paper_broker_def sample_signal_def sample_decision_def Type_String_def trade_placement)

lemma quiet_honest: "honest_faults quiet_env"
  by (simp add: honest_faults_def quiet_env_def)


theorem decision_sent_at_most_once_witness:
  "\<exists>v. executions ref_uuid ref_decimal (RiskDecisionID 5) trade_world 1 v \<and> (1::nat) \<le> 1"
proof -
  obtain r w' where run: "ExecuteApprovedOrder quiet_env (RiskDecisionID 5) trade_world = (r, w')" "w_broker w' \<noteq> sample_broker"
    using sample_run by blast
  have "executions ref_uuid ref_decimal (RiskDecisionID 5) trade_world 1 w'"
    using executions.execute [OF executions.start run(1)] run(2) quiet_honest trade_fresh(2) by simp
  with decision_sent_at_most_once [OF this] show ?thesis by blast
qed

theorem reported_is_stored_witness:
  "\<exists>ord pending w'. snd (ExecuteApprovedOrder quiet_env (RiskDecisionID 5) trade_world) = w' \<and> order_through quiet_env pending ord (w_db w')"
proof -
  obtain ord w' where run: "ExecuteApprovedOrder quiet_env (RiskDecisionID 5) trade_world =
      (Inr \<lparr>xr_Order = Some (ToOrderDTO ref_decimal ref_uuid ord), xr_Skipped = False, xr_SkipReason = ''''\<rparr>, w')"
    using sample_run by blast
  show ?thesis using reported_is_stored [OF run] run by auto
qed

text \<open>A submitted order of 200 units, far beyond the balance of the sample account.\<close>

definition large_order :: Order where
  "large_order = sample_order\<lparr>ord_Status := StatusSubmitted, ord_Quantity := Quantity 200\<rparr>"

theorem margin_shortage_loses_fill_witness:
  "\<exists>e w'. reconcileFreshOrder quiet_env large_order trade_fill (Price 98) (Price 104) sample_account trade_world = (Inl e, w') \<and>
     same_books sample_trade_db (w_db w') \<and> w_broker w' = sample_broker"
proof -
  obtain r w' where run: "reconcileFreshOrder quiet_env large_order trade_fill (Price 98) (Price 104) sample_account trade_world = (r, w')"
    by (cases "reconcileFreshOrder quiet_env large_order trade_fill (Price 98) (Price 104) sample_account trade_world")
  have row: "map_of (db_accounts (w_db trade_world)) (AccountID_String (en_U quiet_env) (acc_ID sample_account)) =
      Some (account_toModel ref_uuid sample_account, True)"
    by (simp add: sample_db_def emptyDB_def sample_account_def)
  show ?thesis
    using margin_shortage_loses_fill [OF run _ _ _ row, where price = "Price 101"] run
    by (auto simp: trade_fill_def account_toModel_def large_order_def sample_account_def vo_defs)
qed

text \<open>An environment in which nothing outside answers.\<close>

definition dead_env :: "PaperBroker Env" where
  "dead_env = quiet_env\<lparr>en_fault := (\<lambda>_. FailBefore (ErrorText ''timeout''))\<rparr>"

definition pending_order :: Order where
  "pending_order = sample_order\<lparr>ord_Status := StatusPending\<rparr>"

definition pending_world :: "PaperBroker World" where
  "pending_world = trade_world\<lparr>w_db := sample_trade_db\<lparr>db_orders :=
     [(OrderID_String ref_uuid (ord_ID pending_order), order_toModel ref_uuid pending_order)]\<rparr>\<rparr>"

theorem unknown_state_stays_pending_witness:
  "\<exists>e w'. place_at_broker dead_env sample_decision sample_signal sample_account sample_cid pending_order pending_world = (Inl e, w') \<and>
     state_unknown e \<and> order_stored ref_uuid pending_order (w_db w')"
proof -
  have stored: "order_stored (en_U dead_env) pending_order (w_db pending_world)"
    by (simp add: order_stored_def pending_world_def dead_env_def order_toModel_def)
  have "\<exists>e w'. place_at_broker dead_env sample_decision sample_signal sample_account sample_cid pending_order pending_world = (Inl e, w') \<and> state_unknown e"
    by (simp add: place_at_broker_def attempt_def broker_call_def infra_def dead_env_def quiet_env_def is_panic_def ubind_def Now_def Let_def
        uc_orders_Save_def NewUUID_def db_write_def ignored_def raiseUnknownStateIncident_def state_unknown_def NewIncident_def ufail_def
        split: sum.splits prod.splits)
  then obtain e w' where run: "place_at_broker dead_env sample_decision sample_signal sample_account sample_cid pending_order pending_world = (Inl e, w')"
      "state_unknown e" by blast
  show ?thesis using unknown_state_stays_pending [OF run _ stored] run by (auto simp: pending_order_def dead_env_def)
qed

end
