(* ===== verification/Market_Pipeline.thy ===== *)
theory Market_Pipeline
  imports Execute_Order
begin

text \<open>
  From a closed candle to an order: \<^verbatim>\<open>usecase/evaluate_market_signal.go\<close>, \<^verbatim>\<open>usecase/evaluate_risk.go\<close> and
  the consumer of \<^verbatim>\<open>interfaces/consumer/market\<close> that runs them before \<open>ExecuteApprovedOrder\<close>. The
  quant engine is an external service and a parameter. The properties compose the rule book, the
  sizing contract and the guards of the execution: the broker is only ever reached at the end of
  the whole chain.
\<close>

section \<open>Signal evaluation\<close>

record EvaluateMarketSignalCommand =
  ems_Candle :: Candle
  ems_RecentCandles :: "Candle list"

record EvaluateMarketSignalResult =
  smr_SignalCreated :: bool
  smr_Signal :: "SignalDTO option"

record QuantInput =
  qi_Candle :: Candle
  qi_RecentCandles :: "Candle list"

record QuantSignal =
  qs_HasSignal :: bool
  qs_Symbol :: Symbol
  qs_Side :: Side
  qs_EntryPrice :: Price
  qs_StopPrice :: Price
  qs_TargetPrice :: Price
  qs_Confidence :: Confidence
  qs_StrategyName :: string
  qs_Regime :: Regime

text \<open>
  What the use cases are constructed with. The engine answers as it likes at every call; the
  rendering of a time in an error text is left open.
\<close>

record SignalConfig =
  sg_engine :: "nat \<Rightarrow> QuantInput \<Rightarrow> QuantSignal result"
  sg_maxCandleAge :: duration
  sg_signalValidity :: duration
  sg_timeText :: "time \<Rightarrow> string"

definition external_call :: "'b Env \<Rightarrow> (nat \<Rightarrow> 'a result) \<Rightarrow> ('b, 'a) usecase" where
  "external_call E f = infra E (\<lambda>w. (f (w_tick w), w))"

definition EvaluateMarketSignal :: "'b Env \<Rightarrow> SignalConfig \<Rightarrow> EvaluateMarketSignalCommand \<Rightarrow> ('b, EvaluateMarketSignalResult) usecase" where
  "EvaluateMarketSignal E uc cmd =
     ubind (Now E) (\<lambda>now.
     if AgeExceeds (ems_Candle cmd) now (sg_maxCandleAge uc)
     then ufail (WrapSuffix ErrStaleMarketData (''candle closed at '' @ sg_timeText uc (cdl_CloseTime (ems_Candle cmd))))
     else
     ubind (wrapped ''quant engine evaluation failed'' (external_call E (\<lambda>n.
       sg_engine uc n \<lparr>qi_Candle = ems_Candle cmd, qi_RecentCandles = ems_RecentCandles cmd\<rparr>))) (\<lambda>quantSignal.
     if \<not> qs_HasSignal quantSignal then uret \<lparr>smr_SignalCreated = False, smr_Signal = None\<rparr>
     else
     ubind (NewUUID E) (\<lambda>fresh.
     ubind (wrapped ''quant engine produced an invalid signal'' (lift (signal_New (en_D E) fresh (qs_Symbol quantSignal)
       (qs_Side quantSignal) (qs_EntryPrice quantSignal) (qs_StopPrice quantSignal) (qs_TargetPrice quantSignal)
       (qs_Confidence quantSignal) (qs_StrategyName quantSignal) (qs_Regime quantSignal) now (time_Add now (sg_signalValidity uc))))) (\<lambda>tradeSignal.
     ubind (wrapped ''persisting signal'' (db_write E (signals_Save (en_U E) tradeSignal))) (\<lambda>_.
     ubind (wrapped ''publishing SignalCreated'' (Publish E (EvSignalCreated \<lparr>sc_Signal = tradeSignal, sc_OccurredAt = now\<rparr>))) (\<lambda>_.
     uret \<lparr>smr_SignalCreated = True, smr_Signal = Some (ToSignalDTO (en_D E) (en_U E) tradeSignal)\<rparr>))))))"

section \<open>Risk evaluation\<close>

record SymbolTradingRules =
  str_MinQuantity :: Quantity
  str_StepSize :: decimal
  str_MinNotional :: Money

record EvaluateRiskCommand =
  erc_SignalID :: SignalID
  erc_CurrentPrice :: Price

record RiskConfig =
  rk_policy :: CompositeRiskPolicy
  rk_sizer :: "SizingInput \<Rightarrow> SizingResult"
  rk_thresholds :: Thresholds
  rk_rules :: SymbolTradingRules

text \<open>The loop of \<^verbatim>\<open>restrictionsFor\<close>, with the slice built so far; it starts with a nil slice.\<close>

fun restrictions_loop :: "MarketEvent list \<Rightarrow> Symbol \<Rightarrow> time \<Rightarrow> string slice \<Rightarrow> string slice" where
  "restrictions_loop [] symbol now restrictions = restrictions"
| "restrictions_loop (ev # evs) symbol now restrictions =
     (if Event_IsExpired ev now \<or> \<not> AffectsSymbol ev symbol then restrictions_loop evs symbol now restrictions
      else restrictions_loop evs symbol now
        (slice_append restrictions (evt_EventType ev @ '':'' @ Action_String (evt_Action ev))))"

definition restrictionsFor :: "MarketEvent list \<Rightarrow> Symbol \<Rightarrow> time \<Rightarrow> string slice" where
  "restrictionsFor activeEvents symbol now = restrictions_loop activeEvents symbol now None"

definition risk_context :: "RiskConfig \<Rightarrow> EvaluateRiskCommand \<Rightarrow> time \<Rightarrow> TradeSignal \<Rightarrow> Account \<Rightarrow> Position list \<Rightarrow> Order list \<Rightarrow>
    MarketEvent list \<Rightarrow> bool \<Rightarrow> Context" where
  "risk_context uc cmd now tradeSignal acct openPositions openOrders activeEvents brokerHealthy =
     \<lparr>ctx_Now = now, ctx_Account = acct, ctx_OpenPositions = openPositions, ctx_OpenOrders = openOrders,
      ctx_Signal = Some tradeSignal, ctx_ActiveEvents = activeEvents,
      ctx_MarketDataAge = time_Sub now (sig_CreatedAt tradeSignal), ctx_BrokerHealthy = brokerHealthy,
      ctx_ExpectedFillPrice = erc_CurrentPrice cmd, ctx_RequestedLeverage = th_MaxLeverage (rk_thresholds uc),
      ctx_Thresholds = rk_thresholds uc\<rparr>"

definition sizing_input :: "RiskConfig \<Rightarrow> Account \<Rightarrow> TradeSignal \<Rightarrow> SizingInput" where
  "sizing_input uc acct tradeSignal =
     \<lparr>si_AvailableBalance = acc_AvailableBalance acct, si_RiskPerTrade = th_PerTradePct (rk_thresholds uc),
      si_EntryPrice = sig_EntryPrice tradeSignal, si_StopPrice = sig_StopPrice tradeSignal,
      si_MinQuantity = str_MinQuantity (rk_rules uc), si_StepSize = str_StepSize (rk_rules uc),
      si_MinNotional = str_MinNotional (rk_rules uc), si_MaxLeverage = th_MaxLeverage (rk_thresholds uc),
      si_ExistingExposure = ZeroMoney, si_ATR = None\<rparr>"

text \<open>The pure middle part of \<^verbatim>\<open>Execute\<close>: from the loaded state to the decision.\<close>

definition assess :: "RiskConfig \<Rightarrow> uuid \<Rightarrow> Context \<Rightarrow> TradeSignal \<Rightarrow> Account \<Rightarrow> string slice \<Rightarrow> time \<Rightarrow> Decision" where
  "assess uc fresh riskCtx tradeSignal acct eventRestrictions now =
     (let evaluation = (if \<not> AllowsNewEntries (acc_OperationalMode acct)
            then \<lparr>ev_Allowed = False, ev_ReasonCodes = [ReasonOperationalModeBlocked], ev_AppliedRules = [''OperationalModeAllowsEntries'']\<rparr>
            else Policy_Evaluate (rk_policy uc) riskCtx);
          sizingResult = (if ev_Allowed evaluation then rk_sizer uc (sizing_input uc acct tradeSignal)
            else \<lparr>sr_Quantity = Quantity 0, sr_Rejected = True, sr_Reason = ''risk specifications blocked the signal''\<rparr>);
          originalSize = (if \<not> sr_Rejected sizingResult then sr_Quantity sizingResult else ZeroQuantity)
      in NewDecision fresh (sig_ID tradeSignal) evaluation originalSize sizingResult eventRestrictions now)"

text \<open>The end of \<^verbatim>\<open>Execute\<close>: the decision is stored, published and shown.\<close>

definition record_decision :: "'b Env \<Rightarrow> Decision \<Rightarrow> time \<Rightarrow> ('b, RiskDecisionDTO) usecase" where
  "record_decision E decision now =
     ubind (wrapped ''persisting risk decision'' (db_write E (decisions_Save (en_U E) decision))) (\<lambda>_.
     ubind (wrapped ''publishing RiskDecisionCreated''
       (Publish E (EvRiskDecisionCreated \<lparr>rdc_Decision = decision, rdc_OccurredAt = now\<rparr>))) (\<lambda>_.
     uret (ToRiskDecisionDTO (en_D E) (en_U E) decision)))"

definition EvaluateRisk :: "'b Env \<Rightarrow> RiskConfig \<Rightarrow> EvaluateRiskCommand \<Rightarrow> ('b, RiskDecisionDTO) usecase" where
  "EvaluateRisk E uc cmd =
     ubind (Now E) (\<lambda>now.
     ubind (wrapped ''loading signal'' (db_read E (signals_GetByID (en_D E) (en_U E) (erc_SignalID cmd)))) (\<lambda>tradeSignal.
     ubind (wrapped ''loading account'' (db_read E (accounts_GetActive (en_D E) (en_U E)))) (\<lambda>acct.
     ubind (wrapped ''loading open positions'' (db_read E (positions_ListOpen (en_D E) (en_U E)))) (\<lambda>openPositions.
     ubind (wrapped ''loading open orders'' (db_read E (orders_ListOpen (en_D E) (en_U E)))) (\<lambda>openOrders.
     ubind (wrapped ''loading active market events'' (db_read E (events_ListActive (en_D E) (en_U E)))) (\<lambda>activeEvents.
     attempt (broker_call E (br_GetAccount (en_B E))) (\<lambda>probe.
     let brokerHealthy = (case probe of Inl _ \<Rightarrow> False | Inr _ \<Rightarrow> True);
         eventRestrictions = restrictionsFor activeEvents (sig_Symbol tradeSignal) now;
         riskCtx = risk_context uc cmd now tradeSignal acct openPositions openOrders activeEvents brokerHealthy in
     ubind (NewUUID E) (\<lambda>fresh.
     record_decision E (assess uc fresh riskCtx tradeSignal acct eventRestrictions now) now))))))))"

section \<open>The candle consumer\<close>

text \<open>What the consumer writes to its log at the end of a candle, with the data it logs.\<close>

datatype CandleOutcome =
    SignalEvaluationFailed error
  | NoSignal
  | InvalidSignalID error
  | RiskEvaluationFailed error
  | RiskBlocked "string list"
  | InvalidRiskDecisionID error
  | OrderExecutionFailed error
  | OrderExecutionSkipped string
  | OrderExecuted "OrderDTO option"

definition HandleCandle :: "'b Env \<Rightarrow> SignalConfig \<Rightarrow> RiskConfig \<Rightarrow> EvaluateMarketSignalCommand \<Rightarrow> ('b, CandleOutcome) usecase" where
  "HandleCandle E sc rc cmd =
     attempt (EvaluateMarketSignal E sc cmd) (\<lambda>r1. case r1 of Inl err \<Rightarrow> uret (SignalEvaluationFailed err) | Inr signalResult \<Rightarrow>
     if \<not> smr_SignalCreated signalResult then uret NoSignal
     else case smr_Signal signalResult of
       None \<Rightarrow> ufail (Panic ''invalid memory address or nil pointer dereference'')
     | Some dto \<Rightarrow>
     (case ParseSignalID (en_U E) (ds_ID dto) of Inl err \<Rightarrow> uret (InvalidSignalID err) | Inr signalID \<Rightarrow>
     attempt (EvaluateRisk E rc \<lparr>erc_SignalID = signalID, erc_CurrentPrice = cdl_Close (ems_Candle cmd)\<rparr>) (\<lambda>r2.
     case r2 of Inl err \<Rightarrow> uret (RiskEvaluationFailed err) | Inr decision \<Rightarrow>
     if \<not> dr_Allowed decision then uret (RiskBlocked (dr_ReasonCodes decision))
     else
     (case ParseRiskDecisionID (en_U E) (dr_ID decision) of Inl err \<Rightarrow> uret (InvalidRiskDecisionID err) | Inr riskDecisionID \<Rightarrow>
     attempt (ExecuteApprovedOrder E riskDecisionID) (\<lambda>r3.
     case r3 of Inl err \<Rightarrow> uret (OrderExecutionFailed err) | Inr executeResult \<Rightarrow>
     if xr_Skipped executeResult then uret (OrderExecutionSkipped (xr_SkipReason executeResult))
     else uret (OrderExecuted (xr_Order executeResult)))))))"


section \<open>Which restrictions a decision carries\<close>

lemma restrictions_loop_items:
  "slice_items (restrictions_loop evs symbol now rs) = slice_items rs @
     map (\<lambda>ev. evt_EventType ev @ '':'' @ Action_String (evt_Action ev))
       (filter (\<lambda>ev. \<not> Event_IsExpired ev now \<and> AffectsSymbol ev symbol) evs)"
  by (induction evs arbitrary: rs) (auto simp: slice_append_def)

lemma restrictions_loop_nil:
  "restrictions_loop evs symbol now rs = None \<longleftrightarrow>
     rs = None \<and> (\<forall>ev\<in>set evs. Event_IsExpired ev now \<or> \<not> AffectsSymbol ev symbol)"
  by (induction evs arbitrary: rs) (auto simp: slice_append_def)

section \<open>What a risk evaluation does\<close>

text \<open>A decision made from what is stored, at a time and with the broker found healthy or not.\<close>

definition assessed :: "'b Env \<Rightarrow> RiskConfig \<Rightarrow> EvaluateRiskCommand \<Rightarrow> time \<Rightarrow> DB \<Rightarrow> bool \<Rightarrow> TradeSignal \<Rightarrow> Account \<Rightarrow>
    Position list \<Rightarrow> Order list \<Rightarrow> MarketEvent list \<Rightarrow> Decision \<Rightarrow> bool" where
  "assessed E uc cmd now db healthy tradeSignal acct ps os evs decision \<longleftrightarrow>
     signals_GetByID (en_D E) (en_U E) (erc_SignalID cmd) db = Inr tradeSignal \<and> accounts_GetActive (en_D E) (en_U E) db = Inr acct \<and>
     positions_ListOpen (en_D E) (en_U E) db = Inr ps \<and> orders_ListOpen (en_D E) (en_U E) db = Inr os \<and>
     events_ListActive (en_D E) (en_U E) db = Inr evs \<and>
     (\<exists>u. decision = assess uc u (risk_context uc cmd now tradeSignal acct ps os evs healthy) tradeSignal acct
        (restrictionsFor evs (sig_Symbol tradeSignal) now) now)"

lemma decisions_Save_cases:
  "decisions_Save U d db = (r, db') \<Longrightarrow> (\<exists>e. r = Inl e) \<and> db' = db \<or> r = Inr ()"
  by (auto simp: decisions_Save_def split: sum.splits if_splits)

lemma db_write_decision:
  assumes "db_write E (decisions_Save U d) w = (r, w')"
  shows "(\<exists>e. r = Inl e) \<and> w_db w' = w_db w \<or> decisions_Save U d (w_db w) = (Inr (), w_db w')"
  using assms decisions_Save_cases
  by (auto simp: db_write_def infra_def split: fault.splits prod.splits) (metis snd_conv surjective_pairing)+

lemma broker_call_db: "broker_call E g w = (r, w') \<Longrightarrow> w_db w' = w_db w"
  by (auto simp: broker_call_def infra_def split: fault.splits prod.splits)

lemma Publish_db: "Publish E ev w = (r, w') \<Longrightarrow> w_db w' = w_db w \<and> w_broker w' = w_broker w \<and> w_inTx w' = w_inTx w"
  by (auto simp: Publish_def)

lemma record_decision_effect:
  assumes "record_decision E decision now w = (r, w')"
  shows "((\<exists>e. r = Inl e) \<and> w_db w' = w_db w \<or> decisions_Save (en_U E) decision (w_db w) = (Inr (), w_db w')) \<and>
    (\<forall>dto. r = Inr dto \<longrightarrow> dto = ToRiskDecisionDTO (en_D E) (en_U E) decision)"
  using assms unfolding record_decision_def
  by (elim ubindE wrappedE; simp add: usecase_steps) (auto dest!: db_write_decision Publish_db)

text \<open>Single steps, for elimination.\<close>

lemma now_stepE:
  assumes "ubind (Now E) f w = (r, w')"
  obtains "f (en_clock E (w_tick w)) (tick w) = (r, w')"
  using assms by (simp add: ubind_def Now_def)

lemma uuid_stepE:
  assumes "ubind (NewUUID E) f w = (r, w')"
  obtains "f (en_uuid E (w_tick w)) (tick w) = (r, w')"
  using assms by (simp add: ubind_def NewUUID_def)

lemma read_stepE:
  assumes "ubind (wrapped c (db_read E g)) f w = (r, w')"
  obtains (fail) e where "r = Inl e" "w' = tick w" | (go) x where "g (w_db w) = Inr x" "f x (tick w) = (r, w')"
  using assms by (elim ubindE wrappedE db_readE) auto

lemma probe_stepE:
  assumes "attempt (broker_call E g) f w = (r, w')"
  obtains (fail) e where "r = Inl e" "w_db w' = w_db w" | (go) p w1 where "f p w1 = (r, w')" "w_db w1 = w_db w"
  using assms by (elim attemptE) (auto dest: broker_call_db)

text \<open>What was read, and the decision that was then recorded.\<close>

lemma EvaluateRisk_assesses:
  assumes "EvaluateRisk E uc cmd w = (r, w')"
  shows "(\<exists>e. r = Inl e) \<and> w_db w' = w_db w \<or>
    (\<exists>healthy tradeSignal acct ps os evs decision w1.
       assessed E uc cmd (en_clock E (w_tick w)) (w_db w) healthy tradeSignal acct ps os evs decision \<and> w_db w1 = w_db w \<and>
       record_decision E decision (en_clock E (w_tick w)) w1 = (r, w'))"
  using assms unfolding EvaluateRisk_def Let_def
  by (elim now_stepE read_stepE probe_stepE uuid_stepE) (simp_all add: assessed_def, metis tick_simps(1))

lemma EvaluateRisk_effect:
  assumes "EvaluateRisk E uc cmd w = (r, w')"
  shows "(\<exists>e. r = Inl e) \<and> w_db w' = w_db w \<or>
    (\<exists>healthy tradeSignal acct ps os evs decision.
       assessed E uc cmd (en_clock E (w_tick w)) (w_db w) healthy tradeSignal acct ps os evs decision \<and>
       decisions_Save (en_U E) decision (w_db w) = (Inr (), w_db w') \<and>
       (\<forall>dto. r = Inr dto \<longrightarrow> dto = ToRiskDecisionDTO (en_D E) (en_U E) decision))"
  using EvaluateRisk_assesses [OF assms]
proof (elim disjE exE conjE)
  fix healthy tradeSignal acct ps os evs decision w1
  assume a: "assessed E uc cmd (en_clock E (w_tick w)) (w_db w) healthy tradeSignal acct ps os evs decision" and w1: "w_db w1 = w_db w"
    and rec: "record_decision E decision (en_clock E (w_tick w)) w1 = (r, w')"
  show ?thesis using record_decision_effect [OF rec] a unfolding w1 by blast
qed simp


section \<open>Decisions without restrictions are never stored\<close>

lemma nil_restrictions_refused: "dec_EventRestrictions d = None \<Longrightarrow> \<exists>e. decisions_Save U d db = (Inl e, db)"
  by (cases "decision_columns (decision_toModel U d)")
    (auto simp: decisions_Save_def decision_columns_def decision_toModel_def rbind_Inr_iff)

lemma assess_restrictions [simp]: "dec_EventRestrictions (assess uc u ctx s a rs now) = rs"
  by (simp add: assess_def NewDecision_def Let_def)

text \<open>
  C39: A decision on a symbol no running event restricts is never stored: the list of its restrictions
  is a nil slice, which the column refuses, so the risk evaluation always fails and leaves the
  database as it was, whatever the rest of the state and whatever the policy. Nothing is
  traded while there is no news about the symbol.
\<close>

theorem unrestricted_decision_refused:
  assumes "EvaluateRisk E uc cmd w = (r, w')"
    "\<And>tradeSignal evs ev. signals_GetByID (en_D E) (en_U E) (erc_SignalID cmd) (w_db w) = Inr tradeSignal \<Longrightarrow>
       events_ListActive (en_D E) (en_U E) (w_db w) = Inr evs \<Longrightarrow> ev \<in> set evs \<Longrightarrow>
       Event_IsExpired ev (en_clock E (w_tick w)) \<or> \<not> AffectsSymbol ev (sig_Symbol tradeSignal)"
  shows "(\<exists>e. r = Inl e) \<and> w_db w' = w_db w"
  using EvaluateRisk_effect [OF assms(1)]
proof (elim disjE exE conjE)
  fix healthy tradeSignal acct ps os evs decision
  assume a: "assessed E uc cmd (en_clock E (w_tick w)) (w_db w) healthy tradeSignal acct ps os evs decision"
    and saved: "decisions_Save (en_U E) decision (w_db w) = (Inr (), w_db w')"
  have "restrictionsFor evs (sig_Symbol tradeSignal) (en_clock E (w_tick w)) = None"
    using a assms(2) unfolding restrictionsFor_def restrictions_loop_nil assessed_def by blast
  then have "dec_EventRestrictions decision = None" using a by (auto simp: assessed_def)
  with nil_restrictions_refused saved show ?thesis by (metis Pair_inject sum.distinct(1))
qed simp

section \<open>What an allowed decision guarantees\<close>

definition default_config :: "'b Env \<Rightarrow> RiskConfig \<Rightarrow> bool" where
  "default_config E uc \<longleftrightarrow> rk_policy uc = NewDefaultRiskPolicy (en_D E) \<and> rk_sizer uc = FixedRisk_Size (en_D E) \<and>
     0 \<le> str_StepSize (rk_rules uc)"

lemma signals_GetByID_price:
  assumes "decimal_lib D" "signals_GetByID D U i db = Inr s"
  shows "0 < Price_Decimal (sig_EntryPrice s)"
  using assms by (auto simp: signals_GetByID_def scan_one_def signal_toDomain_def rbind_Inr_iff NewPrice_def not_le split: option.splits if_splits)

lemma assess_allowed:
  assumes "dec_Allowed (assess uc u ctx s a rs now)"
  shows "AllowsNewEntries (acc_OperationalMode a) \<and> ev_Allowed (Policy_Evaluate (rk_policy uc) ctx) \<and>
    \<not> sr_Rejected (rk_sizer uc (sizing_input uc a s)) \<and>
    dec_ApprovedPositionSize (assess uc u ctx s a rs now) = sr_Quantity (rk_sizer uc (sizing_input uc a s))"
  using assms by (auto simp: assess_def NewDecision_def Let_def split: if_splits)

text \<open>What it takes to trade a signal: mode, rule book and size.\<close>

definition trade_permitted :: "'b Env \<Rightarrow> RiskConfig \<Rightarrow> Context \<Rightarrow> TradeSignal \<Rightarrow> Account \<Rightarrow> Quantity \<Rightarrow> bool" where
  "trade_permitted E uc ctx s a q \<longleftrightarrow> AllowsNewEntries (acc_OperationalMode a) \<and> entry_permitted (en_D E) ctx \<and>
     (let i = sizing_input uc a s in sized_within i (stop_distance i) (Quantity_Decimal q) \<and>
       Quantity_Decimal q * stop_distance i \<le>
         Money_Decimal (si_AvailableBalance i) * Percentage_Decimal (si_RiskPerTrade i) + sizing_slack i * stop_distance i)"

lemma allowed_permitted:
  assumes "decimal_lib (en_D E)" "default_config E uc" "assessed E uc cmd now db healthy s a ps os evs decision" "dec_Allowed decision"
  shows "trade_permitted E uc (risk_context uc cmd now s a ps os evs healthy) s a (dec_ApprovedPositionSize decision)"
proof -
  let ?i = "sizing_input uc a s"
  obtain u where d: "decision = assess uc u (risk_context uc cmd now s a ps os evs healthy) s a (restrictionsFor evs (sig_Symbol s) now) now"
    and sig: "signals_GetByID (en_D E) (en_U E) (erc_SignalID cmd) db = Inr s"
    using assms(3) by (auto simp: assessed_def)
  note allowed = assess_allowed [OF assms(4) [unfolded d]]
  have ok: "sizing_input_ok ?i"
    using signals_GetByID_price [OF assms(1) sig] assms(2) by (simp add: sizing_input_ok_def sizing_input_def default_config_def)
  have nr: "\<not> sr_Rejected (FixedRisk_Size (en_D E) ?i)" using allowed assms(2) by (simp add: default_config_def)
  have gap: "0 < stop_distance ?i" using fixed_risk_sizer.approved [OF assms(1) ok nr] by (simp add: stop_distance_def)
  show ?thesis
    using allowed fixed_risk_sizer.approved [OF assms(1) ok nr] fixed_risk_sizer.approved_loss [OF assms(1) ok nr gap]
      default_policy_allowed [OF assms(1)] assms(2)
    by (simp add: trade_permitted_def d default_config_def Let_def)
qed

lemma decision_columns_fields:
  "decision_columns m = Inr row \<Longrightarrow> dm_ID row = dm_ID m \<and> dm_Allowed row = dm_Allowed m \<and> dm_SignalID row = dm_SignalID m"
  by (auto simp: decision_columns_def rbind_Inr_iff split: option.splits)

lemma decisions_Save_row:
  assumes "decisions_Save U d db = (Inr (), db')"
  shows "\<exists>row. map_of (db_decisions db') (RiskDecisionID_String U (dec_ID d)) = Some row \<and>
    (map_of (db_decisions db) (RiskDecisionID_String U (dec_ID d)) = None \<longrightarrow> decision_columns (decision_toModel U d) = Inr row)"
  using assms decision_columns_fields [of "decision_toModel U d"]
  by (auto simp: decisions_Save_def insert_once_def decision_toModel_def split: sum.splits if_splits option.splits)



section \<open>The whole pipeline\<close>

definition reads_only :: "'b Env \<Rightarrow> bool" where
  "reads_only E \<longleftrightarrow> (\<forall>b. snd (br_GetAccount (en_B E) b) = b)"

lemma keeps_probe: "reads_only E \<Longrightarrow> keeps same_broker (broker_call E (br_GetAccount (en_B E)))"
  unfolding broker_call_def
  by (rule same_broker.keeps_infra) (auto simp: keeps_def same_broker_def reads_only_def split: prod.splits, metis snd_conv)

lemma keeps_broker_external: "keeps same_broker (external_call E f)"
  unfolding external_call_def by (rule same_broker.keeps_infra) (simp add: keeps_def same_broker_def)

lemma keeps_broker_signal: "keeps same_broker (EvaluateMarketSignal E sc cmd)"
  unfolding EvaluateMarketSignal_def by (intro same_broker.keeps_db_intros keeps_Publish keeps_broker_external)

lemma keeps_broker_risk: "reads_only E \<Longrightarrow> keeps same_broker (EvaluateRisk E uc cmd)"
  unfolding EvaluateRisk_def record_decision_def Let_def
  by (intro same_broker.keeps_db_intros keeps_Publish keeps_probe)

lemma external_call_Inr: "external_call E f w = (Inr x, w') \<Longrightarrow> \<exists>n. f n = Inr x"
  by (auto simp: external_call_def infra_def split: fault.splits)

text \<open>A signal the engine proposed and the constructor accepted, from a fresh candle.\<close>

definition proposed :: "'b Env \<Rightarrow> SignalConfig \<Rightarrow> EvaluateMarketSignalCommand \<Rightarrow> time \<Rightarrow> TradeSignal \<Rightarrow> bool" where
  "proposed E sc cmd now s \<longleftrightarrow> Candle_Age (ems_Candle cmd) now \<le> sg_maxCandleAge sc \<and> signal_coherent s \<and>
     sig_CreatedAt s = now \<and> sig_ValidUntil s = time_Add now (sg_signalValidity sc) \<and>
     (\<exists>n q. sg_engine sc n \<lparr>qi_Candle = ems_Candle cmd, qi_RecentCandles = ems_RecentCandles cmd\<rparr> = Inr q \<and> qs_HasSignal q \<and>
        sig_Symbol s = qs_Symbol q \<and> sig_Side s = qs_Side q \<and> sig_EntryPrice s = qs_EntryPrice q \<and>
        sig_StopPrice s = qs_StopPrice q \<and> sig_TargetPrice s = qs_TargetPrice q)"

lemma EvaluateMarketSignal_created:
  assumes "EvaluateMarketSignal E sc cmd w = (Inr res, w')" "smr_SignalCreated res" "decimal_lib (en_D E)"
  shows "\<exists>s. proposed E sc cmd (en_clock E (w_tick w)) s \<and> smr_Signal res = Some (ToSignalDTO (en_D E) (en_U E) s)"
proof -
  let ?now = "en_clock E (w_tick w)"
  obtain n q u s where age: "\<not> AgeExceeds (ems_Candle cmd) ?now (sg_maxCandleAge sc)"
    and q: "sg_engine sc n \<lparr>qi_Candle = ems_Candle cmd, qi_RecentCandles = ems_RecentCandles cmd\<rparr> = Inr q" "qs_HasSignal q"
    and s: "signal_New (en_D E) u (qs_Symbol q) (qs_Side q) (qs_EntryPrice q) (qs_StopPrice q) (qs_TargetPrice q)
       (qs_Confidence q) (qs_StrategyName q) (qs_Regime q) ?now (time_Add ?now (sg_signalValidity sc)) = Inr s"
    and res: "smr_Signal res = Some (ToSignalDTO (en_D E) (en_U E) s)"
    using assms(1,2) unfolding EvaluateMarketSignal_def
    by (auto elim!: now_stepE simp: ubind_Inr wrapped_Inr usecase_steps dest!: external_call_Inr split: if_splits)
  have "proposed E sc cmd ?now s"
    using age q s [unfolded signal_New_Inr [OF assms(3)]] by (auto simp: proposed_def AgeExceeds_def not_less)
  with res show ?thesis by blast
qed

text \<open>The stages a candle has gone through when the execution is started.\<close>

lemma HandleCandle_stages:
  assumes "HandleCandle E sc rc cmd w = (r, w')" "w_broker w' \<noteq> w_broker w" "reads_only E"
  shows "\<exists>res w1 dto sid d w2 rid r3. EvaluateMarketSignal E sc cmd w = (Inr res, w1) \<and> smr_SignalCreated res \<and>
    smr_Signal res = Some dto \<and> ParseSignalID (en_U E) (ds_ID dto) = Inr sid \<and>
    EvaluateRisk E rc \<lparr>erc_SignalID = sid, erc_CurrentPrice = cdl_Close (ems_Candle cmd)\<rparr> w1 = (Inr d, w2) \<and> dr_Allowed d \<and>
    ParseRiskDecisionID (en_U E) (dr_ID d) = Inr rid \<and> ExecuteApprovedOrder E rid w2 = (r3, w') \<and> w_broker w2 = w_broker w"
proof -
  have s: "w_broker v' = w_broker v" if "EvaluateMarketSignal E sc cmd v = (q, v')" for v q v'
    using same_broker.keeps_app [OF keeps_broker_signal that] by (simp add: same_broker_def)
  have k: "w_broker v' = w_broker v" if "EvaluateRisk E rc c v = (q, v')" for c v q v'
    using same_broker.keeps_app [OF keeps_broker_risk [OF assms(3)] that] by (simp add: same_broker_def)
  obtain q1 w1 where 1: "EvaluateMarketSignal E sc cmd w = (q1, w1)" by (cases "EvaluateMarketSignal E sc cmd w")
  obtain res dto sid where res: "q1 = Inr res" "smr_SignalCreated res" "smr_Signal res = Some dto" "ParseSignalID (en_U E) (ds_ID dto) = Inr sid"
    using assms(1,2) s [OF 1] by (auto simp: HandleCandle_def attempt_def 1 split: sum.splits if_splits option.splits)
  let ?cmd = "\<lparr>erc_SignalID = sid, erc_CurrentPrice = cdl_Close (ems_Candle cmd)\<rparr>"
  obtain q2 w2 where 2: "EvaluateRisk E rc ?cmd w1 = (q2, w2)" by (cases "EvaluateRisk E rc ?cmd w1")
  obtain d rid where d: "q2 = Inr d" "dr_Allowed d" "ParseRiskDecisionID (en_U E) (dr_ID d) = Inr rid"
    using assms(1,2) s [OF 1] k [OF 2] res by (auto simp: HandleCandle_def attempt_def 1 2 split: sum.splits if_splits)
  obtain q3 w3 where 3: "ExecuteApprovedOrder E rid w2 = (q3, w3)" by (cases "ExecuteApprovedOrder E rid w2")
  have "w' = w3"
    using assms(1) res d by (auto simp: HandleCandle_def attempt_def 1 2 3 split: sum.splits if_splits)
  with 1 2 3 res d s [OF 1] k [OF 2] show ?thesis by auto
qed



section \<open>A candle that ends in an order\<close>

text \<open>
  A concrete run of the whole chain: a mild event about the symbol is active, so the decision has a
  restriction and can be stored.
\<close>

definition news_event :: MarketEvent where
  "news_event = \<lparr>evt_ID = MarketEventID 7, evt_EventType = ''ETF'', evt_Direction = DirectionBullish, evt_Severity = SeverityLow,
     evt_Confidence = Confidence (1 / 2), evt_AffectedAssets = [Symbol ''BTCUSDT''], evt_Action = ActionNormal, evt_SourceCount = 1,
     evt_HasOfficialSource = False, evt_PublishedAt = 0, evt_DetectedAt = 0, evt_ExpiresAt = 1000000, evt_Status = EventActive\<rparr>"

definition news_world :: "PaperBroker World" where
  "news_world = sample_world\<lparr>w_db := sample_db\<lparr>db_events := [(uString ref_uuid 7, event_toModel ref_uuid news_event)]\<rparr>\<rparr>"

definition sample_engine_answer :: QuantSignal where
  "sample_engine_answer = \<lparr>qs_HasSignal = True, qs_Symbol = Symbol ''BTCUSDT'', qs_Side = SideBuy, qs_EntryPrice = Price 100,
     qs_StopPrice = Price 98, qs_TargetPrice = Price 104, qs_Confidence = Confidence (4 / 5), qs_StrategyName = ''trend'', qs_Regime = RegimeTrending\<rparr>"

definition sample_signal_config :: SignalConfig where
  "sample_signal_config = \<lparr>sg_engine = (\<lambda>_ _. Inr sample_engine_answer), sg_maxCandleAge = 60 * Second, sg_signalValidity = 9000,
     sg_timeText = (\<lambda>_. ''T'')\<rparr>"

definition sample_risk_config :: RiskConfig where
  "sample_risk_config = \<lparr>rk_policy = NewDefaultRiskPolicy ref_decimal, rk_sizer = FixedRisk_Size ref_decimal, rk_thresholds = sample_thresholds,
     rk_rules = \<lparr>str_MinQuantity = Quantity (1 / 1000), str_StepSize = 1 / 1000, str_MinNotional = Money 10\<rparr>\<rparr>"

definition sample_candle_cmd :: EvaluateMarketSignalCommand where
  "sample_candle_cmd = \<lparr>ems_Candle = \<lparr>cdl_Symbol = Symbol ''BTCUSDT'', cdl_Timeframe = Timeframe ''1m'', cdl_Open = Price 99,
     cdl_High = Price 101, cdl_Low = Price 99, cdl_Close = Price 100, cdl_Volume = Quantity 5, cdl_OpenTime = - 60000, cdl_CloseTime = 0\<rparr>,
     ems_RecentCandles = []\<rparr>"

definition piped_signal :: TradeSignal where
  "piped_signal = sample_signal\<lparr>sig_CreatedAt := 0, sig_ValidUntil := 9000\<rparr>"

definition piped_db :: DB where
  "piped_db = (w_db news_world)\<lparr>db_signals := [(uString ref_uuid 3, signal_toModel ref_uuid piped_signal)]\<rparr>"

lemma sample_reads_only: "reads_only quiet_env" "default_config quiet_env sample_risk_config"
  by (simp_all add: reads_only_def paper_broker_def paper_GetAccount_def default_config_def sample_risk_config_def)

lemma piped_signal_saved: "signals_Save ref_uuid piped_signal (w_db news_world) = (Inr (), piped_db)"
  by (simp add: signals_Save_def signal_columns_def signal_toModel_def piped_signal_def sample_signal_def numeric_def round_to_def
      round_half_away_def timestamptz_def insert_once_def piped_db_def news_world_def sample_db_def emptyDB_def Let_def)

lemma quiet_fields [simp]: "en_clock quiet_env n = 1000 * int n" "en_uuid quiet_env n = n + 1" "en_handlers quiet_env nm = []"
  by (simp_all add: quiet_env_def)

lemma sample_signal_run:
  "EvaluateMarketSignal quiet_env sample_signal_config sample_candle_cmd news_world =
     (Inr \<lparr>smr_SignalCreated = True, smr_Signal = Some (ToSignalDTO ref_decimal ref_uuid piped_signal)\<rparr>,
      news_world\<lparr>w_db := piped_db, w_tick := 4, w_published := [EvSignalCreated \<lparr>sc_Signal = piped_signal, sc_OccurredAt = 0\<rparr>]\<rparr>)"
proof -
  have new: "signal_New ref_decimal 3 (Symbol ''BTCUSDT'') SideBuy (Price 100) (Price 98) (Price 104) (Confidence (4 / 5)) ''trend'' RegimeTrending 0
      (time_Add 0 9000) = Inr piped_signal"
    unfolding signal_New_Inr [OF decimal_lib_ref]
    by (simp add: signal_coherent_def piped_signal_def sample_signal_def order_defs Regime_Valid_def time_Add_def)
  have age: "\<not> AgeExceeds (ems_Candle sample_candle_cmd) 0 (60 * Second)"
    by (simp add: AgeExceeds_def Candle_Age_def sample_candle_cmd_def time_Sub_def Second_def minDuration_def maxDuration_def)
  have tick: "w_tick news_world = 0" "w_published news_world = []" by (simp_all add: news_world_def sample_world_def)
  have wr: "db_write quiet_env (signals_Save ref_uuid piped_signal) w = (Inr (), (tick w)\<lparr>w_db := piped_db\<rparr>)" if "w_db w = w_db news_world" for w
    by (rule db_write_ok) (simp_all add: that piped_signal_saved)
  show ?thesis
    using age new [unfolded numeral_3_eq_3]
    by (simp add: EvaluateMarketSignal_def ubind_go wrapped_go Now_def NewUUID_def external_call_def infra_ok lift_def sample_signal_config_def
        sample_engine_answer_def wr Publish_def errors_Join_def tick)
qed


text \<open>The decision on it: the rule book admits it and the sizer approves fifty units.\<close>

definition piped_decision :: Decision where
  "piped_decision = \<lparr>dec_ID = RiskDecisionID 12, dec_SignalID = SignalID 3, dec_Allowed = True, dec_OriginalPositionSize = Quantity 50,
     dec_ApprovedPositionSize = Quantity 50, dec_ReasonCodes = [], dec_AppliedRules = map spec_Name (DefaultSpecifications ref_decimal),
     dec_EventRestrictions = Some [''ETF:NORMAL''], dec_CreatedAt = 4000\<rparr>"

definition decided_db :: DB where
  "decided_db = piped_db\<lparr>db_decisions := [(uString ref_uuid 12, decision_toModel ref_uuid piped_decision)]\<rparr>"

definition sample_risk_cmd :: EvaluateRiskCommand where
  "sample_risk_cmd = \<lparr>erc_SignalID = SignalID 3, erc_CurrentPrice = Price 100\<rparr>"

lemma piped_reads:
  "signals_GetByID ref_decimal ref_uuid (SignalID 3) piped_db = Inr piped_signal"
  "accounts_GetActive ref_decimal ref_uuid piped_db = Inr sample_account"
  "positions_ListOpen ref_decimal ref_uuid piped_db = Inr []" "orders_ListOpen ref_decimal ref_uuid piped_db = Inr []"
  "events_ListActive ref_decimal ref_uuid piped_db = Inr [news_event]"
proof -
  show "signals_GetByID ref_decimal ref_uuid (SignalID 3) piped_db = Inr piped_signal"
    by (simp add: signals_GetByID_def piped_db_def scan_one_def signal_toDomain_def signal_toModel_def piped_signal_def sample_signal_def
        Parse_defs NewPrice_def NewConfidence_def sample_symbol uuid_libD(1) [OF uuid_lib_ref] Side_of_string_def Side_String_def
        Regime_of_string_def Regime_String_def)
  show "accounts_GetActive ref_decimal ref_uuid piped_db = Inr sample_account"
    using sample_GetActive by (simp add: accounts_GetActive_def piped_db_def news_world_def)
  show "positions_ListOpen ref_decimal ref_uuid piped_db = Inr []" "orders_ListOpen ref_decimal ref_uuid piped_db = Inr []"
    by (simp_all add: positions_ListOpen_def orders_ListOpen_def piped_db_def news_world_def sample_db_def emptyDB_def order_desc_def)
  show "events_ListActive ref_decimal ref_uuid piped_db = Inr [news_event]"
    by (simp add: events_ListActive_def piped_db_def news_world_def order_desc_def event_toModel_def event_toDomain_def news_event_def
        Parse_defs uuid_libD(1) [OF uuid_lib_ref] NewConfidence_def sample_symbol EventStatus_String_def EventStatus_of_string_def
        Direction_of_string_def Direction_String_def Severity_of_string_def Severity_String_def Action_of_string_def Action_String_def rbind_def)
qed

lemma piped_assessment:
  "assess sample_risk_config 12 (risk_context sample_risk_config sample_risk_cmd 4000 piped_signal sample_account [] [] [news_event] True)
     piped_signal sample_account (restrictionsFor [news_event] (Symbol ''BTCUSDT'') 4000) 4000 = piped_decision"
proof -
  let ?ctx = "risk_context sample_risk_config sample_risk_cmd 4000 piped_signal sample_account [] [] [news_event] True"
  have "entry_permitted ref_decimal ?ctx"
    by (simp add: entry_permitted_def risk_context_def sample_risk_config_def sample_risk_cmd_def sample_defs piped_signal_def news_event_def
        IsCritical_def SlippageBetween_def DistanceTo_def time_Sub_def minDuration_def maxDuration_def Second_def)
  then have ok: "ev_Allowed (Policy_Evaluate (NewDefaultRiskPolicy ref_decimal) ?ctx)" by (simp add: default_policy_allowed)
  then have sat: "\<forall>s\<in>set (DefaultSpecifications ref_decimal). res_Satisfied (spec_Evaluate s ?ctx)"
    by (simp add: Policy_Evaluate_def evaluate_loop_spec NewDefaultRiskPolicy_def NewCompositeRiskPolicy_def)
  have ev: "Policy_Evaluate (NewDefaultRiskPolicy ref_decimal) ?ctx =
      \<lparr>ev_Allowed = True, ev_ReasonCodes = [], ev_AppliedRules = map spec_Name (DefaultSpecifications ref_decimal)\<rparr>"
    using sat by (simp add: Policy_Evaluate_def evaluate_loop_spec NewDefaultRiskPolicy_def NewCompositeRiskPolicy_def)
  have size: "sizing_input sample_risk_config sample_account piped_signal = sample_sizing"
    by (simp add: sizing_input_def sample_risk_config_def sample_defs piped_signal_def sample_sizing_def ZeroMoney_def)
  have mode: "AllowsNewEntries (acc_OperationalMode sample_account)" by (simp add: sample_account_def AllowsNewEntries_def)
  have rs: "restrictionsFor [news_event] (Symbol ''BTCUSDT'') 4000 = Some [''ETF:NORMAL'']"
    by (simp add: restrictionsFor_def news_event_def Event_IsExpired_def time_After_def slice_append_def Action_String_def)
  have cfg: "rk_policy sample_risk_config = NewDefaultRiskPolicy ref_decimal" "rk_sizer sample_risk_config = FixedRisk_Size ref_decimal"
    by (simp_all add: sample_risk_config_def)
  show ?thesis
    by (simp add: assess_def mode cfg ev size sample_sizing_result NewDecision_def rs Let_def)
      (simp add: piped_decision_def piped_signal_def sample_signal_def)
qed

lemma piped_decision_saved: "decisions_Save ref_uuid piped_decision piped_db = (Inr (), decided_db)"
proof -
  have "decision_columns (decision_toModel ref_uuid piped_decision) = Inr (decision_toModel ref_uuid piped_decision)"
    by (simp add: decision_columns_def decision_toModel_def piped_decision_def numeric_def round_to_def round_half_away_def timestamptz_def Let_def)
  then show ?thesis
    by (simp add: decisions_Save_def decided_db_def insert_once_def)
      (simp add: decision_toModel_def piped_decision_def piped_db_def news_world_def sample_db_def emptyDB_def)
qed

lemma sample_risk_run:
  assumes "w_db w = piped_db" "w_tick w = 4" "w_broker w = sample_broker"
  shows "\<exists>w'. EvaluateRisk quiet_env sample_risk_config sample_risk_cmd w = (Inr (ToRiskDecisionDTO ref_decimal ref_uuid piped_decision), w') \<and>
    w_db w' = decided_db \<and> w_tick w' = 13 \<and> w_broker w' = sample_broker \<and> w_inTx w' = w_inTx w"
proof -
  have wr: "db_write quiet_env (decisions_Save ref_uuid piped_decision) v = (Inr (), (tick v)\<lparr>w_db := decided_db\<rparr>)" if "w_db v = piped_db" for v
    by (rule db_write_ok) (simp_all add: that piped_decision_saved)
  have sid: "erc_SignalID sample_risk_cmd = SignalID 3" "sig_Symbol piped_signal = Symbol ''BTCUSDT''"
    by (simp_all add: sample_risk_cmd_def piped_signal_def sample_signal_def)
  show ?thesis
    using piped_assessment
    by (simp add: EvaluateRisk_def record_decision_def ubind_go wrapped_go Now_def NewUUID_def db_read_ok assms(1-2) sid piped_reads attempt_def
        broker_call_def infra_ok paper_broker_def paper_GetAccount_def Let_def wr Publish_def errors_Join_def) (simp add: tick_def assms)
qed


definition piped_cid :: ClientOrderID where
  "piped_cid = ClientOrderID (uString ref_uuid 12)"

definition piped_fill :: BrokerOrder where
  "piped_fill = \<lparr>bo_BrokerOrderID = ''PAPER-00000001'', bo_ClientOrderID = uString ref_uuid 12, bo_Symbol = Symbol ''BTCUSDT'',
     bo_Side = SideBuy, bo_Type = ''MARKET'', bo_Quantity = Quantity 50, bo_FilledQuantity = Quantity 50,
     bo_AveragePrice = Some (Price 101), bo_RawStatus = ''FILLED''\<rparr>"

lemma piped_placement:
  "\<exists>b. paper_PlaceOrder ref_decimal sample_broker \<lparr>por_ClientOrderID = piped_cid, por_Symbol = Symbol ''BTCUSDT'', por_Side = SideBuy,
     por_Type = ''MARKET'', por_Quantity = Quantity 50, por_Price = Some (Price 100)\<rparr> = (Inr piped_fill, b) \<and> 0 < pb_nextOrderSeq b"
  by (simp add: paper_PlaceOrder_def sample_broker_def piped_fill_def piped_cid_def
      NewBroker_def resetLocked_def applySlippage_def NewPrice_def applyFillLocked_def paper_order_id_1 Let_def)

lemma piped_cid_valid: "NewClientOrderID (ClientOrderID_String piped_cid) = Inr piped_cid" "length (ClientOrderID_String piped_cid) = 36"
  using uuid_libD [OF uuid_lib_ref] is_uuid_char_id
  by (auto simp: piped_cid_def NewClientOrderID_def clientOrderIDPattern_def list_all_iff)

lemma decided_reads:
  "decisions_GetByID ref_decimal ref_uuid (RiskDecisionID 12) decided_db = Inr piped_decision"
  by (simp add: decisions_GetByID_def decided_db_def scan_one_def decision_toDomain_def decision_toModel_def piped_decision_def
      Parse_defs NewQuantity_def uuid_libD(1) [OF uuid_lib_ref])

lemma piped_guards: "guards_passed quiet_env (RiskDecisionID 12) decided_db piped_decision piped_signal sample_account piped_cid"
  using decided_reads piped_reads(1,2)
  by (simp add: guards_passed_def signals_GetByID_def accounts_GetActive_def decided_db_def)
    (simp add: piped_decision_def sample_account_def piped_cid_def AllowsNewEntries_def)

lemma decided_tables [simp]: "db_orders decided_db = []" "db_positions decided_db = []" "db_outbox decided_db = []"
  "db_executions decided_db = []" "db_idempotency decided_db = []" "db_accounts decided_db = db_accounts sample_db"
  by (simp_all add: decided_db_def piped_db_def news_world_def sample_db_def emptyDB_def)

lemma piped_uuid_inj: "inj_on (\<lambda>n. uString ref_uuid (n + 1)) {13..<53}"
  by (rule inj_onI, drule arg_cong [where f = "uParse ref_uuid"]) (simp add: uuid_libD(1) [OF uuid_lib_ref])

lemma piped_executable: "w_db w = decided_db \<Longrightarrow> executable quiet_env piped_decision piped_signal sample_account piped_fill w"
proof -
  have "account_ready quiet_env sample_account (Quantity 50) (Price 101) (db_accounts sample_db)"
    using sample_accounts_ok sample_account_storable account_roundtrip [OF decimal_lib_ref uuid_lib_ref sample_account_storable]
    by (simp add: account_ready_def sample_db_def emptyDB_def active_row_def)
      (simp add: sample_account_def fits_def round_to_def round_half_away_def)
  moreover have "fits_quantity (Quantity 50)" by (simp add: fits_quantity_def fits_def round_to_def round_half_away_def)
  ultimately show "w_db w = decided_db \<Longrightarrow> ?thesis"
    using sample_fits by (simp add: executable_def piped_decision_def piped_signal_def sample_signal_def piped_fill_def Side_Valid_def)
qed

lemma piped_execution:
  assumes "w_db w = decided_db" "w_tick w = 13" "w_broker w = sample_broker" "\<not> w_inTx w"
  shows "\<exists>ord w'. ExecuteApprovedOrder quiet_env (RiskDecisionID 12) w =
    (Inr \<lparr>xr_Order = Some (ToOrderDTO ref_decimal ref_uuid ord), xr_Skipped = False, xr_SkipReason = ''''\<rparr>, w') \<and> w_broker w' \<noteq> sample_broker"
proof -
  obtain b where b: "paper_PlaceOrder ref_decimal sample_broker \<lparr>por_ClientOrderID = piped_cid, por_Symbol = Symbol ''BTCUSDT'', por_Side = SideBuy,
     por_Type = ''MARKET'', por_Quantity = Quantity 50, por_Price = Some (Price 100)\<rparr> = (Inr piped_fill, b)" "0 < pb_nextOrderSeq b"
    using piped_placement by blast
  have "fresh_from quiet_env 40 w" using piped_uuid_inj by (simp add: fresh_from_def assms)
  moreover have "fresh_orders quiet_env decided_db" "fresh_positions quiet_env decided_db" by (simp_all add: fresh_orders_def fresh_positions_def)
  ultimately have "\<exists>ord w' i. ExecuteApprovedOrder quiet_env (RiskDecisionID 12) w =
      (Inr \<lparr>xr_Order = Some (ToOrderDTO (en_D quiet_env) (en_U quiet_env) ord), xr_Skipped = False, xr_SkipReason = ''''\<rparr>, w') \<and>
      ord_Status ord = StatusFilled \<and> mustStopClientOrderID piped_cid = Inr i \<and>
      w_broker w' = snd (br_PlaceStop (en_B quiet_env) b \<lparr>psr_ClientOrderID = i, psr_Symbol = sig_Symbol piped_signal,
        psr_Side = Side_Opposite (sig_Side piped_signal), psr_Quantity = dec_ApprovedPositionSize piped_decision,
        psr_StopPrice = sig_StopPrice piped_signal\<rparr>)"
    using b(1) by (intro execution_completes [where decision = piped_decision and acct = sample_account and bo = piped_fill])
      (simp_all add: assms paper_stop_answers piped_guards piped_cid_valid piped_executable client_ids_def,
        simp add: paper_broker_def sample_signal_def piped_signal_def piped_decision_def Type_String_def)
  then obtain ord w' i where run: "ExecuteApprovedOrder quiet_env (RiskDecisionID 12) w =
      (Inr \<lparr>xr_Order = Some (ToOrderDTO ref_decimal ref_uuid ord), xr_Skipped = False, xr_SkipReason = ''''\<rparr>, w')"
    and st: "w_broker w' = snd (br_PlaceStop (en_B quiet_env) b \<lparr>psr_ClientOrderID = i, psr_Symbol = sig_Symbol piped_signal,
        psr_Side = Side_Opposite (sig_Side piped_signal), psr_Quantity = dec_ApprovedPositionSize piped_decision,
        psr_StopPrice = sig_StopPrice piped_signal\<rparr>)" by auto
  have "pb_nextOrderSeq b \<le> pb_nextOrderSeq (w_broker w')" unfolding st by (simp add: paper_broker_def trade_stop_kept)
  with b(2) have "w_broker w' \<noteq> sample_broker" by (auto simp: sample_broker_def NewBroker_def resetLocked_def)
  with run show ?thesis by blast
qed

theorem unrestricted_decision_refused_witness:
  "\<exists>e w'. EvaluateRisk quiet_env sample_risk_config sample_risk_cmd trade_world = (Inl e, w') \<and> w_db w' = sample_trade_db"
proof -
  obtain r w' where run: "EvaluateRisk quiet_env sample_risk_config sample_risk_cmd trade_world = (r, w')"
    by (cases "EvaluateRisk quiet_env sample_risk_config sample_risk_cmd trade_world")
  have "events_ListActive ref_decimal ref_uuid sample_trade_db = Inr []"
    by (simp add: events_ListActive_def sample_trade_db_def sample_db_def emptyDB_def order_desc_def)
  then show ?thesis using unrestricted_decision_refused [OF run] run by auto
qed



end
