(* ===== verification/Reconcile_State.thy ===== *)
theory Reconcile_State
  imports Market_Pipeline
begin

text \<open>
  \<^verbatim>\<open>usecase/reconcile_broker_state.go\<close>: the comparison of the stored account, positions and orders with
  the broker's, the incident it raises and the switch to CLOSE_ONLY. The report that is returned
  beside an error is read by no caller and is not modelled.
\<close>

section \<open>The report\<close>

record ReconciliationReport =
  rr_DivergencesFound :: int
  rr_Details :: "string list"
  rr_CriticalDivergence :: bool

definition emptyReport :: ReconciliationReport where
  "emptyReport = \<lparr>rr_DivergencesFound = 0, rr_Details = [], rr_CriticalDivergence = False\<rparr>"

text \<open>\<^verbatim>\<open>report.DivergencesFound++\<close> with a detail, and the same for a critical one.\<close>

definition add_divergence :: "string \<Rightarrow> ReconciliationReport \<Rightarrow> ReconciliationReport" where
  "add_divergence detail r = r\<lparr>rr_DivergencesFound := rr_DivergencesFound r + 1, rr_Details := rr_Details r @ [detail]\<rparr>"

definition add_critical :: "string \<Rightarrow> ReconciliationReport \<Rightarrow> ReconciliationReport" where
  "add_critical detail r = (add_divergence detail r)\<lparr>rr_CriticalDivergence := True\<rparr>"

definition diverges :: "decimal_ops \<Rightarrow> decimal \<Rightarrow> decimal \<Rightarrow> decimal \<Rightarrow> bool" where
  "diverges D tolerance local broker =
     (let diff = dAbs D (dSub D local broker) in
      if dIsZero D local then \<not> dIsZero D diff
      else dGreaterThan D (dDiv D diff (dAbs D local)) tolerance)"

section \<open>Comparing\<close>

definition compare_accounts :: "decimal_ops \<Rightarrow> decimal \<Rightarrow> Account \<Rightarrow> BrokerAccount \<Rightarrow> ReconciliationReport \<Rightarrow> ReconciliationReport" where
  "compare_accounts D tolerance localAccount brokerAccount report =
     (let report = (if diverges D tolerance (Money_Decimal (acc_Balance localAccount)) (Money_Decimal (ba_Balance brokerAccount))
            then add_divergence (''balance divergence: local='' @ Money_String D (acc_Balance localAccount) @ '' broker='' @
              Money_String D (ba_Balance brokerAccount)) report else report)
      in if diverges D tolerance (Money_Decimal (acc_Equity localAccount)) (Money_Decimal (ba_Equity brokerAccount))
         then add_divergence (''equity divergence: local='' @ Money_String D (acc_Equity localAccount) @ '' broker='' @
           Money_String D (ba_Equity brokerAccount)) report else report)"

text \<open>The inner loop over the broker's positions, for one position of ours that the broker has.\<close>

fun compare_quantities :: "decimal_ops \<Rightarrow> decimal \<Rightarrow> Position \<Rightarrow> BrokerPosition list \<Rightarrow> ReconciliationReport \<Rightarrow> ReconciliationReport" where
  "compare_quantities D tolerance lp [] report = report"
| "compare_quantities D tolerance lp (bp # bps) report =
     compare_quantities D tolerance lp bps
       (if Symbol_Equal (bp_Symbol bp) (pos_Symbol lp) \<and> diverges D tolerance (Quantity_Decimal (pos_Quantity lp)) (Quantity_Decimal (bp_Quantity bp))
        then add_divergence (''position quantity divergence on '' @ Symbol_String (pos_Symbol lp) @ '': local='' @ Quantity_String D (pos_Quantity lp) @
          '' broker='' @ Quantity_String D (bp_Quantity bp)) report
        else report)"

text \<open>The map of the broker's symbols is read only for membership.\<close>

fun compare_positions :: "decimal_ops \<Rightarrow> decimal \<Rightarrow> BrokerPosition list \<Rightarrow> Position list \<Rightarrow> ReconciliationReport \<Rightarrow> ReconciliationReport" where
  "compare_positions D tolerance brokerPositions [] report = report"
| "compare_positions D tolerance brokerPositions (lp # lps) report =
     compare_positions D tolerance brokerPositions lps
       (if \<not> list_ex (\<lambda>bp. Symbol_String (bp_Symbol bp) = Symbol_String (pos_Symbol lp)) brokerPositions
        then add_critical (''local open position '' @ Symbol_String (pos_Symbol lp) @ '' not found at broker'') report
        else compare_quantities D tolerance lp brokerPositions report)"

fun compare_orders :: "BrokerOrder list \<Rightarrow> Order list \<Rightarrow> ReconciliationReport \<Rightarrow> ReconciliationReport" where
  "compare_orders brokerOrders [] report = report"
| "compare_orders brokerOrders (lo # los) report =
     compare_orders brokerOrders los
       (if \<not> list_ex (\<lambda>bo. bo_BrokerOrderID bo = ord_BrokerOrderID lo) brokerOrders \<and> ord_BrokerOrderID lo \<noteq> ''''
        then add_divergence (''local open order '' @ ClientOrderID_String (ord_ClientOrderID lo) @ '' (broker id '' @ ord_BrokerOrderID lo @
          '') not found at broker'') report
        else report)"

section \<open>Reacting\<close>

text \<open>\<^verbatim>\<open>%v\<close> of a slice of strings.\<close>

fun spaced :: "string list \<Rightarrow> string" where
  "spaced [] = ''''"
| "spaced [s] = s"
| "spaced (s # ss) = s @ '' '' @ spaced ss"

definition raiseDivergence :: "'b Env \<Rightarrow> IncidentSeverity \<Rightarrow> string \<Rightarrow> time \<Rightarrow> ('b, unit) usecase" where
  "raiseDivergence E severity description now =
     ubind (NewUUID E) (\<lambda>u.
     case NewIncident u ReconciliationDivergence severity description ''ReconcileBrokerState'' '''' now of
       Inl _ \<Rightarrow> uret ()
     | Inr incident \<Rightarrow> ignored (WithinTransaction E
         (ubind (db_write E (incidents_Save (en_U E) incident)) (\<lambda>_.
          ubind (newOutboxEvent E ''ReconciliationDivergenceDetected'' (EvReconciliationDivergenceDetected
            \<lparr>rdd_IncidentID = IncidentID_String (en_U E) (inc_ID incident), rdd_Severity = severity, rdd_Description = description,
             rdd_OccurredAt = now\<rparr>) now) (\<lambda>evt.
          uc_outbox_Insert E evt)))))"

definition forceCloseOnly :: "'b Env \<Rightarrow> time \<Rightarrow> ('b, unit) usecase" where
  "forceCloseOnly E now =
     ubind (db_read E modes_Get) (\<lambda>state.
     if st_CurrentMode state = ModeCloseOnly \<or> st_CurrentMode state = ModeKillSwitch then uret ()
     else
     ubind (lift (TransitionTo state ModeCloseOnly ''system'' ''reconciliation'' ''critical divergence detected'' now noConfirmation)) (\<lambda>state.
     ubind (db_read E (accounts_GetActive (en_D E) (en_U E))) (\<lambda>acct.
     let acct = SetOperationalMode acct ModeCloseOnly now in
     WithinTransaction E
       (ubind (db_write E (modes_Save state)) (\<lambda>_.
        db_write E (accounts_Save (en_U E) acct))))))"

section \<open>The use case\<close>

definition reconcile_orders :: "'b Env \<Rightarrow> ReconciliationReport \<Rightarrow> ('b, ReconciliationReport) usecase" where
  "reconcile_orders E report =
     ubind (wrapped ''loading local open orders'' (db_read E (orders_ListOpen (en_D E) (en_U E)))) (\<lambda>localOrders.
     attempt (broker_call E (br_GetOpenOrders (en_B E))) (\<lambda>r.
     case r of
       Inl _ \<Rightarrow> uret (add_critical ''broker open orders unreachable'' report)
     | Inr brokerOrders \<Rightarrow> uret (compare_orders brokerOrders localOrders report)))"

definition reconcile_positions :: "'b Env \<Rightarrow> decimal \<Rightarrow> ReconciliationReport \<Rightarrow> ('b, ReconciliationReport) usecase" where
  "reconcile_positions E tolerance report =
     ubind (wrapped ''loading local positions'' (db_read E (positions_ListOpen (en_D E) (en_U E)))) (\<lambda>localPositions.
     attempt (broker_call E (br_GetPositions (en_B E))) (\<lambda>r.
     case r of
       Inl _ \<Rightarrow> uret (add_critical ''broker positions unreachable'' report)
     | Inr brokerPositions \<Rightarrow> uret (compare_positions (en_D E) tolerance brokerPositions localPositions report)))"

text \<open>The part behind the comparisons.\<close>

definition react :: "'b Env \<Rightarrow> ReconciliationReport \<Rightarrow> time \<Rightarrow> ('b, ReconciliationReport) usecase" where
  "react E report now =
     (if rr_DivergencesFound report = 0 then uret report
      else
      let severity = (if rr_CriticalDivergence report then IncidentSeverityCritical else IncidentSeverityMedium) in
      ubind (raiseDivergence E severity (show_int (rr_DivergencesFound report) @ '' divergence(s) found: ['' @ spaced (rr_Details report) @ '']'') now) (\<lambda>_.
      if rr_CriticalDivergence report
      then ubind (wrapped ''forcing close-only after critical divergence'' (forceCloseOnly E now)) (\<lambda>_. uret report)
      else uret report))"

definition ReconcileBrokerState :: "'b Env \<Rightarrow> decimal \<Rightarrow> ('b, ReconciliationReport) usecase" where
  "ReconcileBrokerState E tolerance =
     ubind (Now E) (\<lambda>now.
     attempt (broker_call E (br_GetAccount (en_B E))) (\<lambda>r.
     case r of
       Inl err \<Rightarrow>
         ubind (raiseDivergence E IncidentSeverityCritical (''broker unreachable during reconciliation: '' @ error_string err) now) (\<lambda>_.
         uret (add_critical ''broker account unreachable'' emptyReport))
     | Inr brokerAccount \<Rightarrow>
         ubind (wrapped ''loading local account'' (db_read E (accounts_GetActive (en_D E) (en_U E)))) (\<lambda>localAccount.
         ubind (reconcile_positions E tolerance (compare_accounts (en_D E) tolerance localAccount brokerAccount emptyReport)) (\<lambda>report.
         ubind (reconcile_orders E report) (\<lambda>report.
         react E report now)))))"


section \<open>What the comparison finds\<close>

text \<open>Agreement of two figures, without the program's division: relative to ours, up to the rounding of the quotient.\<close>

definition agree :: "decimal \<Rightarrow> decimal \<Rightarrow> decimal \<Rightarrow> bool" where
  "agree tolerance local broker \<longleftrightarrow> (if local = 0 then broker = 0
     else round_to DivisionPrecision (\<bar>local - broker\<bar> / \<bar>local\<bar>) \<le> tolerance)"

lemma diverges_iff: "decimal_lib D \<Longrightarrow> diverges D tolerance local broker \<longleftrightarrow> \<not> agree tolerance local broker"
  by (auto simp: diverges_def agree_def Let_def)

definition position_matched :: "decimal \<Rightarrow> BrokerPosition list \<Rightarrow> Position \<Rightarrow> bool" where
  "position_matched tolerance bps lp \<longleftrightarrow> (\<exists>bp\<in>set bps. bp_Symbol bp = pos_Symbol lp) \<and>
     (\<forall>bp\<in>set bps. bp_Symbol bp = pos_Symbol lp \<longrightarrow> agree tolerance (Quantity_Decimal (pos_Quantity lp)) (Quantity_Decimal (bp_Quantity bp)))"

definition order_matched :: "BrokerOrder list \<Rightarrow> Order \<Rightarrow> bool" where
  "order_matched bos lo \<longleftrightarrow> ord_BrokerOrderID lo = '''' \<or> (\<exists>bo\<in>set bos. bo_BrokerOrderID bo = ord_BrokerOrderID lo)"

text \<open>Reports only grow: the count follows the details, a critical finding counts and stays.\<close>

definition grows :: "ReconciliationReport \<Rightarrow> ReconciliationReport \<Rightarrow> bool" where
  "grows r r' \<longleftrightarrow> rr_DivergencesFound r' - rr_DivergencesFound r = int (length (rr_Details r')) - int (length (rr_Details r)) \<and>
     rr_DivergencesFound r \<le> rr_DivergencesFound r' \<and> (rr_CriticalDivergence r \<longrightarrow> rr_CriticalDivergence r') \<and>
     (rr_CriticalDivergence r' \<longrightarrow> rr_CriticalDivergence r \<or> rr_DivergencesFound r < rr_DivergencesFound r')"

lemma grows_refl: "grows r r"
  by (simp add: grows_def)

lemma grows_trans: "grows a b \<Longrightarrow> grows b c \<Longrightarrow> grows a c"
  by (auto simp: grows_def)

lemma report_simps [simp]:
  "rr_DivergencesFound (add_divergence s r) = rr_DivergencesFound r + 1" "rr_Details (add_divergence s r) = rr_Details r @ [s]"
  "rr_CriticalDivergence (add_divergence s r) = rr_CriticalDivergence r"
  "rr_DivergencesFound (add_critical s r) = rr_DivergencesFound r + 1" "rr_Details (add_critical s r) = rr_Details r @ [s]"
  "rr_CriticalDivergence (add_critical s r)"
  by (simp_all add: add_divergence_def add_critical_def)

lemma compare_accounts_spec:
  assumes "decimal_lib D"
  shows "grows r (compare_accounts D tol a ba r) \<and> rr_CriticalDivergence (compare_accounts D tol a ba r) = rr_CriticalDivergence r \<and>
    (rr_DivergencesFound (compare_accounts D tol a ba r) = rr_DivergencesFound r \<longleftrightarrow>
       agree tol (Money_Decimal (acc_Balance a)) (Money_Decimal (ba_Balance ba)) \<and> agree tol (Money_Decimal (acc_Equity a)) (Money_Decimal (ba_Equity ba)))"
  by (simp add: compare_accounts_def diverges_iff [OF assms] grows_def Let_def)

lemma Symbol_Equal_iff: "Symbol_Equal a b \<longleftrightarrow> a = b"
  by (auto simp: Symbol_Equal_def intro: Symbol.expand)

lemma compare_quantities_spec:
  assumes "decimal_lib D"
  shows "grows r (compare_quantities D tol lp bps r) \<and> rr_CriticalDivergence (compare_quantities D tol lp bps r) = rr_CriticalDivergence r \<and>
    (rr_DivergencesFound (compare_quantities D tol lp bps r) = rr_DivergencesFound r \<longleftrightarrow>
       (\<forall>bp\<in>set bps. bp_Symbol bp = pos_Symbol lp \<longrightarrow> agree tol (Quantity_Decimal (pos_Quantity lp)) (Quantity_Decimal (bp_Quantity bp))))"
proof (induction bps arbitrary: r)
  case (Cons bp bps)
  let ?b = "bp_Symbol bp = pos_Symbol lp \<and> \<not> agree tol (Quantity_Decimal (pos_Quantity lp)) (Quantity_Decimal (bp_Quantity bp))"
  show ?case
  proof (cases ?b)
    case True
    then obtain d where "compare_quantities D tol lp (bp # bps) r = compare_quantities D tol lp bps (add_divergence d r)"
      by (simp add: diverges_iff [OF assms] Symbol_Equal_iff)
    with True Cons.IH [of "add_divergence d r"] show ?thesis by (auto simp del: compare_quantities.simps simp: grows_def)
  next
    case False
    then have "compare_quantities D tol lp (bp # bps) r = compare_quantities D tol lp bps r"
      by (auto simp: diverges_iff [OF assms] Symbol_Equal_iff)
    with False Cons.IH [of r] show ?thesis by (auto simp del: compare_quantities.simps)
  qed
qed (simp add: grows_refl)

lemma symbol_present: "list_ex (\<lambda>bp. Symbol_String (bp_Symbol bp) = Symbol_String s) bps \<longleftrightarrow> (\<exists>bp\<in>set bps. bp_Symbol bp = s)"
  by (auto simp: list_ex_iff intro: Symbol.expand)

lemma compare_positions_spec:
  assumes "decimal_lib D"
  shows "grows r (compare_positions D tol bps lps r) \<and>
    (rr_CriticalDivergence (compare_positions D tol bps lps r) \<longleftrightarrow>
       rr_CriticalDivergence r \<or> (\<exists>lp\<in>set lps. \<forall>bp\<in>set bps. bp_Symbol bp \<noteq> pos_Symbol lp)) \<and>
    (rr_DivergencesFound (compare_positions D tol bps lps r) = rr_DivergencesFound r \<longleftrightarrow> (\<forall>lp\<in>set lps. position_matched tol bps lp))"
proof (induction lps arbitrary: r)
  case (Cons lp lps)
  show ?case
  proof (cases "\<exists>bp\<in>set bps. bp_Symbol bp = pos_Symbol lp")
    case True
    then show ?thesis
      using Cons.IH [of "compare_quantities D tol lp bps r"] compare_quantities_spec [OF assms, of r tol lp bps]
      by (auto simp: symbol_present position_matched_def grows_def)
  next
    case False
    then obtain d where "compare_positions D tol bps (lp # lps) r = compare_positions D tol bps lps (add_critical d r)"
      by (simp add: symbol_present)
    with False Cons.IH [of "add_critical d r"] show ?thesis
      by (auto simp del: compare_positions.simps simp: position_matched_def grows_def)
  qed
qed (simp add: grows_refl)

lemma compare_orders_spec:
  "grows r (compare_orders bos los r) \<and> rr_CriticalDivergence (compare_orders bos los r) = rr_CriticalDivergence r \<and>
    (rr_DivergencesFound (compare_orders bos los r) = rr_DivergencesFound r \<longleftrightarrow> (\<forall>lo\<in>set los. order_matched bos lo))"
proof (induction los arbitrary: r)
  case (Cons lo los)
  show ?case
  proof (cases "order_matched bos lo")
    case True
    then have "compare_orders bos (lo # los) r = compare_orders bos los r" by (auto simp: order_matched_def list_ex_iff)
    with True Cons.IH [of r] show ?thesis by (auto simp del: compare_orders.simps)
  next
    case False
    then obtain d where "compare_orders bos (lo # los) r = compare_orders bos los (add_divergence d r)"
      by (simp add: order_matched_def list_ex_iff)
    with False Cons.IH [of "add_divergence d r"] show ?thesis by (auto simp del: compare_orders.simps simp: grows_def)
  qed
qed (simp add: grows_refl)

definition in_agreement :: "decimal \<Rightarrow> Account \<Rightarrow> BrokerAccount \<Rightarrow> Position list \<Rightarrow> BrokerPosition list \<Rightarrow> Order list \<Rightarrow> BrokerOrder list \<Rightarrow> bool" where
  "in_agreement tol a ba lps bps los bos \<longleftrightarrow>
     agree tol (Money_Decimal (acc_Balance a)) (Money_Decimal (ba_Balance ba)) \<and> agree tol (Money_Decimal (acc_Equity a)) (Money_Decimal (ba_Equity ba)) \<and>
     (\<forall>lp\<in>set lps. position_matched tol bps lp) \<and> (\<forall>lo\<in>set los. order_matched bos lo)"



section \<open>What a divergence leads to\<close>

definition entries_stopped :: "DB \<Rightarrow> bool" where
  "entries_stopped db \<longleftrightarrow> (\<exists>m. map_of (db_modes db) ''1'' = Some m \<and> mm_CurrentMode m \<in> {''CLOSE_ONLY'', ''KILL_SWITCH''})"

lemma restricted_texts: "Mode_of_string s = ModeCloseOnly \<Longrightarrow> s = ''CLOSE_ONLY''" "Mode_of_string s = ModeKillSwitch \<Longrightarrow> s = ''KILL_SWITCH''"
  by (auto simp: Mode_of_string_def split: if_splits)

lemma modes_Get_stopped:
  "modes_Get db = Inr s \<Longrightarrow> st_CurrentMode s = ModeCloseOnly \<or> st_CurrentMode s = ModeKillSwitch \<Longrightarrow> entries_stopped db"
  by (auto simp: modes_Get_def scan_one_def entries_stopped_def mode_toDomain_def RehydrateState_def dest: restricted_texts split: option.splits)

lemma forceCloseOnly_Inr:
  assumes "forceCloseOnly E now w = (Inr u, w')" "\<not> w_inTx w"
  shows "entries_stopped (w_db w')"
proof -
  consider (already) s where "modes_Get (w_db w) = Inr s" "st_CurrentMode s = ModeCloseOnly \<or> st_CurrentMode s = ModeKillSwitch" "w_db w' = w_db w"
    | (switched) s acct w1 where "st_CurrentMode s = ModeCloseOnly" "\<not> w_inTx w1"
      "WithinTransaction E (ubind (db_write E (modes_Save s)) (\<lambda>_. db_write E (accounts_Save (en_U E) acct))) w1 = (Inr u, w')"
  proof -
    obtain s where s: "modes_Get (w_db w) = Inr s" and rest: "(if st_CurrentMode s = ModeCloseOnly \<or> st_CurrentMode s = ModeKillSwitch then uret ()
        else ubind (lift (TransitionTo s ModeCloseOnly ''system'' ''reconciliation'' ''critical divergence detected'' now noConfirmation)) (\<lambda>s.
          ubind (db_read E (accounts_GetActive (en_D E) (en_U E))) (\<lambda>acct. WithinTransaction E (ubind (db_write E (modes_Save s)) (\<lambda>_.
            db_write E (accounts_Save (en_U E) (SetOperationalMode acct ModeCloseOnly now))))))) (tick w) = (Inr u, w')"
      using assms(1) unfolding forceCloseOnly_def Let_def by (auto simp: ubind_Inr dest!: db_read_Inr)
    show thesis
    proof (cases "st_CurrentMode s = ModeCloseOnly \<or> st_CurrentMode s = ModeKillSwitch")
      case True
      with rest already [OF s] show thesis by auto
    next
      case False
      then obtain s' acct where t: "TransitionTo s ModeCloseOnly ''system'' ''reconciliation'' ''critical divergence detected'' now noConfirmation = Inr s'"
        and tx: "WithinTransaction E (ubind (db_write E (modes_Save s')) (\<lambda>_.
            db_write E (accounts_Save (en_U E) (SetOperationalMode acct ModeCloseOnly now)))) (tick (tick w)) = (Inr u, w')"
        using rest by (auto simp: ubind_Inr usecase_steps dest!: db_read_Inr)
      show thesis by (rule switched [OF TransitionTo_target [OF t] _ tx]) (simp add: assms(2))
    qed
  qed
  then show ?thesis
  proof cases
    case switched
    obtain w2 w3 where "db_write E (modes_Save s) ((tick w1)\<lparr>w_inTx := True\<rparr>) = (Inr (), w2)"
        "db_write E (accounts_Save (en_U E) acct) w2 = (Inr u, w3)" "w_db w' = w_db w3"
      using WithinTransaction_db [OF switched(3,2)] by (auto simp: ubind_Inr)
    then obtain mt ct where "mode_save s (db_modes (w_db w1)) = (Inr (), mt)" "db_modes (w_db w') = mt"
      by (auto dest!: db_write_frame modes_Save_Inr accounts_Save_Inr)
    with mode_save_store [OF this(1)] switched(1) show ?thesis
      by (auto simp: entries_stopped_def mode_toModel_def Mode_String_def)
  qed (auto intro: modes_Get_stopped)
qed

lemma raiseDivergence_inTx: "raiseDivergence E sev d now w = (r, w') \<Longrightarrow> \<not> w_inTx w \<Longrightarrow> \<not> w_inTx w'"
  by (auto simp: raiseDivergence_def usecase_steps ignored_def elim!: ubindE attemptE split: sum.splits dest!: WithinTransaction_db)

lemma react_Inr:
  assumes "react E report now w = (Inr report', w')" "\<not> w_inTx w"
  shows "report' = report \<and> (rr_CriticalDivergence report \<and> rr_DivergencesFound report \<noteq> 0 \<longrightarrow> entries_stopped (w_db w'))"
  using assms unfolding react_def Let_def
  by (auto simp: ubind_Inr wrapped_Inr usecase_steps dest!: raiseDivergence_inTx intro: forceCloseOnly_Inr split: if_splits)

text \<open>The comparisons along the use case keep the report growing and the transaction flag.\<close>

lemma broker_call_inTx: "broker_call E g w = (r, w') \<Longrightarrow> w_inTx w' = w_inTx w"
  by (auto simp: broker_call_def infra_def split: fault.splits prod.splits)

lemma reconcile_steps_Inr:
  assumes "decimal_lib (en_D E)"
  shows "reconcile_positions E tol r w = (Inr r', w') \<Longrightarrow> grows r r' \<and> w_inTx w' = w_inTx w"
    and "reconcile_orders E r w = (Inr r', w') \<Longrightarrow> grows r r' \<and> w_inTx w' = w_inTx w"
proof -
  have p: "grows r (compare_positions (en_D E) tol bps lps r)" for bps lps using compare_positions_spec [OF assms] by blast
  have c: "grows r (add_critical s r)" for s by (simp add: grows_def)
  have o: "grows r (compare_orders bos los r)" for bos los using compare_orders_spec by blast
  show "reconcile_positions E tol r w = (Inr r', w') \<Longrightarrow> grows r r' \<and> w_inTx w' = w_inTx w"
    "reconcile_orders E r w = (Inr r', w') \<Longrightarrow> grows r r' \<and> w_inTx w' = w_inTx w"
    unfolding reconcile_positions_def reconcile_orders_def
    by (auto simp: ubind_Inr wrapped_Inr usecase_steps p c o dest!: attempt_result db_read_Inr broker_call_inTx split: sum.splits)
qed



section \<open>What a reconciliation leaves alone\<close>

definition same_trades :: "DB \<Rightarrow> DB \<Rightarrow> bool" where
  "same_trades a b \<longleftrightarrow> db_orders b = db_orders a \<and> db_positions b = db_positions a"

definition same_modes :: "DB \<Rightarrow> DB \<Rightarrow> bool" where
  "same_modes a b \<longleftrightarrow> db_modes b = db_modes a \<and> db_accounts b = db_accounts a"

interpretation same_trades: db_relation same_trades
  by unfold_locales (auto simp: same_trades_def)

interpretation same_modes: db_relation same_modes
  by unfold_locales (auto simp: same_modes_def)

lemma other_tables_same:
  "same_trades db (snd (incidents_Save U i db))" "same_trades db (snd (outbox_Insert now evt db))" "same_trades db (snd (modes_Save s db))"
  "same_trades db (snd (accounts_Save U a db))" "same_modes db (snd (incidents_Save U i db))" "same_modes db (snd (outbox_Insert now evt db))"
  by (auto simp: same_trades_def same_modes_def incidents_Save_def outbox_Insert_def modes_Save_def accounts_Save_def Let_def
      split: sum.splits option.splits prod.splits)

lemma keeps_trades_raise: "keeps (on_db same_trades) (raiseDivergence E sev d now)"
  unfolding raiseDivergence_def ignored_def uc_outbox_Insert_def newOutboxEvent_def
  by (auto simp del: useq_simps intro!: same_trades.keeps_intros same_trades.keeps_tx same_trades.keeps_write other_tables_same split: sum.splits)

lemma keeps_modes_raise: "keeps (on_db same_modes) (raiseDivergence E sev d now)"
  unfolding raiseDivergence_def ignored_def uc_outbox_Insert_def newOutboxEvent_def
  by (auto simp del: useq_simps intro!: same_modes.keeps_intros same_modes.keeps_tx same_modes.keeps_write other_tables_same split: sum.splits)

lemma keeps_trades_react: "keeps (on_db same_trades) (react E report now)"
  unfolding react_def forceCloseOnly_def Let_def
  by (auto simp del: useq_simps intro!: same_trades.keeps_intros same_trades.keeps_tx same_trades.keeps_write other_tables_same keeps_trades_raise)

lemma keeps_trades_reconcile: "keeps (on_db same_trades) (ReconcileBrokerState E tol)"
  unfolding ReconcileBrokerState_def reconcile_positions_def reconcile_orders_def
  by (auto simp del: useq_simps intro!: same_trades.keeps_intros same_trades.keeps_broker_call keeps_trades_raise keeps_trades_react split: sum.splits)

text \<open>The three reads of the broker port do not change the broker.\<close>

definition queries_only :: "'b Env \<Rightarrow> bool" where
  "queries_only E \<longleftrightarrow> (\<forall>b. snd (br_GetAccount (en_B E) b) = b \<and> snd (br_GetPositions (en_B E) b) = b \<and> snd (br_GetOpenOrders (en_B E) b) = b)"

lemma keeps_query: "(\<And>b. snd (g b) = b) \<Longrightarrow> keeps same_broker (broker_call E g)"
  unfolding broker_call_def
  by (rule same_broker.keeps_infra) (auto simp: keeps_def same_broker_def split: prod.splits, metis snd_conv)

lemma keeps_broker_reconcile: "queries_only E \<Longrightarrow> keeps same_broker (ReconcileBrokerState E tol)"
  unfolding ReconcileBrokerState_def reconcile_positions_def reconcile_orders_def react_def forceCloseOnly_def raiseDivergence_def ignored_def Let_def
  by (auto simp del: useq_simps intro!: same_broker.keeps_db_intros keeps_query simp: queries_only_def split: sum.splits)

text \<open>
  A reconciliation corrects nothing: whatever it finds and whatever fails, no order and no
  position in the database changes, and neither does the broker, as long as its queries do not
  change it.
\<close>

theorem reconcile_corrects_nothing:
  assumes "ReconcileBrokerState E tol w = (r, w')" "queries_only E"
  shows "db_orders (w_db w') = db_orders (w_db w) \<and> db_positions (w_db w') = db_positions (w_db w) \<and> w_broker w' = w_broker w"
  using same_trades.keeps_app [OF keeps_trades_reconcile assms(1)] same_broker.keeps_app [OF keeps_broker_reconcile [OF assms(2)] assms(1)]
  by (simp add: on_db_def same_trades_def same_broker_def)

text \<open>
  A broker that cannot be reached does not stop entries: the report is critical and an incident
  may be recorded, but the use case returns before the switch to CLOSE_ONLY, so the mode in force
  and the account stay as they were.
\<close>

theorem unreachable_broker_keeps_mode:
  assumes "ReconcileBrokerState E tol w = (Inr report, w')" "fst (broker_call E (br_GetAccount (en_B E)) (tick w)) = Inl e"
  shows "rr_CriticalDivergence report \<and> db_modes (w_db w') = db_modes (w_db w) \<and> db_accounts (w_db w') = db_accounts (w_db w)"
proof -
  obtain w1 where probe: "broker_call E (br_GetAccount (en_B E)) (tick w) = (Inl e, w1)"
    using assms(2) by (cases "broker_call E (br_GetAccount (en_B E)) (tick w)") auto
  obtain d now u w2 where raise: "raiseDivergence E IncidentSeverityCritical d now w1 = (u, w2)" and w2: "w_db w' = w_db w2"
    and rep: "report = add_critical ''broker account unreachable'' emptyReport"
    using assms(1) unfolding ReconcileBrokerState_def
    by (elim now_stepE) (auto simp: attempt_def probe ubind_Inr split: if_splits)
  have "same_modes (w_db w1) (w_db w2)" using same_modes.keeps_app [OF keeps_modes_raise raise] by (simp add: on_db_def)
  then show ?thesis using broker_call_db [OF probe] by (simp add: w2 rep same_modes_def)
qed


section \<open>Concrete reconciliations\<close>

text \<open>A stored open position the simulator does not have.\<close>

definition stray_world :: "PaperBroker World" where
  "stray_world = sample_world\<lparr>w_db := sample_db\<lparr>db_positions := [(uString ref_uuid 1, position_toModel ref_uuid sample_position)]\<rparr>\<rparr>"

lemma stray_storable: "position_storable sample_position"
proof -
  have "symbolPattern ''BTCUSDT''" by code_simp
  then show ?thesis
    by (simp add: position_storable_def sample_position_def fits_quantity_def fits_price_def fits_price_opt_def fits_def round_to_def
        round_half_away_def Side_Valid_def)
qed

lemma stray_reads:
  "positions_ListOpen ref_decimal ref_uuid (w_db stray_world) = Inr [sample_position]"
  "orders_ListOpen ref_decimal ref_uuid (w_db stray_world) = Inr []"
  "accounts_GetActive ref_decimal ref_uuid (w_db stray_world) = Inr sample_account"
  "modes_Get (w_db stray_world) = Inr (NewState 0)"
proof -
  have "pm_Status (position_toModel ref_uuid sample_position) = ''OPEN''"
    by (simp add: position_toModel_def sample_position_def PositionStatus_String_def)
  then show "positions_ListOpen ref_decimal ref_uuid (w_db stray_world) = Inr [sample_position]"
    by (simp add: positions_ListOpen_def stray_world_def order_desc_def position_roundtrip [OF decimal_lib_ref uuid_lib_ref stray_storable] rbind_def)
  show "orders_ListOpen ref_decimal ref_uuid (w_db stray_world) = Inr []"
    by (simp add: orders_ListOpen_def stray_world_def sample_db_def emptyDB_def order_desc_def)
  show "accounts_GetActive ref_decimal ref_uuid (w_db stray_world) = Inr sample_account"
    using sample_GetActive by (simp add: accounts_GetActive_def stray_world_def)
  show "modes_Get (w_db stray_world) = Inr (NewState 0)" using sample_modes_Get by (simp add: modes_Get_def stray_world_def)
qed

lemma outbox_Insert_error: "outbox_Insert now evt db = (Inl e, db') \<Longrightarrow> \<not> is_panic e"
  by (auto simp: outbox_Insert_def sql_insert_def is_panic_def split: sum.splits option.splits if_splits)

lemma raiseDivergence_ok:
  assumes "no_faults E" "\<not> w_inTx w"
  shows "\<exists>w'. raiseDivergence E sev d now w = (Inr (), w')"
proof -
  have np: "\<not> is_panic e" if "WithinTransaction E (ubind (db_write E (incidents_Save (en_U E) i)) (\<lambda>_.
      ubind (newOutboxEvent E ty pl now) (\<lambda>evt. uc_outbox_Insert E evt))) v = (Inl e, v')" "\<not> w_inTx v" for i ty pl v e v'
    using that assms(1)
    by (auto simp: WithinTransaction_def infra_ok db_write_def newOutboxEvent_def uc_outbox_Insert_def usecase_steps no_faults_def
        elim!: ubindE split: prod.splits sum.splits dest: incidents_Save_error outbox_Insert_error)
  show ?thesis
    using np assms(2) by (auto simp: raiseDivergence_def ubind_go NewUUID_def ignored_def attempt_def split: sum.splits prod.splits)
qed

lemma forceCloseOnly_ok:
  assumes "uuid_lib (en_U E)" "accounts_ok (en_U E) (db_accounts (w_db w))" "\<not> w_inTx w" "no_faults E"
    "modes_Get (w_db w) = Inr s" "Mode_Valid (st_CurrentMode s)" "accounts_GetActive (en_D E) (en_U E) (w_db w) = Inr a" "account_storable a"
  shows "\<exists>w'. forceCloseOnly E now w = (Inr (), w')"
proof (cases "st_CurrentMode s = ModeCloseOnly \<or> st_CurrentMode s = ModeKillSwitch")
  case True
  then show ?thesis by (simp add: forceCloseOnly_def ubind_go db_read_ok assms(4,5))
next
  case False
  then obtain s' where s': "TransitionTo s ModeCloseOnly ''system'' ''reconciliation'' ''critical divergence detected'' now noConfirmation = Inr s'"
    and v: "st_Version s' = st_Version s + 1"
    using assms(6) by (cases "st_CurrentMode s") (auto simp: TransitionTo_Inr mode_defs)
  obtain m where m: "map_of (db_modes (w_db w)) ''1'' = Some m" "mm_Version m = st_Version s' - 1"
    using assms(5) v by (auto simp: modes_Get_def scan_one_def mode_toDomain_def RehydrateState_def split: option.splits)
  obtain mt where mt: "mode_save s' (db_modes (w_db w)) = (Inr (), mt)" using mode_save_next [OF m] by blast
  obtain am where am: "active_row (db_accounts (w_db w)) = Some am" "account_toDomain (en_D E) (en_U E) am = Inr a"
    using accounts_GetActive_Inr [OF assms(7)] by blast
  let ?a = "SetOperationalMode a ModeCloseOnly now"
  obtain row where row: "account_columns (account_toModel (en_U E) ?a) = Inr row" using SetOperationalMode_columns [OF assms(8)] by blast
  obtain ct where ct: "account_save (en_U E) ?a (db_accounts (w_db w)) = (Inr (), ct)"
    using account_save_next [OF assms(1,2) am _ _ row] by (auto simp: SetOperationalMode_def)
  let ?fn = "ubind (db_write E (modes_Save s')) (\<lambda>_. db_write E (accounts_Save (en_U E) ?a))"
  have "\<exists>w2. ?fn ((tick (tick (tick w)))\<lparr>w_inTx := True\<rparr>) = (Inr (), w2)"
    using mt ct assms(4) by (simp add: ubind_def db_write_def infra_ok modes_Save_def accounts_Save_def)
  then obtain w2 where "WithinTransaction E ?fn (tick (tick w)) = (Inr (), (tick w2)\<lparr>w_inTx := False\<rparr>)"
    using WithinTransaction_ok [OF assms(4), of "tick (tick w)" ?fn] assms(3) by auto
  with False s' show ?thesis by (simp add: forceCloseOnly_def ubind_go db_read_ok assms(4,5,7) Let_def)
qed


lemma sample_queries_only: "queries_only quiet_env"
  by (simp add: queries_only_def paper_broker_def paper_GetAccount_def paper_GetPositions_def paper_GetOpenOrders_def)

lemma raiseDivergence_kept:
  assumes "raiseDivergence E sev d now w = (r, w')"
  shows "db_modes (w_db w') = db_modes (w_db w) \<and> db_accounts (w_db w') = db_accounts (w_db w)"
  using same_modes.keeps_app [OF keeps_modes_raise assms] by (simp add: on_db_def same_modes_def)

lemma stray_run: "\<exists>report w'. ReconcileBrokerState quiet_env (1 / 100) stray_world = (Inr report, w') \<and> rr_CriticalDivergence report"
proof -
  have reads: "br_GetAccount (paper_broker ref_decimal) sample_broker = (Inr \<lparr>ba_Balance = Money 10000, ba_Equity = Money 10000, ba_AvailableBalance = Money 10000\<rparr>, sample_broker)"
    "br_GetPositions (paper_broker ref_decimal) sample_broker = (Inr [], sample_broker)" "br_GetOpenOrders (paper_broker ref_decimal) sample_broker = (Inr [], sample_broker)"
    by (simp_all add: paper_broker_def paper_GetAccount_def paper_GetPositions_def paper_GetOpenOrders_def sample_broker_def NewBroker_def
        resetLocked_def NewMoney_def)
  define rep where "rep = compare_positions ref_decimal (1 / 100) [] [sample_position] (compare_accounts ref_decimal (1 / 100) sample_account
    \<lparr>ba_Balance = Money 10000, ba_Equity = Money 10000, ba_AvailableBalance = Money 10000\<rparr> emptyReport)"
  have rep: "rr_CriticalDivergence rep" "rr_DivergencesFound rep \<noteq> 0"
    using compare_accounts_spec [OF decimal_lib_ref, of emptyReport "1 / 100" sample_account
        "\<lparr>ba_Balance = Money 10000, ba_Equity = Money 10000, ba_AvailableBalance = Money 10000\<rparr>"]
    by (auto simp: rep_def grows_def emptyReport_def)
  let ?w = "tick (tick (tick (tick (tick (tick (tick stray_world))))))"
  let ?d = "show_int (rr_DivergencesFound rep) @ '' divergence(s) found: ['' @ spaced (rr_Details rep) @ '']''"
  have st: "w_broker stray_world = sample_broker" "\<not> w_inTx stray_world" by (simp_all add: stray_world_def)
  obtain w1 where w1: "raiseDivergence quiet_env IncidentSeverityCritical ?d 0 ?w = (Inr (), w1)"
    using raiseDivergence_ok [of quiet_env ?w IncidentSeverityCritical ?d 0] st by auto
  have keep: "db_modes (w_db w1) = db_modes (w_db stray_world)" "db_accounts (w_db w1) = db_accounts (w_db stray_world)" "\<not> w_inTx w1"
    using raiseDivergence_kept [OF w1] raiseDivergence_inTx [OF w1] st by simp_all
  have "\<exists>w2. forceCloseOnly quiet_env 0 w1 = (Inr (), w2)"
    by (rule forceCloseOnly_ok [where s = "NewState 0" and a = sample_account])
      (use keep stray_reads(3,4) sample_accounts_ok sample_account_storable in
        \<open>simp_all add: accounts_GetActive_def modes_Get_def stray_world_def NewState_def Mode_Valid_def\<close>)
  then obtain w2 where w2: "forceCloseOnly quiet_env 0 w1 = (Inr (), w2)" ..
  have react: "react quiet_env rep 0 ?w = (Inr rep, w2)" using rep w1 w2 by (simp add: react_def ubind_go wrapped_go)
  have upd: "w\<lparr>w_broker := sample_broker\<rparr> = w" if "w_broker w = sample_broker" for w :: "PaperBroker World" using that by (cases w) simp
  have tick0: "w_tick stray_world = 0" by (simp add: stray_world_def sample_world_def)
  have "ReconcileBrokerState quiet_env (1 / 100) stray_world = (Inr rep, w2)"
    using react unfolding rep_def by (simp add: ReconcileBrokerState_def reconcile_positions_def reconcile_orders_def ubind_go wrapped_go Now_def attempt_def broker_call_def
        infra_ok db_read_ok reads stray_reads st upd tick0)
  with rep(1) show ?thesis by blast
qed



theorem reconcile_corrects_nothing_witness:
  "\<exists>r w'. ReconcileBrokerState quiet_env (1 / 100) stray_world = (r, w') \<and> db_positions (w_db w') = db_positions (w_db stray_world) \<and>
     w_broker w' = sample_broker"
proof -
  obtain r w' where run: "ReconcileBrokerState quiet_env (1 / 100) stray_world = (r, w')" using stray_run by blast
  from reconcile_corrects_nothing [OF run sample_queries_only] run show ?thesis by (auto simp: stray_world_def)
qed

theorem unreachable_broker_keeps_mode_witness:
  "\<exists>report w'. ReconcileBrokerState dead_env (1 / 100) stray_world = (Inr report, w') \<and> rr_CriticalDivergence report \<and>
     db_modes (w_db w') = db_modes (w_db stray_world)"
proof -
  have "\<exists>report w'. ReconcileBrokerState dead_env (1 / 100) stray_world = (Inr report, w')"
    by (simp add: ReconcileBrokerState_def attempt_def broker_call_def infra_def dead_env_def is_panic_def ubind_def Now_def
        raiseDivergence_def NewUUID_def ignored_def WithinTransaction_def stray_world_def sample_world_def NewIncident_def split: sum.splits prod.splits)
  then obtain report w' where run: "ReconcileBrokerState dead_env (1 / 100) stray_world = (Inr report, w')" by blast
  have "fst (broker_call dead_env (br_GetAccount (en_B dead_env)) (tick stray_world)) = Inl (ErrorText ''timeout'')"
    by (simp add: broker_call_def infra_def dead_env_def)
  from unreachable_broker_keeps_mode [OF run this] run show ?thesis by auto
qed

end
