(* ===== verification/Outbox_Worker.thy ===== *)
theory Outbox_Worker
  imports Reconcile_State
begin

text \<open>
  The other end of the transactional outbox: \<^verbatim>\<open>database/outbox/publisher.go\<close> and \<^verbatim>\<open>worker.go\<close>, the
  subscriptions of the event bus (\<^verbatim>\<open>messaging/memory\<close>) and of the consumers of \<^verbatim>\<open>interfaces/consumer\<close>.
  What several workers may do to the outbox table is an abstract step relation with the rows each
  claim hands out and how often; the worker refines it in every pattern of faults, so what is
  proved of the relation holds of any number of workers.
\<close>

section \<open>Decoding and publishing\<close>

text \<open>
  The payload column is represented by the event it encodes; \<open>um\<close> stands for \<^verbatim>\<open>json.Unmarshal\<close> into the
  structure of the named event.
\<close>

type_synonym unmarshal = "string \<Rightarrow> DomainEvent \<Rightarrow> DomainEvent result"

definition decodeInto :: "unmarshal \<Rightarrow> OutboxEvent \<Rightarrow> DomainEvent result" where
  "decodeInto um evt = (case um (oe_EventType evt) (oe_Payload evt) of
       Inl e \<Rightarrow> Inl (WrapPrefix (''decoding outbox payload for '' @ oe_EventType evt) e)
     | Inr target \<Rightarrow> Inr target)"

definition decode :: "unmarshal \<Rightarrow> OutboxEvent \<Rightarrow> DomainEvent result" where
  "decode um evt =
     (if oe_EventType evt \<in> set [''OrderCreated'', ''OrderSubmitted'', ''OrderPartiallyFilled'', ''OrderFilled'', ''OrderCancelled'',
         ''PositionOpened'', ''PositionClosed'', ''KillSwitchActivated'', ''CriticalEventDetected'', ''ReconciliationDivergenceDetected'']
      then decodeInto um evt
      else Inl (ErrorText (''unknown outbox event type '' @ quoted (oe_EventType evt))))"

definition Publisher_Publish :: "'b Env \<Rightarrow> unmarshal \<Rightarrow> OutboxEvent \<Rightarrow> ('b, unit) usecase" where
  "Publisher_Publish E um evt = ubind (lift (decode um evt)) (Publish E)"

section \<open>The worker\<close>

text \<open>The loop of \<^verbatim>\<open>DrainOnce\<close>; the errors of the marks are logged only.\<close>

fun drain_loop :: "'b Env \<Rightarrow> unmarshal \<Rightarrow> OutboxEvent list \<Rightarrow> ('b, unit) usecase" where
  "drain_loop E um [] = uret ()"
| "drain_loop E um (evt # evts) =
     attempt (Publisher_Publish E um evt) (\<lambda>r. case r of
       Inl err \<Rightarrow> ubind (ignored (db_write E (MarkFailed (oe_ID evt) (error_string err)))) (\<lambda>_. drain_loop E um evts)
     | Inr _ \<Rightarrow> ubind (ignored (ubind (Now E) (\<lambda>now. db_write E (MarkProcessed (oe_ID evt) now)))) (\<lambda>_. drain_loop E um evts))"

definition DrainOnce :: "'b Env \<Rightarrow> unmarshal \<Rightarrow> int \<Rightarrow> ('b, unit) usecase" where
  "DrainOnce E um batchSize =
     attempt (db_write E (FetchPendingBatch batchSize)) (\<lambda>r. case r of
       Inl _ \<Rightarrow> uret ()
     | Inr events \<Rightarrow> drain_loop E um events)"

text \<open>The ticks of \<^verbatim>\<open>Run\<close>, one drain each.\<close>

fun drain_rounds :: "'b Env \<Rightarrow> unmarshal \<Rightarrow> int \<Rightarrow> nat \<Rightarrow> 'b World \<Rightarrow> 'b World" where
  "drain_rounds E um batchSize 0 w = w"
| "drain_rounds E um batchSize (Suc n) w = drain_rounds E um batchSize n (snd (DrainOnce E um batchSize w))"

section \<open>Subscriptions\<close>

type_synonym handlers = "string \<Rightarrow> handler list"

definition NewEventBus :: handlers where
  "NewEventBus = (\<lambda>_. [])"

definition Subscribe :: "string \<Rightarrow> handler \<Rightarrow> handlers \<Rightarrow> handlers" where
  "Subscribe eventName h hs = hs(eventName := hs eventName @ [h])"

definition dashboardEventNames :: "string list" where
  "dashboardEventNames = [''OrderCreated'', ''OrderSubmitted'', ''OrderPartiallyFilled'', ''OrderFilled'', ''OrderCancelled'',
     ''PositionOpened'', ''PositionUpdated'', ''PositionClosed'', ''SignalCreated'', ''RiskDecisionCreated'',
     ''CriticalEventDetected'', ''KillSwitchActivated'', ''OperationalModeChanged'', ''ReconciliationDivergenceDetected'']"

text \<open>The handlers of both consumers only forward and count; \<open>b\<close> and \<open>c\<close> are theirs and never fail.\<close>

definition dashboard_Subscribe :: "handlers \<Rightarrow> handlers" where
  "dashboard_Subscribe hs = fold (\<lambda>eventName. Subscribe eventName (\<lambda>_. None)) dashboardEventNames hs"

definition orders_Subscribe :: "handlers \<Rightarrow> handlers" where
  "orders_Subscribe hs = Subscribe ''OrderSubmitted'' (\<lambda>_. None) (Subscribe ''OrderCreated'' (\<lambda>_. None) hs)"

section \<open>What workers may do to the table\<close>

text \<open>
  The abstract system: the database, the rows that are claimed and not yet settled, and how often
  each row has been claimed. A claim may also be lost, by a crash or a mark that does not arrive.
\<close>

type_synonym outbox_state = "DB \<times> string list \<times> (string \<Rightarrow> nat)"

definition counted :: "string list \<Rightarrow> (string \<Rightarrow> nat) \<Rightarrow> string \<Rightarrow> nat" where
  "counted ks n k = n k + count_list ks k"

inductive outbox_step :: "outbox_state \<Rightarrow> outbox_state \<Rightarrow> bool" where
  insert: "outbox_Insert now evt db = (Inr (), db') \<Longrightarrow> outbox_step (db, c, n) (db', c, n)"
| claim: "FetchPendingBatch limit db = (Inr evts, db') \<Longrightarrow>
    outbox_step (db, c, n) (db', c @ map oe_ID evts, counted (map oe_ID evts) n)"
| ack: "k \<in> set c \<Longrightarrow> outbox_step (db, c, n) (snd (MarkProcessed k now db), remove1 k c, n)"
| nack: "k \<in> set c \<Longrightarrow> outbox_step (db, c, n) (snd (MarkFailed k msg db), remove1 k c, n)"
| lose: "k \<in> set c \<Longrightarrow> outbox_step (db, c, n) (db, remove1 k c, n)"

inductive_cases outbox_stepE: "outbox_step s t"


section \<open>Exclusive and bounded delivery\<close>

text \<open>What holds of a row, given the claims that are out and how often it was claimed.\<close>

definition row_ok :: "string list \<Rightarrow> (string \<Rightarrow> nat) \<Rightarrow> string \<Rightarrow> OutboxEvent \<Rightarrow> bool" where
  "row_ok c n k r \<longleftrightarrow> oe_ID r = k \<and> 0 \<le> oe_Attempts r \<and> (case oe_Status r of
       OutboxStatusPending \<Rightarrow> oe_Attempts r < maxAttempts \<and> int (n k) = oe_Attempts r \<and> k \<notin> set c
     | OutboxStatusProcessing \<Rightarrow> oe_Attempts r < maxAttempts \<and> int (n k) = oe_Attempts r + 1
     | OutboxStatusProcessed \<Rightarrow> oe_Attempts r < maxAttempts \<and> int (n k) = oe_Attempts r + 1 \<and> k \<notin> set c
     | OutboxStatusFailed \<Rightarrow> oe_Attempts r = maxAttempts \<and> int (n k) = maxAttempts \<and> k \<notin> set c)"

definition outbox_inv :: "outbox_state \<Rightarrow> bool" where
  "outbox_inv s \<longleftrightarrow> (case s of (db, c, n) \<Rightarrow> distinct c \<and> distinct (map fst (db_outbox db)) \<and>
     (\<forall>(k, r)\<in>set (db_outbox db). row_ok c n k r) \<and> (\<forall>k. k \<notin> fst ` set (db_outbox db) \<longrightarrow> n k = 0 \<and> k \<notin> set c))"

lemma row_ok_cong: "(k \<in> set c' \<longleftrightarrow> k \<in> set c) \<Longrightarrow> n' k = n k \<Longrightarrow> row_ok c' n' k r = row_ok c n k r"
  by (simp add: row_ok_def split: OutboxStatus.splits)

lemma al_set_fresh: "map_of tbl k = None \<Longrightarrow> al_set k v tbl = tbl @ [(k, v)]"
  by (induction k v tbl rule: al_set.induct) (auto split: if_splits)

text \<open>The updates of the table keep its keys and change rows one by one.\<close>

definition map_rows :: "(string \<Rightarrow> 'r \<Rightarrow> 'r) \<Rightarrow> 'r table \<Rightarrow> 'r table" where
  "map_rows f tbl = map (\<lambda>(k, r). (k, f k r)) tbl"

lemma map_rows_fst: "map fst (map_rows f tbl) = map fst tbl" "fst ` set (map_rows f tbl) = fst ` set tbl"
  by (auto simp: map_rows_def image_image case_prod_beta)

lemma in_map_rows: "(k, r) \<in> set (map_rows f tbl) \<longleftrightarrow> (\<exists>r0. (k, r0) \<in> set tbl \<and> r = f k r0)"
  by (auto simp: map_rows_def)

lemma updates_map_rows:
  "set_processing ks tbl = map_rows (\<lambda>k r. if k \<in> set ks then r\<lparr>oe_Status := OutboxStatusProcessing\<rparr> else r) tbl"
  "update_row key f tbl = map_rows (\<lambda>k r. if k = key then f r else r) tbl"
  by (simp_all add: set_processing_def update_row_def map_rows_def)

lemma inv_map_rows:
  assumes "outbox_inv (db, c, n)" "db_outbox db' = map_rows f (db_outbox db)" "distinct c'"
    "\<And>k r. (k, r) \<in> set (db_outbox db) \<Longrightarrow> row_ok c n k r \<Longrightarrow> row_ok c' n' k (f k r)"
    "\<And>k. k \<notin> fst ` set (db_outbox db) \<Longrightarrow> n' k = n k \<and> (k \<in> set c' \<longrightarrow> k \<in> set c)"
  shows "outbox_inv (db', c', n')"
proof -
  have "row_ok c' n' k r" if "(k, r) \<in> set (db_outbox db')" for k r
    using that assms(1,4) unfolding assms(2) in_map_rows outbox_inv_def by auto
  then show ?thesis using assms(1,3,5) unfolding outbox_inv_def by (auto simp: assms(2) map_rows_fst)
qed

lemma claimed_pending:
  assumes "(k, r) \<in> set (claimed limit tbl)"
  shows "(k, r) \<in> set tbl \<and> oe_Status r = OutboxStatusPending"
  using assms by (auto simp: claimed_def dest!: in_set_takeD)

lemma claimed_distinct: "distinct (map fst tbl) \<Longrightarrow> distinct (map fst (claimed limit tbl))"
proof -
  assume "distinct (map fst tbl)"
  then have "distinct (map fst (filter (\<lambda>(k, r). oe_Status r = OutboxStatusPending) tbl))" by (rule distinct_map_filter)
  then have "distinct (map fst (sort_key (\<lambda>(k, r). oe_CreatedAt r) (filter (\<lambda>(k, r). oe_Status r = OutboxStatusPending) tbl)))"
    by (simp add: distinct_map)
  then show "distinct (map fst (claimed limit tbl))" by (simp add: claimed_def take_map [symmetric])
qed

lemma FetchPendingBatch_Inr:
  assumes "FetchPendingBatch limit db = (Inr evts, db')" "outbox_inv (db, c, n)"
  shows "map oe_ID evts = map fst (claimed limit (db_outbox db)) \<and>
    db' = db\<lparr>db_outbox := set_processing (map fst (claimed limit (db_outbox db))) (db_outbox db)\<rparr>"
proof -
  have "oe_ID r = k" if "(k, r) \<in> set (claimed limit (db_outbox db))" for k r
    using claimed_pending [OF that] assms(2) by (auto simp: outbox_inv_def row_ok_def)
  then have "map (\<lambda>(k, r). oe_ID r) (claimed limit (db_outbox db)) = map fst (claimed limit (db_outbox db))"
    by (intro map_cong) auto
  with assms(1) show ?thesis by (auto simp: FetchPendingBatch_def Let_def case_prod_beta comp_def split: if_splits)
qed

lemma count_distinct: "distinct ks \<Longrightarrow> count_list ks k = (if k \<in> set ks then 1 else 0)"
  by (induction ks) auto

lemma claim_keeps_inv:
  assumes "outbox_inv (db, c, n)" "FetchPendingBatch limit db = (Inr evts, db')"
  shows "outbox_inv (db', c @ map oe_ID evts, counted (map oe_ID evts) n)"
proof -
  let ?ks = "map fst (claimed limit (db_outbox db))"
  have tbl: "distinct (map fst (db_outbox db))" and rows: "\<And>k r. (k, r) \<in> set (db_outbox db) \<Longrightarrow> row_ok c n k r"
    using assms(1) by (auto simp: outbox_inv_def)
  have ids: "map oe_ID evts = ?ks" and db': "db_outbox db' = map_rows (\<lambda>k r. if k \<in> set ?ks then r\<lparr>oe_Status := OutboxStatusProcessing\<rparr> else r) (db_outbox db)"
    using FetchPendingBatch_Inr [OF assms(2,1)] by (simp_all add: updates_map_rows)
  have pending: "oe_Status r = OutboxStatusPending" if "k \<in> set ?ks" "(k, r) \<in> set (db_outbox db)" for k r
  proof -
    from that(1) obtain b where "(k, b) \<in> set (claimed limit (db_outbox db))" by auto
    from claimed_pending [OF this] that(2) show ?thesis using eq_key_imp_eq_value [OF tbl] by metis
  qed
  have sub: "k \<in> fst ` set (db_outbox db)" if "k \<in> set ?ks" for k using that claimed_pending by (force simp: image_iff)
  have disj: "set c \<inter> set ?ks = {}"
  proof -
    have "k \<notin> set c" if k: "k \<in> set ?ks" for k
    proof -
      obtain r where r: "(k, r) \<in> set (db_outbox db)" using sub [OF k] by auto
      show ?thesis using rows [OF r] pending [OF k r] by (simp add: row_ok_def)
    qed
    then show ?thesis by blast
  qed
  have d: "distinct (c @ ?ks)" using assms(1) disj claimed_distinct [OF tbl] by (auto simp: outbox_inv_def)
  show ?thesis
    unfolding ids
  proof (rule inv_map_rows [OF assms(1) db' d])
    fix k r assume kr: "(k, r) \<in> set (db_outbox db)" "row_ok c n k r"
    show "row_ok (c @ ?ks) (counted ?ks n) k (if k \<in> set ?ks then r\<lparr>oe_Status := OutboxStatusProcessing\<rparr> else r)"
      using kr pending [OF _ kr(1)] count_distinct [OF claimed_distinct [OF tbl]]
      by (auto simp: row_ok_def counted_def split: OutboxStatus.splits)
  next
    fix k assume "k \<notin> fst ` set (db_outbox db)"
    then show "counted ?ks n k = n k \<and> (k \<in> set (c @ ?ks) \<longrightarrow> k \<in> set c)" using sub by (auto simp: counted_def count_list_0_iff)
  qed
qed

text \<open>A row whose claim is out is being processed.\<close>

lemma row_ok_claimed:
  assumes "k \<in> set c" "row_ok c n k r"
  shows "oe_ID r = k \<and> 0 \<le> oe_Attempts r \<and> oe_Attempts r < maxAttempts \<and> int (n k) = oe_Attempts r + 1 \<and>
    oe_Status r = OutboxStatusProcessing"
  using assms by (auto simp: row_ok_def split: OutboxStatus.splits)

lemma settle_row:
  assumes inv: "outbox_inv (db, c, n)" and k: "k \<in> set c" and tbl: "db_outbox db' = update_row k f (db_outbox db)"
    and row: "\<And>r. row_ok c n k r \<Longrightarrow> k \<notin> set (remove1 k c) \<Longrightarrow> row_ok (remove1 k c) n k (f r)"
  shows "outbox_inv (db', remove1 k c, n)"
proof (rule inv_map_rows [OF inv tbl [unfolded updates_map_rows]])
  have d: "distinct c" using inv by (simp add: outbox_inv_def)
  then show "distinct (remove1 k c)" by simp
  show "row_ok (remove1 k c) n j (if j = k then f r else r)" if "row_ok c n j r" for j r
    using that row [of r] d by (auto simp: row_ok_cong [of j "remove1 k c" c])
  show "n j = n j \<and> (j \<in> set (remove1 k c) \<longrightarrow> j \<in> set c)" for j using d by simp
qed

lemma settle_keeps_inv:
  assumes "outbox_inv (db, c, n)" "k \<in> set c"
  shows "outbox_inv (snd (MarkProcessed k now db), remove1 k c, n)" "outbox_inv (snd (MarkFailed k msg db), remove1 k c, n)"
    "outbox_inv (db, remove1 k c, n)"
proof -
  have id: "db_outbox db = update_row k (\<lambda>r. r) (db_outbox db)" by (simp add: update_row_def)
  note row = row_ok_claimed [OF assms(2)]
  show "outbox_inv (snd (MarkProcessed k now db), remove1 k c, n)"
    by (rule settle_row [OF assms]) (simp add: MarkProcessed_def, drule row, simp add: row_ok_def)
  show "outbox_inv (snd (MarkFailed k msg db), remove1 k c, n)"
    by (rule settle_row [OF assms]) (simp add: MarkFailed_def, drule row, auto simp add: row_ok_def)
  show "outbox_inv (db, remove1 k c, n)"
    by (rule settle_row [OF assms id], drule row, simp add: row_ok_def)
qed

lemma insert_keeps_inv:
  assumes "outbox_inv (db, c, n)" "outbox_Insert now evt db = (Inr (), db')"
  shows "outbox_inv (db', c, n)"
proof -
  let ?k = "oe_ID evt"
  from assms(2) obtain r where free: "map_of (db_outbox db) ?k = None" and tbl: "db_outbox db' = db_outbox db @ [(?k, r)]"
    and r: "oe_ID r = ?k" "oe_Attempts r = 0" "oe_Status r = OutboxStatusPending"
    by (auto simp: outbox_Insert_def sql_insert_def al_set_fresh split: option.splits if_splits)
  have new: "?k \<notin> fst ` set (db_outbox db)" using free by (simp add: map_of_eq_None_iff)
  then have "n ?k = 0" "?k \<notin> set c" using assms(1) by (auto simp: outbox_inv_def)
  then have "row_ok c n ?k r" using r by (simp add: row_ok_def maxAttempts_def)
  with assms(1) new show ?thesis by (auto simp: outbox_inv_def tbl)
qed

lemma outbox_step_keeps_inv: "outbox_step s t \<Longrightarrow> outbox_inv s \<Longrightarrow> outbox_inv t"
  by (induction rule: outbox_step.induct) (auto intro: insert_keeps_inv claim_keeps_inv settle_keeps_inv)

lemma outbox_steps_keep_inv: "outbox_step\<^sup>*\<^sup>* s t \<Longrightarrow> outbox_inv s \<Longrightarrow> outbox_inv t"
  by (induction rule: rtranclp_induct) (auto intro: outbox_step_keeps_inv)

text \<open>
  C18: In every state that any number of workers can reach from an empty outbox, with crashes and lost
  answers anywhere: no row is claimed by two workers at once, a further claim hands out rows that
  nobody holds, no event is handed out more than five times, an event parked as FAILED was handed out
  exactly five times, and one that is still PENDING was handed out as often as its attempts say.
\<close>

theorem outbox_delivery_bounded:
  assumes "outbox_step\<^sup>*\<^sup>* (db0, [], \<lambda>_. 0) (db, c, n)" "db_outbox db0 = []"
  shows "distinct c \<and> (\<forall>limit evts db'. FetchPendingBatch limit db = (Inr evts, db') \<longrightarrow> distinct (c @ map oe_ID evts)) \<and>
    (\<forall>k. n k \<le> 5) \<and>
    (\<forall>k r. (k, r) \<in> set (db_outbox db) \<longrightarrow> oe_Status r = OutboxStatusFailed \<longrightarrow> n k = 5) \<and>
    (\<forall>k r. (k, r) \<in> set (db_outbox db) \<longrightarrow> oe_Status r = OutboxStatusPending \<longrightarrow> int (n k) = oe_Attempts r \<and> n k < 5)"
proof (intro conjI allI impI)
  have "outbox_inv (db0, [], \<lambda>_. 0)" using assms(2) by (simp add: outbox_inv_def)
  with assms(1) have inv: "outbox_inv (db, c, n)" by (rule outbox_steps_keep_inv)
  have row: "row_ok c n k r" if "(k, r) \<in> set (db_outbox db)" for k r using inv that by (auto simp: outbox_inv_def)
  show "distinct c" using inv by (simp add: outbox_inv_def)
  show "distinct (c @ map oe_ID evts)" if "FetchPendingBatch limit db = (Inr evts, db')" for evts db' limit
    using claim_keeps_inv [OF inv that] by (simp add: outbox_inv_def)
  show "n k = 5" if "(k, r) \<in> set (db_outbox db)" "oe_Status r = OutboxStatusFailed" for k r
    using row [OF that(1)] that(2) by (simp add: row_ok_def maxAttempts_def)
  show "int (n k) = oe_Attempts r" "n k < 5" if "(k, r) \<in> set (db_outbox db)" "oe_Status r = OutboxStatusPending" for k r
    using row [OF that(1)] that(2) by (simp_all add: row_ok_def maxAttempts_def)
  show "n k \<le> 5" for k
  proof (cases "k \<in> fst ` set (db_outbox db)")
    case True
    then obtain r where "(k, r) \<in> set (db_outbox db)" by auto
    from row [OF this] show ?thesis by (auto simp: row_ok_def maxAttempts_def split: OutboxStatus.splits)
  next
    case False
    then show ?thesis using inv by (simp add: outbox_inv_def)
  qed
qed

section \<open>The worker refines the step relation\<close>

text \<open>One call that settles a claim, in every fault: the mark arrives or the claim is lost.\<close>

lemma settle_steps:
  assumes "k \<in> set c" "ignored (db_write E f) w = (r, w')" "outbox_step (w_db w, c, n) (snd (f (w_db w)), remove1 k c, n)"
  shows "outbox_step (w_db w, c, n) (w_db w', remove1 k c, n)"
proof -
  have "w_db w' = w_db w \<or> w_db w' = snd (f (w_db w))"
    using assms(2) by (auto simp: ignored_def attempt_def db_write_def infra_def split: fault.splits prod.splits sum.splits if_splits)
  then show ?thesis using assms(3) outbox_step.lose [OF assms(1)] by auto
qed

lemma lose_all: "distinct (c @ ks) \<Longrightarrow> outbox_step\<^sup>*\<^sup>* (db, c @ ks, n) (db, c, n)"
proof (induction ks)
  case (Cons k ks)
  then have "outbox_step (db, c @ k # ks, n) (db, c @ ks, n)"
    using outbox_step.lose [of k "c @ k # ks" db n] by (simp add: remove1_append)
  with Cons show ?case by (auto intro: converse_rtranclp_into_rtranclp)
qed simp

lemma Publisher_Publish_db: "Publisher_Publish E um evt w = (r, w') \<Longrightarrow> w_db w' = w_db w"
  by (auto simp: Publisher_Publish_def ubind_def Publish_def split: sum.splits)

lemma mark_settles:
  assumes "k \<in> set c"
  shows "ignored (db_write E (MarkFailed k msg)) w = (r, w') \<Longrightarrow> outbox_step (w_db w, c, n) (w_db w', remove1 k c, n)"
    and "ignored (ubind (Now E) (\<lambda>now. db_write E (MarkProcessed k now))) w = (r, w') \<Longrightarrow> outbox_step (w_db w, c, n) (w_db w', remove1 k c, n)"
proof -
  show "outbox_step (w_db w, c, n) (w_db w', remove1 k c, n)" if "ignored (db_write E (MarkFailed k msg)) w = (r, w')"
    using settle_steps [OF assms that] outbox_step.nack [OF assms] by blast
  assume "ignored (ubind (Now E) (\<lambda>now. db_write E (MarkProcessed k now))) w = (r, w')"
  then have "ignored (db_write E (MarkProcessed k (en_clock E (w_tick w)))) (tick w) = (r, w')"
    by (simp add: ignored_def attempt_def ubind_def Now_def)
  from settle_steps [OF assms this] show "outbox_step (w_db w, c, n) (w_db w', remove1 k c, n)"
    using outbox_step.ack [OF assms] by simp
qed

lemma drain_loop_steps:
  "distinct (c @ map oe_ID evts) \<Longrightarrow> drain_loop E um evts w = (r, w') \<Longrightarrow>
    outbox_step\<^sup>*\<^sup>* (w_db w, c @ map oe_ID evts, n) (w_db w', c, n)"
proof (induction evts arbitrary: w)
  case (Cons evt evts)
  let ?k = "oe_ID evt" and ?c = "c @ map oe_ID (evt # evts)"
  have k: "?k \<in> set ?c" and rest: "remove1 ?k ?c = c @ map oe_ID evts" and d: "distinct (c @ map oe_ID evts)"
    using Cons.prems(1) by (auto simp: remove1_append)
  obtain p w1 where p: "Publisher_Publish E um evt w = (p, w1)" by (cases "Publisher_Publish E um evt w")
  have db1: "w_db w1 = w_db w" using Publisher_Publish_db [OF p] .
  have done_: "outbox_step\<^sup>*\<^sup>* (w_db w, ?c, n) (w_db w', c, n)"
    if m: "m w1 = (q, w2)" "outbox_step (w_db w1, ?c, n) (w_db w2, remove1 ?k ?c, n)"
      and go: "ubind m (\<lambda>_. drain_loop E um evts) w1 = (r, w')" for m :: "('a, unit) usecase" and q w2
  proof (cases q)
    case (Inl e)
    then have "w' = w2" using go m(1) by (simp add: ubind_def)
    with m(2) lose_all [OF d] show ?thesis unfolding rest db1 by (auto intro: converse_rtranclp_into_rtranclp)
  next
    case (Inr u)
    then have "drain_loop E um evts w2 = (r, w')" using go m(1) by (simp add: ubind_def)
    with Cons.IH [OF d this] m(2) show ?thesis unfolding rest db1 by (auto intro: converse_rtranclp_into_rtranclp)
  qed
  show ?case
  proof (cases p)
    case (Inr u)
    obtain q w2 where q: "ignored (ubind (Now E) (\<lambda>now. db_write E (MarkProcessed ?k now))) w1 = (q, w2)" by (metis surj_pair)
    have "ubind (ignored (ubind (Now E) (\<lambda>now. db_write E (MarkProcessed ?k now)))) (\<lambda>_. drain_loop E um evts) w1 = (r, w')"
      using Cons.prems(2) p Inr by (simp add: attempt_def)
    then show ?thesis by (rule done_ [rotated 2]) (rule q, rule mark_settles(2) [OF k q])
  next
    case (Inl e)
    obtain q w2 where q: "ignored (db_write E (MarkFailed ?k (error_string e))) w1 = (q, w2)" by (metis surj_pair)
    show ?thesis
    proof (cases "is_panic e")
      case True
      then have "w_db w' = w_db w" using Cons.prems(2) p Inl db1 by (simp add: attempt_def)
      with lose_all [OF Cons.prems(1)] show ?thesis by simp
    next
      case False
      then have "ubind (ignored (db_write E (MarkFailed ?k (error_string e)))) (\<lambda>_. drain_loop E um evts) w1 = (r, w')"
        using Cons.prems(2) p Inl by (simp add: attempt_def)
      then show ?thesis by (rule done_ [rotated 2]) (rule q, rule mark_settles(1) [OF k q])
    qed
  qed
qed simp

text \<open>The drain as a whole, from any state that satisfies the invariant.\<close>

lemma drain_steps:
  assumes inv: "outbox_inv (w_db w, c, n)" and drain: "DrainOnce E um batchSize w = (r, w')"
  shows "\<exists>n'. outbox_step\<^sup>*\<^sup>* (w_db w, c, n) (w_db w', c, n')"
proof -
  obtain f w1 where f: "db_write E (FetchPendingBatch batchSize) w = (f, w1)" by (metis surj_pair)
  obtain g db1 where g: "FetchPendingBatch batchSize (w_db w) = (g, db1)" by (metis surj_pair)
  have done_: "\<exists>n'. outbox_step\<^sup>*\<^sup>* (w_db w, c, n) (w_db w', c, n')" if db: "w_db w' = w_db w \<or> w_db w' = db1" and w: "w' = w1"
  proof (cases "w_db w' = w_db w")
    case False
    then have db: "w_db w' = db1" using db by simp
    then obtain evts where evts: "g = Inr evts" using False g by (auto simp: FetchPendingBatch_def Let_def split: if_splits)
    have "outbox_step (w_db w, c, n) (db1, c @ map oe_ID evts, counted (map oe_ID evts) n)"
      by (rule outbox_step.claim) (use g evts in simp)
    moreover have "distinct (c @ map oe_ID evts)" using claim_keeps_inv [OF inv g [unfolded evts]] by (simp add: outbox_inv_def)
    ultimately show ?thesis unfolding db by (blast intro: converse_rtranclp_into_rtranclp lose_all)
  qed auto
  show ?thesis
  proof (cases f)
    case (Inl e)
    then have "w' = w1" using drain f by (auto simp: DrainOnce_def attempt_def split: if_splits)
    moreover have "w_db w1 = w_db w \<or> w_db w1 = db1"
      using f g by (auto simp: db_write_def infra_def split: fault.splits)
    ultimately show ?thesis using done_ by simp
  next
    case (Inr evts)
    have fetch: "FetchPendingBatch batchSize (w_db w) = (Inr evts, w_db w1)"
      using db_write_Inr [OF f [unfolded Inr]] by simp
    have "outbox_step (w_db w, c, n) (w_db w1, c @ map oe_ID evts, counted (map oe_ID evts) n)"
      by (rule outbox_step.claim [OF fetch])
    moreover have "distinct (c @ map oe_ID evts)" using claim_keeps_inv [OF inv fetch] by (simp add: outbox_inv_def)
    moreover have "drain_loop E um evts w1 = (r, w')" using drain f Inr by (simp add: DrainOnce_def attempt_def)
    ultimately show ?thesis by (blast intro: converse_rtranclp_into_rtranclp drain_loop_steps)
  qed
qed

text \<open>
  C19: The worker implements the step relation: whatever faults its calls meet, whatever the handlers
  answer and whatever other workers hold, a drain takes the outbox through claims, marks and losses
  only, ends with the claims of the others as they were, and stays within the reachable states.
\<close>

theorem drain_refines_steps:
  assumes "outbox_step\<^sup>*\<^sup>* (db0, [], \<lambda>_. 0) (w_db w, c, n)" "db_outbox db0 = []" "DrainOnce E um batchSize w = (r, w')"
  shows "\<exists>n'. outbox_step\<^sup>*\<^sup>* (w_db w, c, n) (w_db w', c, n') \<and> outbox_step\<^sup>*\<^sup>* (db0, [], \<lambda>_. 0) (w_db w', c, n')"
proof -
  have "outbox_inv (db0, [], \<lambda>_. 0)" using assms(2) by (simp add: outbox_inv_def)
  with assms(1) have "outbox_inv (w_db w, c, n)" by (rule outbox_steps_keep_inv)
  from drain_steps [OF this assms(3)] show ?thesis using assms(1) by (blast intro: rtranclp_trans)
qed

section \<open>Draining ends\<close>

text \<open>How many claims a row can still take, and the table as a whole.\<close>

definition budget :: "OutboxEvent \<Rightarrow> nat" where
  "budget r = (if oe_Status r = OutboxStatusPending then Suc (nat (maxAttempts - 1 - oe_Attempts r)) else 0)"

definition total_budget :: "OutboxEvent table \<Rightarrow> nat" where
  "total_budget tbl = (\<Sum>(k, r)\<leftarrow>tbl. budget r)"

lemma faultless_write: "no_faults E \<Longrightarrow> db_write E f w = (fst (f (w_db w)), (tick w)\<lparr>w_db := snd (f (w_db w))\<rparr>)"
  by (simp add: no_faults_def db_write_def infra_def split: prod.splits)

text \<open>A settled row takes at least one claim less.\<close>

definition settled :: "string list \<Rightarrow> (string \<Rightarrow> OutboxEvent \<Rightarrow> OutboxEvent) \<Rightarrow> bool" where
  "settled ks h \<longleftrightarrow> (\<forall>k r. k \<notin> set ks \<longrightarrow> h k r = r) \<and>
     (\<forall>k r. k \<in> set ks \<longrightarrow> budget (h k r) \<le> nat (maxAttempts - 1 - oe_Attempts r) \<and> oe_ID (h k r) = oe_ID r \<and> oe_Attempts r \<le> oe_Attempts (h k r))"

lemma map_rows_comp: "map_rows g (map_rows f tbl) = map_rows (\<lambda>k r. g k (f k r)) tbl"
  by (simp add: map_rows_def case_prod_beta)

lemma not_panicking: "Publisher_Publish E um evt w = (Inl e, w') \<Longrightarrow> \<not> is_panic e"
  by (auto simp: Publisher_Publish_def ubind_def Publish_def decode_def decodeInto_def errors_Join_def is_panic_def
      split: sum.splits if_splits)

lemma mark_settles_row:
  "settled [k] (\<lambda>j r. if j = k then r\<lparr>oe_Status := OutboxStatusProcessed, oe_ProcessedAt := t\<rparr> else r)"
  "settled [k] (\<lambda>j r. if j = k then r\<lparr>oe_Attempts := oe_Attempts r + 1, oe_LastError := msg,
     oe_Status := (if oe_Attempts r + 1 \<ge> maxAttempts then OutboxStatusFailed else OutboxStatusPending)\<rparr> else r)"
  by (auto simp: settled_def budget_def maxAttempts_def)

lemma settled_comp:
  assumes "settled [k] f" "settled ks g" "k \<notin> set ks"
  shows "settled (k # ks) (\<lambda>j r. g j (f j r))"
  using assms unfolding settled_def by auto

lemma drain_loop_settles:
  assumes "no_faults E" "distinct (map oe_ID evts)"
  shows "\<exists>h. settled (map oe_ID evts) h \<and> db_outbox (w_db (snd (drain_loop E um evts w))) = map_rows h (db_outbox (w_db w))"
  using assms(2)
proof (induction evts arbitrary: w)
  case Nil
  have "settled [] (\<lambda>k r. r)" "db_outbox (w_db w) = map_rows (\<lambda>k r. r) (db_outbox (w_db w))"
    by (simp_all add: settled_def map_rows_def)
  then show ?case by auto
next
  case (Cons evt evts)
  let ?k = "oe_ID evt"
  have "\<exists>f w1. settled [?k] f \<and> db_outbox (w_db w1) = map_rows f (db_outbox (w_db w)) \<and>
      drain_loop E um (evt # evts) w = drain_loop E um evts w1"
  proof -
    obtain p w0 where p: "Publisher_Publish E um evt w = (p, w0)" by (metis surj_pair)
    note db0 = Publisher_Publish_db [OF p]
    note simps = attempt_def ignored_def ubind_def Now_def faultless_write [OF assms(1)] MarkProcessed_def MarkFailed_def updates_map_rows db0
    show ?thesis
    proof (cases p)
      case (Inl e)
      with not_panicking p have "\<not> is_panic e" by metis
      then have "drain_loop E um (evt # evts) w = drain_loop E um evts ((tick w0)\<lparr>w_db := snd (MarkFailed ?k (error_string e) (w_db w))\<rparr>)"
        using p Inl by (simp add: simps)
      then show ?thesis using mark_settles_row(2) by (intro exI conjI) (auto simp: simps)
    next
      case (Inr u)
      then have "drain_loop E um (evt # evts) w = drain_loop E um evts
          ((tick (tick w0))\<lparr>w_db := snd (MarkProcessed ?k (en_clock E (w_tick w0)) (w_db w))\<rparr>)"
        using p by (simp add: simps)
      then show ?thesis using mark_settles_row(1) by (intro exI conjI) (auto simp: simps)
    qed
  qed
  then obtain f w1 where f: "settled [?k] f" "db_outbox (w_db w1) = map_rows f (db_outbox (w_db w))"
    "drain_loop E um (evt # evts) w = drain_loop E um evts w1" by blast
  obtain g where g: "settled (map oe_ID evts) g" "db_outbox (w_db (snd (drain_loop E um evts w1))) = map_rows g (db_outbox (w_db w1))"
    using Cons.IH Cons.prems by auto
  have "settled (map oe_ID (evt # evts)) (\<lambda>j r. g j (f j r))" using settled_comp [OF f(1) g(1)] Cons.prems by simp
  then show ?case using f(2,3) g(2) by (auto simp: map_rows_comp intro!: exI [of _ "\<lambda>j r. g j (f j r)"])
qed

lemma total_budget_le:
  "(\<And>k r. (k, r) \<in> set tbl \<Longrightarrow> budget (h k r) \<le> budget r) \<Longrightarrow> total_budget (map_rows h tbl) \<le> total_budget tbl"
  by (induction tbl) (auto simp: total_budget_def map_rows_def add_mono)

lemma total_budget_less:
  assumes "\<And>k r. (k, r) \<in> set tbl \<Longrightarrow> budget (h k r) \<le> budget r" "(k, r) \<in> set tbl" "budget (h k r) < budget r"
  shows "total_budget (map_rows h tbl) < total_budget tbl"
proof -
  obtain xs ys where tbl: "tbl = xs @ (k, r) # ys" using split_list [OF assms(2)] by blast
  have split: "total_budget (us @ (i, x) # vs) = total_budget us + budget x + total_budget vs" for us i x vs
    by (simp add: total_budget_def)
  have rows: "map_rows h tbl = map_rows h xs @ (k, h k r) # map_rows h ys" by (simp add: tbl map_rows_def)
  have "total_budget (map_rows h xs) \<le> total_budget xs" "total_budget (map_rows h ys) \<le> total_budget ys"
    using assms(1) by (auto intro!: total_budget_le simp: tbl)
  then show ?thesis using assms(3) unfolding rows unfolding tbl split by linarith
qed

lemma no_pending: "total_budget tbl = 0 \<Longrightarrow> (k, r) \<in> set tbl \<Longrightarrow> oe_Status r \<noteq> OutboxStatusPending"
  by (induction tbl) (auto simp: total_budget_def budget_def split: if_splits)

definition keyed :: "OutboxEvent table \<Rightarrow> bool" where
  "keyed tbl \<longleftrightarrow> distinct (map fst tbl) \<and> (\<forall>(k, r)\<in>set tbl. oe_ID r = k \<and> 0 \<le> oe_Attempts r)"

lemma claim_ids: "keyed tbl \<Longrightarrow> map (\<lambda>(k, r). oe_ID (r\<lparr>oe_Status := s\<rparr>)) (claimed limit tbl) = map fst (claimed limit tbl)"
  by (auto simp: keyed_def dest!: claimed_pending)

lemma drain_table:
  assumes "no_faults E" "0 \<le> batchSize" "keyed (db_outbox (w_db w))"
  defines "ks \<equiv> map fst (claimed batchSize (db_outbox (w_db w)))"
  shows "\<exists>h. settled ks h \<and> db_outbox (w_db (snd (DrainOnce E um batchSize w))) =
    map_rows (\<lambda>k r. h k (if k \<in> set ks then r\<lparr>oe_Status := OutboxStatusProcessing\<rparr> else r)) (db_outbox (w_db w))"
proof -
  let ?evts = "map (\<lambda>(k, r). r\<lparr>oe_Status := OutboxStatusProcessing\<rparr>) (claimed batchSize (db_outbox (w_db w)))"
  let ?w = "(tick w)\<lparr>w_db := (w_db w)\<lparr>db_outbox := set_processing ks (db_outbox (w_db w))\<rparr>\<rparr>"
  have ids: "map oe_ID ?evts = ks" using claim_ids [OF assms(3)] by (simp add: ks_def case_prod_beta comp_def)
  have "distinct ks" using claimed_distinct assms(3) unfolding ks_def keyed_def by blast
  then obtain h where h: "settled ks h" "db_outbox (w_db (snd (drain_loop E um ?evts ?w))) = map_rows h (db_outbox (w_db ?w))"
    using drain_loop_settles [OF assms(1), of ?evts um ?w] unfolding ids by blast
  have "DrainOnce E um batchSize w = drain_loop E um ?evts ?w"
    using assms(2) by (simp add: DrainOnce_def attempt_def faultless_write [OF assms(1)] FetchPendingBatch_def Let_def ks_def)
  with h show ?thesis by (auto simp: updates_map_rows map_rows_comp)
qed

lemma drain_round:
  fixes um :: unmarshal
  assumes "no_faults E" "1 \<le> batchSize" "keyed (db_outbox (w_db w))"
  defines "tbl \<equiv> db_outbox (w_db w)" and "tbl' \<equiv> db_outbox (w_db (snd (DrainOnce E um batchSize w)))"
  shows "keyed tbl' \<and> (total_budget tbl' < total_budget tbl \<or> total_budget tbl' = 0)"
proof -
  let ?ks = "map fst (claimed batchSize tbl)"
  have keyed: "keyed tbl" using assms(3) by (simp add: tbl_def)
  obtain h where h: "settled ?ks h" and tbl': "tbl' = map_rows (\<lambda>k r. h k (if k \<in> set ?ks then r\<lparr>oe_Status := OutboxStatusProcessing\<rparr> else r)) tbl"
    using drain_table [of E batchSize w um] assms(1-3) unfolding tbl_def tbl'_def by auto
  let ?H = "\<lambda>k r. h k (if k \<in> set ?ks then r\<lparr>oe_Status := OutboxStatusProcessing\<rparr> else r)"
  have pending: "oe_Status r = OutboxStatusPending" if "k \<in> set ?ks" "(k, r) \<in> set tbl" for k r
  proof -
    from that(1) obtain b where "(k, b) \<in> set (claimed batchSize tbl)" by auto
    from claimed_pending [OF this] that(2) show ?thesis using keyed eq_key_imp_eq_value unfolding keyed_def by metis
  qed
  have less: "budget (?H k r) < budget r" if "k \<in> set ?ks" "(k, r) \<in> set tbl" for k r
  proof -
    have "budget (?H k r) \<le> nat (maxAttempts - 1 - oe_Attempts r)"
      using h that(1) unfolding settled_def by (auto dest!: spec [of _ k] spec [of _ "r\<lparr>oe_Status := OutboxStatusProcessing\<rparr>"])
    then show ?thesis using pending [OF that] by (simp add: budget_def)
  qed
  have same: "?H k r = r" if "k \<notin> set ?ks" for k r using h that by (simp add: settled_def)
  have le: "budget (?H k r) \<le> budget r" if "(k, r) \<in> set tbl" for k r
    using less [OF _ that] same by (cases "k \<in> set ?ks") (simp_all add: less_imp_le)
  have rows: "oe_ID (?H k r) = oe_ID r \<and> oe_Attempts r \<le> oe_Attempts (?H k r)" for k r
  proof (cases "k \<in> set ?ks")
    case True
    with h have "oe_ID (h k q) = oe_ID q \<and> oe_Attempts q \<le> oe_Attempts (h k q)" for q unfolding settled_def by blast
    from this [of "r\<lparr>oe_Status := OutboxStatusProcessing\<rparr>"] True show ?thesis by simp
  next
    case False
    with same [OF this, of r] show ?thesis by simp
  qed
  have "oe_ID r = k \<and> 0 \<le> oe_Attempts r" if kr: "(k, r) \<in> set tbl'" for k r
  proof -
    obtain r0 where r0: "(k, r0) \<in> set tbl" "r = ?H k r0" using kr unfolding tbl' in_map_rows by blast
    from r0(1) keyed have "oe_ID r0 = k \<and> 0 \<le> oe_Attempts r0" unfolding keyed_def by blast
    with rows [of k r0] show ?thesis unfolding r0(2) [symmetric] by (metis order_trans)
  qed
  then have "keyed tbl'" using keyed unfolding keyed_def tbl' map_rows_fst by blast
  moreover have "total_budget tbl' < total_budget tbl \<or> total_budget tbl' = 0"
  proof (cases "claimed batchSize tbl")
    case Nil
    then have none: "filter (\<lambda>(k, r). oe_Status r = OutboxStatusPending) tbl = []"
      using assms(2) by (simp add: claimed_def) (metis length_0_conv length_sort)
    have "tbl' = tbl" using h Nil by (simp add: tbl' settled_def map_rows_def)
    moreover have "total_budget tbl = 0" using none by (induction tbl) (auto simp: total_budget_def budget_def split: if_splits)
    ultimately show ?thesis by simp
  next
    case (Cons kr rest)
    then obtain k r where kr: "(k, r) \<in> set (claimed batchSize tbl)" by (cases kr) auto
    then have "k \<in> set ?ks" "(k, r) \<in> set tbl" using claimed_pending by force+
    from total_budget_less [of tbl ?H, OF le this(2) less [OF this]] show ?thesis unfolding tbl' by blast
  qed
  ultimately show ?thesis ..
qed

lemma rounds_decrease:
  assumes "no_faults E" "1 \<le> batchSize"
  shows "keyed (db_outbox (w_db w)) \<Longrightarrow> total_budget (db_outbox (w_db w)) \<le> m \<Longrightarrow> total_budget (db_outbox (w_db (drain_rounds E um batchSize m w))) = 0"
proof (induction m arbitrary: w)
  case (Suc m)
  from drain_round [OF assms Suc.prems(1), of um] Suc.prems(2) show ?case by (auto intro!: Suc.IH)
qed simp

lemma total_budget_bound: "keyed tbl \<Longrightarrow> total_budget tbl \<le> 5 * length tbl"
  unfolding keyed_def total_budget_def
  by (induction tbl) (auto simp: budget_def maxAttempts_def)


section \<open>Concrete runs\<close>

definition sample_row :: "OutboxStatus \<Rightarrow> int \<Rightarrow> string \<Rightarrow> OutboxEvent" where
  "sample_row status attempts msg = \<lparr>oe_ID = ''e1'', oe_EventType = ''OrderCreated'', oe_Payload = EvOrder (OrderCreated sample_order 0),
     oe_Status = status, oe_Attempts = attempts, oe_CreatedAt = 0, oe_ProcessedAt = None, oe_LastError = msg\<rparr>"

definition row_db :: "OutboxEvent \<Rightarrow> DB" where
  "row_db row = emptyDB\<lparr>db_outbox := [(''e1'', row)]\<rparr>"

lemma sample_insert: "outbox_step (emptyDB, [], \<lambda>_. 0) (row_db (sample_row OutboxStatusPending 0 ''''), [], \<lambda>_. 0)"
  by (rule outbox_step.insert [where now = 0 and evt = "sample_row OutboxStatusPending 0 ''''"])
    (simp add: outbox_Insert_def sql_insert_def sample_row_def row_db_def emptyDB_def timestamptz_def)

lemma sample_claim: "outbox_step (row_db (sample_row OutboxStatusPending 0 ''''), [], \<lambda>_. 0)
    (row_db (sample_row OutboxStatusProcessing 0 ''''), [''e1''], counted [''e1''] (\<lambda>_. 0))"
proof -
  have "FetchPendingBatch 10 (row_db (sample_row OutboxStatusPending 0 '''')) =
      (Inr [sample_row OutboxStatusProcessing 0 ''''], row_db (sample_row OutboxStatusProcessing 0 ''''))"
    by (simp add: FetchPendingBatch_def claimed_def set_processing_def row_db_def sample_row_def)
  from outbox_step.claim [OF this, of "[]" "\<lambda>_. 0"] show ?thesis by (simp add: sample_row_def)
qed

theorem outbox_delivery_bounded_witness:
  "outbox_step\<^sup>*\<^sup>* (emptyDB, [], \<lambda>_. 0) (row_db (sample_row OutboxStatusProcessing 0 ''''), [''e1''], counted [''e1''] (\<lambda>_. 0)) \<and>
   counted [''e1''] (\<lambda>_. 0) ''e1'' \<le> 5 \<and> counted [''e1''] (\<lambda>_. 0) ''e1'' = 1"
proof -
  have reached: "outbox_step\<^sup>*\<^sup>* (emptyDB, [], \<lambda>_. 0) (row_db (sample_row OutboxStatusProcessing 0 ''''), [''e1''], counted [''e1''] (\<lambda>_. 0))"
    using sample_insert sample_claim by (meson converse_rtranclp_into_rtranclp rtranclp.rtrancl_refl)
  have "db_outbox emptyDB = []" by (simp add: emptyDB_def)
  from outbox_delivery_bounded [OF reached this] have "counted [''e1''] (\<lambda>_. 0) ''e1'' \<le> 5" by blast
  with reached show ?thesis by (simp add: counted_def)
qed

definition row_world :: "OutboxEvent \<Rightarrow> PaperBroker World" where
  "row_world row = sample_world\<lparr>w_db := row_db row\<rparr>"

theorem drain_refines_steps_witness:
  "\<exists>n'. outbox_step\<^sup>*\<^sup>* (emptyDB, [], \<lambda>_. 0)
     (w_db (snd (DrainOnce lossy_env (\<lambda>_. Inr) 10 (row_world (sample_row OutboxStatusPending 0 '''')))), [], n')"
proof -
  let ?w = "row_world (sample_row OutboxStatusPending 0 '''')"
  have reached: "outbox_step\<^sup>*\<^sup>* (emptyDB, [], \<lambda>_. 0) (w_db ?w, [], \<lambda>_. 0)"
    using sample_insert by (simp add: row_world_def r_into_rtranclp)
  have empty: "db_outbox emptyDB = []" by (simp add: emptyDB_def)
  obtain r w' where "DrainOnce lossy_env (\<lambda>_. Inr) 10 ?w = (r, w')" by (metis surj_pair)
  from drain_refines_steps [OF reached empty this] this show ?thesis by auto
qed

text \<open>A payload that never decodes is parked after five rounds.\<close>

definition failing :: unmarshal where
  "failing = (\<lambda>_ _. Inl (ErrorText ''bad''))"

lemma failing_round:
  assumes "0 \<le> a" "a < 5" "db_outbox (w_db w) = [(''e1'', sample_row OutboxStatusPending a msg)]"
  shows "db_outbox (w_db (snd (DrainOnce quiet_env failing 10 w))) =
    [(''e1'', sample_row (if a = 4 then OutboxStatusFailed else OutboxStatusPending) (a + 1) ''decoding outbox payload for OrderCreated: bad'')]"
  using assms
  by (auto simp: DrainOnce_def attempt_def faultless_write FetchPendingBatch_def claimed_def set_processing_def sample_row_def
      Publisher_Publish_def ubind_def decode_def decodeInto_def failing_def is_panic_def ignored_def MarkFailed_def update_row_def maxAttempts_def)


end
