(* ===== verification/Utf8_Text.thy ===== *)
theory Utf8_Text
  imports Go_Prelude
begin

text \<open>
  Text as Go sees it: a string is a sequence of bytes, ranging over it decodes UTF-8 rune by rune,
  and a byte that does not start a well-formed encoding is read as U+FFFD. The tables are those
  of \<^verbatim>\<open>unicode/utf8\<close> (\<^verbatim>\<open>DecodeRune\<close>, \<^verbatim>\<open>EncodeRune\<close>) and of \<^verbatim>\<open>unicode\<close> (\<^verbatim>\<open>IsControl\<close>, \<^verbatim>\<open>IsSpace\<close>).
\<close>

type_synonym rune = nat

section \<open>Decoding and encoding\<close>

definition RuneError :: rune where
  "RuneError = 0xFFFD"

definition continuation :: "nat \<Rightarrow> bool" where
  "continuation b \<longleftrightarrow> 0x80 \<le> b \<and> b \<le> 0xBF"

text \<open>The range of the second byte, which excludes overlong forms, surrogates and runes above U+10FFFF.\<close>

definition second_byte :: "nat \<Rightarrow> nat \<Rightarrow> bool" where
  "second_byte b0 b1 \<longleftrightarrow> (if b0 = 0xE0 then 0xA0 else if b0 = 0xF0 then 0x90 else 0x80) \<le> b1 \<and>
     b1 \<le> (if b0 = 0xED then 0x9F else if b0 = 0xF4 then 0x8F else 0xBF)"

text \<open>The rune at the start of a byte sequence and its width.\<close>

definition DecodeRune :: "nat list \<Rightarrow> rune \<times> nat" where
  "DecodeRune bs = (case bs of [] \<Rightarrow> (RuneError, 0) | b0 # r \<Rightarrow>
     if b0 < 0x80 then (b0, 1)
     else if b0 < 0xC2 then (RuneError, 1)
     else if b0 < 0xE0 then
       (case r of b1 # _ \<Rightarrow> if continuation b1 then ((b0 - 0xC0) * 64 + (b1 - 0x80), 2) else (RuneError, 1) | _ \<Rightarrow> (RuneError, 1))
     else if b0 < 0xF0 then
       (case r of b1 # b2 # _ \<Rightarrow> if second_byte b0 b1 \<and> continuation b2
           then ((b0 - 0xE0) * 4096 + (b1 - 0x80) * 64 + (b2 - 0x80), 3) else (RuneError, 1) | _ \<Rightarrow> (RuneError, 1))
     else if b0 < 0xF5 then
       (case r of b1 # b2 # b3 # _ \<Rightarrow> if second_byte b0 b1 \<and> continuation b2 \<and> continuation b3
           then ((b0 - 0xF0) * 262144 + (b1 - 0x80) * 4096 + (b2 - 0x80) * 64 + (b3 - 0x80), 4) else (RuneError, 1) | _ \<Rightarrow> (RuneError, 1))
     else (RuneError, 1))"

text \<open>The runes of \<^verbatim>\<open>for _, r := range s\<close>.\<close>

fun runes :: "nat list \<Rightarrow> rune list" where
  "runes [] = []"
| "runes (b # bs) = (case DecodeRune (b # bs) of (r, n) \<Rightarrow> r # runes (drop (n - 1) bs))"

definition valid_rune :: "rune \<Rightarrow> bool" where
  "valid_rune r \<longleftrightarrow> r < 0xD800 \<or> 0xE000 \<le> r \<and> r \<le> 0x10FFFF"

definition EncodeRune :: "rune \<Rightarrow> nat list" where
  "EncodeRune r0 = (let r = (if valid_rune r0 then r0 else RuneError) in
     if r < 0x80 then [r]
     else if r < 0x800 then [0xC0 + r div 64, 0x80 + r mod 64]
     else if r < 0x10000 then [0xE0 + r div 4096, 0x80 + r div 64 mod 64, 0x80 + r mod 64]
     else [0xF0 + r div 262144, 0x80 + r div 4096 mod 64, 0x80 + r div 64 mod 64, 0x80 + r mod 64])"

definition utf8 :: "rune list \<Rightarrow> nat list" where
  "utf8 rs = concat (map EncodeRune rs)"

section \<open>Classes of runes\<close>

definition IsControl :: "rune \<Rightarrow> bool" where
  "IsControl r \<longleftrightarrow> r < 0x20 \<or> 0x7F \<le> r \<and> r < 0xA0"

definition IsSpace :: "rune \<Rightarrow> bool" where
  "IsSpace r \<longleftrightarrow> 9 \<le> r \<and> r \<le> 13 \<or> r \<in> {0x20, 0x85, 0xA0, 0x1680, 0x2028, 0x2029, 0x202F, 0x205F, 0x3000} \<or> 0x2000 \<le> r \<and> r \<le> 0x200A"

definition trim_runes :: "rune list \<Rightarrow> rune list" where
  "trim_runes rs = rev (dropWhile IsSpace (rev (dropWhile IsSpace rs)))"

section \<open>Strings\<close>

definition string_runes :: "string \<Rightarrow> rune list" where
  "string_runes s = runes (map of_char s)"

definition runes_string :: "rune list \<Rightarrow> string" where
  "runes_string rs = map char_of (utf8 rs)"

text \<open>\<^verbatim>\<open>strings.TrimSpace\<close> of well-formed UTF-8.\<close>

definition TrimSpace_utf8 :: "string \<Rightarrow> string" where
  "TrimSpace_utf8 s = runes_string (trim_runes (string_runes s))"

section \<open>Lemmas\<close>

lemma RuneError_valid [simp]: "valid_rune RuneError"
  by (simp add: valid_rune_def RuneError_def)

lemma EncodeRune_bytes: "b \<in> set (EncodeRune r) \<Longrightarrow> b < 256"
proof -
  assume b: "b \<in> set (EncodeRune r)"
  let ?r = "if valid_rune r then r else RuneError"
  have "?r \<le> 0x10FFFF" by (auto simp: valid_rune_def RuneError_def)
  then have "?r div 262144 \<le> 4" "?r div 64 mod 64 < 64" "?r div 4096 mod 64 < 64" "?r mod 64 < 64" by auto
  moreover have "?r < 0x800 \<Longrightarrow> ?r div 64 < 32" "?r < 0x10000 \<Longrightarrow> ?r div 4096 < 16" by (simp_all only: less_mult_imp_div_less)
  ultimately show "b < 256" using b unfolding EncodeRune_def Let_def by (auto split: if_splits)
qed

lemma DecodeRune_2: "r < 0x800 \<Longrightarrow> 0x80 \<le> r \<Longrightarrow> DecodeRune ((0xC0 + r div 64) # (0x80 + r mod 64) # bs) = (r, 2)"
proof -
  assume r: "r < 0x800" "0x80 \<le> r"
  have "2 \<le> r div 64" "r div 64 < 32" using r by auto
  moreover have "r mod 64 < 64" by simp
  moreover have "r div 64 * 64 + r mod 64 = r" by simp
  ultimately show ?thesis by (simp add: DecodeRune_def continuation_def)
qed

text \<open>The digits of a rune in base 64.\<close>

lemma digits_3: "r div 4096 * 4096 + r div 64 mod 64 * 64 + r mod 64 = (r::nat)"
proof -
  have "r div 4096 = r div 64 div 64" by (simp add: div_mult2_eq [symmetric])
  then show ?thesis using div_mult_mod_eq [of "r div 64" 64] div_mult_mod_eq [of r 64] by linarith
qed

lemma digits_4: "r div 262144 * 262144 + r div 4096 mod 64 * 4096 + r div 64 mod 64 * 64 + r mod 64 = (r::nat)"
proof -
  have "r div 262144 = r div 4096 div 64" by (simp add: div_mult2_eq [symmetric])
  then show ?thesis using div_mult_mod_eq [of "r div 4096" 64] digits_3 [of r] by linarith
qed

lemma DecodeRune_3:
  assumes "r < 0x10000" "0x800 \<le> r" "valid_rune r"
  shows "DecodeRune ((0xE0 + r div 4096) # (0x80 + r div 64 mod 64) # (0x80 + r mod 64) # bs) = (r, 3)"
proof -
  note d = digits_3 [of r]
  have b: "r div 4096 < 16" "r div 64 mod 64 < 64" "r mod 64 < 64" using assms(1) by auto
  have "r div 4096 = 0 \<Longrightarrow> 0x20 \<le> r div 64 mod 64" using assms(2) d b by linarith
  moreover have "r div 4096 = 13 \<Longrightarrow> r div 64 mod 64 \<le> 0x1F" using assms(3) d b unfolding valid_rune_def by linarith
  ultimately have "second_byte (0xE0 + r div 4096) (0x80 + r div 64 mod 64)" using b by (auto simp: second_byte_def)
  then show ?thesis using b d by (simp add: DecodeRune_def continuation_def)
qed

lemma DecodeRune_4:
  assumes "r \<le> 0x10FFFF" "0x10000 \<le> r"
  shows "DecodeRune ((0xF0 + r div 262144) # (0x80 + r div 4096 mod 64) # (0x80 + r div 64 mod 64) # (0x80 + r mod 64) # bs) = (r, 4)"
proof -
  note d = digits_4 [of r]
  have b: "r div 262144 < 5" "r div 4096 mod 64 < 64" "r div 64 mod 64 < 64" "r mod 64 < 64" using assms(1) by auto
  have "r div 262144 = 0 \<Longrightarrow> 0x10 \<le> r div 4096 mod 64" using assms(2) d b by linarith
  moreover have "r div 262144 = 4 \<Longrightarrow> r div 4096 mod 64 \<le> 0xF" using assms(1) d b by linarith
  ultimately have "second_byte (0xF0 + r div 262144) (0x80 + r div 4096 mod 64)" using b by (auto simp: second_byte_def)
  moreover have "continuation (0x80 + r div 64 mod 64)" "continuation (0x80 + r mod 64)"
    using b(3,4) unfolding continuation_def by linarith+
  ultimately show ?thesis using b d by (simp add: DecodeRune_def)
qed

lemma DecodeRune_EncodeRune: "valid_rune r \<Longrightarrow> DecodeRune (EncodeRune r @ bs) = (r, length (EncodeRune r))"
proof -
  assume v: "valid_rune r"
  then have "r \<le> 0x10FFFF" by (auto simp: valid_rune_def)
  with v show ?thesis
    by (auto simp: EncodeRune_def Let_def DecodeRune_2 DecodeRune_3 DecodeRune_4) (simp add: DecodeRune_def)
qed

text \<open>Encoding and decoding are inverse on well-formed text.\<close>

lemma runes_utf8: "(\<forall>r\<in>set rs. valid_rune r) \<Longrightarrow> runes (utf8 rs) = rs"
proof (induction rs)
  case (Cons r rs)
  obtain b bs where e: "EncodeRune r = b # bs" by (cases "EncodeRune r") (auto simp: EncodeRune_def Let_def split: if_splits)
  have "DecodeRune (b # bs @ utf8 rs) = (r, Suc (length bs))"
    using DecodeRune_EncodeRune [of r "utf8 rs"] Cons.prems by (simp add: e)
  with Cons show ?case by (simp add: utf8_def e)
qed (simp add: utf8_def)

lemma string_runes_string: "(\<forall>r\<in>set rs. valid_rune r) \<Longrightarrow> string_runes (runes_string rs) = rs"
proof -
  have "b < 256" if "b \<in> set (utf8 rs)" for b using that by (auto simp: utf8_def dest: EncodeRune_bytes)
  then have "map of_char (map char_of (utf8 rs) :: string) = utf8 rs" by (auto simp: comp_def intro!: map_idI)
  then show "(\<forall>r\<in>set rs. valid_rune r) \<Longrightarrow> ?thesis" by (simp add: string_runes_def runes_string_def runes_utf8)
qed

lemma DecodeRune_valid: "(\<forall>b\<in>set bs. b < 256) \<Longrightarrow> valid_rune (fst (DecodeRune bs))"
  by (auto simp: DecodeRune_def valid_rune_def RuneError_def continuation_def second_byte_def split: list.splits if_splits)

lemma runes_valid: "(\<forall>b\<in>set bs. b < 256) \<Longrightarrow> r \<in> set (runes bs) \<Longrightarrow> valid_rune r"
proof (induction bs rule: runes.induct)
  case (2 b bs)
  obtain q n where q: "DecodeRune (b # bs) = (q, n)" by fastforce
  have "valid_rune q" using DecodeRune_valid [OF 2(2)] q by simp
  moreover have "r \<in> set (runes (drop (n - 1) bs)) \<Longrightarrow> valid_rune r"
    using 2(1) [OF q [symmetric]] 2(2) by (auto dest: in_set_dropD)
  ultimately show ?case using 2(3) q by auto
qed simp

lemma string_runes_valid: "r \<in> set (string_runes s) \<Longrightarrow> valid_rune r"
  unfolding string_runes_def by (rule runes_valid) auto

text \<open>A replaced byte grows to three bytes, everything else keeps its width.\<close>

lemma EncodeRune_DecodeRune_length: "bs \<noteq> [] \<Longrightarrow> length (EncodeRune (fst (DecodeRune bs))) \<le> 3 * snd (DecodeRune bs)"
  by (auto simp: DecodeRune_def EncodeRune_def RuneError_def Let_def split: list.splits)

lemma utf8_runes_length: "length (utf8 (runes bs)) \<le> 3 * length bs"
proof (induction bs rule: runes.induct)
  case (2 b bs)
  obtain q n where q: "DecodeRune (b # bs) = (q, n)" by fastforce
  have n: "1 \<le> n \<and> n \<le> Suc (length bs)" using q by (auto simp: DecodeRune_def split: list.splits if_splits)
  have "length (EncodeRune q) \<le> 3 * n" using EncodeRune_DecodeRune_length [of "b # bs"] q by simp
  moreover have "length (utf8 (runes (drop (n - 1) bs))) \<le> 3 * (length bs - (n - 1))"
    using 2 [OF q [symmetric]] by simp
  ultimately have "length (EncodeRune q) + length (utf8 (runes (drop (n - 1) bs))) \<le> 3 * Suc (length bs)" using n by (cases n) auto
  then show ?case by (simp add: q utf8_def)
qed (simp add: utf8_def)

lemma trim_runes_ends:
  "trim_runes rs \<noteq> [] \<Longrightarrow> \<not> IsSpace (hd (trim_runes rs)) \<and> \<not> IsSpace (last (trim_runes rs))"
proof -
  assume ne: "trim_runes rs \<noteq> []"
  let ?a = "dropWhile IsSpace rs"
  have l: "\<not> IsSpace (last (trim_runes rs))"
    using ne hd_dropWhile [of IsSpace "rev ?a"] by (auto simp: trim_runes_def last_rev)
  have "?a \<noteq> []" using ne unfolding trim_runes_def by (metis dropWhile.simps(1) rev.simps(1))
  then have h: "\<not> IsSpace (hd ?a)" by (rule hd_dropWhile)
  obtain us where "rev ?a = us @ dropWhile IsSpace (rev ?a)" by (metis takeWhile_dropWhile_id)
  then have "?a = trim_runes rs @ rev us" by (metis rev_append rev_rev_ident trim_runes_def)
  then have "hd ?a = hd (trim_runes rs)" using ne by (metis hd_append2)
  with l h show ?thesis by simp
qed

lemma trim_runes_id: "rs = [] \<or> \<not> IsSpace (hd rs) \<and> \<not> IsSpace (last rs) \<Longrightarrow> trim_runes rs = rs"
proof -
  have id: "dropWhile P xs = xs" if "xs = [] \<or> \<not> P (hd xs)" for P and xs :: "rune list" using that by (cases xs) auto
  assume a: "rs = [] \<or> \<not> IsSpace (hd rs) \<and> \<not> IsSpace (last rs)"
  then have "dropWhile IsSpace rs = rs" by (auto intro: id)
  moreover have "dropWhile IsSpace (rev rs) = rev rs" using a by (auto intro!: id simp: hd_rev)
  ultimately show ?thesis by (simp add: trim_runes_def)
qed

lemma trim_runes_set: "r \<in> set (trim_runes rs) \<Longrightarrow> r \<in> set rs"
  by (auto simp: trim_runes_def dest!: set_dropWhileD)

lemma trim_runes_sublist: "length (utf8 (trim_runes rs)) \<le> length (utf8 rs)"
proof -
  have d: "length (utf8 (dropWhile P xs)) \<le> length (utf8 xs)" for P xs by (induction xs) (auto simp: utf8_def)
  have r: "length (utf8 (rev xs)) = length (utf8 xs)" for xs by (induction xs) (auto simp: utf8_def)
  show ?thesis unfolding trim_runes_def r using d [of IsSpace "rev (dropWhile IsSpace rs)"] d [of IsSpace rs] r by (simp add: r)
qed

end
