(* ===== verification/Market_News.thy ===== *)
theory Market_News
  imports Outbox_Worker Utf8_Text
begin

text \<open>
  \<^verbatim>\<open>usecase/process_market_event.go\<close> and the news consumer of \<^verbatim>\<open>interfaces/consumer/event\<close>: the checks on
  a news item, its sanitised text, the classification by a language model (an external service
  and a parameter, free to answer anything) and what is stored. The properties bound what such an
  answer can do: it can block trades, through the risk evaluation, and never cause one.
\<close>

section \<open>Data\<close>

record ProcessMarketEventCommand =
  pme_Source :: string
  pme_URL :: string
  pme_Title :: string
  pme_Content :: string
  pme_PublishedAt :: time

record NewsAnalysisInput =
  nai_Source :: string
  nai_URL :: string
  nai_Title :: string
  nai_Content :: string
  nai_PublishedAt :: time

record EventAssessment =
  ea_EventType :: string
  ea_Direction :: Direction
  ea_Severity :: Severity
  ea_Confidence :: Confidence
  ea_AffectedAssets :: "Symbol list"
  ea_Action :: Action
  ea_SourceCount :: int
  ea_HasOfficialSource :: bool

record ProcessMarketEventResult =
  pmr_Event :: "MarketEventDTO option"
  pmr_Deduplicated :: bool

text \<open>
  What the use case is constructed with. \<open>nw_urlParse\<close> gives scheme and host as \<^verbatim>\<open>url.Parse\<close> does, and
  the rendering of a duration in an error text is left open.
\<close>

record NewsConfig =
  nw_intelligence :: "nat \<Rightarrow> NewsAnalysisInput \<Rightarrow> EventAssessment result"
  nw_allowedSources :: "string list"
  nw_maxContentBytes :: int
  nw_maxNewsAge :: duration
  nw_urlParse :: "string \<Rightarrow> (string \<times> string) result"
  nw_durationText :: "duration \<Rightarrow> string"

definition dedupTTL :: duration where
  "dedupTTL = 48 * 3600 * Second"

section \<open>Checks and sanitising\<close>

fun source_loop :: "string list \<Rightarrow> string \<Rightarrow> bool" where
  "source_loop [] normalized = False"
| "source_loop (allowed # rest) normalized = (if ToLower allowed = normalized then True else source_loop rest normalized)"

definition sourceAllowed :: "NewsConfig \<Rightarrow> string \<Rightarrow> bool" where
  "sourceAllowed uc source = source_loop (nw_allowedSources uc) (ToLower (TrimSpace source))"

text \<open>The loop of \<^verbatim>\<open>sanitizeText\<close>: control characters other than newline and tab are skipped.\<close>

fun sanitize_loop :: "rune list \<Rightarrow> rune list" where
  "sanitize_loop [] = []"
| "sanitize_loop (r # rs) = (if IsControl r \<and> r \<noteq> 10 \<and> r \<noteq> 9 then sanitize_loop rs else r # sanitize_loop rs)"

definition sanitizeText :: "string \<Rightarrow> string" where
  "sanitizeText s = TrimSpace_utf8 (runes_string (sanitize_loop (string_runes s)))"

section \<open>The use case\<close>

text \<open>Storing the event; a critical one goes together with its outbox row and is notified.\<close>

definition store_event :: "'b Env \<Rightarrow> MarketEvent \<Rightarrow> time \<Rightarrow> ('b, unit) usecase" where
  "store_event E marketEvent now =
     (if IsCritical marketEvent then
       ubind (wrapped ''persisting critical market event'' (WithinTransaction E
         (ubind (db_write E (events_Save (en_U E) marketEvent)) (\<lambda>_.
          ubind (newOutboxEvent E ''CriticalEventDetected'' (EvCriticalEventDetected \<lparr>ced_Event = marketEvent, ced_OccurredAt = now\<rparr>) now) (\<lambda>evt.
          uc_outbox_Insert E evt))))) (\<lambda>_.
       ignored (Notify E \<lparr>nt_Title = ''Critical market event detected'',
         nt_Message = evt_EventType marketEvent @ '' affecting ['' @ spaced (map Symbol_String (evt_AffectedAssets marketEvent)) @ '']: action='' @
           Action_String (evt_Action marketEvent) @ '' severity='' @ Severity_String (evt_Severity marketEvent),
         nt_Severity = NotificationCritical\<rparr>))
      else wrapped ''persisting market event'' (db_write E (events_Save (en_U E) marketEvent)))"

definition ProcessMarketEvent :: "'b Env \<Rightarrow> NewsConfig \<Rightarrow> ProcessMarketEventCommand \<Rightarrow> ('b, ProcessMarketEventResult) usecase" where
  "ProcessMarketEvent E uc cmd =
     ubind (Now E) (\<lambda>now.
     if \<not> sourceAllowed uc (pme_Source cmd)
     then ufail (ErrorText (''source '' @ quoted (pme_Source cmd) @ '' is not in the allowlist''))
     else if (case nw_urlParse uc (pme_URL cmd) of Inl _ \<Rightarrow> True | Inr (scheme, host) \<Rightarrow> scheme = '''' \<or> host = '''')
     then ufail (ErrorText (''invalid source URL '' @ quoted (pme_URL cmd)))
     else if int (length (pme_Content cmd)) > nw_maxContentBytes uc
     then ufail (ErrorText (''content exceeds maximum allowed size of '' @ show_int (nw_maxContentBytes uc) @ '' bytes''))
     else
     let sanitizedTitle = sanitizeText (pme_Title cmd); sanitizedContent = sanitizeText (pme_Content cmd) in
     ubind (wrapped ''checking deduplication'' (uc_Reserve E ''market_event'' (pme_URL cmd) dedupTTL)) (\<lambda>reserved.
     if \<not> reserved then uret \<lparr>pmr_Event = None, pmr_Deduplicated = True\<rparr>
     else if time_Sub now (pme_PublishedAt cmd) > nw_maxNewsAge uc
     then ufail (ErrorText (''news item is older than the maximum allowed age of '' @ nw_durationText uc (nw_maxNewsAge uc)))
     else
     ubind (wrapped ''event intelligence analysis failed'' (external_call E (\<lambda>n. nw_intelligence uc n
       \<lparr>nai_Source = pme_Source cmd, nai_URL = pme_URL cmd, nai_Title = sanitizedTitle, nai_Content = sanitizedContent,
        nai_PublishedAt = pme_PublishedAt cmd\<rparr>))) (\<lambda>assessment.
     ubind (NewUUID E) (\<lambda>u.
     ubind (wrapped ''event intelligence returned an invalid assessment'' (lift (event_New u (ea_EventType assessment) (ea_Direction assessment)
       (ea_Severity assessment) (ea_Confidence assessment) (ea_AffectedAssets assessment) (ea_Action assessment) (ea_SourceCount assessment)
       (ea_HasOfficialSource assessment) (pme_PublishedAt cmd) now (time_Add now (nw_maxNewsAge uc))))) (\<lambda>marketEvent.
     ubind (store_event E marketEvent now) (\<lambda>_.
     uret \<lparr>pmr_Event = Some (ToMarketEventDTO (en_D E) (en_U E) marketEvent), pmr_Deduplicated = False\<rparr>))))))"

text \<open>The consumer logs an error and a duplicate; what it logs is its answer here.\<close>

datatype NewsOutcome = NewsFailed string error | NewsDuplicate string | NewsProcessed

definition HandleNewsItem :: "'b Env \<Rightarrow> NewsConfig \<Rightarrow> ProcessMarketEventCommand \<Rightarrow> ('b, NewsOutcome) usecase" where
  "HandleNewsItem E uc cmd =
     attempt (ProcessMarketEvent E uc cmd) (\<lambda>r. case r of
       Inl err \<Rightarrow> uret (NewsFailed (pme_URL cmd) err)
     | Inr result \<Rightarrow> uret (if pmr_Deduplicated result then NewsDuplicate (pme_URL cmd) else NewsProcessed))"

section \<open>Sanitised text\<close>

lemma source_loop_iff: "source_loop as n \<longleftrightarrow> n \<in> ToLower ` set as"
  by (induction as) auto

lemma sanitize_loop_filter: "sanitize_loop rs = filter (\<lambda>r. IsControl r \<longrightarrow> r \<in> {9, 10}) rs"
  by (induction rs) auto

lemma filter_utf8_length: "length (utf8 (filter P rs)) \<le> length (utf8 rs)"
  by (induction rs) (auto simp: utf8_def)

text \<open>The runes of a sanitised text: the kept ones, trimmed.\<close>

lemma sanitizeText_runes:
  "sanitizeText s = runes_string (trim_runes (sanitize_loop (string_runes s)))"
  "string_runes (sanitizeText s) = trim_runes (sanitize_loop (string_runes s))"
proof -
  have v: "\<forall>r\<in>set (sanitize_loop (string_runes s)). valid_rune r" by (auto simp: sanitize_loop_filter string_runes_valid)
  then show 1: "sanitizeText s = runes_string (trim_runes (sanitize_loop (string_runes s)))"
    by (simp add: sanitizeText_def TrimSpace_utf8_def string_runes_string)
  show "string_runes (sanitizeText s) = trim_runes (sanitize_loop (string_runes s))"
    unfolding 1 using v trim_runes_set by (auto intro!: string_runes_string)
qed

text \<open>
  Sanitised text is clean: no control character but tab and newline, no white space at either end;
  sanitising twice is the same as once; and the result has at most three times the bytes of the
  input, three because a byte that is not UTF-8 is replaced by a three-byte mark, so the size
  limit that is checked before bounds what is sent to the language model by its threefold.
\<close>

theorem sanitized_text_clean:
  "(\<forall>r \<in> set (string_runes (sanitizeText s)). IsControl r \<longrightarrow> r = 9 \<or> r = 10) \<and>
   (string_runes (sanitizeText s) = [] \<or>
    \<not> IsSpace (hd (string_runes (sanitizeText s))) \<and> \<not> IsSpace (last (string_runes (sanitizeText s)))) \<and>
   sanitizeText (sanitizeText s) = sanitizeText s \<and>
   length (sanitizeText s) \<le> 3 * length s"
proof (intro conjI)
  let ?t = "trim_runes (sanitize_loop (string_runes s))"
  show clean: "\<forall>r \<in> set (string_runes (sanitizeText s)). IsControl r \<longrightarrow> r = 9 \<or> r = 10"
    unfolding sanitizeText_runes(2) by (auto simp: sanitize_loop_filter dest!: trim_runes_set)
  show ends: "string_runes (sanitizeText s) = [] \<or>
    \<not> IsSpace (hd (string_runes (sanitizeText s))) \<and> \<not> IsSpace (last (string_runes (sanitizeText s)))"
    unfolding sanitizeText_runes(2) using trim_runes_ends by blast
  have "filter (\<lambda>r. IsControl r \<longrightarrow> r \<in> {9, 10}) ?t = ?t"
    by (rule filter_True) (use clean in \<open>simp add: sanitizeText_runes(2)\<close>)
  then have "sanitize_loop ?t = ?t" using sanitize_loop_filter [of ?t] by simp
  moreover have "trim_runes ?t = ?t" using ends unfolding sanitizeText_runes(2) by (rule trim_runes_id)
  ultimately show "sanitizeText (sanitizeText s) = sanitizeText s"
    unfolding sanitizeText_runes(1) [of "sanitizeText s"] sanitizeText_runes(2) by (simp add: sanitizeText_runes(1))
  have "length (utf8 ?t) \<le> length (utf8 (string_runes s))"
    using trim_runes_sublist filter_utf8_length le_trans unfolding sanitize_loop_filter by blast
  also have "\<dots> \<le> 3 * length s" using utf8_runes_length [of "map of_char s"] by (simp add: string_runes_def)
  finally show "length (sanitizeText s) \<le> 3 * length s" by (simp add: sanitizeText_runes(1) runes_string_def)
qed

section \<open>What a news item cannot do\<close>

text \<open>Every table but events, deduplication keys and outbox.\<close>

definition trade_state_kept :: "DB \<Rightarrow> DB \<Rightarrow> bool" where
  "trade_state_kept a b \<longleftrightarrow> db_orders b = db_orders a \<and> db_executions b = db_executions a \<and> db_positions b = db_positions a \<and>
     db_accounts b = db_accounts a \<and> db_modes b = db_modes a \<and> db_signals b = db_signals a \<and> db_decisions b = db_decisions a \<and>
     db_incidents b = db_incidents a"

interpretation trade_state_kept: db_relation trade_state_kept
  by unfold_locales (auto simp: trade_state_kept_def)

lemma news_writes_same:
  "trade_state_kept db (snd (events_Save U e db))" "trade_state_kept db (snd (outbox_Insert now evt db))" "trade_state_kept db (snd (idem_Reserve sc k ttl now db))"
  by (auto simp: trade_state_kept_def events_Save_def outbox_Insert_def idem_Reserve_def Let_def split: sum.splits option.splits prod.splits)

lemma keeps_trade_state_external: "keeps (on_db trade_state_kept) (external_call E f)"
  unfolding external_call_def by (rule trade_state_kept.keeps_infra) (simp add: keeps_def on_db_def trade_state_kept.db_refl)

lemma keeps_trade_state_news: "keeps (on_db trade_state_kept) (ProcessMarketEvent E uc cmd)"
  unfolding ProcessMarketEvent_def store_event_def uc_Reserve_def uc_outbox_Insert_def newOutboxEvent_def ignored_def Let_def
  by (intro trade_state_kept.keeps_intros trade_state_kept.keeps_tx trade_state_kept.keeps_write news_writes_same keeps_trade_state_external trade_state_kept.keeps_notify)

lemma keeps_broker_news: "keeps same_broker (ProcessMarketEvent E uc cmd)"
  unfolding ProcessMarketEvent_def store_event_def ignored_def Let_def
  by (intro same_broker.keeps_db_intros keeps_broker_external keeps_Notify)

lemma keeps_published_external: "keeps same_published (external_call E f)"
  unfolding external_call_def by (rule same_published.keeps_infra) (simp add: keeps_def same_published_def)

lemma keeps_published_news: "keeps same_published (ProcessMarketEvent E uc cmd)"
  unfolding ProcessMarketEvent_def store_event_def ignored_def Let_def
  by (intro same_published.keeps_db_intros keeps_published_external keeps_Notify)

text \<open>
  C33: Whatever the language model answers, and whatever fails, processing a news item changes no
  order, execution, position, account, mode, signal, risk decision or incident, sends nothing to
  the broker and publishes nothing: the classification cannot trade, approve or switch a mode.
\<close>

theorem news_cannot_trade:
  "trade_state_kept (w_db w) (w_db (snd (ProcessMarketEvent E uc cmd w))) \<and>
   w_broker (snd (ProcessMarketEvent E uc cmd w)) = w_broker w \<and>
   w_published (snd (ProcessMarketEvent E uc cmd w)) = w_published w"
  using keeps_trade_state_news [of E uc cmd] keeps_broker_news [of E uc cmd] keeps_published_news [of E uc cmd]
  unfolding keeps_def on_db_def same_broker_def same_published_def by blast

section \<open>What it stores\<close>

lemma events_Save_row:
  assumes "events_Save U e db = (Inr (), db')"
  shows "db_outbox db' = db_outbox db \<and> (map_of (db_events db) (MarketEventID_String U (evt_ID e)) = None \<longrightarrow>
    (\<exists>row. map_of (db_events db') (MarketEventID_String U (evt_ID e)) = Some row \<and> event_columns (event_toModel U e) = Inr row))"
  using assms by (auto simp: events_Save_def event_columns_def event_toModel_def rbind_Inr_iff sql_upsert_def no_clash_def Let_def
      split: sum.splits option.splits if_splits)

lemma outbox_Insert_row:
  assumes "outbox_Insert now evt db = (Inr (), db')"
  shows "db_events db' = db_events db \<and> (\<exists>row. map_of (db_outbox db') (oe_ID evt) = Some row \<and>
    oe_Payload row = oe_Payload evt \<and> oe_EventType row = oe_EventType evt \<and> oe_Status row = OutboxStatusPending)"
  using assms by (auto simp: outbox_Insert_def sql_insert_def split: option.splits)

definition announced :: "MarketEvent \<Rightarrow> time \<Rightarrow> DB \<Rightarrow> bool" where
  "announced ev now db \<longleftrightarrow> (\<exists>k row. map_of (db_outbox db) k = Some row \<and> oe_EventType row = ''CriticalEventDetected'' \<and>
     oe_Payload row = EvCriticalEventDetected \<lparr>ced_Event = ev, ced_OccurredAt = now\<rparr> \<and> oe_Status row = OutboxStatusPending)"

definition event_stored :: "uuid_ops \<Rightarrow> MarketEvent \<Rightarrow> DB \<Rightarrow> bool" where
  "event_stored U ev db \<longleftrightarrow> (\<exists>row. map_of (db_events db) (MarketEventID_String U (evt_ID ev)) = Some row \<and> event_columns (event_toModel U ev) = Inr row)"

lemma Notify_db: "ignored (Notify E n) w = (r, w') \<Longrightarrow> w_db w' = w_db w"
  by (auto simp: ignored_def attempt_def Notify_def infra_def split: fault.splits if_splits prod.splits sum.splits)

lemma store_event_Inr:
  assumes "store_event E ev now w = (Inr u, w')" "\<not> w_inTx w" "map_of (db_events (w_db w)) (MarketEventID_String (en_U E) (evt_ID ev)) = None"
  shows "event_stored (en_U E) ev (w_db w') \<and> (IsCritical ev \<longrightarrow> announced ev now (w_db w'))"
proof (cases "IsCritical ev")
  case True
  obtain w1 where tx: "WithinTransaction E (ubind (db_write E (events_Save (en_U E) ev)) (\<lambda>_.
          ubind (newOutboxEvent E ''CriticalEventDetected'' (EvCriticalEventDetected \<lparr>ced_Event = ev, ced_OccurredAt = now\<rparr>) now) (\<lambda>evt.
          uc_outbox_Insert E evt))) w = (Inr (), w1)" and w': "w_db w' = w_db w1"
    using assms(1) True by (auto simp: store_event_def ubind_Inr wrapped_Inr dest!: Notify_db)
  obtain w2 where fn: "ubind (db_write E (events_Save (en_U E) ev)) (\<lambda>_.
          ubind (newOutboxEvent E ''CriticalEventDetected'' (EvCriticalEventDetected \<lparr>ced_Event = ev, ced_OccurredAt = now\<rparr>) now) (\<lambda>evt.
          uc_outbox_Insert E evt)) ((tick w)\<lparr>w_inTx := True\<rparr>) = (Inr (), w2)" "w_db w1 = w_db w2"
    using WithinTransaction_db [OF tx assms(2)] by auto
  obtain db1 evt t where s: "events_Save (en_U E) ev (w_db w) = (Inr (), db1)" "outbox_Insert t evt db1 = (Inr (), w_db w2)"
    and evt: "oe_EventType evt = ''CriticalEventDetected''" "oe_Payload evt = EvCriticalEventDetected \<lparr>ced_Event = ev, ced_OccurredAt = now\<rparr>"
    using fn(1) by (auto simp: ubind_Inr newOutboxEvent_def uc_outbox_Insert_def NewUUID_eq Now_eq dest!: db_write_frame)
  show ?thesis
    using events_Save_row [OF s(1)] outbox_Insert_row [OF s(2)] assms(3) evt w' fn(2) unfolding event_stored_def announced_def by metis
next
  case False
  then have "events_Save (en_U E) ev (w_db w) = (Inr (), w_db w')"
    using assms(1) by (auto simp: store_event_def wrapped_Inr dest!: db_write_frame)
  with events_Save_row assms(3) False show ?thesis unfolding event_stored_def by blast
qed

text \<open>The stages of a news item that ends in an event.\<close>

lemma ProcessMarketEvent_event:
  assumes "ProcessMarketEvent E uc cmd w = (Inr res, w')" "pmr_Event res = Some dto"
  obtains n assessment u ev w1 where
    "sourceAllowed uc (pme_Source cmd)" "int (length (pme_Content cmd)) \<le> nw_maxContentBytes uc"
    "time_Sub (en_clock E (w_tick w)) (pme_PublishedAt cmd) \<le> nw_maxNewsAge uc"
    "nw_intelligence uc n \<lparr>nai_Source = pme_Source cmd, nai_URL = pme_URL cmd, nai_Title = sanitizeText (pme_Title cmd),
       nai_Content = sanitizeText (pme_Content cmd), nai_PublishedAt = pme_PublishedAt cmd\<rparr> = Inr assessment"
    "event_New u (ea_EventType assessment) (ea_Direction assessment) (ea_Severity assessment) (ea_Confidence assessment)
       (ea_AffectedAssets assessment) (ea_Action assessment) (ea_SourceCount assessment) (ea_HasOfficialSource assessment)
       (pme_PublishedAt cmd) (en_clock E (w_tick w)) (time_Add (en_clock E (w_tick w)) (nw_maxNewsAge uc)) = Inr ev"
    "dto = ToMarketEventDTO (en_D E) (en_U E) ev" "store_event E ev (en_clock E (w_tick w)) w1 = (Inr (), w')"
    "w_inTx w1 = w_inTx w" "db_events (w_db w1) = db_events (w_db w)"
proof -
  have ext: "w_db v' = w_db v \<and> w_inTx v' = w_inTx v \<and> (\<exists>n. f n = Inr x)"
    if "external_call E f v = (Inr x, v')" for f v v' and x :: EventAssessment
    using that by (auto simp: external_call_def infra_def split: fault.splits)
  have res: "db_events (w_db v') = db_events (w_db v) \<and> w_inTx v' = w_inTx v"
    if "uc_Reserve E sc k ttl v = (Inr x, v')" for sc k ttl x v v'
  proof -
    note r = that
    obtain t where t: "idem_Reserve sc k ttl t (w_db v) = (Inr x, w_db v')" and i: "w_inTx v' = w_inTx v"
      using r by (auto simp: uc_Reserve_def ubind_Inr Now_eq dest!: db_write_frame)
    have "db_events (snd (idem_Reserve sc k ttl t (w_db v))) = db_events (w_db v)"
      by (simp add: idem_Reserve_def Let_def split: option.splits)
    with t i show ?thesis by simp
  qed
  show thesis
    using assms unfolding ProcessMarketEvent_def Let_def
    apply (elim now_stepE)
    apply (simp split: if_splits)
    apply (auto simp: ubind_Inr wrapped_Inr NewUUID_eq not_less dest!: ext res split: if_splits intro!: that)
    done
qed

lemma reported_event_effect:
  assumes "ProcessMarketEvent E uc cmd w = (Inr res, w')" "pmr_Event res = Some dto" "\<not> w_inTx w"
    "map_of (db_events (w_db w)) (de_ID dto) = None"
  shows "\<exists>n assessment ev. sourceAllowed uc (pme_Source cmd) \<and> int (length (pme_Content cmd)) \<le> nw_maxContentBytes uc \<and>
    time_Sub (en_clock E (w_tick w)) (pme_PublishedAt cmd) \<le> nw_maxNewsAge uc \<and>
    nw_intelligence uc n \<lparr>nai_Source = pme_Source cmd, nai_URL = pme_URL cmd, nai_Title = sanitizeText (pme_Title cmd),
       nai_Content = sanitizeText (pme_Content cmd), nai_PublishedAt = pme_PublishedAt cmd\<rparr> = Inr assessment \<and>
    evt_Action ev = ea_Action assessment \<and> Action_Valid (ea_Action assessment) \<and> evt_AffectedAssets ev = ea_AffectedAssets assessment \<and>
    ea_AffectedAssets assessment \<noteq> [] \<and> evt_ExpiresAt ev = en_clock E (w_tick w) + nw_maxNewsAge uc \<and> evt_Status ev = EventActive \<and>
    dto = ToMarketEventDTO (en_D E) (en_U E) ev \<and> event_stored (en_U E) ev (w_db w') \<and>
    (IsCritical ev \<longrightarrow> announced ev (en_clock E (w_tick w)) (w_db w'))"
  using assms(1,2)
proof (rule ProcessMarketEvent_event)
  fix n assessment u ev w1
  assume checks: "sourceAllowed uc (pme_Source cmd)" "int (length (pme_Content cmd)) \<le> nw_maxContentBytes uc"
      "time_Sub (en_clock E (w_tick w)) (pme_PublishedAt cmd) \<le> nw_maxNewsAge uc"
    and llm: "nw_intelligence uc n \<lparr>nai_Source = pme_Source cmd, nai_URL = pme_URL cmd, nai_Title = sanitizeText (pme_Title cmd),
       nai_Content = sanitizeText (pme_Content cmd), nai_PublishedAt = pme_PublishedAt cmd\<rparr> = Inr assessment"
    and ev: "event_New u (ea_EventType assessment) (ea_Direction assessment) (ea_Severity assessment) (ea_Confidence assessment)
       (ea_AffectedAssets assessment) (ea_Action assessment) (ea_SourceCount assessment) (ea_HasOfficialSource assessment)
       (pme_PublishedAt cmd) (en_clock E (w_tick w)) (time_Add (en_clock E (w_tick w)) (nw_maxNewsAge uc)) = Inr ev"
    and dto: "dto = ToMarketEventDTO (en_D E) (en_U E) ev" and st: "store_event E ev (en_clock E (w_tick w)) w1 = (Inr (), w')"
    and w1: "w_inTx w1 = w_inTx w" "db_events (w_db w1) = db_events (w_db w)"
  have fields: "evt_Action ev = ea_Action assessment" "Action_Valid (ea_Action assessment)" "evt_AffectedAssets ev = ea_AffectedAssets assessment"
    "ea_AffectedAssets assessment \<noteq> []" "evt_ExpiresAt ev = en_clock E (w_tick w) + nw_maxNewsAge uc" "evt_Status ev = EventActive"
    using ev by (auto simp: event_New_def time_Add_def split: if_splits)
  have "map_of (db_events (w_db w1)) (MarketEventID_String (en_U E) (evt_ID ev)) = None"
    using assms(4) by (simp add: w1(2) dto ToMarketEventDTO_def Let_def)
  from store_event_Inr [OF st _ this] assms(3) w1(1) checks llm fields dto show ?thesis by blast
qed

text \<open>
  An event that is reported is a checked one and is stored: the source is on the allow list, the
  content within its limit and the item fresh, the language model was given the sanitised text
  only, its answer passed the validation, the event is stored until its expiry, and a critical
  event is announced in the outbox in the same transaction.
\<close>

theorem reported_event_is_stored:
  assumes "ProcessMarketEvent E uc cmd w = (Inr res, w')" "pmr_Event res = Some dto" "\<not> w_inTx w"
    "map_of (db_events (w_db w)) (de_ID dto) = None"
  shows "\<exists>n assessment ev. sourceAllowed uc (pme_Source cmd) \<and> int (length (pme_Content cmd)) \<le> nw_maxContentBytes uc \<and>
    time_Sub (en_clock E (w_tick w)) (pme_PublishedAt cmd) \<le> nw_maxNewsAge uc \<and>
    nw_intelligence uc n \<lparr>nai_Source = pme_Source cmd, nai_URL = pme_URL cmd, nai_Title = sanitizeText (pme_Title cmd),
       nai_Content = sanitizeText (pme_Content cmd), nai_PublishedAt = pme_PublishedAt cmd\<rparr> = Inr assessment \<and>
    evt_Action ev = ea_Action assessment \<and> Action_Valid (ea_Action assessment) \<and> evt_AffectedAssets ev = ea_AffectedAssets assessment \<and>
    ea_AffectedAssets assessment \<noteq> [] \<and> evt_ExpiresAt ev = en_clock E (w_tick w) + nw_maxNewsAge uc \<and> evt_Status ev = EventActive \<and>
    dto = ToMarketEventDTO (en_D E) (en_U E) ev \<and> event_stored (en_U E) ev (w_db w') \<and>
    (IsCritical ev \<longrightarrow> announced ev (en_clock E (w_tick w)) (w_db w'))"
  using assms by (rule reported_event_effect)

section \<open>A critical event blocks entries\<close>

lemma scan_rows_mem: "scan_rows f rows = Inr xs \<Longrightarrow> r \<in> set rows \<Longrightarrow> \<exists>x\<in>set xs. f r = Inr x"
  by (induction rows arbitrary: xs) (auto simp: rbind_Inr_iff)

text \<open>A stored active event is among the active ones, with its assets and its severity.\<close>

lemma stored_event_active:
  assumes "event_stored U ev db" "evt_Status ev = EventActive" "events_ListActive D U db = Inr evs"
  shows "\<exists>e\<in>set evs. evt_Severity e = Severity_of_string (Severity_String (evt_Severity ev)) \<and>
    evt_Action e = Action_of_string (Action_String (evt_Action ev)) \<and>
    scan_rows NewSymbol (map Symbol_String (evt_AffectedAssets ev)) = Inr (evt_AffectedAssets e) \<and>
    evt_ExpiresAt e = timestamptz (evt_ExpiresAt ev)"
proof -
  obtain row where row: "map_of (db_events db) (MarketEventID_String U (evt_ID ev)) = Some row" "event_columns (event_toModel U ev) = Inr row"
    using assms(1) by (auto simp: event_stored_def)
  have f: "em_Status row = ''ACTIVE''" "em_Severity row = Severity_String (evt_Severity ev)" "em_Action row = Action_String (evt_Action ev)"
    "em_AffectedAssets row = map Symbol_String (evt_AffectedAssets ev)" "em_ExpiresAt row = timestamptz (evt_ExpiresAt ev)"
    using row(2) assms(2) by (auto simp: event_columns_def event_toModel_def rbind_Inr_iff EventStatus_String_def)
  have "row \<in> set (order_desc em_DetectedAt (filter (\<lambda>m. em_Status m = ''ACTIVE'') (map snd (db_events db))))"
    using map_of_SomeD [OF row(1)] f(1) by (force simp: order_desc_def)
  from scan_rows_mem [OF assms(3) [unfolded events_ListActive_def] this] obtain e where "e \<in> set evs" "event_toDomain D U row = Inr e" by blast
  then show ?thesis using f by (intro bexI [of _ e]) (auto simp: event_toDomain_def rbind_Inr_iff)
qed

lemma signals_GetByID_symbol:
  assumes "signals_GetByID D U i db = Inr s"
  shows "NewSymbol (Symbol_String (sig_Symbol s)) = Inr (sig_Symbol s)"
proof -
  obtain t where "NewSymbol t = Inr (sig_Symbol s)"
    using assms by (auto simp: signals_GetByID_def scan_one_def signal_toDomain_def rbind_Inr_iff split: option.splits)
  then show ?thesis using symbol.mk_idempotent by blast
qed

lemma entry_blocked:
  assumes "entry_permitted D ctx" "ctx_Signal ctx = Some s" "e \<in> set (ctx_ActiveEvents ctx)" "IsCritical e"
    "sig_Symbol s \<in> set (evt_AffectedAssets e)" "ctx_Now ctx \<le> evt_ExpiresAt e"
  shows False
  using assms by (auto simp: entry_permitted_def list_ex_iff Let_def)

lemma event_dto_fields:
  "de_Severity (ToMarketEventDTO D U ev) = Severity_String (evt_Severity ev)" "de_Action (ToMarketEventDTO D U ev) = Action_String (evt_Action ev)"
  "de_ExpiresAt (ToMarketEventDTO D U ev) = evt_ExpiresAt ev" "de_AffectedAssets (ToMarketEventDTO D U ev) = map Symbol_String (evt_AffectedAssets ev)"
  "de_ID (ToMarketEventDTO D U ev) = MarketEventID_String U (evt_ID ev)"
  by (simp_all add: ToMarketEventDTO_def Let_def)

text \<open>
  C12: A critical news event stops entries on the assets it names: once processing has reported it, no
  risk evaluation over a database that has the event, up to its expiry, returns an allowed
  decision for a signal on one of its assets. A symbol the database cannot read back makes the
  evaluation fail instead, which does not allow the trade either.
\<close>

theorem critical_news_blocks_entries:
  assumes news: "ProcessMarketEvent E uc cmd w = (Inr res, w1)" "pmr_Event res = Some dto" "\<not> w_inTx w"
      "map_of (db_events (w_db w)) (de_ID dto) = None"
    and critical: "de_Severity dto = ''CRITICAL'' \<or> de_Action dto = ''BLOCK_NEW_ENTRIES'' \<or> de_Action dto = ''KILL_SWITCH''"
    and later: "map_of (db_events (w_db w2)) (de_ID dto) = map_of (db_events (w_db w1)) (de_ID dto)"
      "en_clock E (w_tick w2) \<le> timestamptz (de_ExpiresAt dto)"
    and sig: "signals_GetByID (en_D E) (en_U E) (erc_SignalID rcmd) (w_db w2) = Inr s" "Symbol_String (sig_Symbol s) \<in> set (de_AffectedAssets dto)"
    and risk: "EvaluateRisk E rc rcmd w2 = (Inr decision, w3)" "decimal_lib (en_D E)" "default_config E rc"
  shows "\<not> dr_Allowed decision"
proof
  assume allowed: "dr_Allowed decision"
  obtain ev where ev: "evt_Status ev = EventActive" "dto = ToMarketEventDTO (en_D E) (en_U E) ev" "event_stored (en_U E) ev (w_db w1)"
    using reported_event_effect [OF news] by blast
  note dto = event_dto_fields [of "en_D E" "en_U E" ev, folded ev(2)]
  have stored: "event_stored (en_U E) ev (w_db w2)" using ev(3) later(1) by (simp add: event_stored_def dto(5))
  obtain healthy s' acct ps os evs d where
    a': "assessed E rc rcmd (en_clock E (w_tick w2)) (w_db w2) healthy s' acct ps os evs d" and d: "decision = ToRiskDecisionDTO (en_D E) (en_U E) d"
    using EvaluateRisk_effect [OF risk(1)] by auto
  moreover have "s' = s" using a' sig(1) by (simp add: assessed_def)
  ultimately have a: "assessed E rc rcmd (en_clock E (w_tick w2)) (w_db w2) healthy s acct ps os evs d" by simp
  obtain e where e: "e \<in> set evs" "evt_Severity e = Severity_of_string (Severity_String (evt_Severity ev))"
    "evt_Action e = Action_of_string (Action_String (evt_Action ev))" "scan_rows NewSymbol (map Symbol_String (evt_AffectedAssets ev)) = Inr (evt_AffectedAssets e)"
    "evt_ExpiresAt e = timestamptz (evt_ExpiresAt ev)"
    using stored_event_active [OF stored ev(1)] a by (auto simp: assessed_def)
  have "IsCritical e" using critical unfolding IsCritical_def e(2,3) dto by (auto simp: Severity_of_string_def Action_of_string_def)
  moreover have "sig_Symbol s \<in> set (evt_AffectedAssets e)"
    using scan_rows_mem [OF e(4) sig(2) [unfolded dto]] signals_GetByID_symbol [OF sig(1)] by auto
  moreover have "dec_Allowed d" using allowed by (simp add: d ToRiskDecisionDTO_def Let_def)
  then have "entry_permitted (en_D E) (risk_context rc rcmd (en_clock E (w_tick w2)) s acct ps os evs healthy)"
    using allowed_permitted [OF risk(2,3) a] by (simp add: trade_permitted_def)
  ultimately show False
    using e(1) later(2) by (intro entry_blocked [where s = s and e = e]) (auto simp: risk_context_def e(5) dto(3))
qed

section \<open>Concrete news\<close>

definition block_assessment :: EventAssessment where
  "block_assessment = \<lparr>ea_EventType = ''HACK'', ea_Direction = DirectionBearish, ea_Severity = SeverityHigh, ea_Confidence = Confidence (1 / 2),
     ea_AffectedAssets = [Symbol ''BTCUSDT''], ea_Action = ActionBlockNewEntries, ea_SourceCount = 1, ea_HasOfficialSource = False\<rparr>"

definition sample_news_config :: NewsConfig where
  "sample_news_config = \<lparr>nw_intelligence = (\<lambda>_ _. Inr block_assessment), nw_allowedSources = [''Reuters''], nw_maxContentBytes = 100,
     nw_maxNewsAge = 3600 * Second, nw_urlParse = (\<lambda>_. Inr (''https'', ''news'')), nw_durationText = (\<lambda>_. ''1h0m0s'')\<rparr>"

definition sample_news :: ProcessMarketEventCommand where
  "sample_news = \<lparr>pme_Source = ''reuters '', pme_URL = ''https://news/1'', pme_Title = ''hack'', pme_Content = ''exchange hacked'', pme_PublishedAt = 0\<rparr>"

definition block_event :: MarketEvent where
  "block_event = \<lparr>evt_ID = MarketEventID 5, evt_EventType = ''HACK'', evt_Direction = DirectionBearish, evt_Severity = SeverityHigh,
     evt_Confidence = Confidence (1 / 2), evt_AffectedAssets = [Symbol ''BTCUSDT''], evt_Action = ActionBlockNewEntries, evt_SourceCount = 1,
     evt_HasOfficialSource = False, evt_PublishedAt = 0, evt_DetectedAt = 0, evt_ExpiresAt = 3600 * Second, evt_Status = EventActive\<rparr>"

definition signal_world :: "PaperBroker World" where
  "signal_world = sample_world\<lparr>w_db := sample_db\<lparr>db_signals := [(uString ref_uuid 3, signal_toModel ref_uuid piped_signal)]\<rparr>\<rparr>"

lemma block_event_new:
  "event_New 5 ''HACK'' DirectionBearish SeverityHigh (Confidence (1 / 2)) [Symbol ''BTCUSDT''] ActionBlockNewEntries 1 False 0 0
     (time_Add 0 (3600 * Second)) = Inr block_event"
  by (simp add: event_New_def Action_Valid_def time_Add_def time_After_def Second_def block_event_def)

lemma block_event_saved:
  assumes "db_events db = []"
  shows "events_Save ref_uuid block_event db = (Inr (), db\<lparr>db_events := [(uString ref_uuid 5, event_toModel ref_uuid block_event)]\<rparr>)"
  using assms
  by (simp add: events_Save_def event_columns_def event_toModel_def block_event_def numeric_def round_to_def round_half_away_def timestamptz_def
      sql_upsert_def no_clash_def Second_def Let_def)

lemma store_block_event:
  assumes "\<not> w_inTx w" "db_events (w_db w) = []" "db_outbox (w_db w) = []"
  shows "\<exists>w'. store_event quiet_env block_event now w = (Inr (), w') \<and> w_broker w' = w_broker w \<and> w_tick w' = w_tick w + 7 \<and>
    db_events (w_db w') = [(uString ref_uuid 5, event_toModel ref_uuid block_event)]"
proof -
  have crit: "IsCritical block_event" by (simp add: IsCritical_def block_event_def)
  have nf: "en_fault quiet_env i = NoFault" for i by (simp add: quiet_env_def)
  show ?thesis
    using assms block_event_saved [of "w_db w"]
    by (simp add: store_event_def crit ubind_def wrapped_def WithinTransaction_def infra_ok faultless_write newOutboxEvent_def uc_outbox_Insert_def
        NewUUID_def Now_def outbox_Insert_def sql_insert_def ignored_def attempt_def Notify_def nf)
qed

lemma sample_news_run:
  "\<exists>w'. ProcessMarketEvent quiet_env sample_news_config sample_news signal_world =
       (Inr \<lparr>pmr_Event = Some (ToMarketEventDTO ref_decimal ref_uuid block_event), pmr_Deduplicated = False\<rparr>, w') \<and>
     w_broker w' = sample_broker \<and> w_tick w' = 12 \<and> db_events (w_db w') = [(uString ref_uuid 5, event_toModel ref_uuid block_event)]"
proof -
  have src: "sourceAllowed sample_news_config (pme_Source sample_news)" by code_simp
  have w: "\<not> w_inTx signal_world" "w_tick signal_world = 0" "w_broker signal_world = sample_broker"
    "db_events (w_db signal_world) = []" "db_outbox (w_db signal_world) = []" "db_idempotency (w_db signal_world) = []"
    by (simp_all add: signal_world_def sample_world_def sample_db_def emptyDB_def)
  have short: "int (length (pme_Content sample_news)) \<le> 100" "time_Sub 0 (pme_PublishedAt sample_news) \<le> 3600 * Second"
    by (simp_all add: sample_news_def time_Sub_def Second_def minDuration_def maxDuration_def)
  obtain db1 where db1: "idem_Reserve ''market_event'' (pme_URL sample_news) dedupTTL 1000 (w_db signal_world) = (Inr True, db1)"
    "db_events db1 = []" "db_outbox db1 = []" using w by (simp add: idem_Reserve_def Let_def)
  let ?w1 = "signal_world\<lparr>w_db := db1, w_tick := 5\<rparr>"
  obtain w' where st: "store_event quiet_env block_event 0 ?w1 = (Inr (), w')" "w_broker w' = sample_broker" "w_tick w' = 12"
      "db_events (w_db w') = [(uString ref_uuid 5, event_toModel ref_uuid block_event)]"
    using store_block_event [of ?w1 0] w db1 by auto
  have five: "Suc (Suc (Suc (Suc (Suc 0)))) = 5" by simp
  have "ProcessMarketEvent quiet_env sample_news_config sample_news signal_world =
       (Inr \<lparr>pmr_Event = Some (ToMarketEventDTO ref_decimal ref_uuid block_event), pmr_Deduplicated = False\<rparr>, w')"
    using src short block_event_new st(1)
    by (simp add: ProcessMarketEvent_def ubind_def wrapped_def Now_def w sample_news_config_def uc_Reserve_def faultless_write db1 external_call_def
        infra_ok NewUUID_def block_assessment_def Let_def) (simp add: tick_def w sample_news_def five ubind_def)
  with st show ?thesis by blast
qed

theorem reported_event_is_stored_witness:
  "\<exists>w'. fst (ProcessMarketEvent quiet_env sample_news_config sample_news signal_world) =
     Inr \<lparr>pmr_Event = Some (ToMarketEventDTO ref_decimal ref_uuid block_event), pmr_Deduplicated = False\<rparr> \<and>
   w' = snd (ProcessMarketEvent quiet_env sample_news_config sample_news signal_world) \<and>
   (\<exists>ev. ToMarketEventDTO ref_decimal ref_uuid block_event = ToMarketEventDTO ref_decimal ref_uuid ev \<and> event_stored ref_uuid ev (w_db w'))"
proof -
  obtain w' where run: "ProcessMarketEvent quiet_env sample_news_config sample_news signal_world =
       (Inr \<lparr>pmr_Event = Some (ToMarketEventDTO ref_decimal ref_uuid block_event), pmr_Deduplicated = False\<rparr>, w')"
    using sample_news_run by blast
  have "map_of (db_events (w_db signal_world)) k = None" "\<not> w_inTx signal_world" for k
    by (simp_all add: signal_world_def sample_world_def sample_db_def emptyDB_def)
  with reported_event_is_stored [OF run] run show ?thesis by fastforce
qed

text \<open>A string of control characters, blanks and a stray byte.\<close>

definition dirty :: string where
  "dirty = map char_of [32, 7, 104, 105, 10, 33, 255, 13, 32 :: nat]"

lemma dirty_clean: "string_runes (sanitizeText dirty) = [104, 105, 10, 33, RuneError]" "length (sanitizeText dirty) = 7"
proof -
  have "string_runes dirty = [32, 7, 104, 105, 10, 33, RuneError, 13, 32]"
    by (simp add: string_runes_def dirty_def DecodeRune_def)
  then have "trim_runes (sanitize_loop (string_runes dirty)) = [104, 105, 10, 33, RuneError]"
    by (simp add: IsControl_def IsSpace_def trim_runes_def RuneError_def)
  then show "string_runes (sanitizeText dirty) = [104, 105, 10, 33, RuneError]" "length (sanitizeText dirty) = 7"
    unfolding sanitizeText_runes(2) by (simp_all add: sanitizeText_runes(1) runes_string_def utf8_def EncodeRune_def RuneError_def valid_rune_def)
qed

theorem sanitized_text_clean_witness:
  "string_runes (sanitizeText dirty) = [104, 105, 10, 33, RuneError] \<and> sanitizeText (sanitizeText dirty) = sanitizeText dirty \<and>
   length (sanitizeText dirty) = 7 \<and> length (sanitizeText dirty) \<le> 3 * length dirty"
  using sanitized_text_clean [of dirty] dirty_clean by blast

text \<open>The risk evaluation of a stored signal under the blocking event.\<close>

lemma block_active:
  assumes "db_events db = [(uString ref_uuid 5, event_toModel ref_uuid block_event)]"
  shows "events_ListActive ref_decimal ref_uuid db = Inr [block_event]"
  using assms
  by (simp add: events_ListActive_def order_desc_def event_toModel_def event_toDomain_def block_event_def
      Parse_defs uuid_libD(1) [OF uuid_lib_ref] NewConfidence_def sample_symbol EventStatus_String_def EventStatus_of_string_def
      Direction_of_string_def Direction_String_def Severity_of_string_def Severity_String_def Action_of_string_def Action_String_def rbind_def)

lemma signal_world_reads:
  assumes "trade_state_kept (w_db signal_world) db"
  shows "signals_GetByID ref_decimal ref_uuid (SignalID 3) db = Inr piped_signal" "accounts_GetActive ref_decimal ref_uuid db = Inr sample_account"
    "positions_ListOpen ref_decimal ref_uuid db = Inr []" "orders_ListOpen ref_decimal ref_uuid db = Inr []" "db_decisions db = []"
proof -
  have t: "db_signals db = db_signals piped_db" "db_accounts db = db_accounts piped_db" "db_positions db = db_positions piped_db"
    "db_orders db = db_orders piped_db" "db_decisions db = []"
    using assms by (simp_all add: trade_state_kept_def signal_world_def piped_db_def news_world_def sample_db_def emptyDB_def)
  show "signals_GetByID ref_decimal ref_uuid (SignalID 3) db = Inr piped_signal" "accounts_GetActive ref_decimal ref_uuid db = Inr sample_account"
    "positions_ListOpen ref_decimal ref_uuid db = Inr []" "orders_ListOpen ref_decimal ref_uuid db = Inr []" "db_decisions db = []"
    using piped_reads t by (simp_all add: signals_GetByID_def accounts_GetActive_def positions_ListOpen_def orders_ListOpen_def)
qed

lemma refused_decision_stored:
  assumes "\<not> ev_Allowed (Policy_Evaluate (rk_policy uc) ctx)" "db_decisions db = []" "map_of (db_signals db) (SignalID_String ref_uuid (sig_ID s)) = Some row"
  shows "\<exists>db'. decisions_Save ref_uuid (assess uc u ctx s a (Some rs) now) db = (Inr (), db')"
  using assms
  by (auto simp: assess_def NewDecision_def Let_def decisions_Save_def decision_columns_def decision_toModel_def numeric_def ZeroQuantity_def
      insert_once_def)

lemma blocked_risk_run:
  assumes "db_events (w_db w) = [(uString ref_uuid 5, event_toModel ref_uuid block_event)]" "trade_state_kept (w_db signal_world) (w_db w)"
    "w_tick w = 12"
  shows "\<exists>d w'. EvaluateRisk quiet_env sample_risk_config sample_risk_cmd w = (Inr d, w')"
proof -
  let ?ctx = "\<lambda>h. risk_context sample_risk_config sample_risk_cmd 12000 piped_signal sample_account [] [] [block_event] h"
  have rs: "restrictionsFor [block_event] (Symbol ''BTCUSDT'') 12000 = Some [''HACK:BLOCK_NEW_ENTRIES'']"
    by (simp add: restrictionsFor_def block_event_def Event_IsExpired_def time_After_def slice_append_def Action_String_def Second_def)
  have "\<not> entry_permitted ref_decimal (?ctx h)" for h
    by (simp add: entry_permitted_def risk_context_def block_event_def IsCritical_def piped_signal_def sample_signal_def Second_def Let_def)
  then have refused: "\<not> ev_Allowed (Policy_Evaluate (rk_policy sample_risk_config) (?ctx h))" for h
    by (simp add: sample_risk_config_def default_policy_allowed)
  obtain row where row: "map_of (db_signals (w_db w)) (SignalID_String ref_uuid (sig_ID piped_signal)) = Some row"
    using assms(2) by (simp add: trade_state_kept_def signal_world_def piped_signal_def sample_signal_def)
  have save: "\<exists>db'. decisions_Save ref_uuid (assess sample_risk_config u (?ctx h) piped_signal sample_account (Some rs) 12000) (w_db w) = (Inr (), db')" for u h rs
    by (rule refused_decision_stored [OF refused signal_world_reads(5) [OF assms(2)] row])
  have sid: "erc_SignalID sample_risk_cmd = SignalID 3" "sig_Symbol piped_signal = Symbol ''BTCUSDT''"
    by (simp_all add: sample_risk_cmd_def piped_signal_def sample_signal_def)
  obtain db' where db': "decisions_Save ref_uuid (assess sample_risk_config 20 (?ctx True) piped_signal sample_account (Some [''HACK:BLOCK_NEW_ENTRIES'']) 12000)
      (w_db w) = (Inr (), db')" using save by blast
  show ?thesis
    using db'
    by (simp add: EvaluateRisk_def record_decision_def ubind_def wrapped_def Now_def NewUUID_def db_read_ok sid signal_world_reads [OF assms(2)]
        block_active [OF assms(1)] attempt_def broker_call_def infra_ok paper_broker_def paper_GetAccount_def Let_def faultless_write Publish_def
        errors_Join_def assms(3) rs) 
qed

theorem critical_news_blocks_entries_witness:
  "\<exists>w1 d w'. ProcessMarketEvent quiet_env sample_news_config sample_news signal_world =
       (Inr \<lparr>pmr_Event = Some (ToMarketEventDTO ref_decimal ref_uuid block_event), pmr_Deduplicated = False\<rparr>, w1) \<and>
     EvaluateRisk quiet_env sample_risk_config sample_risk_cmd w1 = (Inr d, w') \<and> \<not> dr_Allowed d"
proof -
  obtain w1 where run: "ProcessMarketEvent quiet_env sample_news_config sample_news signal_world =
       (Inr \<lparr>pmr_Event = Some (ToMarketEventDTO ref_decimal ref_uuid block_event), pmr_Deduplicated = False\<rparr>, w1)"
    and w1: "w_tick w1 = 12" "db_events (w_db w1) = [(uString ref_uuid 5, event_toModel ref_uuid block_event)]"
    using sample_news_run by blast
  have kept: "trade_state_kept (w_db signal_world) (w_db w1)"
    using trade_state_kept.keeps_app [OF keeps_trade_state_news run] by (simp add: on_db_def)
  obtain d w' where risk: "EvaluateRisk quiet_env sample_risk_config sample_risk_cmd w1 = (Inr d, w')" using blocked_risk_run [OF w1(2) kept w1(1)] by blast
  have start: "map_of (db_events (w_db signal_world)) k = None" "\<not> w_inTx signal_world" for k
    by (simp_all add: signal_world_def sample_world_def sample_db_def emptyDB_def)
  have "\<not> dr_Allowed d"
    by (rule critical_news_blocks_entries [OF run _ start(2) start(1) _ refl _ _ _ risk, where s = piped_signal and dto = "ToMarketEventDTO ref_decimal ref_uuid block_event"])
      (simp_all add: event_dto_fields block_event_def Action_String_def w1(1) timestamptz_def Second_def sample_risk_cmd_def
        signal_world_reads [OF kept] piped_signal_def sample_signal_def sample_reads_only Let_def)
  with run risk show ?thesis by blast
qed

end
