(* ===== verification/Binance_Broker.thy ===== *)
theory Binance_Broker
  imports Execute_Order "HOL-Library.Char_ord" "HOL-Library.List_Lexorder"
begin

text \<open>
  The broker adapter of Binance Futures, \<^verbatim>\<open>infrastructure/external/broker/binance\<close>, with its signed client,
  and the constructors of the testnet and the real broker. What lies outside (the exchange, the
  circuit breaker package, the JSON decoder, SHA-256) is a parameter. Shown: whatever the exchange
  sends, the adapter answers with well-formed orders and positions only; an order it has once seen can
  be looked up and cancelled from then on; and a placement that fails always ends in the path of the
  unknown order state, since the lookup that follows it cannot be sent.
\<close>

section \<open>Requests\<close>

text \<open>\<^verbatim>\<open>url.Values\<close> with one value for each key, and its encoding, which sorts by key.\<close>

type_synonym url_values = "(string \<times> string) list"

definition hex_digit :: "nat \<Rightarrow> char" where
  "hex_digit n = (if n < 10 then char_of (48 + n) else char_of (55 + n))"

definition escape_char :: "char \<Rightarrow> string" where
  "escape_char c = (let n = (of_char c :: nat) in
     if 48 \<le> n \<and> n \<le> 57 \<or> 65 \<le> n \<and> n \<le> 90 \<or> 97 \<le> n \<and> n \<le> 122 \<or> c \<in> {CHR ''-'', CHR ''_'', CHR ''.'', CHR ''~''} then [c]
     else if c = CHR '' '' then ''+'' else [CHR ''%'', hex_digit (n div 16), hex_digit (n mod 16)])"

definition QueryEscape :: "string \<Rightarrow> string" where
  "QueryEscape s = concat (map escape_char s)"

fun joined :: "string \<Rightarrow> string list \<Rightarrow> string" where
  "joined sep [] = []"
| "joined sep [p] = p"
| "joined sep (p # q # ps) = p @ sep @ joined sep (q # ps)"

definition Encode :: "url_values \<Rightarrow> string" where
  "Encode v = joined ''&'' (map (\<lambda>p. QueryEscape (fst p) @ ''='' @ QueryEscape (snd p)) (sort_key fst v))"

record APIError =
  api_StatusCode :: int
  api_Code :: int
  api_Msg :: string

definition APIError_Error :: "APIError \<Rightarrow> string" where
  "APIError_Error e = ''binance: http '' @ show_int (api_StatusCode e) @ '' code '' @ show_int (api_Code e) @ '': '' @ api_Msg e"

definition APIError_IsNotFound :: "APIError \<Rightarrow> bool" where
  "APIError_IsNotFound e \<longleftrightarrow> api_Code e = - 2013 \<or> api_Code e = - 2011"

text \<open>An error of the client: an answer of the exchange, which \<^verbatim>\<open>errors.As\<close> recognises, or any other.\<close>

datatype client_error = ApiFailure APIError | OtherFailure error

fun client_err :: "client_error \<Rightarrow> error" where
  "client_err (ApiFailure a) = ErrorText (APIError_Error a)"
| "client_err (OtherFailure e) = e"

section \<open>Messages of the exchange\<close>

record accountResponse =
  ar_TotalWalletBalance :: string
  ar_TotalMarginBalance :: string
  ar_AvailableBalance :: string

record positionRisk =
  pr_Symbol :: string
  pr_PositionAmt :: string
  pr_EntryPrice :: string
  pr_MarkPrice :: string

record orderResponse =
  or_OrderID :: int
  or_ClientOrderID :: string
  or_Symbol :: string
  or_Side :: string
  or_Type :: string
  or_OrigQty :: string
  or_ExecutedQty :: string
  or_AvgPrice :: string
  or_Status :: string

record http_request =
  rq_method :: string
  rq_url :: string
  rq_body :: string
  rq_contentType :: "string option"
  rq_apiKey :: string

text \<open>
  The world outside the adapter, with its state of type \<open>'x\<close>: the wall clock, the keyed hash in
  hexadecimal, the circuit breaker (whether it admits a call, and the outcome it is told), sending a
  request (building it and reading the whole answer included), and decoding a body. A body that is
  no API error decodes to code and text zero.
\<close>

record 'x Exchange =
  xc_nowMilli :: "'x \<Rightarrow> int"
  xc_hmac :: "string \<Rightarrow> string \<Rightarrow> string"
  xc_admit :: "'x \<Rightarrow> error option \<times> 'x"
  xc_send :: "duration \<Rightarrow> http_request \<Rightarrow> 'x \<Rightarrow> (int \<times> string) result \<times> 'x"
  xc_report :: "bool \<Rightarrow> 'x \<Rightarrow> 'x"
  xc_apiError :: "string \<Rightarrow> int \<times> string"
  xc_account :: "string \<Rightarrow> accountResponse result"
  xc_positions :: "string \<Rightarrow> positionRisk list result"
  xc_order :: "string \<Rightarrow> orderResponse result"
  xc_orders :: "string \<Rightarrow> orderResponse list result"

section \<open>The client\<close>

record Client =
  cl_timeout :: duration
  cl_baseURL :: string
  cl_apiKey :: string
  cl_apiSecret :: string
  cl_recvWindow :: int

definition TrimRight_slash :: "string \<Rightarrow> string" where
  "TrimRight_slash s = rev (dropWhile (\<lambda>c. c = CHR ''/'') (rev s))"

definition NewClient :: "string \<Rightarrow> string \<Rightarrow> string \<Rightarrow> int \<Rightarrow> duration \<Rightarrow> Client" where
  "NewClient baseURL apiKey apiSecret recvWindowMs timeout =
     \<lparr>cl_timeout = timeout, cl_baseURL = TrimRight_slash baseURL, cl_apiKey = apiKey, cl_apiSecret = apiSecret, cl_recvWindow = recvWindowMs\<rparr>"

definition client_sign :: "'x Exchange \<Rightarrow> Client \<Rightarrow> 'x \<Rightarrow> url_values \<Rightarrow> url_values" where
  "client_sign X c x params =
     (let params = al_set ''timestamp'' (show_int (xc_nowMilli X x)) params;
          params = al_set ''recvWindow'' (show_int (cl_recvWindow c)) params
      in al_set ''signature'' (xc_hmac X (cl_apiSecret c) (Encode params)) params)"

definition client_request :: "Client \<Rightarrow> string \<Rightarrow> string \<Rightarrow> url_values \<Rightarrow> http_request" where
  "client_request c method path params =
     (if method = ''GET'' \<or> method = ''DELETE''
      then \<lparr>rq_method = method, rq_url = cl_baseURL c @ path @ ''?'' @ Encode params, rq_body = '''', rq_contentType = None, rq_apiKey = cl_apiKey c\<rparr>
      else \<lparr>rq_method = method, rq_url = cl_baseURL c @ path, rq_body = Encode params,
        rq_contentType = Some ''application/x-www-form-urlencoded'', rq_apiKey = cl_apiKey c\<rparr>)"

definition client_answer :: "'x Exchange \<Rightarrow> (string \<Rightarrow> 'a result) \<Rightarrow> (int \<times> string) result \<Rightarrow> client_error + 'a" where
  "client_answer X decode reply = (case reply of
       Inl e \<Rightarrow> Inl (OtherFailure e)
     | Inr (status, body) \<Rightarrow>
         if 400 \<le> status then Inl (ApiFailure \<lparr>api_StatusCode = status, api_Code = fst (xc_apiError X body), api_Msg = snd (xc_apiError X body)\<rparr>)
         else (case decode body of Inl e \<Rightarrow> Inl (OtherFailure (WrapPrefix ''decoding binance response'' e)) | Inr v \<Rightarrow> Inr v))"

definition client_do :: "'x Exchange \<Rightarrow> Client \<Rightarrow> string \<Rightarrow> string \<Rightarrow> url_values \<Rightarrow> (string \<Rightarrow> 'a result) \<Rightarrow> 'x \<Rightarrow> (client_error + 'a) \<times> 'x" where
  "client_do X c method path params decode x =
     (let params = client_sign X c x params in
      case xc_admit X x of
        (Some e, x) \<Rightarrow> (Inl (OtherFailure e), x)
      | (None, x) \<Rightarrow> (case xc_send X (cl_timeout c) (client_request c method path params) x of
          (reply, x) \<Rightarrow> let r = client_answer X decode reply in (r, xc_report X (\<not> isl r) x)))"

section \<open>The adapter\<close>

record 'x BinanceBroker =
  bb_client :: Client
  bb_symbolByClient :: "(string \<times> string) list"
  bb_symbolByBroker :: "(string \<times> string) list"
  bb_exchange :: 'x

definition binance_NewBroker :: "Client \<Rightarrow> 'x \<Rightarrow> 'x BinanceBroker" where
  "binance_NewBroker client x = \<lparr>bb_client = client, bb_symbolByClient = [], bb_symbolByBroker = [], bb_exchange = x\<rparr>"

definition rememberSymbol :: "string \<Rightarrow> string \<Rightarrow> string \<Rightarrow> 'x BinanceBroker \<Rightarrow> 'x BinanceBroker" where
  "rememberSymbol clientOrderID brokerOrderID symbol b =
     (let b = (if clientOrderID \<noteq> '''' then b\<lparr>bb_symbolByClient := al_set clientOrderID symbol (bb_symbolByClient b)\<rparr> else b) in
      if brokerOrderID \<noteq> '''' then b\<lparr>bb_symbolByBroker := al_set brokerOrderID symbol (bb_symbolByBroker b)\<rparr> else b)"

definition ask :: "'x Exchange \<Rightarrow> 'x BinanceBroker \<Rightarrow> string \<Rightarrow> string \<Rightarrow> url_values \<Rightarrow> (string \<Rightarrow> 'a result) \<Rightarrow>
    (client_error + 'a) \<times> 'x BinanceBroker" where
  "ask X b method path params decode = (case client_do X (bb_client b) method path params decode (bb_exchange b) of
       (r, x) \<Rightarrow> (r, b\<lparr>bb_exchange := x\<rparr>))"

definition read_decimal :: "decimal_ops \<Rightarrow> string \<Rightarrow> decimal result" where
  "read_decimal D s = (case dNewFromString D s of
       None \<Rightarrow> Inl (ErrorText (''can't convert '' @ s @ '' to decimal'')) | Some d \<Rightarrow> Inr d)"

definition binance_GetAccount :: "decimal_ops \<Rightarrow> 'x Exchange \<Rightarrow> 'x BinanceBroker \<Rightarrow> BrokerAccount result \<times> 'x BinanceBroker" where
  "binance_GetAccount D X b = (case ask X b ''GET'' ''/fapi/v2/account'' [] (xc_account X) of
       (Inl e, b) \<Rightarrow> (Inl (client_err e), b)
     | (Inr resp, b) \<Rightarrow>
         (rbind (read_decimal D (ar_TotalWalletBalance resp)) (\<lambda>balance.
          rbind (read_decimal D (ar_TotalMarginBalance resp)) (\<lambda>equity.
          rbind (read_decimal D (ar_AvailableBalance resp)) (\<lambda>available.
          Inr \<lparr>ba_Balance = NewMoney balance, ba_Equity = NewMoney equity, ba_AvailableBalance = NewMoney available\<rparr>))), b))"

text \<open>One entry of the position list; an entry that cannot be read is skipped.\<close>

definition toBrokerPosition :: "decimal_ops \<Rightarrow> positionRisk \<Rightarrow> BrokerPosition result" where
  "toBrokerPosition D p =
     rbind (read_decimal D (pr_PositionAmt p)) (\<lambda>amount.
     if dIsZero D amount then Inl (ErrorText '''')
     else
     rbind (NewSymbol (pr_Symbol p)) (\<lambda>symbol.
     let side = (if dIsNegative D amount then SideSell else SideBuy);
         amount = (if dIsNegative D amount then dNeg D amount else amount) in
     rbind (NewQuantity D amount) (\<lambda>quantity.
     rbind (read_decimal D (pr_EntryPrice p)) (\<lambda>entry.
     rbind (read_decimal D (pr_MarkPrice p)) (\<lambda>mark.
     rbind (NewPrice D entry) (\<lambda>entryPrice.
     rbind (NewPrice D mark) (\<lambda>markPrice.
     Inr \<lparr>bp_Symbol = symbol, bp_Side = side, bp_Quantity = quantity, bp_EntryPrice = entryPrice, bp_MarkPrice = markPrice\<rparr>)))))))"

fun positions_loop :: "decimal_ops \<Rightarrow> positionRisk list \<Rightarrow> BrokerPosition list" where
  "positions_loop D [] = []"
| "positions_loop D (p # ps) = (case toBrokerPosition D p of
       Inl _ \<Rightarrow> positions_loop D ps | Inr pos \<Rightarrow> pos # positions_loop D ps)"

definition binance_GetPositions :: "decimal_ops \<Rightarrow> 'x Exchange \<Rightarrow> 'x BinanceBroker \<Rightarrow> BrokerPosition list result \<times> 'x BinanceBroker" where
  "binance_GetPositions D X b = (case ask X b ''GET'' ''/fapi/v2/positionRisk'' [] (xc_positions X) of
       (Inl e, b) \<Rightarrow> (Inl (client_err e), b) | (Inr resp, b) \<Rightarrow> (Inr (positions_loop D resp), b))"

text \<open>The average price is taken when it can be read, is not zero and is a price.\<close>

definition average_price :: "decimal_ops \<Rightarrow> string \<Rightarrow> Price option" where
  "average_price D s = (if s = '''' then None else case dNewFromString D s of
       None \<Rightarrow> None
     | Some avg \<Rightarrow> if dIsZero D avg then None else (case NewPrice D avg of Inl _ \<Rightarrow> None | Inr p \<Rightarrow> Some p))"

definition toBrokerOrder :: "decimal_ops \<Rightarrow> orderResponse \<Rightarrow> BrokerOrder result" where
  "toBrokerOrder D ord =
     rbind (NewSymbol (or_Symbol ord)) (\<lambda>symbol.
     rbind (read_decimal D (or_OrigQty ord)) (\<lambda>quantity.
     let filled = (case read_decimal D (or_ExecutedQty ord) of Inl _ \<Rightarrow> 0 | Inr v \<Rightarrow> v) in
     rbind (NewQuantity D quantity) (\<lambda>qty.
     let filledQty = (case NewQuantity D filled of Inl _ \<Rightarrow> ZeroQuantity | Inr q \<Rightarrow> q) in
     Inr \<lparr>bo_BrokerOrderID = show_int (or_OrderID ord), bo_ClientOrderID = or_ClientOrderID ord, bo_Symbol = symbol,
       bo_Side = Side_of_string (or_Side ord), bo_Type = or_Type ord, bo_Quantity = qty, bo_FilledQuantity = filledQty,
       bo_AveragePrice = average_price D (or_AvgPrice ord), bo_RawStatus = or_Status ord\<rparr>)))"

fun orders_loop :: "decimal_ops \<Rightarrow> orderResponse list \<Rightarrow> 'x BinanceBroker \<Rightarrow> BrokerOrder list \<times> 'x BinanceBroker" where
  "orders_loop D [] b = ([], b)"
| "orders_loop D (ord # os) b = (case toBrokerOrder D ord of
       Inl _ \<Rightarrow> orders_loop D os b
     | Inr bo \<Rightarrow> (case orders_loop D os (rememberSymbol (bo_ClientOrderID bo) (bo_BrokerOrderID bo) (or_Symbol ord) b) of
         (bos, b) \<Rightarrow> (bo # bos, b)))"

definition binance_GetOpenOrders :: "decimal_ops \<Rightarrow> 'x Exchange \<Rightarrow> 'x BinanceBroker \<Rightarrow> BrokerOrder list result \<times> 'x BinanceBroker" where
  "binance_GetOpenOrders D X b = (case ask X b ''GET'' ''/fapi/v1/openOrders'' [] (xc_orders X) of
       (Inl e, b) \<Rightarrow> (Inl (client_err e), b)
     | (Inr resp, b) \<Rightarrow> (case orders_loop D resp b of (os, b) \<Rightarrow> (Inr os, b)))"

text \<open>Both placements end alike: the answer is read and the ids it names are remembered with the symbol of the request.\<close>

definition placed :: "decimal_ops \<Rightarrow> 'x Exchange \<Rightarrow> 'x BinanceBroker \<Rightarrow> Symbol \<Rightarrow> url_values \<Rightarrow> BrokerOrder result \<times> 'x BinanceBroker" where
  "placed D X b symbol params = (case ask X b ''POST'' ''/fapi/v1/order'' params (xc_order X) of
       (Inl e, b) \<Rightarrow> (Inl (client_err e), b)
     | (Inr resp, b) \<Rightarrow> (case toBrokerOrder D resp of
         Inl e \<Rightarrow> (Inl e, b)
       | Inr bo \<Rightarrow> (Inr bo, rememberSymbol (bo_ClientOrderID bo) (bo_BrokerOrderID bo) (Symbol_String symbol) b)))"

definition order_params :: "decimal_ops \<Rightarrow> PlaceOrderRequest \<Rightarrow> url_values" where
  "order_params D req =
     [(''symbol'', Symbol_String (por_Symbol req)), (''side'', Side_String (por_Side req)), (''type'', por_Type req),
      (''quantity'', dString D (Quantity_Decimal (por_Quantity req))), (''newClientOrderId'', ClientOrderID_String (por_ClientOrderID req))] @
     (case por_Price req of
        Some price \<Rightarrow> if por_Type req = ''LIMIT'' then [(''price'', dString D (Price_Decimal price)), (''timeInForce'', ''GTC'')] else []
      | None \<Rightarrow> [])"

definition binance_PlaceOrder :: "decimal_ops \<Rightarrow> 'x Exchange \<Rightarrow> 'x BinanceBroker \<Rightarrow> PlaceOrderRequest \<Rightarrow> BrokerOrder result \<times> 'x BinanceBroker" where
  "binance_PlaceOrder D X b req = placed D X b (por_Symbol req) (order_params D req)"

definition stop_params :: "decimal_ops \<Rightarrow> PlaceStopRequest \<Rightarrow> url_values" where
  "stop_params D req =
     [(''symbol'', Symbol_String (psr_Symbol req)), (''side'', Side_String (psr_Side req)), (''type'', ''STOP_MARKET''),
      (''quantity'', dString D (Quantity_Decimal (psr_Quantity req))), (''stopPrice'', dString D (Price_Decimal (psr_StopPrice req))),
      (''newClientOrderId'', ClientOrderID_String (psr_ClientOrderID req)), (''reduceOnly'', ''true'')]"

definition binance_PlaceStop :: "decimal_ops \<Rightarrow> 'x Exchange \<Rightarrow> 'x BinanceBroker \<Rightarrow> PlaceStopRequest \<Rightarrow> BrokerOrder result \<times> 'x BinanceBroker" where
  "binance_PlaceStop D X b req = placed D X b (psr_Symbol req) (stop_params D req)"

definition knownSymbolForBrokerID :: "'x BinanceBroker \<Rightarrow> string \<Rightarrow> string option" where
  "knownSymbolForBrokerID b i = map_of (bb_symbolByBroker b) i"

definition knownSymbolForClientID :: "'x BinanceBroker \<Rightarrow> string \<Rightarrow> string option" where
  "knownSymbolForClientID b i = map_of (bb_symbolByClient b) i"

definition binance_CancelOrder :: "'x Exchange \<Rightarrow> 'x BinanceBroker \<Rightarrow> string \<Rightarrow> unit result \<times> 'x BinanceBroker" where
  "binance_CancelOrder X b brokerOrderID = (case knownSymbolForBrokerID b brokerOrderID of
       None \<Rightarrow> (Inl (ErrorText ''binance: cannot cancel order with unknown symbol (never seen in this process)''), b)
     | Some symbol \<Rightarrow> (case ask X b ''DELETE'' ''/fapi/v1/order'' [(''symbol'', symbol), (''orderId'', brokerOrderID)] (\<lambda>_. Inr ()) of
         (Inl e, b) \<Rightarrow> (Inl (client_err e), b) | (Inr _, b) \<Rightarrow> (Inr (), b)))"

definition unknown_symbol :: error where
  "unknown_symbol = ErrorText ''binance: cannot look up order with unknown symbol (never seen in this process)''"

text \<open>The two lookups ask alike: what the exchange calls a missing order becomes \<^verbatim>\<open>ErrNotFound\<close>.\<close>

definition looked_up :: "decimal_ops \<Rightarrow> 'x Exchange \<Rightarrow> 'x BinanceBroker \<Rightarrow> url_values \<Rightarrow> BrokerOrder result \<times> 'x BinanceBroker" where
  "looked_up D X b params = (case ask X b ''GET'' ''/fapi/v1/order'' params (xc_order X) of
       (Inl (ApiFailure a), b) \<Rightarrow> (Inl (if APIError_IsNotFound a then ErrNotFound else client_err (ApiFailure a)), b)
     | (Inl (OtherFailure e), b) \<Rightarrow> (Inl e, b)
     | (Inr resp, b) \<Rightarrow> (toBrokerOrder D resp, b))"

definition binance_GetOrder :: "decimal_ops \<Rightarrow> 'x Exchange \<Rightarrow> 'x BinanceBroker \<Rightarrow> string \<Rightarrow> BrokerOrder result \<times> 'x BinanceBroker" where
  "binance_GetOrder D X b brokerOrderID = (case knownSymbolForBrokerID b brokerOrderID of
       None \<Rightarrow> (Inl unknown_symbol, b)
     | Some symbol \<Rightarrow> looked_up D X b [(''symbol'', symbol), (''orderId'', brokerOrderID)])"

definition binance_FindOrderByClientOrderID :: "decimal_ops \<Rightarrow> 'x Exchange \<Rightarrow> 'x BinanceBroker \<Rightarrow> string \<Rightarrow>
    BrokerOrder result \<times> 'x BinanceBroker" where
  "binance_FindOrderByClientOrderID D X b clientOrderID = (case knownSymbolForClientID b clientOrderID of
       None \<Rightarrow> (Inl unknown_symbol, b)
     | Some symbol \<Rightarrow> looked_up D X b [(''symbol'', symbol), (''origClientOrderId'', clientOrderID)])"

definition binance_broker :: "decimal_ops \<Rightarrow> 'x Exchange \<Rightarrow> 'x BinanceBroker Broker" where
  "binance_broker D X = \<lparr>br_GetAccount = binance_GetAccount D X, br_GetPositions = binance_GetPositions D X,
     br_GetOpenOrders = binance_GetOpenOrders D X, br_PlaceOrder = binance_PlaceOrder D X, br_PlaceStop = binance_PlaceStop D X,
     br_CancelOrder = binance_CancelOrder X, br_GetOrder = binance_GetOrder D X,
     br_FindOrderByClientOrderID = binance_FindOrderByClientOrderID D X\<rparr>"

section \<open>Testnet and real money\<close>

definition testnet_NewBroker :: "string \<Rightarrow> string \<Rightarrow> string \<Rightarrow> int \<Rightarrow> duration \<Rightarrow> 'x \<Rightarrow> 'x BinanceBroker" where
  "testnet_NewBroker baseURL apiKey apiSecret recvWindowMs timeout x =
     binance_NewBroker (NewClient baseURL apiKey apiSecret recvWindowMs timeout) x"

definition real_NewBroker :: "string \<Rightarrow> string \<Rightarrow> string \<Rightarrow> int \<Rightarrow> duration \<Rightarrow> bool \<Rightarrow> string \<Rightarrow> 'x \<Rightarrow> 'x BinanceBroker result" where
  "real_NewBroker baseURL apiKey apiSecret recvWindowMs timeout realTradingEnabled confirmation x =
     (if \<not> realTradingEnabled \<or> confirmation = ''''
      then Inl (ErrorText ''real broker requires explicit BROKER_REAL_TRADING_ENABLED=true and a non-empty confirmation phrase'')
      else Inr (binance_NewBroker (NewClient baseURL apiKey apiSecret recvWindowMs timeout) x))"

section \<open>Well-formed answers\<close>

definition broker_order_ok :: "BrokerOrder \<Rightarrow> bool" where
  "broker_order_ok bo \<longleftrightarrow> symbolPattern (Symbol_String (bo_Symbol bo)) \<and> 0 \<le> Quantity_Decimal (bo_Quantity bo) \<and>
     0 \<le> Quantity_Decimal (bo_FilledQuantity bo) \<and> (\<forall>p. bo_AveragePrice bo = Some p \<longrightarrow> 0 < Price_Decimal p)"

definition broker_position_ok :: "BrokerPosition \<Rightarrow> bool" where
  "broker_position_ok p \<longleftrightarrow> symbolPattern (Symbol_String (bp_Symbol p)) \<and> Side_Valid (bp_Side p) \<and> 0 < Quantity_Decimal (bp_Quantity p) \<and>
     0 < Price_Decimal (bp_EntryPrice p) \<and> 0 < Price_Decimal (bp_MarkPrice p)"

lemma average_price_ok: "decimal_lib D \<Longrightarrow> average_price D s = Some p \<Longrightarrow> 0 < Price_Decimal p"
  by (auto simp: average_price_def NewPrice_def split: if_splits option.splits)

lemma toBrokerOrder_ok: "decimal_lib D \<Longrightarrow> toBrokerOrder D ord = Inr bo \<Longrightarrow> broker_order_ok bo"
  by (auto simp: toBrokerOrder_def broker_order_ok_def rbind_Inr_iff Let_def NewSymbol_def NewQuantity_def ZeroQuantity_def
      average_price_ok not_less split: if_splits sum.splits)

lemma toBrokerPosition_ok: "decimal_lib D \<Longrightarrow> toBrokerPosition D p = Inr pos \<Longrightarrow> broker_position_ok pos"
  by (auto simp: toBrokerPosition_def broker_position_ok_def rbind_Inr_iff Let_def NewSymbol_def NewQuantity_def NewPrice_def Side_Valid_def
      not_less not_le split: if_splits)

lemma positions_loop_ok: "decimal_lib D \<Longrightarrow> pos \<in> set (positions_loop D ps) \<Longrightarrow> broker_position_ok pos"
  by (induction ps) (auto dest: toBrokerPosition_ok split: sum.splits)

lemma orders_loop_ok: "decimal_lib D \<Longrightarrow> orders_loop D ords b = (bos, b') \<Longrightarrow> bo \<in> set bos \<Longrightarrow> broker_order_ok bo"
  by (induction D ords b arbitrary: bos b' rule: orders_loop.induct) (auto dest: toBrokerOrder_ok split: sum.splits prod.splits)

lemma placed_ok: "decimal_lib D \<Longrightarrow> placed D X b s params = (Inr bo, b') \<Longrightarrow> broker_order_ok bo"
  by (auto simp: placed_def dest: toBrokerOrder_ok split: prod.splits sum.splits)

lemma looked_up_ok: "decimal_lib D \<Longrightarrow> looked_up D X b params = (Inr bo, b') \<Longrightarrow> broker_order_ok bo"
  by (auto simp: looked_up_def dest: toBrokerOrder_ok split: prod.splits sum.splits client_error.splits)


section \<open>Known orders\<close>

text \<open>What the adapter does over time: any sequence of calls of the broker port.\<close>

inductive binance_later :: "decimal_ops \<Rightarrow> 'x Exchange \<Rightarrow> 'x BinanceBroker \<Rightarrow> 'x BinanceBroker \<Rightarrow> bool" for D X where
  later_refl: "binance_later D X b b"
| later_account: "binance_later D X b c \<Longrightarrow> binance_GetAccount D X c = (r, c') \<Longrightarrow> binance_later D X b c'"
| later_positions: "binance_later D X b c \<Longrightarrow> binance_GetPositions D X c = (r', c') \<Longrightarrow> binance_later D X b c'"
| later_open: "binance_later D X b c \<Longrightarrow> binance_GetOpenOrders D X c = (r'', c') \<Longrightarrow> binance_later D X b c'"
| later_place: "binance_later D X b c \<Longrightarrow> binance_PlaceOrder D X c req = (q, c') \<Longrightarrow> binance_later D X b c'"
| later_stop: "binance_later D X b c \<Longrightarrow> binance_PlaceStop D X c sreq = (q, c') \<Longrightarrow> binance_later D X b c'"
| later_cancel: "binance_later D X b c \<Longrightarrow> binance_CancelOrder X c i = (u, c') \<Longrightarrow> binance_later D X b c'"
| later_get: "binance_later D X b c \<Longrightarrow> binance_GetOrder D X c i = (q, c') \<Longrightarrow> binance_later D X b c'"
| later_find: "binance_later D X b c \<Longrightarrow> binance_FindOrderByClientOrderID D X c i = (q, c') \<Longrightarrow> binance_later D X b c'"

text \<open>Nothing known is ever forgotten, and the client stays the same.\<close>

definition knows_more :: "'x BinanceBroker \<Rightarrow> 'x BinanceBroker \<Rightarrow> bool" where
  "knows_more b c \<longleftrightarrow> bb_client c = bb_client b \<and> dom (knownSymbolForClientID b) \<subseteq> dom (knownSymbolForClientID c) \<and>
     dom (knownSymbolForBrokerID b) \<subseteq> dom (knownSymbolForBrokerID c)"

named_theorems knows_intros \<open>what the adapter keeps of its caches\<close>

lemma knows_more_refl [knows_intros]: "knows_more b b"
  by (simp add: knows_more_def)

lemma knows_more_trans [trans]: "knows_more b c \<Longrightarrow> knows_more c d \<Longrightarrow> knows_more b d"
  unfolding knows_more_def by (metis order_trans)

lemma knows_more_exchange [knows_intros]: "knows_more b (b\<lparr>bb_exchange := x\<rparr>)"
  by (simp add: knows_more_def knownSymbolForClientID_def [abs_def] knownSymbolForBrokerID_def [abs_def])

lemma knows_more_remember [knows_intros]: "knows_more b (rememberSymbol k i s b)"
  by (auto simp: knows_more_def rememberSymbol_def knownSymbolForClientID_def [abs_def] knownSymbolForBrokerID_def [abs_def] Let_def)

lemma remembered:
  "k \<noteq> '''' \<Longrightarrow> knownSymbolForClientID (rememberSymbol k i s b) k = Some s"
  "i \<noteq> '''' \<Longrightarrow> knownSymbolForBrokerID (rememberSymbol k i s b) i = Some s"
  by (simp_all add: rememberSymbol_def knownSymbolForClientID_def knownSymbolForBrokerID_def Let_def)

lemma knows_ask: "ask X b method path params decode = (r, b') \<Longrightarrow> knows_more b b'"
  by (auto simp: ask_def intro: knows_intros split: prod.splits)

lemma knows_orders_loop: "orders_loop D ords b = (bos, b') \<Longrightarrow> knows_more b b'"
proof (induction D ords b arbitrary: bos b' rule: orders_loop.induct)
  case (2 D ord os b)
  then show ?case
    by (auto intro: knows_more_trans [OF knows_more_remember] split: sum.splits prod.splits)
qed (simp add: knows_intros)

lemma knows_placed: "placed D X b s params = (r, b') \<Longrightarrow> knows_more b b'"
  by (auto simp: placed_def intro: knows_intros knows_more_trans [OF _ knows_more_remember] dest!: knows_ask split: prod.splits sum.splits)

lemma knows_looked_up: "looked_up D X b params = (r, b') \<Longrightarrow> knows_more b b'"
  by (auto simp: looked_up_def dest!: knows_ask split: prod.splits sum.splits client_error.splits)

lemma knows_later: "binance_later D X b c \<Longrightarrow> knows_more b c"
proof (induction rule: binance_later.induct)
  case (later_open b c r c')
  then show ?case
    by (auto simp: binance_GetOpenOrders_def dest!: knows_ask knows_orders_loop split: prod.splits sum.splits intro: knows_more_trans)
qed (auto simp: binance_GetAccount_def binance_GetPositions_def binance_PlaceOrder_def binance_PlaceStop_def binance_CancelOrder_def
    binance_GetOrder_def binance_FindOrderByClientOrderID_def knows_more_refl
    dest!: knows_ask knows_placed knows_looked_up split: prod.splits sum.splits option.splits intro: knows_more_trans)

lemma show_int_nonempty: "show_int i \<noteq> ''''"
  by (simp add: show_int_def show_nat.simps)

lemma broker_id_nonempty: "toBrokerOrder D ord = Inr bo \<Longrightarrow> bo_BrokerOrderID bo \<noteq> ''''"
  by (auto simp: toBrokerOrder_def rbind_Inr_iff Let_def show_int_nonempty)

definition order_known :: "'x BinanceBroker \<Rightarrow> BrokerOrder \<Rightarrow> bool" where
  "order_known b bo \<longleftrightarrow> knownSymbolForBrokerID b (bo_BrokerOrderID bo) \<noteq> None \<and>
     (bo_ClientOrderID bo \<noteq> '''' \<longrightarrow> knownSymbolForClientID b (bo_ClientOrderID bo) \<noteq> None)"

lemma order_known_more: "order_known b bo \<Longrightarrow> knows_more b c \<Longrightarrow> order_known c bo"
  by (auto simp: order_known_def knows_more_def dom_def)

lemma placed_known:
  assumes "placed D X b s params = (Inr bo, b')"
  shows "knownSymbolForBrokerID b' (bo_BrokerOrderID bo) = Some (Symbol_String s)"
    "bo_ClientOrderID bo \<noteq> '''' \<Longrightarrow> knownSymbolForClientID b' (bo_ClientOrderID bo) = Some (Symbol_String s)"
  using assms by (auto simp: placed_def broker_id_nonempty remembered split: prod.splits sum.splits)

lemma orders_loop_known: "orders_loop D ords b = (bos, b') \<Longrightarrow> bo \<in> set bos \<Longrightarrow> order_known b' bo"
proof (induction D ords b arbitrary: bos b' rule: orders_loop.induct)
  case (2 D ord ords b)
  have "order_known (rememberSymbol (bo_ClientOrderID q) (bo_BrokerOrderID q) s b) q" if "toBrokerOrder D ord = Inr q" for q s
    using broker_id_nonempty [OF that] by (simp add: order_known_def remembered)
  with 2 show ?case
    by (auto split: sum.splits prod.splits) (metis order_known_more knows_orders_loop)
qed simp

text \<open>A request for cancellation, and what the three calls come to for a known and for an unknown id.\<close>

definition cancel_request :: "'x Exchange \<Rightarrow> 'x BinanceBroker \<Rightarrow> string \<Rightarrow> string \<Rightarrow> unit result \<times> 'x BinanceBroker" where
  "cancel_request X b s i = apfst (map_sum client_err id) (ask X b ''DELETE'' ''/fapi/v1/order'' [(''symbol'', s), (''orderId'', i)] (\<lambda>_. Inr ()))"

lemma known_calls:
  "knownSymbolForBrokerID b i = Some s \<Longrightarrow> binance_GetOrder D X b i = looked_up D X b [(''symbol'', s), (''orderId'', i)]"
  "knownSymbolForBrokerID b i = Some s \<Longrightarrow> binance_CancelOrder X b i = cancel_request X b s i"
  "knownSymbolForClientID b j = Some s \<Longrightarrow> binance_FindOrderByClientOrderID D X b j = looked_up D X b [(''symbol'', s), (''origClientOrderId'', j)]"
  by (auto simp: binance_GetOrder_def binance_CancelOrder_def binance_FindOrderByClientOrderID_def cancel_request_def split: prod.splits sum.splits)

lemma unknown_calls:
  "knownSymbolForBrokerID b i = None \<Longrightarrow> binance_GetOrder D X b i = (Inl unknown_symbol, b)"
  "knownSymbolForBrokerID b i = None \<Longrightarrow> \<exists>e. binance_CancelOrder X b i = (Inl e, b)"
  "knownSymbolForClientID b j = None \<Longrightarrow> binance_FindOrderByClientOrderID D X b j = (Inl unknown_symbol, b)"
  by (simp_all add: binance_GetOrder_def binance_CancelOrder_def binance_FindOrderByClientOrderID_def)

lemma new_knows_nothing: "knownSymbolForBrokerID (binance_NewBroker client x) i = None" "knownSymbolForClientID (binance_NewBroker client x) i = None"
  by (simp_all add: binance_NewBroker_def knownSymbolForBrokerID_def knownSymbolForClientID_def)

text \<open>
  Once the adapter has placed an order or a stop, or has listed it among the open orders, it
  stays within its reach: at every later time looking the order up by either id and cancelling it are
  requests to the exchange, right after a placement with the symbol that was ordered. A new
  process knows no order: its lookups and cancellations fail without asking the exchange.
\<close>

theorem seen_orders_stay_known:
  assumes "binance_PlaceOrder D X b req = (Inr bo, b1) \<or> binance_PlaceStop D X b sreq = (Inr bo, b1) \<or>
      binance_GetOpenOrders D X b = (Inr os, b1) \<and> bo \<in> set os"
    and "binance_later D X b1 c"
  shows "(\<exists>s. binance_GetOrder D X c (bo_BrokerOrderID bo) = looked_up D X c [(''symbol'', s), (''orderId'', bo_BrokerOrderID bo)] \<and>
        binance_CancelOrder X c (bo_BrokerOrderID bo) = cancel_request X c s (bo_BrokerOrderID bo) \<and>
        (binance_PlaceOrder D X b req = (Inr bo, c) \<longrightarrow> s = Symbol_String (por_Symbol req)) \<and>
        (binance_PlaceStop D X b sreq = (Inr bo, c) \<longrightarrow> s = Symbol_String (psr_Symbol sreq))) \<and>
    (bo_ClientOrderID bo \<noteq> [] \<longrightarrow> (\<exists>s. binance_FindOrderByClientOrderID D X c (bo_ClientOrderID bo) =
        looked_up D X c [(''symbol'', s), (''origClientOrderId'', bo_ClientOrderID bo)])) \<and>
    (let n = binance_NewBroker client x in binance_GetOrder D X n i = (Inl unknown_symbol, n) \<and>
       binance_FindOrderByClientOrderID D X n i = (Inl unknown_symbol, n) \<and> (\<exists>e. binance_CancelOrder X n i = (Inl e, n)))"
proof -
  have "order_known b1 bo"
    using assms(1) by (auto simp: binance_PlaceOrder_def binance_PlaceStop_def binance_GetOpenOrders_def order_known_def
        dest: placed_known orders_loop_known [unfolded order_known_def] split: prod.splits sum.splits)
  then have "order_known c bo" using order_known_more knows_later [OF assms(2)] by blast
  then obtain s where s: "knownSymbolForBrokerID c (bo_BrokerOrderID bo) = Some s"
    and cl: "bo_ClientOrderID bo \<noteq> [] \<Longrightarrow> \<exists>t. knownSymbolForClientID c (bo_ClientOrderID bo) = Some t" by (auto simp: order_known_def)
  have "s = Symbol_String (por_Symbol req)" if "binance_PlaceOrder D X b req = (Inr bo, c)"
    using that s placed_known(1) [of D X b "por_Symbol req"] by (simp add: binance_PlaceOrder_def)
  moreover have "s = Symbol_String (psr_Symbol sreq)" if "binance_PlaceStop D X b sreq = (Inr bo, c)"
    using that s placed_known(1) [of D X b "psr_Symbol sreq"] by (simp add: binance_PlaceStop_def)
  ultimately show ?thesis using known_calls(1,2) [OF s] cl known_calls(3) unknown_calls new_knows_nothing unfolding Let_def by metis
qed

section \<open>A placement that fails\<close>

lemma placed_error_forgets:
  assumes "placed D X b s params = (Inl e, b')"
  shows "bb_symbolByClient b' = bb_symbolByClient b"
  using assms by (auto simp: placed_def ask_def split: prod.splits sum.splits)

text \<open>The request the execution of a decision sends.\<close>

definition entry_request :: "Decision \<Rightarrow> TradeSignal \<Rightarrow> ClientOrderID \<Rightarrow> PlaceOrderRequest" where
  "entry_request decision tradeSignal cid = \<lparr>por_ClientOrderID = cid, por_Symbol = sig_Symbol tradeSignal, por_Side = sig_Side tradeSignal,
     por_Type = Type_String TypeMarket, por_Quantity = dec_ApprovedPositionSize decision, por_Price = Some (sig_EntryPrice tradeSignal)\<rparr>"

text \<open>
  C40: On Binance a placement that fails is never settled by the lookup that follows it. Even when
  the exchange refused the order with a definite answer, the adapter has not remembered the client
  id, so the lookup fails without a request, with an error other than \<^verbatim>\<open>ErrNotFound\<close>: the execution never
  books the order, never marks it FAILED, ends with the error of the unknown order state (or a panic of
  what it still calls), leaves the adapter as the placement left it and the stored order PENDING.
\<close>

theorem binance_failure_is_unknown:
  assumes "en_B E = binance_broker D X" "knownSymbolForClientID (w_broker w) (ClientOrderID_String cid) = None"
    and "binance_PlaceOrder D X (w_broker w) (entry_request decision tradeSignal cid) = (Inl err, b1)" "\<not> is_panic err"
    and "en_fault E (w_tick w) = NoFault" "en_fault E (Suc (w_tick w)) = NoFault"
    and "place_at_broker E decision tradeSignal acct cid pending w = (r, w')"
    and "ord_Status pending = StatusPending" "order_stored (en_U E) pending (w_db w)"
  shows "\<exists>e. r = Inl e \<and> (is_panic e \<or> e = WrapSuffix ErrBrokerOrderStateUnknown (error_string err)) \<and> w_broker w' = b1 \<and>
    order_stored (en_U E) pending (w_db w')"
proof -
  let ?ord = "\<lambda>now. or_same (MarkUnknown pending now) pending"
  let ?tail = "ubind (Now E) (\<lambda>now. ubind (ignored (uc_orders_Save E (?ord now))) (\<lambda>_.
      ubind (raiseUnknownStateIncident E (?ord now) err) (\<lambda>_. ufail (WrapSuffix ErrBrokerOrderStateUnknown (error_string err)))))"
  let ?w2 = "w\<lparr>w_tick := Suc (Suc (w_tick w)), w_broker := b1\<rparr>"
  have forgotten: "knownSymbolForClientID b1 (ClientOrderID_String cid) = None"
    using placed_error_forgets assms(2,3) by (metis binance_PlaceOrder_def knownSymbolForClientID_def)
  have "place_at_broker E decision tradeSignal acct cid pending w = ?tail ?w2"
    using assms(3-6) forgotten
    by (simp add: place_at_broker_def attempt_def broker_call_def infra_def assms(1) binance_broker_def entry_request_def tick_def Let_def
        unknown_calls unknown_symbol_def is_panic_def)
  with assms(7) have run: "?tail ?w2 = (r, w')" by simp
  then obtain now where "ubind (ignored (uc_orders_Save E (?ord now))) (\<lambda>_. ubind (raiseUnknownStateIncident E (?ord now) err)
      (\<lambda>_. ufail (WrapSuffix ErrBrokerOrderStateUnknown (error_string err)))) (tick ?w2) = (r, w')"
    by (auto elim!: ubindE [of "Now E"] simp: Now_def)
  then have "\<exists>e q w3. r = Inl e \<and> (is_panic e \<or> e = WrapSuffix ErrBrokerOrderStateUnknown (error_string err)) \<and>
      ignored (uc_orders_Save E (?ord now)) (tick ?w2) = (q, w3) \<and> (w' = w3 \<or> (\<exists>q'. raiseUnknownStateIncident E (?ord now) err w3 = (q', w')))"
    by (elim ubindE) (use ignored_panic raise_panic in \<open>force simp: ufail_def\<close>)+
  then obtain e w3 q where e: "r = Inl e" "is_panic e \<or> e = WrapSuffix ErrBrokerOrderStateUnknown (error_string err)"
    and w3: "ignored (uc_orders_Save E (?ord now)) (tick ?w2) = (q, w3)"
    and w4: "w' = w3 \<or> (\<exists>q'. raiseUnknownStateIncident E (?ord now) err w3 = (q', w'))" by blast
  have "order_stored (en_U E) pending (w_db w3)"
    using stale_order_save [OF assms(8) _ w3] assms(9) by (simp add: order_stored_def)
  moreover have "same_books (w_db w3) (w_db w')"
    using w4 same_books.keeps_app [OF keeps_books_incident] by (auto simp: on_db_def same_books.db_refl)
  ultimately have "order_stored (en_U E) pending (w_db w')" by (rule order_stored_books(1) [rotated])
  moreover have kept: "keeps same_broker ?tail"
    unfolding raiseUnknownStateIncident_def ignored_def
    by (auto simp del: useq_simps intro!: same_broker.keeps_db_intros split: sum.splits)
  have "w_broker w' = b1"
    using same_broker.keeps_app [OF kept run] by (simp add: same_broker_def)
  ultimately show ?thesis using e by blast
qed

section \<open>Concrete runs\<close>

text \<open>
  An exchange that counts what it is sent, answers every order with one that is filled, and refuses
  orders of a second kind for want of margin. Numbers are read for the texts that occur.
\<close>

definition sample_read :: decimal_ops where
  "sample_read = ref_decimal\<lparr>dNewFromString := (\<lambda>s. if s = ''2'' then Some 2 else if s = ''101'' then Some 101 else None)\<rparr>"

lemma decimal_lib_sample_read: "decimal_lib sample_read"
  by (simp add: decimal_lib_def sample_read_def ref_decimal_def)

definition sample_answer :: orderResponse where
  "sample_answer = \<lparr>or_OrderID = 77, or_ClientOrderID = ''order-0001'', or_Symbol = ''BTCUSDT'', or_Side = ''BUY'', or_Type = ''MARKET'',
     or_OrigQty = ''2'', or_ExecutedQty = ''2'', or_AvgPrice = ''101'', or_Status = ''FILLED''\<rparr>"

definition sample_exchange :: "int \<Rightarrow> nat Exchange" where
  "sample_exchange status = \<lparr>xc_nowMilli = int, xc_hmac = (\<lambda>_ _. ''00''), xc_admit = (\<lambda>n. (None, n)),
     xc_send = (\<lambda>_ _ n. (Inr (status, ''body''), Suc n)), xc_report = (\<lambda>_ n. n), xc_apiError = (\<lambda>_. (- 2019, ''Margin is insufficient.'')),
     xc_account = (\<lambda>_. Inl (ErrorText ''eof'')), xc_positions = (\<lambda>_. Inr []), xc_order = (\<lambda>_. Inr sample_answer), xc_orders = (\<lambda>_. Inr [])\<rparr>"

definition sample_binance :: "nat BinanceBroker" where
  "sample_binance = binance_NewBroker (NewClient ''https://testnet.binancefuture.com/'' ''key'' ''secret'' 5000 (10 * Second)) 0"

definition sample_binance_order :: BrokerOrder where
  "sample_binance_order = \<lparr>bo_BrokerOrderID = ''77'', bo_ClientOrderID = ''order-0001'', bo_Symbol = Symbol ''BTCUSDT'', bo_Side = SideBuy,
     bo_Type = ''MARKET'', bo_Quantity = Quantity 2, bo_FilledQuantity = Quantity 2, bo_AveragePrice = Some (Price 101), bo_RawStatus = ''FILLED''\<rparr>"

lemma sample_texts: "dNewFromString sample_read ''2'' = Some 2" "dNewFromString sample_read ''101'' = Some 101" "show_int 77 = ''77''"
  by (simp_all add: sample_read_def) code_simp

lemma sample_answer_read: "toBrokerOrder sample_read sample_answer = Inr sample_binance_order"
  using decimal_lib_sample_read sample_symbol
  by (simp add: toBrokerOrder_def sample_answer_def sample_binance_order_def read_decimal_def average_price_def NewQuantity_def NewPrice_def
      Side_of_string_def sample_texts)

definition sample_binance_after :: "nat BinanceBroker" where
  "sample_binance_after = sample_binance\<lparr>bb_symbolByClient := [(''order-0001'', ''BTCUSDT'')], bb_symbolByBroker := [(''77'', ''BTCUSDT'')], bb_exchange := 1\<rparr>"

lemma sample_binance_placed:
  "binance_PlaceOrder sample_read (sample_exchange 200) sample_binance sample_request = (Inr sample_binance_order, sample_binance_after)"
  by (simp add: binance_PlaceOrder_def placed_def ask_def client_do_def client_answer_def sample_exchange_def sample_answer_read Let_def
      sample_binance_after_def sample_binance_def binance_NewBroker_def rememberSymbol_def sample_request_def sample_binance_order_def)


theorem seen_orders_stay_known_witness:
  "binance_GetOrder sample_read (sample_exchange 200) sample_binance_after ''77'' =
     looked_up sample_read (sample_exchange 200) sample_binance_after [(''symbol'', ''BTCUSDT''), (''orderId'', ''77'')] \<and>
   fst (binance_FindOrderByClientOrderID sample_read (sample_exchange 200) sample_binance ''order-0001'') = Inl unknown_symbol"
  using seen_orders_stay_known [OF disjI1 [OF sample_binance_placed] later_refl, of undefined "bb_client sample_binance" 0 "''order-0001''"]
    sample_binance_placed
  by (simp add: sample_binance_order_def sample_request_def Let_def sample_binance_def binance_NewBroker_def)

text \<open>The refusal, met by the execution of the sample decision.\<close>

definition refused_env :: "nat BinanceBroker Env" where
  "refused_env = \<lparr>en_D = ref_decimal, en_U = ref_uuid, en_B = binance_broker sample_read (sample_exchange 400), en_clock = int, en_uuid = (\<lambda>n. n + 1),
     en_fault = (\<lambda>_. NoFault), en_handlers = (\<lambda>_. [])\<rparr>"

definition refused_world :: "nat BinanceBroker World" where
  "refused_world = \<lparr>w_db = w_db pending_world, w_broker = sample_binance, w_tick = 0, w_inTx = False, w_published = [], w_notified = []\<rparr>"

theorem binance_failure_is_unknown_witness:
  "\<exists>e w'. place_at_broker refused_env sample_decision sample_signal sample_account sample_cid pending_order refused_world = (Inl e, w') \<and>
     bb_exchange (w_broker w') = 1 \<and> order_stored ref_uuid pending_order (w_db w')"
proof -
  let ?X = "sample_exchange 400"
  have known: "knownSymbolForClientID (w_broker refused_world) (ClientOrderID_String sample_cid) = None"
    by (simp add: refused_world_def sample_binance_def new_knows_nothing)
  have refused: "binance_PlaceOrder sample_read ?X (w_broker refused_world) (entry_request sample_decision sample_signal sample_cid) =
      (Inl (ErrorText (APIError_Error \<lparr>api_StatusCode = 400, api_Code = - 2019, api_Msg = ''Margin is insufficient.''\<rparr>)), sample_binance\<lparr>bb_exchange := 1\<rparr>)"
    by (simp add: binance_PlaceOrder_def placed_def ask_def client_do_def client_answer_def sample_exchange_def refused_world_def
        sample_binance_def binance_NewBroker_def Let_def)
  obtain r w' where run: "place_at_broker refused_env sample_decision sample_signal sample_account sample_cid pending_order refused_world = (r, w')"
    by (cases "place_at_broker refused_env sample_decision sample_signal sample_account sample_cid pending_order refused_world")
  have "order_stored (en_U refused_env) pending_order (w_db refused_world)"
    by (simp add: order_stored_def pending_world_def refused_world_def refused_env_def order_toModel_def)
  then show ?thesis
    using binance_failure_is_unknown [OF _ known refused _ _ _ run] run
    by (auto simp: refused_env_def pending_order_def is_panic_def)
qed

end
