(* ===== verification/Quant_Engine.thy ===== *)
theory Quant_Engine
  imports Market_Pipeline
begin

text \<open>
  The quant engine the application runs with: \<^verbatim>\<open>infrastructure/external/quant/grpc/fake.go\<close>, a momentum rule
  over the last two candles. Shown: it answers every pair of candles with positive prices, proposes
  a trade exactly when the move reaches the threshold, and every signal it proposes passes the
  validation of the trade signal, with a stop one percent and a target two percent away.
\<close>

record Engine =
  eng_momentumThreshold :: decimal
  eng_stopOffsetPct :: decimal
  eng_targetOffsetPct :: decimal

definition NewEngine :: Engine where
  "NewEngine = \<lparr>eng_momentumThreshold = 1 / 1000, eng_stopOffsetPct = 1 / 100, eng_targetOffsetPct = 2 / 100\<rparr>"

record MarketRegimeInput =
  mri_Symbol :: Symbol
  mri_RecentCandles :: "Candle list"

text \<open>The zero value of \<^verbatim>\<open>QuantSignal\<close>, the answer without a signal.\<close>

definition no_signal :: QuantSignal where
  "no_signal = \<lparr>qs_HasSignal = False, qs_Symbol = Symbol '''', qs_Side = Side_other '''', qs_EntryPrice = Price 0, qs_StopPrice = Price 0,
     qs_TargetPrice = Price 0, qs_Confidence = Confidence 0, qs_StrategyName = '''', qs_Regime = Regime_other ''''\<rparr>"

definition AnalyzeMarketRegime :: "decimal_ops \<Rightarrow> MarketRegimeInput \<Rightarrow> Regime" where
  "AnalyzeMarketRegime D i = (let cs = mri_RecentCandles i in
     if length cs < 2 then RegimeUnknown
     else let first = Price_Decimal (cdl_Close (hd cs)); final = Price_Decimal (cdl_Close (last cs)) in
       if dIsZero D first then RegimeUnknown
       else if dGreaterThanOrEqual D (dAbs D (dDiv D (dSub D final first) first)) (2 / 100) then RegimeTrending
       else RegimeRangeBound)"

definition buildSignal :: "decimal_ops \<Rightarrow> Engine \<Rightarrow> Candle \<Rightarrow> Side \<Rightarrow> Regime \<Rightarrow> QuantSignal result" where
  "buildSignal D e candle side regime =
     (let entry = cdl_Close candle; at_below = (\<lambda>pct. dMul D (Price_Decimal entry) (dSub D 1 pct));
          at_above = (\<lambda>pct. dMul D (Price_Decimal entry) (dAdd D 1 pct));
          stopValue = (if side = SideBuy then at_below (eng_stopOffsetPct e) else at_above (eng_stopOffsetPct e));
          targetValue = (if side = SideBuy then at_above (eng_targetOffsetPct e) else at_below (eng_targetOffsetPct e)) in
      rbind (NewPrice D stopValue) (\<lambda>stop.
      rbind (NewPrice D targetValue) (\<lambda>target.
      rbind (MustNewConfidence D (6 / 10)) (\<lambda>confidence.
      Inr \<lparr>qs_HasSignal = True, qs_Symbol = cdl_Symbol candle, qs_Side = side, qs_EntryPrice = entry, qs_StopPrice = stop,
        qs_TargetPrice = target, qs_Confidence = confidence, qs_StrategyName = ''fake-momentum'', qs_Regime = regime\<rparr>))))"

text \<open>Dividing by a price of zero panics in the decimal package.\<close>

definition EvaluateSignal :: "decimal_ops \<Rightarrow> Engine \<Rightarrow> QuantInput \<Rightarrow> QuantSignal result" where
  "EvaluateSignal D e i =
     (if qi_RecentCandles i = [] then Inr no_signal
      else let previous = last (qi_RecentCandles i); current = qi_Candle i in
        if dIsZero D (Price_Decimal (cdl_Close previous)) then Inl (Panic ''decimal division by 0'')
        else let move = dDiv D (dSub D (Price_Decimal (cdl_Close current)) (Price_Decimal (cdl_Close previous))) (Price_Decimal (cdl_Close previous));
            regime = AnalyzeMarketRegime D \<lparr>mri_Symbol = cdl_Symbol current, mri_RecentCandles = qi_RecentCandles i\<rparr> in
          if dGreaterThanOrEqual D move (eng_momentumThreshold e) then buildSignal D e current SideBuy regime
          else if dLessThanOrEqual D move (dNeg D (eng_momentumThreshold e)) then buildSignal D e current SideSell regime
          else Inr no_signal)"

section \<open>What it proposes\<close>

text \<open>The regime is always one the validation knows.\<close>

lemma regime_valid: "Regime_Valid (AnalyzeMarketRegime D i)"
  by (simp add: AnalyzeMarketRegime_def Regime_Valid_def Let_def)

text \<open>The signal a side calls for at an entry price: the stop one percent, the target two percent away.\<close>

definition momentum_signal :: "Symbol \<Rightarrow> Side \<Rightarrow> decimal \<Rightarrow> Regime \<Rightarrow> QuantSignal" where
  "momentum_signal s side p r = \<lparr>qs_HasSignal = True, qs_Symbol = s, qs_Side = side, qs_EntryPrice = Price p,
     qs_StopPrice = Price (if side = SideBuy then p * (99 / 100) else p * (101 / 100)),
     qs_TargetPrice = Price (if side = SideBuy then p * (102 / 100) else p * (98 / 100)), qs_Confidence = Confidence (6 / 10),
     qs_StrategyName = ''fake-momentum'', qs_Regime = r\<rparr>"

lemma buildSignal_momentum:
  assumes "decimal_lib D" "0 < Price_Decimal (cdl_Close c)"
  shows "buildSignal D NewEngine c side r = Inr (momentum_signal (cdl_Symbol c) side (Price_Decimal (cdl_Close c)) r)"
  using assms by (cases "cdl_Close c") (simp add: buildSignal_def NewEngine_def NewPrice_def MustNewConfidence_def NewConfidence_def momentum_signal_def Let_def)

lemma momentum_signal_valid:
  assumes "decimal_lib D" "0 < p" "Side_Valid side" "Regime_Valid r" "now < until"
  shows "\<exists>t. signal_New D u s side (Price p) (qs_StopPrice (momentum_signal s side p r)) (qs_TargetPrice (momentum_signal s side p r))
     (Confidence (6 / 10)) ''fake-momentum'' r now until = Inr t"
  using assms by (auto simp: signal_New_def momentum_signal_def Side_Valid_iff time_After_def vo_defs)

text \<open>What the engine answers: nothing without a previous candle, otherwise by the size of the rounded move.\<close>

definition momentum_side :: "decimal \<Rightarrow> decimal \<Rightarrow> Side option" where
  "momentum_side prev cur = (let move = round_to DivisionPrecision ((cur - prev) / prev) in
     if 1 / 1000 \<le> move then Some SideBuy else if move \<le> - (1 / 1000) then Some SideSell else None)"

lemma EvaluateSignal_answer:
  assumes "decimal_lib D" "0 < Price_Decimal (cdl_Close (qi_Candle i))" "\<forall>c \<in> set (qi_RecentCandles i). 0 < Price_Decimal (cdl_Close c)"
  shows "EvaluateSignal D NewEngine i = Inr (if qi_RecentCandles i = [] then no_signal else
    case momentum_side (Price_Decimal (cdl_Close (last (qi_RecentCandles i)))) (Price_Decimal (cdl_Close (qi_Candle i))) of
      None \<Rightarrow> no_signal
    | Some side \<Rightarrow> momentum_signal (cdl_Symbol (qi_Candle i)) side (Price_Decimal (cdl_Close (qi_Candle i)))
        (AnalyzeMarketRegime D \<lparr>mri_Symbol = cdl_Symbol (qi_Candle i), mri_RecentCandles = qi_RecentCandles i\<rparr>))"
proof (cases "qi_RecentCandles i = []")
  case False
  then have "Price_Decimal (cdl_Close (last (qi_RecentCandles i))) \<noteq> 0" using assms(3) last_in_set by fastforce
  with False assms(1,2) show ?thesis
    by (simp add: EvaluateSignal_def momentum_side_def buildSignal_momentum [OF assms(1,2)] Let_def) (simp add: NewEngine_def)
qed (simp add: EvaluateSignal_def)

text \<open>
  The engine answers every candle of a feed with positive closing prices, and proposes a trade
  exactly when there is a previous candle and the move between the two closes, rounded to sixteen
  places, is at least a tenth of a percent: long for a rise, short for a fall. Whatever it proposes
  passes the validation of the trade signal whenever the signal is valid for any time at all, enters
  at the close, risks one percent of it and aims for twice that.
\<close>

theorem engine_signals_accepted:
  assumes "decimal_lib D" "0 < Price_Decimal (cdl_Close (qi_Candle i))" "\<forall>c \<in> set (qi_RecentCandles i). 0 < Price_Decimal (cdl_Close c)"
    and "now < until"
  shows "\<exists>q. EvaluateSignal D NewEngine i = Inr q \<and>
    (if qs_HasSignal q then Some (qs_Side q) else None) = (if qi_RecentCandles i = [] then None else
       momentum_side (Price_Decimal (cdl_Close (last (qi_RecentCandles i)))) (Price_Decimal (cdl_Close (qi_Candle i)))) \<and>
    (qs_HasSignal q \<longrightarrow> (\<exists>t. signal_New D u (qs_Symbol q) (qs_Side q) (qs_EntryPrice q) (qs_StopPrice q) (qs_TargetPrice q) (qs_Confidence q)
         (qs_StrategyName q) (qs_Regime q) now until = Inr t) \<and>
       qs_Symbol q = cdl_Symbol (qi_Candle i) \<and> qs_EntryPrice q = cdl_Close (qi_Candle i) \<and>
       \<bar>Price_Decimal (qs_EntryPrice q) - Price_Decimal (qs_StopPrice q)\<bar> = Price_Decimal (qs_EntryPrice q) / 100 \<and>
       \<bar>Price_Decimal (qs_TargetPrice q) - Price_Decimal (qs_EntryPrice q)\<bar> = 2 * \<bar>Price_Decimal (qs_EntryPrice q) - Price_Decimal (qs_StopPrice q)\<bar>)"
proof -
  let ?p = "Price_Decimal (cdl_Close (qi_Candle i))" and ?s = "cdl_Symbol (qi_Candle i)"
  let ?r = "AnalyzeMarketRegime D \<lparr>mri_Symbol = ?s, mri_RecentCandles = qi_RecentCandles i\<rparr>"
  have sides: "Side_Valid side" if "momentum_side a b = Some side" for a b side
    using that by (auto simp: momentum_side_def Side_Valid_iff Let_def split: if_splits)
  have geometry: "\<bar>?p - Price_Decimal (qs_StopPrice (momentum_signal ?s side ?p ?r))\<bar> = ?p / 100 \<and>
      \<bar>Price_Decimal (qs_TargetPrice (momentum_signal ?s side ?p ?r)) - ?p\<bar> = 2 * (?p / 100)" for side
    using assms(2) by (simp add: momentum_signal_def abs_if)
  show ?thesis
    unfolding EvaluateSignal_answer [OF assms(1-3)]
    using momentum_signal_valid [OF assms(1,2) sides regime_valid assms(4)] geometry
    by (auto simp: no_signal_def split: option.splits) (auto simp: momentum_signal_def)
qed

definition rising_input :: QuantInput where
  "rising_input = \<lparr>qi_Candle = ems_Candle sample_candle_cmd, qi_RecentCandles = [(ems_Candle sample_candle_cmd)\<lparr>cdl_Close := Price 99\<rparr>]\<rparr>"

theorem engine_signals_accepted_witness:
  "\<exists>q t. EvaluateSignal ref_decimal NewEngine rising_input = Inr q \<and> qs_HasSignal q \<and> qs_Side q = SideBuy \<and>
     signal_New ref_decimal 9 (qs_Symbol q) (qs_Side q) (qs_EntryPrice q) (qs_StopPrice q) (qs_TargetPrice q) (qs_Confidence q)
         (qs_StrategyName q) (qs_Regime q) 0 1 = Inr t"
proof -
  have "momentum_side 99 100 = Some SideBuy"
    using round_to_mono [of "1 / 1000" "1 / 99" DivisionPrecision] round_to_exact [of "1 / 1000" DivisionPrecision "10 ^ 13"]
    by (simp add: momentum_side_def DivisionPrecision_def)
  then show ?thesis
    using engine_signals_accepted [of ref_decimal rising_input 0 1 9]
    by (auto simp: rising_input_def sample_candle_cmd_def split: if_splits)
qed

end
