(* ===== verification/Configuration.thy ===== *)
theory Configuration
  imports Market_News Binance_Broker Quant_Engine "HOL-Library.Word"
begin

text \<open>
  \<^verbatim>\<open>internal/config\<close> and the factories of \<^verbatim>\<open>internal/app/providers.go\<close> that turn a configuration into
  the parameters of the use cases: reading the environment with its defaults, the validation, the
  broker that is built and the risk thresholds. The conversions to 32-bit and 64-bit integers are
  kept at their width. What is shown connects the configuration with the hypotheses of the trading
  theorems: every configuration that loads gives a risk evaluation that meets them.
\<close>

section \<open>Reading the environment\<close>

text \<open>
  The variables of the process, and the readings of the standard library that are left open:
  durations, URLs (scheme and host) and the nearest float of a decimal.
\<close>

record Environment =
  ev_lookup :: "string \<Rightarrow> string option"
  ev_duration :: "string \<Rightarrow> duration result"
  ev_urlParse :: "string \<Rightarrow> (string \<times> string) result"
  ev_float :: "decimal \<Rightarrow> rat"

definition lookupEnv :: "Environment \<Rightarrow> string \<Rightarrow> string option" where
  "lookupEnv V key = (case ev_lookup V key of Some v \<Rightarrow> if v = '''' then None else Some v | None \<Rightarrow> None)"

definition getEnv :: "Environment \<Rightarrow> string \<Rightarrow> string \<Rightarrow> string" where
  "getEnv V key fallback = (case lookupEnv V key of Some v \<Rightarrow> v | None \<Rightarrow> fallback)"

definition getEnvRequired :: "Environment \<Rightarrow> string \<Rightarrow> string result" where
  "getEnvRequired V key = (case lookupEnv V key of
       None \<Rightarrow> Inl (ErrorText (''missing required environment variable '' @ key)) | Some v \<Rightarrow> Inr v)"

text \<open>\<^verbatim>\<open>strconv.Atoi\<close>: an optional sign and decimal digits, within the 64-bit range.\<close>

definition Atoi :: "string \<Rightarrow> int result" where
  "Atoi s = (let neg = (case s of c # _ \<Rightarrow> c = CHR ''-'' | [] \<Rightarrow> False);
       digits = (case s of c # rest \<Rightarrow> if c = CHR ''-'' \<or> c = CHR ''+'' then rest else s | [] \<Rightarrow> []);
       value = (if neg then - int (read_nat digits) else int (read_nat digits)) in
     if digits = [] \<or> \<not> list_all (\<lambda>c. 48 \<le> (of_char c :: nat) \<and> (of_char c :: nat) \<le> 57) digits
     then Inl (ErrorText (''strconv.Atoi: parsing '' @ quoted s @ '': invalid syntax''))
     else if value < - (2 ^ 63) \<or> 2 ^ 63 \<le> value
     then Inl (ErrorText (''strconv.Atoi: parsing '' @ quoted s @ '': value out of range''))
     else Inr value)"

definition ParseBool :: "string \<Rightarrow> bool result" where
  "ParseBool s = (if s \<in> set [''1'', ''t'', ''T'', ''true'', ''TRUE'', ''True''] then Inr True
     else if s \<in> set [''0'', ''f'', ''F'', ''false'', ''FALSE'', ''False''] then Inr False
     else Inl (ErrorText (''strconv.ParseBool: parsing '' @ quoted s @ '': invalid syntax'')))"

text \<open>The typed readings share their shape: the fallback, or the parsed value with the name of the variable in its error.\<close>

definition parsedEnv :: "Environment \<Rightarrow> string \<Rightarrow> string \<Rightarrow> (string \<Rightarrow> 'a result) \<Rightarrow> 'a \<Rightarrow> 'a result" where
  "parsedEnv V key kind parse fallback = (case lookupEnv V key of
       None \<Rightarrow> Inr fallback
     | Some v \<Rightarrow> (case parse v of
         Inl e \<Rightarrow> Inl (WrapPrefix (''environment variable '' @ key @ '' must be '' @ kind) e) | Inr x \<Rightarrow> Inr x))"

definition getEnvInt :: "Environment \<Rightarrow> string \<Rightarrow> int \<Rightarrow> int result" where
  "getEnvInt V key fallback = parsedEnv V key ''an integer'' Atoi fallback"

definition getEnvBool :: "Environment \<Rightarrow> string \<Rightarrow> bool \<Rightarrow> bool result" where
  "getEnvBool V key fallback = parsedEnv V key ''a boolean'' ParseBool fallback"

definition getEnvDuration :: "Environment \<Rightarrow> string \<Rightarrow> duration \<Rightarrow> duration result" where
  "getEnvDuration V key fallback = parsedEnv V key ''a Go duration (e.g. 30s)'' (ev_duration V) fallback"

definition getEnvDecimal :: "decimal_ops \<Rightarrow> Environment \<Rightarrow> string \<Rightarrow> decimal \<Rightarrow> decimal result" where
  "getEnvDecimal D V key fallback = parsedEnv V key ''a decimal number'' (\<lambda>v. case dNewFromString D v of
       None \<Rightarrow> Inl (ErrorText (''can't convert '' @ v @ '' to decimal'')) | Some d \<Rightarrow> Inr d) fallback"

text \<open>\<^verbatim>\<open>strings.Split(v, ",")\<close>.\<close>

fun split_commas :: "string \<Rightarrow> string list" where
  "split_commas [] = [[]]"
| "split_commas (c # cs) = (if c = CHR '','' then [] # split_commas cs
     else case split_commas cs of [] \<Rightarrow> [[c]] | p # ps \<Rightarrow> (c # p) # ps)"

fun trimmed_parts :: "string list \<Rightarrow> string list" where
  "trimmed_parts [] = []"
| "trimmed_parts (p # ps) = (let trimmed = TrimSpace p in if trimmed \<noteq> '''' then trimmed # trimmed_parts ps else trimmed_parts ps)"

definition getEnvStringSlice :: "Environment \<Rightarrow> string \<Rightarrow> string list \<Rightarrow> string list" where
  "getEnvStringSlice V key fallback = (case lookupEnv V key of None \<Rightarrow> fallback | Some v \<Rightarrow> trimmed_parts (split_commas v))"

definition mask :: "string \<Rightarrow> string" where
  "mask secret = (if secret = '''' then '''' else if length secret \<le> 6 then ''****''
     else take 2 secret @ ''****'' @ drop (length secret - 2) secret)"

section \<open>Sections of the configuration\<close>

definition Minute :: duration where
  "Minute = 60 * Second"

definition Hour :: duration where
  "Hour = 3600 * Second"

text \<open>\<^verbatim>\<open>int32(x)\<close> keeps the low 32 bits.\<close>

definition int32 :: "int \<Rightarrow> int" where
  "int32 x = sint (word_of_int x :: 32 word)"

record ServerConfig =
  srv_Host :: string
  srv_Port :: int
  srv_ReadTimeout :: duration
  srv_WriteTimeout :: duration
  srv_IdleTimeout :: duration
  srv_RequestTimeout :: duration
  srv_ShutdownTimeout :: duration
  srv_MaxRequestBodyBytes :: int
  srv_CORSAllowedOrigins :: "string list"
  srv_RateLimitRPS :: rat
  srv_RateLimitBurst :: int

definition loadServerConfig :: "decimal_ops \<Rightarrow> Environment \<Rightarrow> ServerConfig result" where
  "loadServerConfig D V =
     rbind (getEnvInt V ''SERVER_PORT'' 8080) (\<lambda>port.
     rbind (getEnvDuration V ''SERVER_READ_TIMEOUT'' (10 * Second)) (\<lambda>readTimeout.
     rbind (getEnvDuration V ''SERVER_WRITE_TIMEOUT'' (10 * Second)) (\<lambda>writeTimeout.
     rbind (getEnvDuration V ''SERVER_IDLE_TIMEOUT'' (60 * Second)) (\<lambda>idleTimeout.
     rbind (getEnvDuration V ''SERVER_REQUEST_TIMEOUT'' (15 * Second)) (\<lambda>requestTimeout.
     rbind (getEnvDuration V ''SERVER_SHUTDOWN_TIMEOUT'' (15 * Second)) (\<lambda>shutdownTimeout.
     rbind (getEnvInt V ''SERVER_MAX_REQUEST_BODY_BYTES'' (2 ^ 20)) (\<lambda>maxBodyBytes.
     rbind (getEnvDecimal D V ''SERVER_RATE_LIMIT_RPS'' 20) (\<lambda>rateLimitRPS.
     rbind (getEnvInt V ''SERVER_RATE_LIMIT_BURST'' 40) (\<lambda>rateLimitBurst.
     Inr \<lparr>srv_Host = getEnv V ''SERVER_HOST'' ''0.0.0.0'', srv_Port = port, srv_ReadTimeout = readTimeout, srv_WriteTimeout = writeTimeout,
       srv_IdleTimeout = idleTimeout, srv_RequestTimeout = requestTimeout, srv_ShutdownTimeout = shutdownTimeout,
       srv_MaxRequestBodyBytes = maxBodyBytes,
       srv_CORSAllowedOrigins = getEnvStringSlice V ''SERVER_CORS_ALLOWED_ORIGINS'' [''http://localhost:3000''],
       srv_RateLimitRPS = ev_float V rateLimitRPS, srv_RateLimitBurst = rateLimitBurst\<rparr>)))))))))"

record DatabaseConfig =
  dbc_Host :: string
  dbc_Port :: int
  dbc_User :: string
  dbc_Password :: string
  dbc_Name :: string
  dbc_SSLMode :: string
  dbc_MaxConns :: int
  dbc_MinConns :: int
  dbc_MaxConnLifetime :: duration
  dbc_MaxConnIdleTime :: duration
  dbc_ConnectTimeout :: duration

definition loadDatabaseConfig :: "Environment \<Rightarrow> DatabaseConfig result" where
  "loadDatabaseConfig V =
     rbind (getEnvInt V ''DATABASE_PORT'' 5432) (\<lambda>port.
     rbind (getEnvInt V ''DATABASE_MAX_CONNS'' 10) (\<lambda>maxConns.
     rbind (getEnvInt V ''DATABASE_MIN_CONNS'' 2) (\<lambda>minConns.
     rbind (getEnvDuration V ''DATABASE_MAX_CONN_LIFETIME'' Hour) (\<lambda>maxConnLifetime.
     rbind (getEnvDuration V ''DATABASE_MAX_CONN_IDLE_TIME'' (30 * Minute)) (\<lambda>maxConnIdleTime.
     rbind (getEnvDuration V ''DATABASE_CONNECT_TIMEOUT'' (5 * Second)) (\<lambda>connectTimeout.
     Inr \<lparr>dbc_Host = getEnv V ''DATABASE_HOST'' ''localhost'', dbc_Port = port, dbc_User = getEnv V ''DATABASE_USER'' ''trading'',
       dbc_Password = getEnv V ''DATABASE_PASSWORD'' ''trading'', dbc_Name = getEnv V ''DATABASE_NAME'' ''trading_core'',
       dbc_SSLMode = getEnv V ''DATABASE_SSL_MODE'' ''disable'', dbc_MaxConns = int32 maxConns, dbc_MinConns = int32 minConns,
       dbc_MaxConnLifetime = maxConnLifetime, dbc_MaxConnIdleTime = maxConnIdleTime, dbc_ConnectTimeout = connectTimeout\<rparr>))))))"

definition DSN :: "DatabaseConfig \<Rightarrow> string" where
  "DSN c = ''postgres://'' @ dbc_User c @ '':'' @ dbc_Password c @ ''@'' @ dbc_Host c @ '':'' @ show_int (dbc_Port c) @ ''/'' @ dbc_Name c @
     ''?sslmode='' @ dbc_SSLMode c @ ''&connect_timeout='' @
     show_int (if 0 \<le> dbc_ConnectTimeout c then dbc_ConnectTimeout c div Second else - ((- dbc_ConnectTimeout c) div Second))"

definition DatabaseConfig_Redacted :: "DatabaseConfig \<Rightarrow> string" where
  "DatabaseConfig_Redacted c = ''postgres://'' @ dbc_User c @ '':'' @ mask (dbc_Password c) @ ''@'' @ dbc_Host c @ '':'' @ show_int (dbc_Port c) @
     ''/'' @ dbc_Name c @ ''?sslmode='' @ dbc_SSLMode c"

record BrokerConfig =
  bkc_Mode :: string
  bkc_PaperStartingBalance :: decimal
  bkc_PaperFeePct :: decimal
  bkc_PaperSlippagePct :: decimal
  bkc_BinanceAPIKey :: string
  bkc_BinanceAPISecret :: string
  bkc_BinanceTestnetURL :: string
  bkc_BinanceRealURL :: string
  bkc_BinanceRecvWindowMs :: int
  bkc_BinanceRequestTimeout :: duration
  bkc_RealTradingEnabled :: bool
  bkc_RealTradingConfirmation :: string

definition loadBrokerConfig :: "decimal_ops \<Rightarrow> Environment \<Rightarrow> BrokerConfig result" where
  "loadBrokerConfig D V =
     rbind (getEnvDecimal D V ''BROKER_PAPER_STARTING_BALANCE'' 10000) (\<lambda>startingBalance.
     rbind (getEnvDecimal D V ''BROKER_PAPER_FEE_PCT'' (4 / 10000)) (\<lambda>feePct.
     rbind (getEnvDecimal D V ''BROKER_PAPER_SLIPPAGE_PCT'' (5 / 10000)) (\<lambda>slippagePct.
     rbind (getEnvInt V ''BROKER_BINANCE_RECV_WINDOW_MS'' 5000) (\<lambda>recvWindow.
     rbind (getEnvDuration V ''BROKER_BINANCE_REQUEST_TIMEOUT'' (10 * Second)) (\<lambda>requestTimeout.
     rbind (getEnvBool V ''BROKER_REAL_TRADING_ENABLED'' False) (\<lambda>realEnabled.
     Inr \<lparr>bkc_Mode = getEnv V ''BROKER_MODE'' ''PAPER'', bkc_PaperStartingBalance = startingBalance, bkc_PaperFeePct = feePct,
       bkc_PaperSlippagePct = slippagePct, bkc_BinanceAPIKey = getEnv V ''BROKER_BINANCE_API_KEY'' '''',
       bkc_BinanceAPISecret = getEnv V ''BROKER_BINANCE_API_SECRET'' '''',
       bkc_BinanceTestnetURL = getEnv V ''BROKER_BINANCE_TESTNET_URL'' ''https://testnet.binancefuture.com'',
       bkc_BinanceRealURL = getEnv V ''BROKER_BINANCE_REAL_URL'' ''https://fapi.binance.com'', bkc_BinanceRecvWindowMs = recvWindow,
       bkc_BinanceRequestTimeout = requestTimeout, bkc_RealTradingEnabled = realEnabled,
       bkc_RealTradingConfirmation = getEnv V ''BROKER_REAL_TRADING_CONFIRMATION'' ''''\<rparr>))))))"

definition BrokerConfig_Redacted :: "BrokerConfig \<Rightarrow> BrokerConfig" where
  "BrokerConfig_Redacted c = c\<lparr>bkc_BinanceAPIKey := mask (bkc_BinanceAPIKey c), bkc_BinanceAPISecret := mask (bkc_BinanceAPISecret c),
     bkc_RealTradingConfirmation := mask (bkc_RealTradingConfirmation c)\<rparr>"

record config_RiskConfig =
  rkc_PerTradePct :: decimal
  rkc_MaxDailyLossPct :: decimal
  rkc_MaxWeeklyLossPct :: decimal
  rkc_MaxDrawdownPct :: decimal
  rkc_MaxOpenPositions :: int
  rkc_MaxLeverage :: decimal
  rkc_MaxSignalAgeSeconds :: int
  rkc_MaxMarketDataAgeSeconds :: int
  rkc_MaxSlippagePct :: decimal

definition loadRiskConfig :: "decimal_ops \<Rightarrow> Environment \<Rightarrow> config_RiskConfig result" where
  "loadRiskConfig D V =
     rbind (getEnvDecimal D V ''RISK_PER_TRADE_PCT'' (3 / 100)) (\<lambda>perTrade.
     rbind (getEnvDecimal D V ''RISK_MAX_DAILY_LOSS_PCT'' (9 / 100)) (\<lambda>maxDailyLoss.
     rbind (getEnvDecimal D V ''RISK_MAX_WEEKLY_LOSS_PCT'' (15 / 100)) (\<lambda>maxWeeklyLoss.
     rbind (getEnvDecimal D V ''RISK_MAX_DRAWDOWN_PCT'' (25 / 100)) (\<lambda>maxDrawdown.
     rbind (getEnvInt V ''RISK_MAX_OPEN_POSITIONS'' 1) (\<lambda>maxOpenPositions.
     rbind (getEnvDecimal D V ''RISK_MAX_LEVERAGE'' 1) (\<lambda>maxLeverage.
     rbind (getEnvInt V ''RISK_MAX_SIGNAL_AGE_SECONDS'' 30) (\<lambda>maxSignalAge.
     rbind (getEnvInt V ''RISK_MAX_MARKET_DATA_AGE_SECONDS'' 10) (\<lambda>maxMarketDataAge.
     rbind (getEnvDecimal D V ''RISK_MAX_SLIPPAGE_PCT'' (30 / 100)) (\<lambda>maxSlippage.
     Inr \<lparr>rkc_PerTradePct = perTrade, rkc_MaxDailyLossPct = maxDailyLoss, rkc_MaxWeeklyLossPct = maxWeeklyLoss,
       rkc_MaxDrawdownPct = maxDrawdown, rkc_MaxOpenPositions = maxOpenPositions, rkc_MaxLeverage = maxLeverage,
       rkc_MaxSignalAgeSeconds = maxSignalAge, rkc_MaxMarketDataAgeSeconds = maxMarketDataAge, rkc_MaxSlippagePct = maxSlippage\<rparr>)))))))))"

record LLMConfig =
  llc_Provider :: string
  llc_GeminiAPIKey :: string
  llc_GeminiModel :: string
  llc_GeminiBaseURL :: string
  llc_RequestTimeout :: duration
  llc_MaxPayloadBytes :: int

definition loadLLMConfig :: "Environment \<Rightarrow> LLMConfig result" where
  "loadLLMConfig V =
     rbind (getEnvDuration V ''LLM_REQUEST_TIMEOUT'' (8 * Second)) (\<lambda>timeout.
     rbind (getEnvInt V ''LLM_MAX_PAYLOAD_BYTES'' (16 * 1024)) (\<lambda>maxPayload.
     Inr \<lparr>llc_Provider = getEnv V ''LLM_PROVIDER'' ''noop'', llc_GeminiAPIKey = getEnv V ''LLM_GEMINI_API_KEY'' '''',
       llc_GeminiModel = getEnv V ''LLM_GEMINI_MODEL'' ''gemini-2.5-flash'',
       llc_GeminiBaseURL = getEnv V ''LLM_GEMINI_BASE_URL'' ''https://generativelanguage.googleapis.com'',
       llc_RequestTimeout = timeout, llc_MaxPayloadBytes = maxPayload\<rparr>))"

record QuantConfig =
  qnc_Mode :: string
  qnc_GRPCTarget :: string
  qnc_Timeout :: duration

definition loadQuantConfig :: "Environment \<Rightarrow> QuantConfig result" where
  "loadQuantConfig V =
     rbind (getEnvDuration V ''QUANT_TIMEOUT'' (5 * Second)) (\<lambda>timeout.
     Inr \<lparr>qnc_Mode = getEnv V ''QUANT_MODE'' ''fake'', qnc_GRPCTarget = getEnv V ''QUANT_GRPC_TARGET'' ''localhost:50051'', qnc_Timeout = timeout\<rparr>)"

record ObservabilityConfig =
  obc_ServiceName :: string
  obc_Environment :: string
  obc_LogLevel :: string
  obc_LogFormat :: string
  obc_TracingEnabled :: bool
  obc_MetricsEnabled :: bool
  obc_MetricsPath :: string

definition loadObservabilityConfig :: "Environment \<Rightarrow> ObservabilityConfig result" where
  "loadObservabilityConfig V =
     rbind (getEnvBool V ''OBSERVABILITY_TRACING_ENABLED'' True) (\<lambda>tracingEnabled.
     rbind (getEnvBool V ''OBSERVABILITY_METRICS_ENABLED'' True) (\<lambda>metricsEnabled.
     Inr \<lparr>obc_ServiceName = getEnv V ''OBSERVABILITY_SERVICE_NAME'' ''trading-core'',
       obc_Environment = getEnv V ''OBSERVABILITY_ENVIRONMENT'' ''development'',
       obc_LogLevel = getEnv V ''OBSERVABILITY_LOG_LEVEL'' ''info'', obc_LogFormat = getEnv V ''OBSERVABILITY_LOG_FORMAT'' ''json'',
       obc_TracingEnabled = tracingEnabled, obc_MetricsEnabled = metricsEnabled,
       obc_MetricsPath = getEnv V ''OBSERVABILITY_METRICS_PATH'' ''/metrics''\<rparr>))"

record SecurityConfig =
  sec_JWTSigningSecret :: string
  sec_JWTIssuer :: string
  sec_JWTAccessTokenTTL :: duration
  sec_TelegramBotToken :: string
  sec_TelegramChatID :: string
  sec_AllowedNewsSources :: "string list"
  sec_MaxNewsPayloadBytes :: int

definition loadSecurityConfig :: "Environment \<Rightarrow> SecurityConfig result" where
  "loadSecurityConfig V =
     rbind (getEnvDuration V ''SECURITY_JWT_ACCESS_TOKEN_TTL'' Hour) (\<lambda>ttl.
     rbind (getEnvInt V ''SECURITY_MAX_NEWS_PAYLOAD_BYTES'' (8 * 1024)) (\<lambda>maxNewsPayload.
     Inr \<lparr>sec_JWTSigningSecret = getEnv V ''SECURITY_JWT_SIGNING_SECRET'' '''', sec_JWTIssuer = getEnv V ''SECURITY_JWT_ISSUER'' ''trading-core'',
       sec_JWTAccessTokenTTL = ttl, sec_TelegramBotToken = getEnv V ''SECURITY_TELEGRAM_BOT_TOKEN'' '''',
       sec_TelegramChatID = getEnv V ''SECURITY_TELEGRAM_CHAT_ID'' '''',
       sec_AllowedNewsSources = getEnvStringSlice V ''SECURITY_ALLOWED_NEWS_SOURCES'' [''reuters.com'', ''bloomberg.com'', ''coindesk.com'', ''theblock.co''],
       sec_MaxNewsPayloadBytes = maxNewsPayload\<rparr>))"

definition LLMConfig_Redacted :: "LLMConfig \<Rightarrow> LLMConfig" where
  "LLMConfig_Redacted c = c\<lparr>llc_GeminiAPIKey := mask (llc_GeminiAPIKey c)\<rparr>"

definition SecurityConfig_Redacted :: "SecurityConfig \<Rightarrow> SecurityConfig" where
  "SecurityConfig_Redacted c = c\<lparr>sec_JWTSigningSecret := mask (sec_JWTSigningSecret c), sec_TelegramBotToken := mask (sec_TelegramBotToken c)\<rparr>"

section \<open>Loading and validating\<close>

record Config =
  cfg_Server :: ServerConfig
  cfg_Database :: DatabaseConfig
  cfg_Broker :: BrokerConfig
  cfg_Risk :: config_RiskConfig
  cfg_LLM :: LLMConfig
  cfg_Quant :: QuantConfig
  cfg_Observability :: ObservabilityConfig
  cfg_Security :: SecurityConfig
  cfg_UsingInsecureDefaultJWTSecret :: bool

definition insecureDefaultJWTSecret :: string where
  "insecureDefaultJWTSecret = ''dev-only-insecure-default-secret-change-me-32chars''"

text \<open>The errors found so far; a check adds at most one.\<close>

definition complain :: "bool \<Rightarrow> string \<Rightarrow> error list" where
  "complain bad msg = (if bad then [ErrorText msg] else [])"

definition validatePercentage :: "decimal_ops \<Rightarrow> string \<Rightarrow> decimal \<Rightarrow> error list" where
  "validatePercentage D field v =
     complain (dLessThan D v 0 \<or> dGreaterThan D v 1) (field @ '' must be between 0 and 1, got '' @ dString D v)"

definition absolute_url :: "Environment \<Rightarrow> string \<Rightarrow> bool" where
  "absolute_url V raw = (case ev_urlParse V raw of Inl _ \<Rightarrow> False | Inr (scheme, host) \<Rightarrow> scheme \<noteq> '''' \<and> host \<noteq> '''')"

definition validateURL :: "Environment \<Rightarrow> string \<Rightarrow> string \<Rightarrow> error list" where
  "validateURL V field raw =
     (if raw = '''' then [ErrorText (field @ '' must not be empty'')]
      else complain (\<not> absolute_url V raw) (field @ '' must be a valid absolute URL, got '' @ quoted raw))"

definition server_errors :: "ServerConfig \<Rightarrow> error list" where
  "server_errors s =
     complain (srv_Port s < 1 \<or> srv_Port s > 65535) ''server.port must be between 1 and 65535'' @
     complain (srv_MaxRequestBodyBytes s \<le> 0) ''server.max_request_body_bytes must be positive'' @
     complain (srv_RateLimitRPS s \<le> 0) ''server.rate_limit_rps must be positive''"

definition database_errors :: "DatabaseConfig \<Rightarrow> error list" where
  "database_errors d =
     complain (dbc_Host d = '''') ''database.host must not be empty'' @
     complain (dbc_Name d = '''') ''database.name must not be empty'' @
     complain (dbc_MaxConns d < dbc_MinConns d \<or> dbc_MinConns d < 1) ''database.max_conns must be >= database.min_conns >= 1''"

definition broker_errors :: "decimal_ops \<Rightarrow> Environment \<Rightarrow> BrokerConfig \<Rightarrow> error list" where
  "broker_errors D V b =
     (if bkc_Mode b = ''PAPER'' then []
      else if bkc_Mode b = ''TESTNET'' \<or> bkc_Mode b = ''REAL'' then
        complain (bkc_BinanceAPIKey b = '''' \<or> bkc_BinanceAPISecret b = '''')
          (''broker.mode='' @ bkc_Mode b @ '' requires BROKER_BINANCE_API_KEY and BROKER_BINANCE_API_SECRET'') @
        (if bkc_Mode b = ''TESTNET'' then validateURL V ''broker.binance_testnet_url'' (bkc_BinanceTestnetURL b) else []) @
        (if bkc_Mode b = ''REAL'' then validateURL V ''broker.binance_real_url'' (bkc_BinanceRealURL b) else [])
      else [ErrorText (''broker.mode must be one of PAPER, TESTNET, REAL, got '' @ quoted (bkc_Mode b))]) @
     complain (bkc_Mode b = ''REAL'' \<and> (\<not> bkc_RealTradingEnabled b \<or> bkc_RealTradingConfirmation b = ''''))
       ''broker.mode=REAL requires BROKER_REAL_TRADING_ENABLED=true and a non-empty BROKER_REAL_TRADING_CONFIRMATION'' @
     complain (dLessThanOrEqual D (bkc_PaperStartingBalance b) 0) ''broker.paper_starting_balance must be positive''"

definition risk_errors :: "decimal_ops \<Rightarrow> config_RiskConfig \<Rightarrow> error list" where
  "risk_errors D r =
     validatePercentage D ''risk.per_trade_pct'' (rkc_PerTradePct r) @
     validatePercentage D ''risk.max_daily_loss_pct'' (rkc_MaxDailyLossPct r) @
     validatePercentage D ''risk.max_weekly_loss_pct'' (rkc_MaxWeeklyLossPct r) @
     validatePercentage D ''risk.max_drawdown_pct'' (rkc_MaxDrawdownPct r) @
     complain (rkc_MaxOpenPositions r < 1) ''risk.max_open_positions must be >= 1'' @
     complain (dLessThan D (rkc_MaxLeverage r) 1) ''risk.max_leverage must be >= 1'' @
     complain (rkc_MaxSignalAgeSeconds r \<le> 0) ''risk.max_signal_age_seconds must be positive'' @
     complain (rkc_MaxMarketDataAgeSeconds r \<le> 0) ''risk.max_market_data_age_seconds must be positive'' @
     complain (dLessThan D (rkc_MaxSlippagePct r) 0) ''risk.max_slippage_pct must not be negative''"

definition llm_errors :: "Environment \<Rightarrow> LLMConfig \<Rightarrow> error list" where
  "llm_errors V l =
     (if llc_Provider l = ''noop'' then []
      else if llc_Provider l = ''gemini'' then
        complain (llc_GeminiAPIKey l = '''') ''llm.provider=gemini requires LLM_GEMINI_API_KEY'' @
        validateURL V ''llm.gemini_base_url'' (llc_GeminiBaseURL l)
      else [ErrorText (''llm.provider must be one of noop, gemini, got '' @ quoted (llc_Provider l))]) @
     complain (llc_MaxPayloadBytes l \<le> 0) ''llm.max_payload_bytes must be positive''"

definition quant_errors :: "QuantConfig \<Rightarrow> error list" where
  "quant_errors q =
     (if qnc_Mode q = ''fake'' then []
      else if qnc_Mode q = ''grpc'' then complain (qnc_GRPCTarget q = '''') ''quant.mode=grpc requires QUANT_GRPC_TARGET''
      else [ErrorText (''quant.mode must be one of fake, grpc, got '' @ quoted (qnc_Mode q))])"

definition observability_errors :: "ObservabilityConfig \<Rightarrow> error list" where
  "observability_errors obs =
     complain (obc_LogLevel obs \<notin> set [''debug'', ''info'', ''warn'', ''error''])
       (''observability.log_level must be one of debug, info, warn, error, got '' @ quoted (obc_LogLevel obs)) @
     complain (obc_LogFormat obs \<notin> set [''json'', ''text''])
       (''observability.log_format must be one of json, text, got '' @ quoted (obc_LogFormat obs))"

definition Validate :: "decimal_ops \<Rightarrow> Environment \<Rightarrow> Config \<Rightarrow> unit result" where
  "Validate D V c = errors_Join
     (server_errors (cfg_Server c) @ database_errors (cfg_Database c) @ broker_errors D V (cfg_Broker c) @ risk_errors D (cfg_Risk c) @
      llm_errors V (cfg_LLM c) @ quant_errors (cfg_Quant c) @ observability_errors (cfg_Observability c) @
      complain (length (sec_JWTSigningSecret (cfg_Security c)) < 32) ''security.jwt_signing_secret must be at least 32 characters'')"

definition Load :: "decimal_ops \<Rightarrow> Environment \<Rightarrow> Config result" where
  "Load D V =
     rbind (loadServerConfig D V) (\<lambda>server.
     rbind (loadDatabaseConfig V) (\<lambda>database.
     rbind (loadBrokerConfig D V) (\<lambda>broker.
     rbind (loadRiskConfig D V) (\<lambda>risk.
     rbind (loadLLMConfig V) (\<lambda>llm.
     rbind (loadQuantConfig V) (\<lambda>quant.
     rbind (loadObservabilityConfig V) (\<lambda>observability.
     rbind (loadSecurityConfig V) (\<lambda>security.
     let usingDefault = (sec_JWTSigningSecret security = '''');
         security = (if usingDefault then security\<lparr>sec_JWTSigningSecret := insecureDefaultJWTSecret\<rparr> else security);
         cfg = \<lparr>cfg_Server = server, cfg_Database = database, cfg_Broker = broker, cfg_Risk = risk, cfg_LLM = llm, cfg_Quant = quant,
           cfg_Observability = observability, cfg_Security = security, cfg_UsingInsecureDefaultJWTSecret = usingDefault\<rparr> in
     rbind (Validate D V cfg) (\<lambda>_. Inr cfg)))))))))"

section \<open>Factories\<close>

datatype 'x provided_broker = PaperProvided PaperBroker | BinanceProvided "'x BinanceBroker"

definition provideBroker :: "Config \<Rightarrow> 'x \<Rightarrow> 'x provided_broker result" where
  "provideBroker cfg x = (let b = cfg_Broker cfg in
     if bkc_Mode b = ''PAPER''
     then Inr (PaperProvided (NewBroker (bkc_PaperStartingBalance b) (bkc_PaperFeePct b) (bkc_PaperSlippagePct b)))
     else if bkc_Mode b = ''TESTNET''
     then Inr (BinanceProvided (testnet_NewBroker (bkc_BinanceTestnetURL b) (bkc_BinanceAPIKey b) (bkc_BinanceAPISecret b)
       (bkc_BinanceRecvWindowMs b) (bkc_BinanceRequestTimeout b) x))
     else if bkc_Mode b = ''REAL''
     then rbind (real_NewBroker (bkc_BinanceRealURL b) (bkc_BinanceAPIKey b) (bkc_BinanceAPISecret b) (bkc_BinanceRecvWindowMs b)
       (bkc_BinanceRequestTimeout b) (bkc_RealTradingEnabled b) (bkc_RealTradingConfirmation b) x) (\<lambda>broker. Inr (BinanceProvided broker))
     else Inl (ErrorText (''unknown broker.mode '' @ quoted (bkc_Mode b))))"

definition provideQuantEngine :: "Config \<Rightarrow> Engine result" where
  "provideQuantEngine cfg = (if qnc_Mode (cfg_Quant cfg) = ''fake'' then Inr NewEngine
     else Inl (ErrorText (''quant.mode '' @ quoted (qnc_Mode (cfg_Quant cfg)) @ '' is not implemented in this delivery; use '' @ quoted ''fake'' @
       '' (see internal/contracts/grpc/quant)'')))"

text \<open>The client of the language model, with what it is constructed with.\<close>

datatype provided_intelligence = NoopIntelligence | GeminiIntelligence string string string duration int

definition provideEventIntelligence :: "Config \<Rightarrow> provided_intelligence result" where
  "provideEventIntelligence cfg = (let l = cfg_LLM cfg in
     if llc_Provider l = ''noop'' then Inr NoopIntelligence
     else if llc_Provider l = ''gemini''
     then Inr (GeminiIntelligence (llc_GeminiBaseURL l) (llc_GeminiAPIKey l) (llc_GeminiModel l) (llc_RequestTimeout l) (llc_MaxPayloadBytes l))
     else Inl (ErrorText (''unknown llm.provider '' @ quoted (llc_Provider l))))"

text \<open>\<^verbatim>\<open>time.Duration(s) * time.Second\<close>, a product of 64-bit integers.\<close>

definition seconds :: "int \<Rightarrow> duration" where
  "seconds s = sint (word_of_int s * word_of_int Second :: 64 word)"

definition provideRiskThresholds :: "decimal_ops \<Rightarrow> Config \<Rightarrow> Thresholds result" where
  "provideRiskThresholds D cfg = (let r = cfg_Risk cfg in
     rbind (NewPercentage D (rkc_PerTradePct r)) (\<lambda>perTrade.
     rbind (NewPercentage D (rkc_MaxDailyLossPct r)) (\<lambda>maxDailyLoss.
     rbind (NewPercentage D (rkc_MaxWeeklyLossPct r)) (\<lambda>maxWeeklyLoss.
     rbind (NewDrawdown D (rkc_MaxDrawdownPct r)) (\<lambda>maxDrawdown.
     rbind (NewLeverage D (rkc_MaxLeverage r)) (\<lambda>maxLeverage.
     rbind (NewSlippage D (rkc_MaxSlippagePct r)) (\<lambda>maxSlippage.
     Inr \<lparr>th_PerTradePct = perTrade, th_MaxDailyLossPct = maxDailyLoss, th_MaxWeeklyLossPct = maxWeeklyLoss, th_MaxDrawdown = maxDrawdown,
       th_MaxOpenPositions = rkc_MaxOpenPositions r, th_MaxLeverage = maxLeverage, th_MaxSignalAge = seconds (rkc_MaxSignalAgeSeconds r),
       th_MaxMarketDataAge = seconds (rkc_MaxMarketDataAgeSeconds r), th_MaxSlippage = maxSlippage\<rparr>)))))))"

definition provideSymbolTradingRules :: "decimal_ops \<Rightarrow> SymbolTradingRules result" where
  "provideSymbolTradingRules D = rbind (MustNewQuantity D (1 / 1000)) (\<lambda>minQuantity.
     Inr \<lparr>str_MinQuantity = minQuantity, str_StepSize = 1 / 1000, str_MinNotional = NewMoney 5\<rparr>)"

definition provideEvaluateMarketSignal :: "(nat \<Rightarrow> QuantInput \<Rightarrow> QuantSignal result) \<Rightarrow> (time \<Rightarrow> string) \<Rightarrow> Config \<Rightarrow> SignalConfig" where
  "provideEvaluateMarketSignal quant timeText cfg = \<lparr>sg_engine = quant, sg_maxCandleAge = seconds (rkc_MaxMarketDataAgeSeconds (cfg_Risk cfg)),
     sg_signalValidity = seconds (rkc_MaxSignalAgeSeconds (cfg_Risk cfg)), sg_timeText = timeText\<rparr>"

definition provideEvaluateRisk :: "CompositeRiskPolicy \<Rightarrow> (SizingInput \<Rightarrow> SizingResult) \<Rightarrow> Thresholds \<Rightarrow> SymbolTradingRules \<Rightarrow> RiskConfig" where
  "provideEvaluateRisk policy sizer thresholds rules = \<lparr>rk_policy = policy, rk_sizer = sizer, rk_thresholds = thresholds, rk_rules = rules\<rparr>"

definition provideRiskPolicy :: "decimal_ops \<Rightarrow> CompositeRiskPolicy" where
  "provideRiskPolicy D = NewDefaultRiskPolicy D"

definition providePositionSizer :: "decimal_ops \<Rightarrow> SizingInput \<Rightarrow> SizingResult" where
  "providePositionSizer D = FixedRisk_Size D"

definition reconcile_tolerance :: decimal where
  "reconcile_tolerance = 5 / 1000"

definition provideProcessMarketEvent :: "(nat \<Rightarrow> NewsAnalysisInput \<Rightarrow> EventAssessment result) \<Rightarrow> (duration \<Rightarrow> string) \<Rightarrow> Environment \<Rightarrow> Config \<Rightarrow> NewsConfig" where
  "provideProcessMarketEvent intelligence durationText V cfg = \<lparr>nw_intelligence = intelligence,
     nw_allowedSources = sec_AllowedNewsSources (cfg_Security cfg), nw_maxContentBytes = sec_MaxNewsPayloadBytes (cfg_Security cfg),
     nw_maxNewsAge = 48 * Hour, nw_urlParse = ev_urlParse V, nw_durationText = durationText\<rparr>"

text \<open>The wiring of the risk evaluation: policy, sizer, thresholds and rules as the application injects them.\<close>

definition wired_risk :: "decimal_ops \<Rightarrow> Config \<Rightarrow> RiskConfig result" where
  "wired_risk D cfg = rbind (provideRiskThresholds D cfg) (\<lambda>thresholds. rbind (provideSymbolTradingRules D) (\<lambda>rules.
     Inr (provideEvaluateRisk (provideRiskPolicy D) (providePositionSizer D) thresholds rules)))"

section \<open>What a valid configuration is\<close>

definition url_ok :: "Environment \<Rightarrow> string \<Rightarrow> bool" where
  "url_ok V raw \<longleftrightarrow> raw \<noteq> '''' \<and> absolute_url V raw"

definition broker_ok :: "Environment \<Rightarrow> BrokerConfig \<Rightarrow> bool" where
  "broker_ok V b \<longleftrightarrow> 0 < bkc_PaperStartingBalance b \<and>
     (bkc_Mode b = ''PAPER'' \<or>
      bkc_BinanceAPIKey b \<noteq> '''' \<and> bkc_BinanceAPISecret b \<noteq> '''' \<and>
        (bkc_Mode b = ''TESTNET'' \<and> url_ok V (bkc_BinanceTestnetURL b) \<or>
         bkc_Mode b = ''REAL'' \<and> url_ok V (bkc_BinanceRealURL b) \<and> bkc_RealTradingEnabled b \<and> bkc_RealTradingConfirmation b \<noteq> ''''))"

definition risk_ok :: "config_RiskConfig \<Rightarrow> bool" where
  "risk_ok r \<longleftrightarrow> 0 \<le> rkc_PerTradePct r \<and> rkc_PerTradePct r \<le> 1 \<and> 0 \<le> rkc_MaxDailyLossPct r \<and> rkc_MaxDailyLossPct r \<le> 1 \<and>
     0 \<le> rkc_MaxWeeklyLossPct r \<and> rkc_MaxWeeklyLossPct r \<le> 1 \<and> 0 \<le> rkc_MaxDrawdownPct r \<and> rkc_MaxDrawdownPct r \<le> 1 \<and>
     1 \<le> rkc_MaxOpenPositions r \<and> 1 \<le> rkc_MaxLeverage r \<and> 0 < rkc_MaxSignalAgeSeconds r \<and> 0 < rkc_MaxMarketDataAgeSeconds r \<and>
     0 \<le> rkc_MaxSlippagePct r"

definition config_ok :: "Environment \<Rightarrow> Config \<Rightarrow> bool" where
  "config_ok V c \<longleftrightarrow>
     (let s = cfg_Server c in 1 \<le> srv_Port s \<and> srv_Port s \<le> 65535 \<and> 0 < srv_MaxRequestBodyBytes s \<and> 0 < srv_RateLimitRPS s) \<and>
     (let d = cfg_Database c in dbc_Host d \<noteq> '''' \<and> dbc_Name d \<noteq> '''' \<and> 1 \<le> dbc_MinConns d \<and> dbc_MinConns d \<le> dbc_MaxConns d) \<and>
     broker_ok V (cfg_Broker c) \<and> risk_ok (cfg_Risk c) \<and>
     (let l = cfg_LLM c in 0 < llc_MaxPayloadBytes l \<and>
       (llc_Provider l = ''noop'' \<or> llc_Provider l = ''gemini'' \<and> llc_GeminiAPIKey l \<noteq> '''' \<and> url_ok V (llc_GeminiBaseURL l))) \<and>
     (let q = cfg_Quant c in qnc_Mode q = ''fake'' \<or> qnc_Mode q = ''grpc'' \<and> qnc_GRPCTarget q \<noteq> '''') \<and>
     (let obs = cfg_Observability c in obc_LogLevel obs \<in> {''debug'', ''info'', ''warn'', ''error''} \<and> obc_LogFormat obs \<in> {''json'', ''text''}) \<and>
     32 \<le> length (sec_JWTSigningSecret (cfg_Security c))"

lemma complain_nil [simp]: "complain bad msg = [] \<longleftrightarrow> \<not> bad"
  by (simp add: complain_def)

lemma validateURL_nil [simp]: "validateURL V field raw = [] \<longleftrightarrow> url_ok V raw"
  by (simp add: validateURL_def url_ok_def)

lemma errors_Join_nil [simp]: "errors_Join es = Inr () \<longleftrightarrow> es = []"
  by (simp add: errors_Join_def)

lemma broker_errors_nil:
  assumes "decimal_lib D"
  shows "broker_errors D V b = [] \<longleftrightarrow> broker_ok V b"
proof -
  consider "bkc_Mode b = ''PAPER''" | "bkc_Mode b = ''TESTNET''" | "bkc_Mode b = ''REAL''"
    | "bkc_Mode b \<notin> {''PAPER'', ''TESTNET'', ''REAL''}" by blast
  then show ?thesis using assms by cases (auto simp: broker_errors_def broker_ok_def not_le)
qed

lemma risk_errors_nil:
  assumes "decimal_lib D"
  shows "risk_errors D r = [] \<longleftrightarrow> risk_ok r"
  using assms by (auto simp: risk_errors_def risk_ok_def validatePercentage_def not_less not_le)

lemma section_errors_nil:
  "server_errors s = [] \<longleftrightarrow> 1 \<le> srv_Port s \<and> srv_Port s \<le> 65535 \<and> 0 < srv_MaxRequestBodyBytes s \<and> 0 < srv_RateLimitRPS s"
  "database_errors d = [] \<longleftrightarrow> dbc_Host d \<noteq> '''' \<and> dbc_Name d \<noteq> '''' \<and> 1 \<le> dbc_MinConns d \<and> dbc_MinConns d \<le> dbc_MaxConns d"
  "llm_errors V l = [] \<longleftrightarrow> 0 < llc_MaxPayloadBytes l \<and>
     (llc_Provider l = ''noop'' \<or> llc_Provider l = ''gemini'' \<and> llc_GeminiAPIKey l \<noteq> '''' \<and> url_ok V (llc_GeminiBaseURL l))"
  "quant_errors q = [] \<longleftrightarrow> qnc_Mode q = ''fake'' \<or> qnc_Mode q = ''grpc'' \<and> qnc_GRPCTarget q \<noteq> ''''"
  "observability_errors obs = [] \<longleftrightarrow> obc_LogLevel obs \<in> {''debug'', ''info'', ''warn'', ''error''} \<and> obc_LogFormat obs \<in> {''json'', ''text''}"
  by (auto simp: server_errors_def database_errors_def llm_errors_def quant_errors_def observability_errors_def not_less not_le)

lemma Validate_ok:
  assumes "decimal_lib D"
  shows "Validate D V c = Inr () \<longleftrightarrow> config_ok V c"
  by (simp add: Validate_def config_ok_def section_errors_nil broker_errors_nil [OF assms] risk_errors_nil [OF assms] not_less Let_def conj_ac)

text \<open>
  C16: The validation accepts exactly the configurations in which every section is well formed: a
  real port, a sane connection pool, fractions where fractions are meant, positive ages, leverage of
  at least one, known modes and providers with the credentials they need, for REAL trading the flag
  and a confirmation as well, and a signing secret of at least 32 bytes. What it refuses, it refuses
  with an error.
\<close>

theorem validation_is_config_ok:
  assumes "decimal_lib D"
  shows "(Validate D V c = Inr () \<longleftrightarrow> config_ok V c) \<and> (\<not> config_ok V c \<longrightarrow> (\<exists>msg. Validate D V c = Inl (ErrorText msg)))"
  using Validate_ok [OF assms, of V c] by (auto simp: Validate_def errors_Join_def split: if_splits)

section \<open>What a loaded configuration gives the application\<close>

lemma seconds_exact:
  assumes "0 \<le> s" "s \<le> 9223372036"
  shows "seconds s = s * Second"
proof -
  have "s * Second \<le> 9223372036 * Second" using assms(2) by (simp add: Second_def)
  then have "s * Second < 2 ^ 63" by (simp add: Second_def)
  moreover have "- (2 ^ 63) \<le> s * Second" using assms(1) by (simp add: Second_def)
  moreover have "seconds s = signed_take_bit 63 (s * Second)"
    by (simp add: seconds_def sint_sbintrunc' flip: of_int_mult)
  ultimately show ?thesis by (simp add: signed_take_bit_int_eq_self)
qed

text \<open>One second more, which the validation accepts, and the product is negative.\<close>

lemma seconds_wraps: "seconds 9223372037 < 0"
proof -
  have "seconds 9223372037 = signed_take_bit 63 (9223372037000000000 :: int)"
    unfolding seconds_def Second_def by (simp add: sint_sbintrunc' flip: of_int_mult)
  also have "\<dots> < 0" by code_simp
  finally show ?thesis .
qed

lemma Load_Inr: "Load D V = Inr c \<Longrightarrow> Validate D V c = Inr ()"
  by (auto simp: Load_def rbind_Inr_iff Let_def)

definition thresholds_of :: "config_RiskConfig \<Rightarrow> Thresholds" where
  "thresholds_of r = \<lparr>th_PerTradePct = Percentage (rkc_PerTradePct r), th_MaxDailyLossPct = Percentage (rkc_MaxDailyLossPct r),
     th_MaxWeeklyLossPct = Percentage (rkc_MaxWeeklyLossPct r), th_MaxDrawdown = Drawdown (rkc_MaxDrawdownPct r),
     th_MaxOpenPositions = rkc_MaxOpenPositions r, th_MaxLeverage = Leverage (rkc_MaxLeverage r),
     th_MaxSignalAge = seconds (rkc_MaxSignalAgeSeconds r), th_MaxMarketDataAge = seconds (rkc_MaxMarketDataAgeSeconds r),
     th_MaxSlippage = Slippage (rkc_MaxSlippagePct r)\<rparr>"

lemma provideRiskThresholds_ok:
  assumes "decimal_lib D" "risk_ok (cfg_Risk c)"
  shows "provideRiskThresholds D c = Inr (thresholds_of (cfg_Risk c))"
  using assms by (simp add: provideRiskThresholds_def risk_ok_def NewPercentage_def NewDrawdown_def NewLeverage_def NewSlippage_def
      thresholds_of_def Let_def not_less)

lemma wired_risk_ok:
  assumes "decimal_lib D" "risk_ok (cfg_Risk c)"
  shows "\<exists>rc. wired_risk D c = Inr rc \<and> rk_thresholds rc = thresholds_of (cfg_Risk c) \<and> (en_D E = D \<longrightarrow> default_config E rc)"
  using assms by (simp add: wired_risk_def provideRiskThresholds_ok provideSymbolTradingRules_def MustNewQuantity_def NewQuantity_def
      provideEvaluateRisk_def provideRiskPolicy_def providePositionSizer_def default_config_def)

lemma provideBroker_ok:
  assumes "broker_ok V (cfg_Broker c)"
  shows "\<exists>b. provideBroker c x = Inr b \<and> (case b of PaperProvided p \<Rightarrow> bkc_Mode (cfg_Broker c) = ''PAPER''
    | BinanceProvided bb \<Rightarrow> cl_apiKey (bb_client bb) \<noteq> '''' \<and> cl_apiSecret (bb_client bb) \<noteq> '''' \<and>
        (cl_baseURL (bb_client bb) = TrimRight_slash (bkc_BinanceTestnetURL (cfg_Broker c)) \<or>
         bkc_RealTradingEnabled (cfg_Broker c) \<and> bkc_RealTradingConfirmation (cfg_Broker c) \<noteq> ''''))"
  using assms by (auto simp: broker_ok_def provideBroker_def testnet_NewBroker_def real_NewBroker_def binance_NewBroker_def NewClient_def Let_def)

text \<open>
  C17: A configuration that loads is safe to run with. It is valid; the risk thresholds and the broker
  can be built from it; the risk evaluation that is wired from it is the one the trading theorems
  are about, with every fraction within 0 and 1, leverage at least 1 and at least one position; its
  ages are the configured seconds, exactly and positive, as long as they fit in a duration (292 years);
  a broker that reaches Binance has credentials, and one that is not the testnet needs the flag and
  the confirmation of real trading.
\<close>

theorem loaded_configuration_is_safe:
  assumes "decimal_lib D" "Load D V = Inr c" "en_D E = D"
  shows "config_ok V c \<and>
    (\<exists>rc. wired_risk D c = Inr rc \<and> default_config E rc \<and> rk_thresholds rc = thresholds_of (cfg_Risk c) \<and>
      0 \<le> rkc_PerTradePct (cfg_Risk c) \<and> rkc_PerTradePct (cfg_Risk c) \<le> 1 \<and> 1 \<le> Leverage_Decimal (th_MaxLeverage (rk_thresholds rc)) \<and>
      1 \<le> th_MaxOpenPositions (rk_thresholds rc) \<and>
      (rkc_MaxSignalAgeSeconds (cfg_Risk c) \<le> 9223372036 \<longrightarrow>
         th_MaxSignalAge (rk_thresholds rc) = rkc_MaxSignalAgeSeconds (cfg_Risk c) * Second \<and> 0 < th_MaxSignalAge (rk_thresholds rc)) \<and>
      (rkc_MaxMarketDataAgeSeconds (cfg_Risk c) \<le> 9223372036 \<longrightarrow>
         th_MaxMarketDataAge (rk_thresholds rc) = rkc_MaxMarketDataAgeSeconds (cfg_Risk c) * Second \<and> 0 < th_MaxMarketDataAge (rk_thresholds rc))) \<and>
    (\<exists>b. provideBroker c x = Inr b \<and> (case b of PaperProvided p \<Rightarrow> bkc_Mode (cfg_Broker c) = ''PAPER''
      | BinanceProvided bb \<Rightarrow> cl_apiKey (bb_client bb) \<noteq> '''' \<and> cl_apiSecret (bb_client bb) \<noteq> '''' \<and>
          (cl_baseURL (bb_client bb) = TrimRight_slash (bkc_BinanceTestnetURL (cfg_Broker c)) \<or>
           bkc_RealTradingEnabled (cfg_Broker c) \<and> bkc_RealTradingConfirmation (cfg_Broker c) \<noteq> '''')))"
proof -
  have ok: "config_ok V c" using Load_Inr [OF assms(2)] Validate_ok [OF assms(1)] by blast
  then have r: "risk_ok (cfg_Risk c)" and b: "broker_ok V (cfg_Broker c)" by (simp_all add: config_ok_def)
  obtain rc where rc: "wired_risk D c = Inr rc" "rk_thresholds rc = thresholds_of (cfg_Risk c)" "default_config E rc"
    using wired_risk_ok [OF assms(1) r, of E] assms(3) by blast
  have pos: "0 < Second" by (simp add: Second_def)
  show ?thesis
    using ok rc provideBroker_ok [OF b] r seconds_exact [of "rkc_MaxSignalAgeSeconds (cfg_Risk c)"]
      seconds_exact [of "rkc_MaxMarketDataAgeSeconds (cfg_Risk c)"]
    by (simp add: thresholds_of_def risk_ok_def pos)
qed

section \<open>The defaults\<close>

text \<open>An environment in which nothing is set, as far as this program is concerned.\<close>

lemma unset_readers:
  assumes "\<And>k. ev_lookup V k = None"
  shows "getEnv V k s = s" "getEnvInt V k n = Inr n" "getEnvBool V k b = Inr b" "getEnvDuration V k d = Inr d" "getEnvDecimal D V k q = Inr q"
    "getEnvStringSlice V k ss = ss"
  using assms by (simp_all add: getEnv_def getEnvInt_def getEnvBool_def getEnvDuration_def getEnvDecimal_def getEnvStringSlice_def parsedEnv_def lookupEnv_def)

definition empty_env :: Environment where
  "empty_env = \<lparr>ev_lookup = (\<lambda>_. None), ev_duration = (\<lambda>_. Inl (ErrorText ''time: invalid duration'')),
     ev_urlParse = (\<lambda>_. Inl (ErrorText ''parse'')), ev_float = (\<lambda>d. d)\<rparr>"

lemma default_secret_length: "length insecureDefaultJWTSecret = 50"
  by (simp add: insecureDefaultJWTSecret_def)

lemma defaults_load:
  assumes "decimal_lib D" "\<And>k. ev_lookup V k = None" "0 < ev_float V 20"
  shows "\<exists>c. Load D V = Inr c \<and> bkc_Mode (cfg_Broker c) = ''PAPER'' \<and> bkc_PaperStartingBalance (cfg_Broker c) = 10000 \<and>
    bkc_PaperFeePct (cfg_Broker c) = 4 / 10000 \<and> bkc_PaperSlippagePct (cfg_Broker c) = 5 / 10000 \<and> Inr (cfg_Risk c) = loadRiskConfig D V \<and>
    llc_Provider (cfg_LLM c) = ''noop'' \<and> qnc_Mode (cfg_Quant c) = ''fake'' \<and> cfg_UsingInsecureDefaultJWTSecret c"
proof -
  have "int32 10 = 10" "int32 2 = 2" by (simp_all add: int32_def sint_sbintrunc' signed_take_bit_int_eq_self)
  then obtain c where c: "rbind (Validate D V c) (\<lambda>_. Inr c) = Load D V"
    and f: "cfg_Server c = \<lparr>srv_Host = ''0.0.0.0'', srv_Port = 8080, srv_ReadTimeout = 10 * Second, srv_WriteTimeout = 10 * Second,
        srv_IdleTimeout = 60 * Second, srv_RequestTimeout = 15 * Second, srv_ShutdownTimeout = 15 * Second, srv_MaxRequestBodyBytes = 2 ^ 20,
        srv_CORSAllowedOrigins = [''http://localhost:3000''], srv_RateLimitRPS = ev_float V 20, srv_RateLimitBurst = 40\<rparr>"
      "dbc_Host (cfg_Database c) = ''localhost''" "dbc_Name (cfg_Database c) = ''trading_core''" "dbc_MaxConns (cfg_Database c) = 10"
      "dbc_MinConns (cfg_Database c) = 2" "bkc_Mode (cfg_Broker c) = ''PAPER''" "bkc_PaperStartingBalance (cfg_Broker c) = 10000"
      "bkc_PaperFeePct (cfg_Broker c) = 4 / 10000" "bkc_PaperSlippagePct (cfg_Broker c) = 5 / 10000"
      "Inr (cfg_Risk c) = loadRiskConfig D V" "llc_Provider (cfg_LLM c) = ''noop''" "llc_MaxPayloadBytes (cfg_LLM c) = 16 * 1024"
      "qnc_Mode (cfg_Quant c) = ''fake''" "obc_LogLevel (cfg_Observability c) = ''info''" "obc_LogFormat (cfg_Observability c) = ''json''"
      "sec_JWTSigningSecret (cfg_Security c) = insecureDefaultJWTSecret" "cfg_UsingInsecureDefaultJWTSecret c"
    by (simp add: Load_def loadServerConfig_def loadDatabaseConfig_def loadBrokerConfig_def loadRiskConfig_def loadLLMConfig_def
        loadQuantConfig_def loadObservabilityConfig_def loadSecurityConfig_def unset_readers [OF assms(2)] Let_def)
  note r = f(10) [unfolded loadRiskConfig_def, simplified unset_readers [OF assms(2)], simplified]
  have "config_ok V c"
    using f r assms(3) by (simp add: config_ok_def broker_ok_def risk_ok_def default_secret_length Let_def)
  then have "Load D V = Inr c" using c Validate_ok [OF assms(1), of V c] by simp
  with f show ?thesis by blast
qed

text \<open>
  Without any setting the program starts, and starts on the simulator: the configuration loads,
  trades on paper with the default risk limits, the fake engine and no language model, and says that it
  runs with the built-in signing secret.
\<close>

theorem defaults_are_paper:
  assumes "decimal_lib D" "\<And>k. ev_lookup V k = None" "0 < ev_float V 20"
  shows "\<exists>c. Load D V = Inr c \<and> provideBroker c x = Inr (PaperProvided (NewBroker 10000 (4 / 10000) (5 / 10000))) \<and>
    provideQuantEngine c = Inr NewEngine \<and> provideEventIntelligence c = Inr NoopIntelligence \<and> cfg_UsingInsecureDefaultJWTSecret c \<and>
    rkc_PerTradePct (cfg_Risk c) = 3 / 100 \<and> rkc_MaxOpenPositions (cfg_Risk c) = 1 \<and> rkc_MaxLeverage (cfg_Risk c) = 1"
proof -
  obtain c where c: "Load D V = Inr c" "bkc_Mode (cfg_Broker c) = ''PAPER''" "bkc_PaperStartingBalance (cfg_Broker c) = 10000"
    "bkc_PaperFeePct (cfg_Broker c) = 4 / 10000" "bkc_PaperSlippagePct (cfg_Broker c) = 5 / 10000" "Inr (cfg_Risk c) = loadRiskConfig D V"
    "llc_Provider (cfg_LLM c) = ''noop''" "qnc_Mode (cfg_Quant c) = ''fake''" "cfg_UsingInsecureDefaultJWTSecret c"
    using defaults_load [OF assms] by blast
  note r = c(6) [unfolded loadRiskConfig_def, simplified unset_readers [OF assms(2)], simplified]
  show ?thesis using c(1,9) by (simp add: provideBroker_def provideQuantEngine_def provideEventIntelligence_def Let_def c(2-5,7,8) r)
qed

lemma empty_env_unset: "ev_lookup empty_env k = None" "0 < ev_float empty_env 20"
  by (simp_all add: empty_env_def)

theorem defaults_are_paper_witness:
  "\<exists>c. Load ref_decimal empty_env = Inr c \<and> provideBroker c () = Inr (PaperProvided (NewBroker 10000 (4 / 10000) (5 / 10000)))"
  using defaults_are_paper [OF decimal_lib_ref empty_env_unset, of "()"] by (elim exE conjE) (intro exI conjI)

theorem validation_is_config_ok_witness: "\<exists>c. Load ref_decimal empty_env = Inr c \<and> config_ok empty_env c"
proof -
  obtain c where c: "Load ref_decimal empty_env = Inr c" using defaults_load [OF decimal_lib_ref empty_env_unset] by blast
  with validation_is_config_ok [OF decimal_lib_ref, of empty_env c] Load_Inr [OF c] show ?thesis by blast
qed

theorem loaded_configuration_is_safe_witness:
  "\<exists>c rc. Load ref_decimal empty_env = Inr c \<and> wired_risk ref_decimal c = Inr rc \<and> default_config quiet_env rc \<and>
     th_MaxSignalAge (rk_thresholds rc) = 30 * Second"
proof -
  obtain c where c: "Load ref_decimal empty_env = Inr c" "Inr (cfg_Risk c) = loadRiskConfig ref_decimal empty_env"
    using defaults_load [OF decimal_lib_ref empty_env_unset] by blast
  have "rkc_MaxSignalAgeSeconds (cfg_Risk c) = 30"
    using c(2) [unfolded loadRiskConfig_def, simplified unset_readers [OF empty_env_unset(1)], simplified] by simp
  then show ?thesis
    using loaded_configuration_is_safe [OF decimal_lib_ref c(1), of quiet_env "()"] c(1) by (auto simp: quiet_env_def)
qed

end
