(* ===== verification/Http_Api.thy ===== *)
theory Http_Api
  imports Read_Models Configuration
begin

text \<open>
  The HTTP interface, \<^verbatim>\<open>internal/interfaces/http\<close>: the middleware chain with its authentication and role
  check, the router, the handlers and the presenter. The JWT library, the JSON decoder, the token
  bucket of the rate limiter and the path matching of the router package are parameters or, for the
  routes, their documented meaning. Shown: what a request can change and who must have signed it,
  that REAL mode is out of its reach, and what its status code says.
\<close>

section \<open>Requests, responses, handlers\<close>

record Claims =
  clm_Subject :: string
  clm_Roles :: "string list"

record http_req =
  hr_Method :: string
  hr_Path :: string
  hr_Authorization :: string
  hr_RequestIDHeader :: string
  hr_Limit :: string
  hr_Body :: string
  hr_ctxRequestID :: string
  hr_ctxClaims :: "Claims option"

datatype http_body =
    NoBody
  | ErrorBody string string string
  | StatusBody string
  | NotReadyBody string
  | NotImplementedBody
  | DashboardBody DashboardDTO
  | AccountBody AccountDTO
  | PositionsBody "PositionDTO list"
  | OrdersBody "OrderDTO list"
  | OrderBody OrderDTO
  | SignalsBody "SignalDTO list"
  | DecisionsBody "RiskDecisionDTO list"
  | EventsBody "MarketEventDTO list"
  | IncidentsBody "IncidentDTO list"
  | ForeignBody

record http_resp =
  rs_Status :: int
  rs_Body :: http_body

type_synonym 'b http_handler = "http_req \<Rightarrow> ('b, http_resp) usecase"

definition JSON :: "int \<Rightarrow> http_body \<Rightarrow> ('b, http_resp) usecase" where
  "JSON status body = uret \<lparr>rs_Status = status, rs_Body = body\<rparr>"

section \<open>The presenter\<close>

text \<open>\<^verbatim>\<open>errors.As\<close> for the two error types of the domain.\<close>

fun is_validation :: "error \<Rightarrow> bool" where
  "is_validation (ValidationError f m) = True"
| "is_validation (WrapPrefix c e) = is_validation e"
| "is_validation (WrapSuffix e c) = is_validation e"
| "is_validation e = False"

fun is_conflict :: "error \<Rightarrow> bool" where
  "is_conflict (ConflictError f a b) = True"
| "is_conflict (WrapPrefix c e) = is_conflict e"
| "is_conflict (WrapSuffix e c) = is_conflict e"
| "is_conflict e = False"

definition classify :: "error \<Rightarrow> int \<times> string" where
  "classify err =
     (if errors_Is err ErrNotFound then (404, ''NOT_FOUND'')
      else if errors_Is err ErrOptimisticLock then (409, ''VERSION_CONFLICT'')
      else if errors_Is err ErrOperationalModeBlocked then (400, ''INVALID_OPERATION_MODE'')
      else if errors_Is err ErrDuplicateExecution then (409, ''DUPLICATE_EXECUTION'')
      else if errors_Is err ErrStaleMarketData then (400, ''STALE_MARKET_DATA'')
      else if errors_Is err ErrBrokerOrderStateUnknown then (409, ''BROKER_ORDER_STATE_UNKNOWN'')
      else if is_validation err then (400, ''VALIDATION_ERROR'')
      else if is_conflict err then (409, ''INVALID_STATE_TRANSITION'')
      else (500, ''INTERNAL_ERROR''))"

definition presenter_Error :: "http_req \<Rightarrow> error \<Rightarrow> ('b, http_resp) usecase" where
  "presenter_Error r err = (case classify err of (status, code) \<Rightarrow> JSON status (ErrorBody code (error_string err) (hr_ctxRequestID r)))"

section \<open>Handlers\<close>

text \<open>
  What the handlers are built with: the signing secret, the home mode, the starting balance and the
  reset of the broker; a token that the JWT library accepts with HS256 gives its claims \<^verbatim>\<open>sub\<close> and
  \<^verbatim>\<open>roles\<close>; what the JSON decoder leaves in the body structs; whether the rate limiter lets a request
  pass; the readiness check of the database; whether the metrics and the WebSocket endpoint are there.
\<close>

datatype json_value = JString string | JArray "json_value list" | JOther

record 'b Api =
  ap_secret :: string
  ap_homeMode :: string
  ap_startingBalance :: Money
  ap_Reset :: "('b \<Rightarrow> unit result \<times> 'b) option"
  ap_jwt :: "string \<Rightarrow> string \<Rightarrow> (json_value \<times> json_value) option"
  ap_decodeReason :: "string \<Rightarrow> string"
  ap_decodeKillSwitch :: "string \<Rightarrow> string \<times> bool"
  ap_admits :: "http_req \<Rightarrow> nat \<Rightarrow> bool"
  ap_ready :: "nat \<Rightarrow> error option"

definition actorFrom :: "http_req \<Rightarrow> string" where
  "actorFrom r = (case hr_ctxClaims r of
       None \<Rightarrow> ''unknown'' | Some c \<Rightarrow> if clm_Subject c = '''' then ''unknown'' else clm_Subject c)"

definition decodeReason :: "'b Api \<Rightarrow> http_req \<Rightarrow> string" where
  "decodeReason A r = (let reason = ap_decodeReason A (hr_Body r) in if reason = '''' then ''not specified'' else reason)"

definition respondSystemAction :: "http_req \<Rightarrow> ('b, unit) usecase \<Rightarrow> ('b, http_resp) usecase" where
  "respondSystemAction r action = attempt action (\<lambda>res. case res of
       Inl err \<Rightarrow> presenter_Error r err | Inr _ \<Rightarrow> JSON 200 (StatusBody ''ok''))"

definition change_mode :: "'b Env \<Rightarrow> 'b Api \<Rightarrow> string \<Rightarrow> 'b http_handler" where
  "change_mode E A target r = respondSystemAction r (ChangeOperationalMode E \<lparr>cm_TargetMode = target, cm_ActedBy = actorFrom r,
     cm_Origin = ''http'', cm_Reason = decodeReason A r, cm_RealConfirmationToken = ''''\<rparr>)"

definition Pause :: "'b Env \<Rightarrow> 'b Api \<Rightarrow> 'b http_handler" where
  "Pause E A = change_mode E A ''PAUSED''"

definition Resume :: "'b Env \<Rightarrow> 'b Api \<Rightarrow> 'b http_handler" where
  "Resume E A = change_mode E A (ap_homeMode A)"

definition CloseOnly :: "'b Env \<Rightarrow> 'b Api \<Rightarrow> 'b http_handler" where
  "CloseOnly E A = change_mode E A ''CLOSE_ONLY''"

definition KillSwitch :: "'b Env \<Rightarrow> 'b Api \<Rightarrow> 'b http_handler" where
  "KillSwitch E A r = (let body = ap_decodeKillSwitch A (hr_Body r);
       reason = (if fst body = '''' then ''manual activation via API'' else fst body) in
     respondSystemAction r (ActivateKillSwitch E \<lparr>ks_ActivatedBy = actorFrom r, ks_Origin = ''http'', ks_Reason = reason, ks_AllowClose = snd body\<rparr>))"

definition PaperReset :: "'b Env \<Rightarrow> 'b Api \<Rightarrow> 'b http_handler" where
  "PaperReset E A r = respondSystemAction r (ResetPaperState E (ap_Reset A) (ap_startingBalance A))"

definition BacktestRequest :: "'b http_handler" where
  "BacktestRequest r = JSON 501 NotImplementedBody"

definition Health :: "'b http_handler" where
  "Health r = JSON 200 (StatusBody ''ok'')"

definition Ready :: "'b Env \<Rightarrow> 'b Api \<Rightarrow> 'b http_handler" where
  "Ready E A r = attempt (external_call E (\<lambda>n. case ap_ready A n of Some e \<Rightarrow> Inl e | None \<Rightarrow> Inr ())) (\<lambda>res. case res of
       Inl err \<Rightarrow> JSON 503 (NotReadyBody (error_string err)) | Inr _ \<Rightarrow> JSON 200 (StatusBody ''ready''))"

definition parseLimit :: "http_req \<Rightarrow> int \<Rightarrow> int" where
  "parseLimit r fallback = (if hr_Limit r = '''' then fallback else case Atoi (hr_Limit r) of
       Inl _ \<Rightarrow> fallback | Inr v \<Rightarrow> if v \<le> 0 then fallback else v)"

text \<open>The query handlers share their end.\<close>

definition respondQuery :: "http_req \<Rightarrow> ('a \<Rightarrow> http_body) \<Rightarrow> ('b, 'a) usecase \<Rightarrow> ('b, http_resp) usecase" where
  "respondQuery r body q = attempt q (\<lambda>res. case res of Inl err \<Rightarrow> presenter_Error r err | Inr x \<Rightarrow> JSON 200 (body x))"

section \<open>Routes\<close>

datatype query_route = QDashboard | QAccount | QPositions | QOrders | QOrder string | QSignals | QDecisions | QEvents | QIncidents

datatype control_route = CPause | CResume | CCloseOnly | CKillSwitch | CPaperReset | CBacktest

datatype route = PublicHealth | PublicReady | PublicOther | QueryRoute query_route | ControlRoute control_route

definition query_handler :: "'b Env \<Rightarrow> query_route \<Rightarrow> 'b http_handler" where
  "query_handler E q r = (case q of
       QDashboard \<Rightarrow> respondQuery r DashboardBody (GetTradingDashboard E)
     | QAccount \<Rightarrow> respondQuery r AccountBody (query_GetAccount E)
     | QPositions \<Rightarrow> respondQuery r PositionsBody (ListPositions E)
     | QOrders \<Rightarrow> respondQuery r OrdersBody (ListOrders E (parseLimit r 50))
     | QOrder i \<Rightarrow> respondQuery r OrderBody (GetOrderByID E i)
     | QSignals \<Rightarrow> respondQuery r SignalsBody (ListSignals E (parseLimit r 50))
     | QDecisions \<Rightarrow> respondQuery r DecisionsBody (ListRiskDecisions E (parseLimit r 50))
     | QEvents \<Rightarrow> respondQuery r EventsBody (ListEvents E (parseLimit r 50))
     | QIncidents \<Rightarrow> respondQuery r IncidentsBody (ListIncidents E (parseLimit r 50)))"

definition control_handler :: "'b Env \<Rightarrow> 'b Api \<Rightarrow> control_route \<Rightarrow> 'b http_handler" where
  "control_handler E A c = (case c of CPause \<Rightarrow> Pause E A | CResume \<Rightarrow> Resume E A | CCloseOnly \<Rightarrow> CloseOnly E A
     | CKillSwitch \<Rightarrow> KillSwitch E A | CPaperReset \<Rightarrow> PaperReset E A | CBacktest \<Rightarrow> BacktestRequest)"

definition get_routes :: "(string \<times> route) list" where
  "get_routes = [(''/health'', PublicHealth), (''/ready'', PublicReady), (''/v1/dashboard'', QueryRoute QDashboard),
     (''/v1/account'', QueryRoute QAccount), (''/v1/positions'', QueryRoute QPositions), (''/v1/orders'', QueryRoute QOrders),
     (''/v1/signals'', QueryRoute QSignals), (''/v1/risk-decisions'', QueryRoute QDecisions), (''/v1/events'', QueryRoute QEvents),
     (''/v1/incidents'', QueryRoute QIncidents)]"

definition post_routes :: "(string \<times> route) list" where
  "post_routes = [(''/v1/system/pause'', ControlRoute CPause), (''/v1/system/resume'', ControlRoute CResume),
     (''/v1/system/close-only'', ControlRoute CCloseOnly), (''/v1/system/kill-switch'', ControlRoute CKillSwitch),
     (''/v1/paper/reset'', ControlRoute CPaperReset), (''/v1/backtest/request'', ControlRoute CBacktest)]"

text \<open>The path parameter of \<^verbatim>\<open>/v1/orders/{id}\<close> is one non-empty segment.\<close>

definition order_path :: "string \<Rightarrow> string option" where
  "order_path path = (let i = drop (length ''/v1/orders/'') path in
     if take (length ''/v1/orders/'') path = ''/v1/orders/'' \<and> i \<noteq> '''' \<and> CHR ''/'' \<notin> set i then Some i else None)"

definition find_route :: "string \<Rightarrow> string \<Rightarrow> route option" where
  "find_route method path =
     (if path = ''/metrics'' \<or> path = ''/ws'' then Some PublicOther
      else if method = ''GET'' then (case map_of get_routes path of Some rt \<Rightarrow> Some rt | None \<Rightarrow> map_option (\<lambda>i. QueryRoute (QOrder i)) (order_path path))
      else if method = ''POST'' then map_of post_routes path else None)"

section \<open>Middleware\<close>

definition writeUnauthorized :: "('b, http_resp) usecase" where
  "writeUnauthorized = JSON 401 (ErrorBody ''UNAUTHORIZED'' ''missing or invalid bearer token'' '''')"

text \<open>The roles that are strings, in their order.\<close>

fun role_loop :: "json_value list \<Rightarrow> string list" where
  "role_loop [] = []"
| "role_loop (raw # rest) = (case raw of JString s \<Rightarrow> s # role_loop rest | _ \<Rightarrow> role_loop rest)"

definition claims_of :: "json_value \<times> json_value \<Rightarrow> Claims" where
  "claims_of mc = \<lparr>clm_Subject = (case fst mc of JString s \<Rightarrow> s | _ \<Rightarrow> ''''),
     clm_Roles = (case snd mc of JArray raws \<Rightarrow> role_loop raws | _ \<Rightarrow> [])\<rparr>"

definition bearer :: "string \<Rightarrow> string option" where
  "bearer header = (let t = drop (length ''Bearer '') header in
     if take (length ''Bearer '') header = ''Bearer '' \<and> t \<noteq> '''' then Some t else None)"

definition Auth :: "'b Api \<Rightarrow> 'b http_handler \<Rightarrow> 'b http_handler" where
  "Auth A inner r = (case bearer (hr_Authorization r) of
       None \<Rightarrow> writeUnauthorized
     | Some token \<Rightarrow> (case ap_jwt A (ap_secret A) token of
         None \<Rightarrow> writeUnauthorized
       | Some mc \<Rightarrow> inner (r\<lparr>hr_ctxClaims := Some (claims_of mc)\<rparr>)))"

definition RequireRole :: "string list \<Rightarrow> 'b http_handler \<Rightarrow> 'b http_handler" where
  "RequireRole roles inner r = (case hr_ctxClaims r of
       None \<Rightarrow> writeUnauthorized
     | Some claims \<Rightarrow> if list_ex (\<lambda>role. role \<in> set roles) (clm_Roles claims) then inner r
         else JSON 403 (ErrorBody ''FORBIDDEN'' ''insufficient role'' ''''))"

definition RequestID :: "'b Env \<Rightarrow> 'b http_handler \<Rightarrow> 'b http_handler" where
  "RequestID E inner r = (if hr_RequestIDHeader r = ''''
     then ubind (NewUUID E) (\<lambda>u. inner (r\<lparr>hr_ctxRequestID := uString (en_U E) u\<rparr>))
     else inner (r\<lparr>hr_ctxRequestID := hr_RequestIDHeader r\<rparr>))"

definition Recovery :: "'b http_handler \<Rightarrow> 'b http_handler" where
  "Recovery inner r w = (case inner r w of
       (Inl _, w') \<Rightarrow> (Inr \<lparr>rs_Status = 500, rs_Body = ErrorBody ''INTERNAL_ERROR'' ''internal server error'' ''''\<rparr>, w')
     | (Inr resp, w') \<Rightarrow> (Inr resp, w'))"

text \<open>Of the CORS middleware only the answer to a preflight request matters here; it sets headers otherwise.\<close>

definition CORS :: "'b http_handler \<Rightarrow> 'b http_handler" where
  "CORS inner r = (if hr_Method r = ''OPTIONS'' then JSON 204 NoBody else inner r)"

definition RateLimit :: "'b Api \<Rightarrow> 'b http_handler \<Rightarrow> 'b http_handler" where
  "RateLimit A inner r w = (if ap_admits A r (w_tick w) then inner r w
     else JSON 429 (ErrorBody ''RATE_LIMITED'' ''too many requests'' '''') w)"

text \<open>
  The router package answers a path without a route with 404, or with 405 if another method has one;
  below \<^verbatim>\<open>/v1\<close> the authentication comes first, as it belongs to the whole subrouter.
\<close>

definition unrouted :: "'b http_handler" where
  "unrouted r = JSON (if find_route ''GET'' (hr_Path r) \<noteq> None \<or> find_route ''POST'' (hr_Path r) \<noteq> None then 405 else 404) ForeignBody"

definition dispatch :: "'b Env \<Rightarrow> 'b Api \<Rightarrow> 'b http_handler" where
  "dispatch E A r = (case find_route (hr_Method r) (hr_Path r) of
       None \<Rightarrow> if hr_Path r = ''/v1'' \<or> take 4 (hr_Path r) = ''/v1/'' then Auth A unrouted r else unrouted r
     | Some PublicHealth \<Rightarrow> Health r
     | Some PublicReady \<Rightarrow> Ready E A r
     | Some PublicOther \<Rightarrow> JSON 200 ForeignBody
     | Some (QueryRoute q) \<Rightarrow> Auth A (query_handler E q) r
     | Some (ControlRoute c) \<Rightarrow> Auth A (RequireRole [''operator'', ''admin''] (control_handler E A c)) r)"

definition serve :: "'b Env \<Rightarrow> 'b Api \<Rightarrow> 'b http_handler" where
  "serve E A = RequestID E (Recovery (CORS (RateLimit A (dispatch E A))))"

section \<open>What a request can change\<close>

text \<open>The claims of a request: those of the bearer token, if the library accepts it.\<close>

definition signed_claims :: "'b Api \<Rightarrow> http_req \<Rightarrow> Claims option" where
  "signed_claims A r = (case bearer (hr_Authorization r) of None \<Rightarrow> None | Some token \<Rightarrow> map_option claims_of (ap_jwt A (ap_secret A) token))"

definition may_control :: "Claims \<Rightarrow> bool" where
  "may_control c \<longleftrightarrow> ''operator'' \<in> set (clm_Roles c) \<or> ''admin'' \<in> set (clm_Roles c)"

text \<open>The use case behind a control route, with the caller of the token as its actor.\<close>

definition actor :: "Claims \<Rightarrow> string" where
  "actor c = (if clm_Subject c = '''' then ''unknown'' else clm_Subject c)"

definition control_action :: "'b Env \<Rightarrow> 'b Api \<Rightarrow> control_route \<Rightarrow> Claims \<Rightarrow> http_req \<Rightarrow> ('b, unit) usecase" where
  "control_action E A c cl r = (let mode = (\<lambda>target. ChangeOperationalMode E \<lparr>cm_TargetMode = target, cm_ActedBy = actor cl, cm_Origin = ''http'',
       cm_Reason = decodeReason A r, cm_RealConfirmationToken = ''''\<rparr>) in
     case c of CPause \<Rightarrow> mode ''PAUSED'' | CResume \<Rightarrow> mode (ap_homeMode A) | CCloseOnly \<Rightarrow> mode ''CLOSE_ONLY''
     | CKillSwitch \<Rightarrow> ActivateKillSwitch E \<lparr>ks_ActivatedBy = actor cl, ks_Origin = ''http'',
         ks_Reason = (if fst (ap_decodeKillSwitch A (hr_Body r)) = '''' then ''manual activation via API'' else fst (ap_decodeKillSwitch A (hr_Body r))),
         ks_AllowClose = snd (ap_decodeKillSwitch A (hr_Body r))\<rparr>
     | CPaperReset \<Rightarrow> ResetPaperState E (ap_Reset A) (ap_startingBalance A)
     | CBacktest \<Rightarrow> uret ())"

lemma respond_world: "snd (respondSystemAction r m w) = snd (m w)"
  by (simp add: respondSystemAction_def attempt_def presenter_Error_def JSON_def uret_def split: prod.splits sum.splits)

lemma control_handler_world:
  "hr_ctxClaims r = Some cl \<Longrightarrow> snd (control_handler E A c r w) = snd (control_action E A c cl r w)"
  by (cases c) (simp_all add: control_handler_def control_action_def Pause_def Resume_def CloseOnly_def change_mode_def KillSwitch_def PaperReset_def
      BacktestRequest_def actorFrom_def actor_def respond_world Let_def JSON_def uret_def)

lemma keeps_JSON: "keeps same_db (JSON s b)" "keeps same_broker (JSON s b)"
  by (simp_all add: JSON_def same_db.keeps_uret same_broker.keeps_uret)

lemma keeps_present: "keeps same_db (presenter_Error r e)" "keeps same_broker (presenter_Error r e)"
  by (simp_all add: presenter_Error_def keeps_JSON split: prod.splits)

lemma keeps_respond_query:
  "keeps same_db q \<Longrightarrow> keeps same_db (respondQuery r body q)" "keeps same_broker q \<Longrightarrow> keeps same_broker (respondQuery r body q)"
  unfolding respondQuery_def
  by (auto simp del: useq_simps intro!: same_db.keeps_attempt same_broker.keeps_attempt keeps_JSON keeps_present split: sum.splits)

lemma keeps_broker_dashboard: "reads_only E \<Longrightarrow> keeps same_broker (GetTradingDashboard E)"
  unfolding GetTradingDashboard_def Let_def by (intro same_broker.keeps_intros keeps_probe)

lemma query_handler_reads:
  "keeps same_db (query_handler E q r)" "reads_only E \<Longrightarrow> keeps same_broker (query_handler E q r)"
  by (cases q; simp add: query_handler_def keeps_respond_query keeps_query_reads keeps_dashboard keeps_broker_dashboard)+

lemma keeps_ready: "keeps same_db (Ready E A r)" "keeps same_broker (Ready E A r)"
proof -
  have "keeps same_db (external_call E f)" for f :: "nat \<Rightarrow> unit result"
    unfolding external_call_def by (rule same_db.keeps_infra) (simp add: keeps_def same_db_def)
  then show "keeps same_db (Ready E A r)" "keeps same_broker (Ready E A r)"
    unfolding Ready_def
    by (auto simp del: useq_simps intro!: same_db.keeps_attempt same_broker.keeps_attempt keeps_broker_external keeps_JSON split: sum.splits)
qed

lemma RequireRole_control: "list_ex (\<lambda>role. role \<in> set [''operator'', ''admin'']) (clm_Roles c) \<longleftrightarrow> may_control c"
  by (auto simp: may_control_def list_ex_iff)

lemma control_action_body: "hr_Body r' = hr_Body r \<Longrightarrow> control_action E A c cl r' = control_action E A c cl r"
  by (cases c) (simp_all add: control_action_def decodeReason_def)

text \<open>A request that the router sends to a control route, from someone who may take it.\<close>

definition authorised :: "'b Api \<Rightarrow> http_req \<Rightarrow> control_route \<Rightarrow> Claims \<Rightarrow> bool" where
  "authorised A r c cl \<longleftrightarrow> find_route (hr_Method r) (hr_Path r) = Some (ControlRoute c) \<and> signed_claims A r = Some cl \<and> may_control cl"

lemma dispatch_effect:
  assumes "hr_Method r' = hr_Method r" "hr_Path r' = hr_Path r" "hr_Authorization r' = hr_Authorization r" "hr_Body r' = hr_Body r"
  shows "w_db (snd (dispatch E A r' w)) = w_db w \<and> (reads_only E \<longrightarrow> w_broker (snd (dispatch E A r' w)) = w_broker w) \<or>
    (\<exists>c cl. authorised A r c cl \<and> snd (dispatch E A r' w) = snd (control_action E A c cl r w))"
proof -
  have q: "w_db (snd (query_handler E q r1 w)) = w_db w \<and> (reads_only E \<longrightarrow> w_broker (snd (query_handler E q r1 w)) = w_broker w)" for q r1
    using query_handler_reads [of E q r1] by (auto simp: keeps_def same_db_def same_broker_def)
  have rd: "w_db (snd (Ready E A r' w)) = w_db w \<and> w_broker (snd (Ready E A r' w)) = w_broker w"
    using keeps_ready [of E A r'] by (simp add: keeps_def same_db_def same_broker_def)
  have a: "snd (control_handler E A c (r'\<lparr>hr_ctxClaims := Some cl\<rparr>) w) = snd (control_action E A c cl r w)" for c cl
    using control_handler_world [of "r'\<lparr>hr_ctxClaims := Some cl\<rparr>" cl E A c w] control_action_body [of "r'\<lparr>hr_ctxClaims := Some cl\<rparr>" r E A c cl] assms(4)
    by simp
  have auth: "snd (Auth A h r' w) = (case signed_claims A r of None \<Rightarrow> w | Some cl \<Rightarrow> snd (h (r'\<lparr>hr_ctxClaims := Some cl\<rparr>) w))" for h
    by (simp add: Auth_def signed_claims_def assms(3) writeUnauthorized_def JSON_def uret_def split: option.splits)
  have role: "snd (RequireRole [''operator'', ''admin''] h (r'\<lparr>hr_ctxClaims := Some cl\<rparr>) w) =
      (if may_control cl then snd (h (r'\<lparr>hr_ctxClaims := Some cl\<rparr>) w) else w)" for h cl
    using RequireRole_control [of cl] by (simp add: RequireRole_def JSON_def uret_def)
  show ?thesis
  proof (cases "find_route (hr_Method r) (hr_Path r)")
    case None
    then show ?thesis by (simp add: dispatch_def assms(1,2) auth unrouted_def JSON_def uret_def split: option.splits)
  next
    case (Some rt)
    show ?thesis
    proof (cases rt)
      case (ControlRoute c)
      show ?thesis
      proof (cases "\<exists>cl. signed_claims A r = Some cl \<and> may_control cl")
        case True
        then show ?thesis using Some ControlRoute by (auto simp: dispatch_def assms(1,2) auth role a authorised_def)
      next
        case False
        then show ?thesis using Some ControlRoute by (auto simp: dispatch_def assms(1,2) auth role split: option.splits)
      qed
    qed (use Some in \<open>simp_all add: dispatch_def assms(1,2) auth q rd Health_def JSON_def uret_def split: option.splits\<close>)
  qed
qed

lemma serve_effect:
  "w_db (snd (serve E A r w)) = w_db w \<and> (reads_only E \<longrightarrow> w_broker (snd (serve E A r w)) = w_broker w) \<or>
   (\<exists>c cl v. authorised A r c cl \<and> (v = w \<or> v = tick w) \<and> snd (serve E A r w) = snd (control_action E A c cl r v))"
proof -
  have rest: "w_db (snd (Recovery (CORS (RateLimit A (dispatch E A))) r' v)) = w_db v \<and>
      (reads_only E \<longrightarrow> w_broker (snd (Recovery (CORS (RateLimit A (dispatch E A))) r' v)) = w_broker v) \<or>
      (\<exists>c cl. authorised A r c cl \<and> snd (Recovery (CORS (RateLimit A (dispatch E A))) r' v) = snd (control_action E A c cl r v))"
    if "hr_Method r' = hr_Method r" "hr_Path r' = hr_Path r" "hr_Authorization r' = hr_Authorization r" "hr_Body r' = hr_Body r" for r' v
  proof -
    have "snd (Recovery (CORS (RateLimit A (dispatch E A))) r' v) =
        (if hr_Method r' = ''OPTIONS'' \<or> \<not> ap_admits A r' (w_tick v) then v else snd (dispatch E A r' v))"
      by (simp add: Recovery_def CORS_def RateLimit_def JSON_def uret_def split: prod.splits sum.splits)
    then show ?thesis using dispatch_effect [OF that, of E A v] by simp
  qed
  show ?thesis
  proof (cases "hr_RequestIDHeader r = []")
    case True
    then show ?thesis
      using rest [of "r\<lparr>hr_ctxRequestID := uString (en_U E) (en_uuid E (w_tick w))\<rparr>" "tick w"]
      by (auto simp: serve_def RequestID_def ubind_go NewUUID_def)
  next
    case False
    then show ?thesis using rest [of "r\<lparr>hr_ctxRequestID := hr_RequestIDHeader r\<rparr>" w] by (auto simp: serve_def RequestID_def)
  qed
qed

text \<open>
  C9: Nothing is changed over HTTP without a signed role. If serving a request changed the database
  or the broker, then it was a control request with a bearer token that is valid under the configured
  secret and carries the role operator or admin, and the change is the one of the use case behind
  the route, recorded under the subject of that token; what the request itself claims to be is never used.
\<close>

theorem http_changes_are_authorised:
  assumes "reads_only E" "w_db (snd (serve E A r w)) \<noteq> w_db w \<or> w_broker (snd (serve E A r w)) \<noteq> w_broker w"
  shows "\<exists>c cl v. hr_Method r = ''POST'' \<and> find_route ''POST'' (hr_Path r) = Some (ControlRoute c) \<and> signed_claims A r = Some cl \<and>
    (''operator'' \<in> set (clm_Roles cl) \<or> ''admin'' \<in> set (clm_Roles cl)) \<and> (v = w \<or> v = tick w) \<and>
    snd (serve E A r w) = snd (control_action E A c cl r v)"
proof -
  obtain c cl v where a: "authorised A r c cl" and v: "v = w \<or> v = tick w" "snd (serve E A r w) = snd (control_action E A c cl r v)"
    using serve_effect [of E A r w] assms by blast
  have "hr_Method r = ''POST''"
    using a by (auto simp: authorised_def find_route_def get_routes_def split: if_splits option.splits)
  with a v show ?thesis by (auto simp: authorised_def may_control_def)
qed

section \<open>REAL mode is out of reach\<close>

text \<open>What the modes of the active accounts satisfy, and that saving an account whose mode satisfies it keeps it.\<close>

definition active_modes :: "(Mode \<Rightarrow> bool) \<Rightarrow> account_row table \<Rightarrow> bool" where
  "active_modes P tbl \<longleftrightarrow> (\<forall>k m. (k, m, True) \<in> set tbl \<longrightarrow> P (Mode_of_string (am_OperationalMode m)))"

lemma account_save_modes:
  assumes "P (acc_OperationalMode a)" "Mode_Valid (acc_OperationalMode a)" "active_modes P tbl" "account_save U a tbl = (r, tbl')"
  shows "active_modes P tbl'"
proof (cases r)
  case (Inl e)
  then show ?thesis using account_save_store [OF assms(4)] assms(3) by simp
next
  case (Inr u)
  let ?k = "AccountID_String U (acc_ID a)"
  obtain row v where row: "account_columns (account_toModel U a) = Inr row" and t: "tbl' = al_set ?k v tbl"
    and v: "am_OperationalMode (fst v) = am_OperationalMode row"
    using account_save_store [OF assms(4)] Inr by (fastforce simp: account_merge_def)
  have md: "P (Mode_of_string (am_OperationalMode row))"
    using account_columns_keeps [OF row] assms(1,2) by (simp add: account_toModel_def)
  have "P (Mode_of_string (am_OperationalMode n))" if "(j, n, True) \<in> set tbl'" for j n
    using al_set_mem [OF that [unfolded t]] assms(3) md v by (auto simp: active_modes_def)
  then show ?thesis by (simp add: active_modes_def)
qed

context world_relation
begin

lemma keeps_lift_bind: "(\<And>x. res = Inr x \<Longrightarrow> keeps R (f x)) \<Longrightarrow> keeps R (ubind (lift res) f)"
  by (cases res) (simp_all add: keeps_def ubind_def lift_def refl)

lemma keeps_wrapped_bind: "(\<And>x. res = Inr x \<Longrightarrow> keeps R (f x)) \<Longrightarrow> keeps R (ubind (wrapped c (lift res)) f)"
  by (cases res) (simp_all add: keeps_def ubind_def lift_def wrapped_def refl)

end

definition not_real :: "DB \<Rightarrow> bool" where
  "not_real db \<longleftrightarrow> (\<forall>m. map_of (db_modes db) ''1'' = Some m \<longrightarrow> mm_CurrentMode m \<noteq> ''REAL'') \<and> active_modes (\<lambda>m. m \<noteq> ModeReal) (db_accounts db)"

definition stays_unreal :: "DB \<Rightarrow> DB \<Rightarrow> bool" where
  "stays_unreal a b \<longleftrightarrow> (not_real a \<longrightarrow> not_real b)"

interpretation stays_unreal: db_relation stays_unreal
  by unfold_locales (auto simp: stays_unreal_def)

lemma unreal_saves:
  "acc_OperationalMode a \<noteq> ModeReal \<Longrightarrow> Mode_Valid (acc_OperationalMode a) \<Longrightarrow> stays_unreal db (snd (accounts_Save U a db))"
  "st_CurrentMode s \<noteq> ModeReal \<Longrightarrow> Mode_Valid (st_CurrentMode s) \<Longrightarrow> stays_unreal db (snd (modes_Save s db))"
proof -
  assume a: "acc_OperationalMode a \<noteq> ModeReal" "Mode_Valid (acc_OperationalMode a)"
  obtain r t where "account_save U a (db_accounts db) = (r, t)" by (cases "account_save U a (db_accounts db)")
  with account_save_modes [OF _ a(2) _ this, of "\<lambda>m. m \<noteq> ModeReal"] a(1) show "stays_unreal db (snd (accounts_Save U a db))"
    by (simp add: stays_unreal_def not_real_def accounts_Save_def)
next
  assume s: "st_CurrentMode s \<noteq> ModeReal" "Mode_Valid (st_CurrentMode s)"
  obtain r t where run: "mode_save s (db_modes db) = (r, t)" by (cases "mode_save s (db_modes db)")
  have "Mode_String (st_CurrentMode s) \<noteq> ''REAL''" using s by (cases "st_CurrentMode s") (auto simp: Mode_String_def Mode_Valid_def)
  then show "stays_unreal db (snd (modes_Save s db))"
    using mode_save_store [OF run] run by (cases r) (auto simp: stays_unreal_def not_real_def modes_Save_def mode_toModel_def)
qed

lemma unreal_other_saves:
  "stays_unreal db (snd (incidents_Save U i db))" "stays_unreal db (snd (outbox_Insert now evt db))"
  "stays_unreal db (snd (positions_Save U p db))" "stays_unreal db (snd (orders_Save U fresh now ord db))"
  by (auto simp: stays_unreal_def not_real_def incidents_Save_def outbox_Insert_def positions_Save_def orders_Save_def Let_def
      split: sum.splits option.splits prod.splits)

lemmas unreal_intros = stays_unreal.keeps_lift_bind stays_unreal.keeps_wrapped_bind stays_unreal.keeps_intros stays_unreal.keeps_tx
  stays_unreal.keeps_write stays_unreal.keeps_publish stays_unreal.keeps_notify stays_unreal.keeps_broker_call unreal_saves unreal_other_saves

lemma unconfirmed_transition:
  assumes "TransitionTo s target who origin reason now \<lparr>conf_Enabled = False, conf_ConfirmationToken = tok\<rparr> = Inr s'"
  shows "st_CurrentMode s' = target \<and> target \<noteq> ModeReal"
  using assms by (auto simp: TransitionTo_Inr)

lemma keeps_unreal_change:
  "cm_RealConfirmationToken cmd = [] \<Longrightarrow> keeps (on_db stays_unreal) (ChangeOperationalMode E cmd)"
  unfolding ChangeOperationalMode_def Let_def
  by (intro unreal_intros) (auto dest!: unconfirmed_transition simp: SetOperationalMode_def)

lemma keeps_unreal_kill: "keeps (on_db stays_unreal) (ActivateKillSwitch E cmd)"
  unfolding ActivateKillSwitch_def kill_switch_tx_def newOutboxEvent_def uc_outbox_Insert_def Let_def
  by (intro unreal_intros) (auto dest!: TransitionTo_target simp: SetOperationalMode_def Mode_Valid_def)

lemma keeps_unreal_reset: "keeps (on_db stays_unreal) (ResetPaperState E Reset bal)"
proof -
  have p: "keeps (on_db stays_unreal) (reset_positions E now ps)" for now ps
    by (induction ps) (simp_all only: reset_positions.simps, (intro unreal_intros; assumption?)+)
  have o: "keeps (on_db stays_unreal) (reset_orders E now os)" for now os
    by (induction os) (auto simp del: useq_simps simp: uc_orders_Save_def intro!: unreal_intros split: sum.splits)
  have fresh: "acc_OperationalMode a = ModePaper" if "NewPaperAccount D u b now = Inr a" for D u b now a
    using that by (auto simp: NewPaperAccount_def rbind_Inr_iff split: if_splits)
  show ?thesis
    unfolding ResetPaperState_def Let_def
    by (auto simp del: useq_simps intro!: unreal_intros p o simp: Mode_Valid_def dest!: fresh split: option.splits)
qed

lemma change_not_real:
  assumes "ChangeOperationalMode E cmd w = (Inr u, w')" "cm_RealConfirmationToken cmd = []"
  shows "Mode_of_string (cm_TargetMode cmd) \<noteq> ModeReal"
  using assms unfolding ChangeOperationalMode_def Let_def
  by (auto simp: ubind_Inr wrapped_Inr usecase_steps dest!: unconfirmed_transition split: if_splits)

text \<open>
  C31: REAL mode cannot be entered over HTTP, whatever the home mode of the deployment is and
  whoever asks: as long as neither the mode row nor an active account is in REAL mode, no request
  changes that. In a deployment whose home mode is REAL, resuming never succeeds.
\<close>

theorem http_never_enters_real:
  "(not_real (w_db w) \<longrightarrow> not_real (w_db (snd (serve E A r w)))) \<and>
   (ap_homeMode A = ''REAL'' \<longrightarrow> fst (control_action E A CResume cl r w) \<noteq> Inr ())"
proof
  have k: "keeps (on_db stays_unreal) (control_action E A c cl' r)" for c cl'
    by (cases c) (simp_all add: control_action_def keeps_unreal_change keeps_unreal_kill keeps_unreal_reset stays_unreal.keeps_uret Let_def)
  have "stays_unreal (w_db w) (w_db (snd (serve E A r w)))"
    using serve_effect [of E A r w] k by (auto simp: keeps_def on_db_def stays_unreal.db_refl) (metis tick_simps(1))
  then show "not_real (w_db w) \<longrightarrow> not_real (w_db (snd (serve E A r w)))" by (simp add: stays_unreal_def)
next
  show "ap_homeMode A = ''REAL'' \<longrightarrow> fst (control_action E A CResume cl r w) \<noteq> Inr ()"
  proof (intro impI notI)
    assume home: "ap_homeMode A = ''REAL''" and ok: "fst (control_action E A CResume cl r w) = Inr ()"
    then obtain w' where "control_action E A CResume cl r w = (Inr (), w')" by (cases "control_action E A CResume cl r w") auto
    then show False using change_not_real home by (fastforce simp: control_action_def Mode_of_string_def)
  qed
qed

section \<open>What the status code says\<close>

lemma classify_status: "400 \<le> fst (classify e) \<and> fst (classify e) \<le> 500"
  by (simp add: classify_def)

lemma respond_status:
  "respondSystemAction r m w = (case m w of
     (Inr _, w') \<Rightarrow> (Inr \<lparr>rs_Status = 200, rs_Body = StatusBody ''ok''\<rparr>, w')
   | (Inl e, w') \<Rightarrow> if is_panic e then (Inl e, w')
       else (Inr \<lparr>rs_Status = fst (classify e), rs_Body = ErrorBody (snd (classify e)) (error_string e) (hr_ctxRequestID r)\<rparr>, w'))"
  by (simp add: respondSystemAction_def attempt_def presenter_Error_def JSON_def uret_def case_prod_beta split: prod.splits sum.splits)

lemma control_handler_responds:
  assumes "hr_ctxClaims r = Some cl" "c \<noteq> CBacktest"
  shows "control_handler E A c r = respondSystemAction r (control_action E A c cl r)"
  using assms by (cases c) (simp_all add: control_handler_def control_action_def Pause_def Resume_def CloseOnly_def change_mode_def KillSwitch_def
      PaperReset_def actorFrom_def actor_def Let_def fun_eq_iff)

definition outcome_status :: "unit result \<Rightarrow> int" where
  "outcome_status res = (case res of Inr _ \<Rightarrow> 200 | Inl e \<Rightarrow> if is_panic e then 500 else fst (classify e))"

lemma dispatch_control:
  assumes "authorised A r c cl" "c \<noteq> CBacktest" "hr_Method r' = hr_Method r" "hr_Path r' = hr_Path r" "hr_Authorization r' = hr_Authorization r" "hr_Body r' = hr_Body r"
    "ap_admits A r' (w_tick w)"
  shows "\<exists>resp. Recovery (CORS (RateLimit A (dispatch E A))) r' w = (Inr resp, snd (control_action E A c cl r w)) \<and>
    rs_Status resp = outcome_status (fst (control_action E A c cl r w))"
proof -
  have m: "hr_Method r = ''POST''"
    using assms(1) by (auto simp: authorised_def find_route_def get_routes_def split: if_splits option.splits)
  have "dispatch E A r' = respondSystemAction (r'\<lparr>hr_ctxClaims := Some cl\<rparr>) (control_action E A c cl r)"
    using assms(1) control_handler_responds [of "r'\<lparr>hr_ctxClaims := Some cl\<rparr>" cl c E A] assms(2) RequireRole_control [of cl]
      control_action_body [of "r'\<lparr>hr_ctxClaims := Some cl\<rparr>" r E A c cl] assms(6)
    by (auto simp: dispatch_def assms(3-5) authorised_def signed_claims_def Auth_def RequireRole_def split: option.splits)
  then show ?thesis
    by (cases "control_action E A c cl r w")
      (auto simp: Recovery_def CORS_def RateLimit_def assms(3,7) m respond_status outcome_status_def split: sum.splits)
qed

text \<open>
  The answer to an authorised control request tells what happened: 200 exactly when the use case
  succeeded, 500 when it panicked, and otherwise the status of its error, which is never a success; a panic
  does not take the server down.
\<close>

theorem http_status_is_outcome:
  assumes "authorised A r c cl" "c \<noteq> CBacktest" "\<And>r' n. ap_admits A r' n"
  shows "\<exists>resp v. (v = w \<or> v = tick w) \<and> serve E A r w = (Inr resp, snd (control_action E A c cl r v)) \<and>
    rs_Status resp = outcome_status (fst (control_action E A c cl r v)) \<and>
    (rs_Status resp = 200 \<longleftrightarrow> fst (control_action E A c cl r v) = Inr ()) \<and> (rs_Status resp = 200 \<or> 400 \<le> rs_Status resp)"
proof -
  have st: "(outcome_status q = 200 \<longleftrightarrow> q = Inr ()) \<and> (outcome_status q = 200 \<or> 400 \<le> outcome_status q)" for q
    using classify_status by (cases q) (auto simp: outcome_status_def, (smt (verit))+)
  have "\<exists>resp v. (v = w \<or> v = tick w) \<and> serve E A r w = (Inr resp, snd (control_action E A c cl r v)) \<and>
      rs_Status resp = outcome_status (fst (control_action E A c cl r v))"
  proof (cases "hr_RequestIDHeader r = []")
    case True
    then have "serve E A r w = Recovery (CORS (RateLimit A (dispatch E A))) (r\<lparr>hr_ctxRequestID := uString (en_U E) (en_uuid E (w_tick w))\<rparr>) (tick w)"
      by (simp add: serve_def RequestID_def ubind_go NewUUID_def)
    then show ?thesis
      using dispatch_control [OF assms(1,2), of "r\<lparr>hr_ctxRequestID := uString (en_U E) (en_uuid E (w_tick w))\<rparr>" "tick w" E] assms(3) by auto
  next
    case False
    then have "serve E A r w = Recovery (CORS (RateLimit A (dispatch E A))) (r\<lparr>hr_ctxRequestID := hr_RequestIDHeader r\<rparr>) w"
      by (simp add: serve_def RequestID_def)
    then show ?thesis
      using dispatch_control [OF assms(1,2), of "r\<lparr>hr_ctxRequestID := hr_RequestIDHeader r\<rparr>" w E] assms(3) by auto
  qed
  then obtain resp v where "(v = w \<or> v = tick w) \<and> serve E A r w = (Inr resp, snd (control_action E A c cl r v)) \<and>
      rs_Status resp = outcome_status (fst (control_action E A c cl r v))" by blast
  then show ?thesis using st [of "fst (control_action E A c cl r v)"] by metis
qed

section \<open>Concrete requests\<close>

definition sample_api :: "PaperBroker Api" where
  "sample_api = \<lparr>ap_secret = insecureDefaultJWTSecret, ap_homeMode = ''REAL'', ap_startingBalance = Money 500, ap_Reset = Some paper_Reset,
     ap_jwt = (\<lambda>s t. if t = ''tok'' then Some (JString ''op'', JArray [JOther, JString ''operator'']) else None), ap_decodeReason = (\<lambda>_. ''''),
     ap_decodeKillSwitch = (\<lambda>_. ('''', False)), ap_admits = (\<lambda>_ _. True), ap_ready = (\<lambda>_. None)\<rparr>"

definition reset_request :: http_req where
  "reset_request = \<lparr>hr_Method = ''POST'', hr_Path = ''/v1/paper/reset'', hr_Authorization = ''Bearer tok'', hr_RequestIDHeader = ''r-1'', hr_Limit = '''',
     hr_Body = '''', hr_ctxRequestID = '''', hr_ctxClaims = None\<rparr>"

definition reset_world :: "PaperBroker World" where
  "reset_world = sample_world\<lparr>w_broker := sample_broker_after\<rparr>"

lemma reset_authorised: "authorised sample_api reset_request CPaperReset \<lparr>clm_Subject = ''op'', clm_Roles = [''operator'']\<rparr>"
  by (simp add: authorised_def sample_api_def reset_request_def find_route_def post_routes_def signed_claims_def bearer_def claims_of_def may_control_def)

lemma reset_runs:
  "\<exists>w'. control_action quiet_env sample_api CPaperReset cl r reset_world = (Inr (), w') \<and> w_broker w' \<noteq> w_broker reset_world"
proof -
  obtain w' where "ResetPaperState quiet_env (Some paper_Reset) (Money 500) reset_world = (Inr (), w')" "w_broker w' = snd (paper_Reset sample_broker_after)"
    using sample_reset_runs unfolding reset_world_def by blast
  moreover have "snd (paper_Reset sample_broker_after) \<noteq> sample_broker_after"
    by (simp add: paper_Reset_def resetLocked_def sample_broker_after_def sample_broker_def NewBroker_def)
  ultimately show ?thesis by (simp add: control_action_def sample_api_def reset_world_def)
qed

lemma reset_served:
  "\<exists>resp w'. serve quiet_env sample_api reset_request reset_world = (Inr resp, w') \<and> w_broker w' \<noteq> w_broker reset_world \<and> rs_Status resp = 200"
proof -
  obtain w' where run: "control_action quiet_env sample_api CPaperReset \<lparr>clm_Subject = ''op'', clm_Roles = [''operator'']\<rparr> reset_request reset_world = (Inr (), w')"
    "w_broker w' \<noteq> w_broker reset_world" using reset_runs by blast
  have "serve quiet_env sample_api reset_request reset_world =
      Recovery (CORS (RateLimit sample_api (dispatch quiet_env sample_api))) (reset_request\<lparr>hr_ctxRequestID := ''r-1''\<rparr>) reset_world"
    by (simp add: serve_def RequestID_def reset_request_def)
  then show ?thesis
    using dispatch_control [OF reset_authorised, of "reset_request\<lparr>hr_ctxRequestID := ''r-1''\<rparr>" reset_world quiet_env] run
    by (auto simp: sample_api_def outcome_status_def)
qed

theorem http_changes_are_authorised_witness:
  "\<exists>cl. signed_claims sample_api reset_request = Some cl \<and> (''operator'' \<in> set (clm_Roles cl) \<or> ''admin'' \<in> set (clm_Roles cl))"
proof -
  have "w_broker (snd (serve quiet_env sample_api reset_request reset_world)) \<noteq> w_broker reset_world" using reset_served by force
  then show ?thesis
    using http_changes_are_authorised [OF sample_reads_only(1), of sample_api reset_request reset_world] by blast
qed

theorem http_status_is_outcome_witness:
  "\<exists>resp w'. serve quiet_env sample_api reset_request reset_world = (Inr resp, w') \<and> (rs_Status resp = 200 \<or> 400 \<le> rs_Status resp)"
  using http_status_is_outcome [OF reset_authorised, of reset_world quiet_env] by (auto simp: sample_api_def)

lemma sample_not_real: "not_real (w_db reset_world)"
  by (auto simp: not_real_def reset_world_def sample_db_def emptyDB_def active_modes_def mode_toModel_def NewState_def Mode_String_def
      account_toModel_def sample_account_def Mode_of_string_def)

theorem http_never_enters_real_witness:
  "not_real (w_db (snd (serve quiet_env sample_api reset_request reset_world))) \<and>
   fst (control_action quiet_env sample_api CResume \<lparr>clm_Subject = ''op'', clm_Roles = [''operator'']\<rparr> reset_request reset_world) \<noteq> Inr ()"
  using http_never_enters_real [of reset_world quiet_env sample_api reset_request "\<lparr>clm_Subject = ''op'', clm_Roles = [''operator'']\<rparr>"] sample_not_real
  by (simp add: sample_api_def)

end
