(* ===== verification/Trading_System.thy ===== *)
theory Trading_System
  imports Reconcile_State Http_Api
begin

text \<open>
  The running application, \<^verbatim>\<open>internal/app/lifecycle.go\<close>: the market data feed that drives the candle
  consumer, and the system as a whole, in which candles, news, reconciliations, outbox drains,
  queries, kill switches, resets and restarts follow each other in any order. Shown: the window of
  candles and the back-off of the feed, and that no order reaches the broker as long as the mode of
  the account admits no new entries, until an operator changes the mode.
\<close>

section \<open>The market data feed\<close>

definition maxRecentCandles :: nat where
  "maxRecentCandles = 50"

record Feed =
  fd_recentCandles :: "Candle list"
  fd_backoff :: duration

text \<open>The callback of the stream: one closed candle.\<close>

definition feed_candle :: "'b Env \<Rightarrow> SignalConfig \<Rightarrow> RiskConfig \<Rightarrow> Candle \<Rightarrow> Feed \<times> 'b World \<Rightarrow> Feed \<times> 'b World" where
  "feed_candle E sc rc candle fw = (let f = fst fw;
       w = snd (HandleCandle E sc rc \<lparr>ems_Candle = candle, ems_RecentCandles = fd_recentCandles f\<rparr> (snd fw));
       recent = fd_recentCandles f @ [candle];
       recent = (if length recent > maxRecentCandles then drop (length recent - maxRecentCandles) recent else recent) in
     (\<lparr>fd_recentCandles = recent, fd_backoff = Second\<rparr>, w))"

fun feed_stream :: "'b Env \<Rightarrow> SignalConfig \<Rightarrow> RiskConfig \<Rightarrow> Candle list \<Rightarrow> Feed \<times> 'b World \<Rightarrow> Feed \<times> 'b World" where
  "feed_stream E sc rc [] fw = fw"
| "feed_stream E sc rc (c # cs) fw = feed_stream E sc rc cs (feed_candle E sc rc c fw)"

text \<open>
  The loop over connections, each with the candles it delivers before it breaks; the context is
  cancelled after the last of them. The waiting time doubles while it is below thirty seconds.
\<close>

fun feed_loop :: "'b Env \<Rightarrow> SignalConfig \<Rightarrow> RiskConfig \<Rightarrow> Candle list list \<Rightarrow> Feed \<times> 'b World \<Rightarrow> Feed \<times> 'b World" where
  "feed_loop E sc rc [] fw = fw"
| "feed_loop E sc rc (cs # css) fw = (case feed_stream E sc rc cs fw of (f, w) \<Rightarrow>
     feed_loop E sc rc css (if fd_backoff f < 30 * Second then f\<lparr>fd_backoff := fd_backoff f * 2\<rparr> else f, w))"

definition runMarketDataFeed :: "'b Env \<Rightarrow> SignalConfig \<Rightarrow> RiskConfig \<Rightarrow> Candle list list \<Rightarrow> 'b World \<Rightarrow> Feed \<times> 'b World" where
  "runMarketDataFeed E sc rc css w = feed_loop E sc rc css (\<lparr>fd_recentCandles = [], fd_backoff = Second\<rparr>, w)"

text \<open>The last fifty of the candles so far.\<close>

definition window :: "Candle list \<Rightarrow> Candle list" where
  "window cs = drop (length cs - maxRecentCandles) cs"

lemma window_snoc: "(let r = window cs @ [c] in if length r > maxRecentCandles then drop (length r - maxRecentCandles) r else r) = window (cs @ [c])"
  by (cases "length cs < maxRecentCandles") (auto simp: window_def Let_def Suc_diff_le)

text \<open>What the consumer is called with: each candle and the window before it.\<close>

fun handled :: "'b Env \<Rightarrow> SignalConfig \<Rightarrow> RiskConfig \<Rightarrow> Candle list \<Rightarrow> Candle list \<Rightarrow> 'b World \<Rightarrow> 'b World" where
  "handled E sc rc seen [] w = w"
| "handled E sc rc seen (c # cs) w =
     handled E sc rc (seen @ [c]) cs (snd (HandleCandle E sc rc \<lparr>ems_Candle = c, ems_RecentCandles = window seen\<rparr> w))"

lemma handled_append: "handled E sc rc seen (cs @ ds) w = handled E sc rc (seen @ cs) ds (handled E sc rc seen cs w)"
  by (induction cs arbitrary: seen w) simp_all

lemma feed_candle_window:
  "fd_recentCandles f = window seen \<Longrightarrow> feed_candle E sc rc c (f, w) =
     (\<lparr>fd_recentCandles = window (seen @ [c]), fd_backoff = Second\<rparr>, snd (HandleCandle E sc rc \<lparr>ems_Candle = c, ems_RecentCandles = window seen\<rparr> w))"
  unfolding window_snoc [symmetric] feed_candle_def by (simp add: Let_def)

lemma feed_stream_handles:
  assumes "fd_recentCandles f = window seen" "feed_stream E sc rc cs (f, w) = (f', w')"
  shows "fd_recentCandles f' = window (seen @ cs) \<and> w' = handled E sc rc seen cs w \<and> fd_backoff f' = (if cs = [] then fd_backoff f else Second)"
  using assms
proof (induction cs arbitrary: f seen w)
  case (Cons c cs)
  then have "feed_stream E sc rc cs (\<lparr>fd_recentCandles = window (seen @ [c]), fd_backoff = Second\<rparr>,
      snd (HandleCandle E sc rc \<lparr>ems_Candle = c, ems_RecentCandles = window seen\<rparr> w)) = (f', w')"
    by (simp add: feed_candle_window)
  from Cons.IH [OF _ this, of "seen @ [c]"] show ?case by simp
qed simp

definition backoff_ok :: "duration \<Rightarrow> bool" where
  "backoff_ok d \<longleftrightarrow> (\<exists>n \<le> 5. d = 2 ^ n * Second)"

lemma backoff_ok_double: "backoff_ok d \<Longrightarrow> backoff_ok (if d < 30 * Second then d * 2 else d)"
proof -
  assume "backoff_ok d"
  then obtain n where n: "n \<le> 5" "d = 2 ^ n * Second" by (auto simp: backoff_ok_def)
  show ?thesis
  proof (cases "n = 5")
    case True
    with n show ?thesis by (auto simp: backoff_ok_def Second_def)
  next
    case False
    with n have "Suc n \<le> 5" "d * 2 = 2 ^ Suc n * Second" by simp_all
    with n show ?thesis unfolding backoff_ok_def by metis
  qed
qed

lemma feed_loop_handles:
  assumes "fd_recentCandles f = window seen" "backoff_ok (fd_backoff f)" "feed_loop E sc rc css (f, w) = (f', w')"
  shows "fd_recentCandles f' = window (seen @ concat css) \<and> w' = handled E sc rc seen (concat css) w \<and> backoff_ok (fd_backoff f')"
  using assms
proof (induction css arbitrary: f seen w)
  case (Cons cs css)
  obtain g v where g: "feed_stream E sc rc cs (f, w) = (g, v)" by (cases "feed_stream E sc rc cs (f, w)")
  let ?g = "if fd_backoff g < 30 * Second then g\<lparr>fd_backoff := fd_backoff g * 2\<rparr> else g"
  note s = feed_stream_handles [OF Cons.prems(1) g]
  have "backoff_ok Second" by (auto simp: backoff_ok_def)
  then have "backoff_ok (fd_backoff g)" using s Cons.prems(2) by simp
  then have "backoff_ok (fd_backoff ?g)" using backoff_ok_double [of "fd_backoff g"] by (auto split: if_splits)
  moreover have "fd_recentCandles ?g = window (seen @ cs)" using s by simp
  moreover have "feed_loop E sc rc css (?g, v) = (f', w')" using Cons.prems(3) g by simp
  ultimately show ?case using Cons.IH [of ?g "seen @ cs" v] s by (simp add: handled_append)
qed simp

text \<open>
  C36: However often the connection of the market data feed breaks, the consumer is called with the
  candles in the order they arrived, each together with the up to fifty candles before it, which
  survive a reconnection; and the time waited before a reconnection is one of 1, 2, 4, 8, 16 and 32
  seconds.
\<close>

theorem feed_window:
  "snd (runMarketDataFeed E sc rc css w) = handled E sc rc [] (concat css) w \<and>
   fd_recentCandles (fst (runMarketDataFeed E sc rc css w)) = window (concat css) \<and> length (window (concat css)) \<le> 50 \<and>
   fd_backoff (fst (runMarketDataFeed E sc rc css w)) \<in> {Second, 2 * Second, 4 * Second, 8 * Second, 16 * Second, 32 * Second}"
proof -
  obtain f w' where run: "runMarketDataFeed E sc rc css w = (f, w')" by (cases "runMarketDataFeed E sc rc css w")
  have start: "fd_recentCandles \<lparr>fd_recentCandles = [], fd_backoff = Second\<rparr> = window []" "backoff_ok Second"
    by (auto simp: window_def backoff_ok_def)
  have r: "fd_recentCandles f = window (concat css)" "w' = handled E sc rc [] (concat css) w" "backoff_ok (fd_backoff f)"
    using feed_loop_handles [OF start(1) _ run [unfolded runMarketDataFeed_def]] start(2) by auto
  from r(3) obtain n where "n \<le> 5" "fd_backoff f = 2 ^ n * Second" by (auto simp: backoff_ok_def)
  moreover from this(1) have "n \<in> {0, 1, 2, 3, 4, 5}" by auto
  ultimately show ?thesis using r by (auto simp: run window_def maxRecentCandles_def)
qed

section \<open>A system that takes no entries\<close>

text \<open>
  There is an active account, and no active account is in a mode that admits new entries. The rows
  are what counts, so the property does not depend on who reads them.
\<close>

definition entries_closed :: "DB \<Rightarrow> bool" where
  "entries_closed db \<longleftrightarrow> (\<exists>k m. (k, m, True) \<in> set (db_accounts db)) \<and> active_modes (\<lambda>m. \<not> AllowsNewEntries m) (db_accounts db)"

definition stays_closed :: "DB \<Rightarrow> DB \<Rightarrow> bool" where
  "stays_closed a b \<longleftrightarrow> (entries_closed a \<longrightarrow> entries_closed b)"

interpretation stays_closed: db_relation stays_closed
  by unfold_locales (auto simp: stays_closed_def)

lemma same_accounts_closed: "db_accounts b = db_accounts a \<Longrightarrow> stays_closed a b"
  by (simp add: stays_closed_def entries_closed_def)

lemma al_set_first:
  "map_of tbl k = Some old \<Longrightarrow> p \<in> set tbl \<Longrightarrow> p = (k, old) \<or> p \<in> set (al_set k v tbl)"
  "(k, v) \<in> set (al_set k v tbl)"
  by (induction tbl) (auto split: if_splits)

lemma account_save_keeps_active:
  assumes "account_save U a tbl = (r, tbl')" "(k, m, True) \<in> set tbl"
  shows "\<exists>j n. (j, n, True) \<in> set tbl'"
proof (cases r)
  case (Inl e)
  then show ?thesis using account_save_store [OF assms(1)] assms(2) by auto
next
  case (Inr u)
  let ?k = "AccountID_String U (acc_ID a)"
  obtain row where "tbl' = al_set ?k (row, True) tbl \<or> (\<exists>old. map_of tbl ?k = Some old \<and> tbl' = al_set ?k (account_merge row old) tbl)"
    using account_save_store [OF assms(1)] Inr by auto
  then show ?thesis
  proof (elim disjE exE conjE)
    fix old assume old: "map_of tbl ?k = Some old" "tbl' = al_set ?k (account_merge row old) tbl"
    show ?thesis
      using al_set_first(1) [OF old(1) assms(2), of "account_merge row old"] al_set_first(2) [of ?k "account_merge row old" tbl]
      unfolding old(2) by (metis Pair_inject account_merge_def snd_conv)
  next
    assume "tbl' = al_set ?k (row, True) tbl"
    with al_set_first(2) [of ?k "(row, True)" tbl] show ?thesis by blast
  qed
qed

text \<open>Saving an account in such a mode keeps the system closed, whichever row it goes to.\<close>

lemma accounts_Save_closed:
  assumes "\<not> AllowsNewEntries (acc_OperationalMode a)" "Mode_Valid (acc_OperationalMode a)"
  shows "stays_closed db (snd (accounts_Save U a db))"
proof -
  obtain r t where s: "account_save U a (db_accounts db) = (r, t)" by (cases "account_save U a (db_accounts db)")
  then show ?thesis
    using account_save_modes [OF _ assms(2) _ s, of "\<lambda>m. \<not> AllowsNewEntries m"] account_save_keeps_active [OF s] assms(1)
    by (auto simp: stays_closed_def entries_closed_def accounts_Save_def)
qed

lemma other_saves_closed:
  "stays_closed db (snd (signals_Save U s db))" "stays_closed db (snd (decisions_Save U d db))" "stays_closed db (snd (incidents_Save U i db))"
  "stays_closed db (snd (outbox_Insert now evt db))" "stays_closed db (snd (modes_Save st db))"
  by (rule same_accounts_closed; auto simp: signals_Save_def decisions_Save_def incidents_Save_def outbox_Insert_def modes_Save_def Let_def
      split: sum.splits option.splits prod.splits)+

lemmas closed_intros = stays_closed.keeps_intros stays_closed.keeps_tx stays_closed.keeps_write stays_closed.keeps_publish
  stays_closed.keeps_notify stays_closed.keeps_broker_call other_saves_closed

lemma keeps_closed_external: "keeps (on_db stays_closed) (external_call E f)"
  unfolding external_call_def by (rule stays_closed.keeps_infra) (simp add: keeps_def on_db_def stays_closed.db_refl)

lemma keeps_closed_signal: "keeps (on_db stays_closed) (EvaluateMarketSignal E sc cmd)"
  unfolding EvaluateMarketSignal_def by (intro closed_intros keeps_closed_external)

lemma keeps_closed_risk: "keeps (on_db stays_closed) (EvaluateRisk E rc cmd)"
  unfolding EvaluateRisk_def record_decision_def Let_def by (intro closed_intros)

lemma keeps_closed_reconcile: "keeps (on_db stays_closed) (ReconcileBrokerState E tol)"
  unfolding ReconcileBrokerState_def reconcile_positions_def reconcile_orders_def react_def forceCloseOnly_def raiseDivergence_def ignored_def
    uc_outbox_Insert_def newOutboxEvent_def Let_def
  by (auto simp del: useq_simps intro!: closed_intros accounts_Save_closed simp: SetOperationalMode_def AllowsNewEntries_def Mode_Valid_def
      split: sum.splits)

lemma keeps_closed_kill_switch: "keeps (on_db stays_closed) (ActivateKillSwitch E cmd)"
  unfolding ActivateKillSwitch_def kill_switch_tx_def uc_outbox_Insert_def newOutboxEvent_def Let_def
  by (intro closed_intros accounts_Save_closed) (simp_all add: SetOperationalMode_def AllowsNewEntries_def Mode_Valid_def)

lemma outbox_marks_closed:
  "stays_closed db (snd (FetchPendingBatch n db))" "stays_closed db (snd (MarkFailed i msg db))" "stays_closed db (snd (MarkProcessed i now db))"
  by (rule same_accounts_closed; auto simp: FetchPendingBatch_def MarkFailed_def MarkProcessed_def Let_def split: sum.splits option.splits prod.splits)+

lemma keeps_closed_drain: "keeps (on_db stays_closed) (DrainOnce E um n)"
proof -
  have "keeps (on_db stays_closed) (drain_loop E um evts)" for evts
    by (induction evts) (auto simp del: useq_simps simp: Publisher_Publish_def ignored_def intro!: closed_intros outbox_marks_closed split: sum.splits)
  then show ?thesis
    unfolding DrainOnce_def by (auto simp del: useq_simps intro!: closed_intros outbox_marks_closed split: sum.splits)
qed

lemma keeps_broker_drain: "keeps same_broker (DrainOnce E um n)"
proof -
  have "keeps same_broker (drain_loop E um evts)" for evts
    by (induction evts) (auto simp del: useq_simps simp: Publisher_Publish_def ignored_def intro!: same_broker.keeps_db_intros keeps_Publish split: sum.splits)
  then show ?thesis
    unfolding DrainOnce_def by (auto simp del: useq_simps intro!: same_broker.keeps_db_intros split: sum.splits)
qed

lemma keeps_broker_kill_switch: "keeps same_broker (ActivateKillSwitch E cmd)"
  unfolding ActivateKillSwitch_def kill_switch_tx_def Let_def by (intro same_broker.keeps_db_intros keeps_Notify)

lemma closed_account:
  assumes "entries_closed db" "accounts_GetActive D U db = Inr a"
  shows "\<not> AllowsNewEntries (acc_OperationalMode a)"
proof -
  obtain m where "active_row (db_accounts db) = Some m" "account_toDomain D U m = Inr a"
    using accounts_GetActive_Inr [OF assms(2)] by blast
  with assms(1) show ?thesis
    by (auto simp: entries_closed_def active_modes_def account_toDomain_def rbind_Inr_iff dest!: active_row_in)
qed

lemma execution_closed:
  assumes "entries_closed (w_db w)" "ExecuteApprovedOrder E rid w = (r, w')"
  shows "w_db w' = w_db w \<and> w_broker w' = w_broker w"
  using ExecuteApprovedOrder_reaches [OF assms(2)] closed_account [OF assms(1)] by (auto simp: guards_passed_def)

lemma candle_closed:
  assumes "entries_closed (w_db w)" "HandleCandle E sc rc cmd w = (r, w')" "reads_only E"
  shows "entries_closed (w_db w') \<and> w_broker w' = w_broker w"
proof -
  have s: "entries_closed (w_db v') \<and> w_broker v' = w_broker v" if "EvaluateMarketSignal E sc cmd v = (q, v')" "entries_closed (w_db v)" for v q v'
    using that(2) stays_closed.keeps_app [OF keeps_closed_signal that(1)] same_broker.keeps_app [OF keeps_broker_signal that(1)]
    by (simp add: on_db_def stays_closed_def same_broker_def)
  have k: "entries_closed (w_db v') \<and> w_broker v' = w_broker v" if "EvaluateRisk E rc c v = (q, v')" "entries_closed (w_db v)" for c v q v'
    using that(2) stays_closed.keeps_app [OF keeps_closed_risk that(1)] same_broker.keeps_app [OF keeps_broker_risk [OF assms(3)] that(1)]
    by (simp add: on_db_def stays_closed_def same_broker_def)
  have x: "entries_closed (w_db v') \<and> w_broker v' = w_broker v" if "ExecuteApprovedOrder E rid v = (q, v')" "entries_closed (w_db v)" for rid v q v'
    using execution_closed [OF that(2,1)] that(2) by simp
  show ?thesis
    using assms(1,2) unfolding HandleCandle_def
    by (auto elim!: attemptE simp: uret_def ufail_def split: sum.splits if_splits option.splits) (metis s k x)+
qed

lemma reset_closed:
  assumes "entries_closed (w_db w)" "ResetPaperState E Reset bal w = (r, w')"
  shows "w_db w' = w_db w \<and> w_broker w' = w_broker w"
  using assms(2) closed_account [OF assms(1)] unfolding ResetPaperState_def Let_def
  by (auto elim!: ubindE wrappedE db_readE simp: usecase_steps AllowsNewEntries_def split: if_splits)

text \<open>A start finds the account and leaves it.\<close>

lemma account_toDomain_error: "account_toDomain D U m = Inl e \<Longrightarrow> \<not> errors_Is e ErrNotFound"
  by (auto simp: account_toDomain_def rbind_Inl_iff ParseAccountID_def NewDrawdown_def dest: not_found_free split: if_splits)

lemma closed_account_found:
  assumes "entries_closed db" "accounts_GetActive D U db = Inl e"
  shows "\<not> errors_Is e ErrNotFound"
proof -
  obtain k m where "(k, m, True) \<in> set (db_accounts db)" using assms(1) by (auto simp: entries_closed_def)
  then obtain n where "active_row (db_accounts db) = Some n" using active_row_ex by blast
  with assms(2) show ?thesis
    using account_toDomain_error by (auto simp: accounts_GetActive_def scan_one_def active_row_def split: option.splits)
qed

lemma bootstrap_closed:
  assumes "entries_closed (w_db w)" "bootstrap E bal w = (r, w')" "honest_faults E"
  shows "entries_closed (w_db w') \<and> w_broker w' = w_broker w"
proof -
  have modes: "db_accounts (w_db v') = db_accounts (w_db v) \<and> w_broker v' = w_broker v" if "db_write E (modes_Save s) v = (q, v')" for s v q v'
    using that by (auto simp: db_write_def infra_def modes_Save_def split: fault.splits prod.splits)
  have "db_accounts (w_db w') = db_accounts (w_db w) \<and> w_broker w' = w_broker w"
    using assms(2) closed_account_found [OF assms(1)] assms(3) unfolding bootstrap_def
    by (auto elim!: ubindE attemptE simp: usecase_steps split: sum.splits if_splits dest!: db_read_Inr db_read_Inl modes)
  with assms(1) show ?thesis by (simp add: entries_closed_def)
qed

section \<open>The running system\<close>

text \<open>
  What happens in the running system, in any order and in any environment: candles, news items, scheduled
  reconciliations, drains of the outbox, requests over HTTP and restarts. One thing is left out:
  a request to resume by someone who may control the system.
\<close>

definition sound_env :: "'b Env \<Rightarrow> bool" where
  "sound_env E \<longleftrightarrow> queries_only E \<and> honest_faults E"

inductive system_step :: "'b World \<Rightarrow> 'b World \<Rightarrow> bool" where
  sys_candle: "sound_env E \<Longrightarrow> HandleCandle E sc rc cmd w = (r, w') \<Longrightarrow> system_step w w'"
| sys_news: "sound_env E \<Longrightarrow> HandleNewsItem E nc ncmd w = (q, w') \<Longrightarrow> system_step w w'"
| sys_reconcile: "sound_env E \<Longrightarrow> ReconcileBrokerState E tol w = (rr, w') \<Longrightarrow> system_step w w'"
| sys_drain: "sound_env E \<Longrightarrow> DrainOnce E um n w = (u, w') \<Longrightarrow> system_step w w'"
| sys_http: "sound_env E \<Longrightarrow> (\<And>cl. \<not> authorised A req CResume cl) \<Longrightarrow> serve E A req w = (resp, w') \<Longrightarrow> system_step w w'"
| sys_restart: "sound_env E \<Longrightarrow> bootstrap E bal w = (u, w') \<Longrightarrow> system_step w w'"

inductive system_run :: "'b World \<Rightarrow> 'b World \<Rightarrow> bool" where
  run_refl: "system_run w w"
| run_more: "system_run w v \<Longrightarrow> system_step v u \<Longrightarrow> system_run w u"

lemma keeps_closed_change:
  "\<not> AllowsNewEntries (Mode_of_string (cm_TargetMode cmd)) \<Longrightarrow> keeps (on_db stays_closed) (ChangeOperationalMode E cmd)"
  unfolding ChangeOperationalMode_def Let_def
  by (intro closed_intros accounts_Save_closed) (simp_all add: SetOperationalMode_def)

lemma keeps_broker_change: "keeps same_broker (ChangeOperationalMode E cmd)"
  unfolding ChangeOperationalMode_def Let_def by (intro same_broker.keeps_db_intros keeps_Publish)

lemma control_closed:
  assumes "entries_closed (w_db w)" "c \<noteq> CResume"
  shows "entries_closed (w_db (snd (control_action E A c cl r w))) \<and> w_broker (snd (control_action E A c cl r w)) = w_broker w"
proof -
  have change: "entries_closed (w_db (snd (ChangeOperationalMode E cmd w))) \<and> w_broker (snd (ChangeOperationalMode E cmd w)) = w_broker w"
    if "\<not> AllowsNewEntries (Mode_of_string (cm_TargetMode cmd))" for cmd
    using keeps_closed_change [OF that, of E] keeps_broker_change [of E cmd] assms(1)
    by (simp add: keeps_def on_db_def stays_closed_def same_broker_def)
  have kill: "entries_closed (w_db (snd (ActivateKillSwitch E cmd w))) \<and> w_broker (snd (ActivateKillSwitch E cmd w)) = w_broker w" for cmd
    using keeps_closed_kill_switch [of E cmd] keeps_broker_kill_switch [of E cmd] assms(1)
    by (simp add: keeps_def on_db_def stays_closed_def same_broker_def)
  have reset: "entries_closed (w_db (snd (ResetPaperState E R b w))) \<and> w_broker (snd (ResetPaperState E R b w)) = w_broker w" for R b
    using reset_closed [OF assms(1), of E R b] assms(1) by (cases "ResetPaperState E R b w") auto
  show ?thesis
    using assms by (cases c) (simp_all add: control_action_def change kill reset Mode_of_string_def AllowsNewEntries_def Let_def)
qed

lemma sound_reads: "sound_env E \<Longrightarrow> reads_only E"
  by (simp add: sound_env_def queries_only_def reads_only_def)

lemma step_closed:
  assumes "system_step w w'" "entries_closed (w_db w)"
  shows "entries_closed (w_db w') \<and> w_broker w' = w_broker w"
  using assms
proof (induction rule: system_step.induct)
  case (sys_candle E sc rc cmd w r w')
  then show ?case using candle_closed [OF _ sys_candle(2) sound_reads] by blast
next
  case (sys_news E nc ncmd w q w')
  obtain p v where run: "ProcessMarketEvent E nc ncmd w = (p, v)" by (cases "ProcessMarketEvent E nc ncmd w")
  then have "w' = v" using sys_news(2) by (auto simp: HandleNewsItem_def attempt_def split: sum.splits if_splits)
  then show ?case
    using sys_news(3) trade_state_kept.keeps_app [OF keeps_trade_state_news run] same_broker.keeps_app [OF keeps_broker_news run]
    by (simp add: on_db_def trade_state_kept_def entries_closed_def same_broker_def)
next
  case (sys_reconcile E tol w rr w')
  have "queries_only E" using sys_reconcile(1) by (simp add: sound_env_def)
  from stays_closed.keeps_app [OF keeps_closed_reconcile sys_reconcile(2)] same_broker.keeps_app [OF keeps_broker_reconcile [OF this] sys_reconcile(2)]
  show ?case using sys_reconcile(3) by (simp add: on_db_def stays_closed_def same_broker_def)
next
  case (sys_drain E um n w u w')
  from stays_closed.keeps_app [OF keeps_closed_drain sys_drain(2)] same_broker.keeps_app [OF keeps_broker_drain sys_drain(2)]
  show ?case using sys_drain(3) by (simp add: on_db_def stays_closed_def same_broker_def)
next
  case (sys_http E A req w resp w')
  have "reads_only E" by (rule sound_reads [OF sys_http(1)])
  moreover have "entries_closed (w_db (snd (control_action E A c cl req v))) \<and> w_broker (snd (control_action E A c cl req v)) = w_broker w"
    if au: "authorised A req c cl" and v: "v = w \<or> v = tick w" for c cl v
  proof -
    have "c \<noteq> CResume" using au sys_http(2) by blast
    moreover have "entries_closed (w_db v)" "w_broker v = w_broker w" using v sys_http(4) by auto
    ultimately show ?thesis using control_closed [of v c E A cl req] by simp
  qed
  ultimately show ?case using serve_effect [of E A req w] sys_http(3,4) by auto
next
  case (sys_restart E bal w u w')
  have "honest_faults E" using sys_restart(1) by (simp add: sound_env_def)
  from bootstrap_closed [OF sys_restart(3,2) this] show ?case .
qed

lemma run_closed: "system_run w w' \<Longrightarrow> entries_closed (w_db w) \<Longrightarrow> entries_closed (w_db w') \<and> w_broker w' = w_broker w"
  by (induction rule: system_run.induct) (use step_closed in auto)

lemma killed_is_closed:
  assumes "accounts_ok U (db_accounts db)" "mode_in_force db ModeKillSwitch"
  shows "entries_closed db"
proof -
  obtain m where m: "active_row (db_accounts db) = Some m" "am_OperationalMode m = Mode_String ModeKillSwitch"
    using assms(2) by (auto simp: mode_in_force_def)
  obtain k where k: "(k, m, True) \<in> set (db_accounts db)" using active_row_in [OF m(1)] by blast
  have closed: "\<not> AllowsNewEntries (Mode_of_string (am_OperationalMode m))"
    by (simp add: m(2) AllowsNewEntries_def Mode_of_string_def Mode_String_def)
  have "\<not> AllowsNewEntries (Mode_of_string (am_OperationalMode n))" if "(j, n, True) \<in> set (db_accounts db)" for j n
    using accounts_ok_unique [OF assms(1) k that] closed by simp
  then show ?thesis unfolding entries_closed_def active_modes_def using k by blast
qed

text \<open>
  The endless loops of the application are runs of the system: the reconciliation scheduler, whose
  ticks log an error and go on, the outbox worker and the market data feed.
\<close>

fun startReconciliationScheduler :: "'b Env \<Rightarrow> decimal \<Rightarrow> nat \<Rightarrow> 'b World \<Rightarrow> 'b World" where
  "startReconciliationScheduler E tol 0 w = w"
| "startReconciliationScheduler E tol (Suc ticks) w = startReconciliationScheduler E tol ticks (snd (ReconcileBrokerState E tol w))"

lemma run_step: "system_step v w \<Longrightarrow> system_run v w"
  by (rule run_more [OF run_refl])

lemma run_trans: "system_run v w \<Longrightarrow> system_run u v \<Longrightarrow> system_run u w"
  by (induction rule: system_run.induct) (auto intro: run_more)

lemma scheduler_runs: "sound_env E \<Longrightarrow> system_run w (startReconciliationScheduler E tol ticks w)"
proof (induction ticks arbitrary: w)
  case (Suc ticks)
  have "system_run w (snd (ReconcileBrokerState E tol w))"
    by (rule run_step, rule sys_reconcile [OF Suc.prems prod.collapse [symmetric]])
  from run_trans [OF Suc.IH [OF Suc.prems] this] show ?case by simp
qed (simp add: run_refl)

lemma worker_runs: "sound_env E \<Longrightarrow> system_run w (drain_rounds E um n rounds w)"
proof (induction rounds arbitrary: w)
  case (Suc rounds)
  have "system_run w (snd (DrainOnce E um n w))"
    by (rule run_step, rule sys_drain [OF Suc.prems prod.collapse [symmetric]])
  from run_trans [OF Suc.IH [OF Suc.prems] this] show ?case by simp
qed (simp add: run_refl)

lemma handled_runs: "sound_env E \<Longrightarrow> system_run w (handled E sc rc seen cs w)"
proof (induction cs arbitrary: seen w)
  case (Cons c cs)
  let ?w = "snd (HandleCandle E sc rc \<lparr>ems_Candle = c, ems_RecentCandles = window seen\<rparr> w)"
  have "system_run w ?w" by (rule run_step, rule sys_candle [OF Cons.prems prod.collapse [symmetric]])
  from run_trans [OF Cons.IH [OF Cons.prems] this] show ?case by simp
qed (simp add: run_refl)


text \<open>
  On the sample database: the switch is thrown, then a reconciliation, a drain of the outbox and a
  restart follow.
\<close>

lemma sample_killed: "\<exists>w'. ActivateKillSwitch quiet_env sample_kill sample_world = (Inr (), w')"
  using kill_switch_succeeds [of quiet_env sample_world "NewState 0" sample_account sample_kill]
  by (simp add: uuid_lib_ref sample_accounts_ok sample_fresh_ids sample_modes_Get sample_GetActive sample_account_storable
      sample_kill_def) (auto simp: NewState_def Mode_Valid_def)

lemma sample_sound: "sound_env quiet_env"
  by (simp add: sound_env_def sample_queries_only quiet_honest)


end
