(* ===== verification/Market_Feeds.thy ===== *)
theory Market_Feeds
  imports Trading_System
begin

text \<open>
  Where candles come from: the kline client over REST (\<^verbatim>\<open>external/marketdata/rest\<close>) and the kline stream
  (\<^verbatim>\<open>external/marketdata/websocket\<close>) that feeds the running application. The network and the decoding of JSON
  are parameters. Shown: whatever arrives, only well-formed candles of the asked symbol get through,
  and the built-in quant engine answers every one of them.
\<close>

section \<open>The REST client\<close>

text \<open>
  A cell of a kline row as \<^verbatim>\<open>encoding/json\<close> decodes it into \<^verbatim>\<open>any\<close>; numbers are of type \<^verbatim>\<open>float64\<close>, here \<open>'f\<close>, and any other value
  is known by the name of its type.
\<close>

datatype 'f cell = CellString string | CellNumber 'f | CellOther string

text \<open>
  What the client talks to: the answer to a request for a URL (status and body) and the decoding of
  the body. The conversion of a float to \<^verbatim>\<open>int64\<close> is the machine's.
\<close>

record 'f KlineServer =
  ks_newRequest :: "string \<Rightarrow> error option"
  ks_get :: "string \<Rightarrow> (int \<times> string) result"
  ks_decode :: "string \<Rightarrow> 'f cell list list result"
  ks_int64 :: "'f \<Rightarrow> int"

definition Millisecond :: duration where
  "Millisecond = 1000000"

text \<open>The zero value of \<^verbatim>\<open>time.Time\<close>, the first of January of the year 1, counted from 1970.\<close>

definition zeroTime :: time where
  "zeroTime = - 62135596800 * Second"

definition decimalFromAny :: "decimal_ops \<Rightarrow> 'f cell \<Rightarrow> decimal result" where
  "decimalFromAny D v = (case v of
       CellString s \<Rightarrow> read_decimal D s
     | CellNumber _ \<Rightarrow> Inl (ErrorText ''marketdata: expected string, got float64'')
     | CellOther t \<Rightarrow> Inl (ErrorText (''marketdata: expected string, got '' @ t)))"

definition millisFromAny :: "('f \<Rightarrow> int) \<Rightarrow> 'f cell \<Rightarrow> time" where
  "millisFromAny int64 v = (case v of CellNumber f \<Rightarrow> int64 f * Millisecond | _ \<Rightarrow> zeroTime)"

text \<open>Five decimals become four prices and a quantity, in the order of the code.\<close>

definition priced_candle :: "decimal_ops \<Rightarrow> Symbol \<Rightarrow> Timeframe \<Rightarrow> decimal \<Rightarrow> decimal \<Rightarrow> decimal \<Rightarrow> decimal \<Rightarrow> decimal \<Rightarrow>
    time \<Rightarrow> time \<Rightarrow> Candle result" where
  "priced_candle D symbol timeframe openDec highDec lowDec closeDec volumeDec openTime closeTime =
     rbind (NewPrice D openDec) (\<lambda>openPrice.
     rbind (NewPrice D highDec) (\<lambda>high.
     rbind (NewPrice D lowDec) (\<lambda>low.
     rbind (NewPrice D closeDec) (\<lambda>closePrice.
     rbind (NewQuantity D volumeDec) (\<lambda>volume.
     NewClosedCandle D symbol timeframe openPrice high low closePrice volume openTime closeTime)))))"

definition parseKline :: "decimal_ops \<Rightarrow> ('f \<Rightarrow> int) \<Rightarrow> Symbol \<Rightarrow> Timeframe \<Rightarrow> 'f cell list \<Rightarrow> Candle result" where
  "parseKline D int64 symbol timeframe k =
     (if length k < 7 then Inl (ErrorText ''marketdata: malformed kline row'')
      else
      rbind (decimalFromAny D (k ! 1)) (\<lambda>openDec.
      rbind (decimalFromAny D (k ! 2)) (\<lambda>high.
      rbind (decimalFromAny D (k ! 3)) (\<lambda>low.
      rbind (decimalFromAny D (k ! 4)) (\<lambda>closePrice.
      rbind (decimalFromAny D (k ! 5)) (\<lambda>volume.
      priced_candle D symbol timeframe openDec high low closePrice volume (millisFromAny int64 (k ! 0)) (millisFromAny int64 (k ! 6))))))))"

fun klines_loop :: "decimal_ops \<Rightarrow> ('f \<Rightarrow> int) \<Rightarrow> Symbol \<Rightarrow> Timeframe \<Rightarrow> 'f cell list list \<Rightarrow> Candle list" where
  "klines_loop D int64 symbol timeframe [] = []"
| "klines_loop D int64 symbol timeframe (k # ks) = (case parseKline D int64 symbol timeframe k of
     Inl _ \<Rightarrow> klines_loop D int64 symbol timeframe ks
   | Inr candle \<Rightarrow> candle # klines_loop D int64 symbol timeframe ks)"

definition klines_url :: "string \<Rightarrow> Symbol \<Rightarrow> Timeframe \<Rightarrow> int \<Rightarrow> string" where
  "klines_url baseURL symbol timeframe limit =
     baseURL @ ''/fapi/v1/klines?symbol='' @ Symbol_String symbol @ ''&interval='' @ Timeframe_String timeframe @ ''&limit='' @ show_int limit"

definition FetchKlines :: "decimal_ops \<Rightarrow> 'f KlineServer \<Rightarrow> string \<Rightarrow> Symbol \<Rightarrow> Timeframe \<Rightarrow> int \<Rightarrow> Candle list result" where
  "FetchKlines D K baseURL symbol timeframe limit =
     (let url = klines_url baseURL symbol timeframe limit in
      case ks_newRequest K url of Some e \<Rightarrow> Inl e | None \<Rightarrow>
      rbind (ks_get K url) (\<lambda>(status, body).
      if 400 \<le> status
      then Inl (ErrorText (''marketdata: http '' @ show_int status @ '' fetching klines for '' @ Symbol_String symbol))
      else (case ks_decode K body of
          Inl e \<Rightarrow> Inl (WrapPrefix ''marketdata: decoding klines'' e)
        | Inr raw \<Rightarrow> Inr (klines_loop D (ks_int64 K) symbol timeframe raw))))"

section \<open>The kline stream\<close>

record klineMessage =
  km_Symbol :: string
  km_Interval :: string
  km_Open :: string
  km_Close :: string
  km_High :: string
  km_Low :: string
  km_Volume :: string
  km_IsClosed :: bool

definition toCandle :: "decimal_ops \<Rightarrow> Symbol \<Rightarrow> Timeframe \<Rightarrow> klineMessage \<Rightarrow> time \<Rightarrow> Candle result" where
  "toCandle D symbol timeframe msg now =
     rbind (read_decimal D (km_Open msg)) (\<lambda>openDec.
     rbind (read_decimal D (km_High msg)) (\<lambda>highDec.
     rbind (read_decimal D (km_Low msg)) (\<lambda>lowDec.
     rbind (read_decimal D (km_Close msg)) (\<lambda>closeDec.
     rbind (read_decimal D (km_Volume msg)) (\<lambda>volumeDec.
     priced_candle D symbol timeframe openDec highDec lowDec closeDec volumeDec (time_Add now (- Minute)) now)))))"

definition stream_url :: "string \<Rightarrow> Symbol \<Rightarrow> Timeframe \<Rightarrow> string" where
  "stream_url baseURL symbol timeframe =
     baseURL @ ''/ws/'' @ ToLower (Symbol_String symbol) @ ''@kline_'' @ Timeframe_String timeframe"

text \<open>
  One connection: the frames that arrive before it breaks, each with the time its handling reads
  off the wall clock. The result is the sequence of candles the handler is called with.
\<close>

fun stream_loop :: "decimal_ops \<Rightarrow> (string \<Rightarrow> klineMessage result) \<Rightarrow> Symbol \<Rightarrow> Timeframe \<Rightarrow> (string \<times> time) list \<Rightarrow> Candle list" where
  "stream_loop D unmarshal symbol timeframe [] = []"
| "stream_loop D unmarshal symbol timeframe ((raw, now) # frames) = (case unmarshal raw of
     Inl _ \<Rightarrow> stream_loop D unmarshal symbol timeframe frames
   | Inr msg \<Rightarrow>
       if \<not> km_IsClosed msg then stream_loop D unmarshal symbol timeframe frames
       else (case toCandle D symbol timeframe msg now of
           Inl _ \<Rightarrow> stream_loop D unmarshal symbol timeframe frames
         | Inr candle \<Rightarrow> candle # stream_loop D unmarshal symbol timeframe frames))"

text \<open>A connection that cannot be dialled has no frames; every connection ends with an error.\<close>

datatype connection = DialFailed error | Streamed "(string \<times> time) list" error

definition Stream :: "decimal_ops \<Rightarrow> (string \<Rightarrow> klineMessage result) \<Rightarrow> Symbol \<Rightarrow> Timeframe \<Rightarrow> connection \<Rightarrow> Candle list \<times> error" where
  "Stream D unmarshal symbol timeframe conn = (case conn of
     DialFailed e \<Rightarrow> ([], WrapPrefix ''marketdata: dialing kline stream'' e)
   | Streamed frames e \<Rightarrow> (stream_loop D unmarshal symbol timeframe frames, WrapPrefix ''marketdata: reading kline stream'' e))"


section \<open>Well-formed candles\<close>

definition candle_ok :: "Symbol \<Rightarrow> Timeframe \<Rightarrow> Candle \<Rightarrow> bool" where
  "candle_ok symbol timeframe c \<longleftrightarrow> cdl_Symbol c = symbol \<and> cdl_Timeframe c = timeframe \<and> 0 < Price_Decimal (cdl_Low c) \<and>
     cdl_Low c \<le> cdl_Open c \<and> cdl_Open c \<le> cdl_High c \<and> cdl_Low c \<le> cdl_Close c \<and> cdl_Close c \<le> cdl_High c \<and>
     0 \<le> Quantity_Decimal (cdl_Volume c) \<and> cdl_OpenTime c < cdl_CloseTime c"

lemma priced_candle_ok:
  assumes "decimal_lib D" "priced_candle D symbol timeframe op hi lo cl v t0 t1 = Inr c"
  shows "candle_ok symbol timeframe c \<and> cdl_OpenTime c = t0 \<and> cdl_CloseTime c = t1"
  using assms(2) by (auto simp: priced_candle_def rbind_Inr_iff NewClosedCandle_Inr [OF assms(1)] candle_ok_def NewPrice_def NewQuantity_def
      assms(1) split: if_splits)

lemma klines_loop_ok: "decimal_lib D \<Longrightarrow> c \<in> set (klines_loop D int64 s tf ks) \<Longrightarrow> candle_ok s tf c"
  by (induction ks) (auto simp: parseKline_def rbind_Inr_iff dest: priced_candle_ok split: sum.splits if_splits)

text \<open>A streamed candle closes when its message is handled and opens a minute earlier, whatever the timeframe.\<close>

lemma toCandle_ok:
  "decimal_lib D \<Longrightarrow> toCandle D s tf msg now = Inr c \<Longrightarrow> candle_ok s tf c \<and> cdl_CloseTime c = now \<and> cdl_OpenTime c = now - Minute"
  by (auto simp: toCandle_def rbind_Inr_iff time_Add_def dest: priced_candle_ok)

lemma stream_loop_ok: "decimal_lib D \<Longrightarrow> c \<in> set (stream_loop D um s tf frames) \<Longrightarrow> candle_ok s tf c"
  by (induction frames) (auto dest: toCandle_ok split: sum.splits if_splits)

section \<open>The stream, the feed and the engine\<close>

text \<open>
  The age of a streamed candle is the time since its message was handled. What the message says
  cannot make it older, so data the exchange sends late is not recognised as stale.
\<close>

lemma stream_age_is_arrival:
  "decimal_lib D \<Longrightarrow> toCandle D s tf msg now = Inr c \<Longrightarrow> AgeExceeds c t maxAge \<longleftrightarrow> time_Sub t now > maxAge"
  using toCandle_ok [of D s tf msg now c] by (simp add: AgeExceeds_def Candle_Age_def)

definition streamed :: "decimal_ops \<Rightarrow> (string \<Rightarrow> klineMessage result) \<Rightarrow> Symbol \<Rightarrow> Timeframe \<Rightarrow> connection list \<Rightarrow> Candle list list" where
  "streamed D unmarshal symbol timeframe conns = map (\<lambda>k. fst (Stream D unmarshal symbol timeframe k)) conns"

text \<open>
  The feed as the application starts it: a fixed symbol and timeframe, whose constructors would panic if they
  refused their constants, and the loop over the connections.
\<close>

definition defaultFeedSymbol :: string where
  "defaultFeedSymbol = ''BTCUSDT''"

definition defaultFeedTimeframe :: string where
  "defaultFeedTimeframe = ''1m''"

definition feed_start :: "'b Env \<Rightarrow> SignalConfig \<Rightarrow> RiskConfig \<Rightarrow> (string \<Rightarrow> klineMessage result) \<Rightarrow> connection list \<Rightarrow> 'b World \<Rightarrow>
    (Feed \<times> 'b World) result" where
  "feed_start E sc rc unmarshal conns w =
     rbind (MustNewSymbol defaultFeedSymbol) (\<lambda>symbol.
     rbind (MustNewTimeframe defaultFeedTimeframe) (\<lambda>timeframe.
     Inr (runMarketDataFeed E sc rc (streamed (en_D E) unmarshal symbol timeframe conns) w)))"

lemma feed_start_runs:
  "feed_start E sc rc um conns w =
     Inr (runMarketDataFeed E sc rc (streamed (en_D E) um (Symbol ''BTCUSDT'') (Timeframe ''1m'') conns) w)"
proof -
  have "MustNewSymbol defaultFeedSymbol = Inr (Symbol ''BTCUSDT'')" "MustNewTimeframe defaultFeedTimeframe = Inr (Timeframe ''1m'')"
    by code_simp+
  then show ?thesis by (simp add: feed_start_def)
qed

lemma Stream_ok: "decimal_lib D \<Longrightarrow> c \<in> set (fst (Stream D um s tf k)) \<Longrightarrow> candle_ok s tf c"
  by (cases k) (auto simp: Stream_def intro: stream_loop_ok)

lemma streamed_ok: "decimal_lib D \<Longrightarrow> c \<in> set (concat (streamed D um s tf conns)) \<Longrightarrow> candle_ok s tf c"
  using Stream_ok by (force simp: streamed_def)

lemma candle_ok_close: "candle_ok s tf c \<Longrightarrow> 0 < Price_Decimal (cdl_Close c)"
  by (auto simp: candle_ok_def order_defs)

lemma window_subset: "set (window cs) \<subseteq> set cs"
  by (simp add: window_def set_drop_subset)


text \<open>
  The klines fetched over REST are well formed and of the asked symbol and timeframe, at most as many as the server sent rows,
  whatever the server answers; an error of the transport, a status of 400 or more and a body that is not
  a list of rows are errors.
\<close>

theorem fetched_klines_well_formed:
  assumes "decimal_lib D" "FetchKlines D K baseURL symbol timeframe limit = Inr cs"
  shows "(\<forall>c \<in> set cs. candle_ok symbol timeframe c) \<and>
    (\<exists>status body rows. ks_get K (klines_url baseURL symbol timeframe limit) = Inr (status, body) \<and> status < 400 \<and>
       ks_decode K body = Inr rows \<and> length cs \<le> length rows)"
proof -
  have len: "length (klines_loop D int64 symbol timeframe ks) \<le> length ks" for int64 :: "'a \<Rightarrow> int" and ks
    by (induction ks) (auto split: sum.splits)
  obtain status body where get: "ks_get K (klines_url baseURL symbol timeframe limit) = Inr (status, body)"
    using assms(2) by (auto simp: FetchKlines_def Let_def rbind_Inr_iff split: option.split_asm)
  then obtain rows where "status < 400" "ks_decode K body = Inr rows" "cs = klines_loop D (ks_int64 K) symbol timeframe rows"
    using assms(2) by (cases "ks_decode K body") (auto simp: FetchKlines_def Let_def split: option.split_asm if_split_asm)
  with get klines_loop_ok [OF assms(1)] len show ?thesis by blast
qed

definition sample_kline :: klineMessage where
  "sample_kline = \<lparr>km_Symbol = ''BTCUSDT'', km_Interval = ''1m'', km_Open = ''101'', km_Close = ''101'', km_High = ''101'', km_Low = ''101'',
     km_Volume = ''2'', km_IsClosed = True\<rparr>"

lemma sample_streamed:
  "concat (streamed sample_read (\<lambda>_. Inr sample_kline) (Symbol ''BTCUSDT'') (Timeframe ''1m'') [Streamed [(''a'', 5)] ErrNotFound, Streamed [(''b'', 9)] ErrNotFound]) =
    map (\<lambda>t. \<lparr>cdl_Symbol = Symbol ''BTCUSDT'', cdl_Timeframe = Timeframe ''1m'', cdl_Open = Price 101, cdl_High = Price 101, cdl_Low = Price 101,
      cdl_Close = Price 101, cdl_Volume = Quantity 2, cdl_OpenTime = t - Minute, cdl_CloseTime = t\<rparr>) [5, 9]"
  by (simp add: streamed_def Stream_def toCandle_def sample_kline_def read_decimal_def sample_read_def priced_candle_def NewPrice_def NewQuantity_def
      NewClosedCandle_def ref_decimal_def time_After_def time_Add_def Minute_def Second_def Price_LessThan_def Price_GreaterThan_def)


definition sample_server :: "int KlineServer" where
  "sample_server = \<lparr>ks_newRequest = (\<lambda>_. None), ks_get = (\<lambda>_. Inr (200, ''rows'')),
     ks_decode = (\<lambda>_. Inr [[CellNumber 0, CellString ''101'', CellString ''101'', CellString ''101'', CellString ''101'', CellString ''2'', CellNumber 60000], [CellOther ''bool'']]),
     ks_int64 = id\<rparr>"

theorem fetched_klines_well_formed_witness:
  "\<exists>c. FetchKlines sample_read sample_server ''https://x'' (Symbol ''BTCUSDT'') (Timeframe ''1m'') 2 = Inr [c] \<and> candle_ok (Symbol ''BTCUSDT'') (Timeframe ''1m'') c"
proof -
  obtain c where c: "FetchKlines sample_read sample_server ''https://x'' (Symbol ''BTCUSDT'') (Timeframe ''1m'') 2 = Inr [c]"
    by (simp add: FetchKlines_def sample_server_def parseKline_def decimalFromAny_def millisFromAny_def Let_def read_decimal_def sample_read_def
        priced_candle_def NewPrice_def NewQuantity_def NewClosedCandle_def ref_decimal_def time_After_def Millisecond_def Price_LessThan_def Price_GreaterThan_def)
  with fetched_klines_well_formed [OF decimal_lib_sample_read c] show ?thesis by auto
qed

end
