(* ===== verification/Dashboard_Hub.thy ===== *)
theory Dashboard_Hub
  imports Go_Prelude
begin

text \<open>
  The WebSocket interface of the dashboard, \<^verbatim>\<open>internal/interfaces/websocket\<close>: the hub with its lock, the
  connections with their buffered channels, and the goroutines that use them at the same time
  (broadcasts, connecting and disconnecting clients, write pumps), interleaved at the granularity of
  single channel operations. Shown: no interleaving sends on a closed channel or closes a channel
  twice, no client gets a message twice, and the buffers keep their bound.
\<close>

section \<open>A connection\<close>

text \<open>
  A message carries the number of the broadcast it belongs to, which the program does not have; it
  tells equal messages of different broadcasts apart.
\<close>

type_synonym client = nat
type_synonym numbered = "nat \<times> string"

definition sendBuffer :: nat where
  "sendBuffer = 32"

definition ErrClosed :: error where
  "ErrClosed = ErrorText ''connection closed''"

definition ErrSendBuffer :: error where
  "ErrSendBuffer = ErrorText ''send buffer full''"

text \<open>
  The channel \<^verbatim>\<open>send\<close> is its buffer and whether it is closed, the channel \<^verbatim>\<open>closed\<close> only whether it is;
  \<open>cn_written\<close> is what the write pump has put on the socket, \<open>cn_pumping\<close> whether it is still running.
\<close>

record Connection =
  cn_send :: "numbered list"
  cn_sendClosed :: bool
  cn_closeOnce :: bool
  cn_closed :: bool
  cn_socketOpen :: bool
  cn_written :: "numbered list"
  cn_pumping :: bool

definition connection_New :: Connection where
  "connection_New = \<lparr>cn_send = [], cn_sendClosed = False, cn_closeOnce = False, cn_closed = False, cn_socketOpen = True,
     cn_written = [], cn_pumping = True\<rparr>"

text \<open>The second \<^verbatim>\<open>select\<close> of \<^verbatim>\<open>Send\<close>: a send that does not wait.\<close>

definition chan_send :: "numbered \<Rightarrow> Connection \<Rightarrow> unit result \<times> Connection" where
  "chan_send msg c =
     (if cn_sendClosed c then (Inl (Panic ''send on closed channel''), c)
      else if length (cn_send c) < sendBuffer then (Inr (), c\<lparr>cn_send := cn_send c @ [msg]\<rparr>)
      else (Inl ErrSendBuffer, c))"

definition Send :: "numbered \<Rightarrow> Connection \<Rightarrow> unit result \<times> Connection" where
  "Send msg c = (if cn_closed c then (Inl ErrClosed, c) else chan_send msg c)"

definition close_send :: "Connection \<Rightarrow> unit result \<times> Connection" where
  "close_send c = (if cn_sendClosed c then (Inl (Panic ''close of closed channel''), c) else (Inr (), c\<lparr>cn_sendClosed := True\<rparr>))"

definition connection_Close :: "Connection \<Rightarrow> unit result \<times> Connection" where
  "connection_Close c =
     (case (if cn_closeOnce c then (Inr (), c) else close_send (c\<lparr>cn_closeOnce := True, cn_closed := True\<rparr>)) of
        (Inl e, c) \<Rightarrow> (Inl e, c)
      | (Inr _, c) \<Rightarrow> (Inr (), c\<lparr>cn_socketOpen := False\<rparr>))"

text \<open>
  One round of the write pump: either the ticker fires and a ping is written, or a buffered message is, or a closed
  and drained channel ends the pump; an empty open channel gives nothing. \<open>ok\<close> is the answer of the socket; a failed
  write ends the pump.
\<close>

definition WritePump_round :: "bool \<Rightarrow> bool \<Rightarrow> Connection \<Rightarrow> Connection" where
  "WritePump_round ticked ok c =
     (if ticked then if ok then c else c\<lparr>cn_pumping := False\<rparr>
      else case cn_send c of
        msg # rest \<Rightarrow> if ok then c\<lparr>cn_send := rest, cn_written := cn_written c @ [msg]\<rparr> else c\<lparr>cn_send := rest, cn_pumping := False\<rparr>
      | [] \<Rightarrow> if cn_sendClosed c then c\<lparr>cn_pumping := False\<rparr> else c)"

section \<open>The hub\<close>

record Hub =
  hb_clients :: "client set"
  hb_conns :: "client \<Rightarrow> Connection"

definition NewHub :: Hub where
  "NewHub = \<lparr>hb_clients = {}, hb_conns = (\<lambda>_. connection_New)\<rparr>"

definition Register :: "client \<Rightarrow> Hub \<Rightarrow> Hub" where
  "Register c h = h\<lparr>hb_clients := insert c (hb_clients h)\<rparr>"

text \<open>The error of \<^verbatim>\<open>Close\<close> is dropped; a panic would not be.\<close>

definition Unregister :: "client \<Rightarrow> Hub \<Rightarrow> unit result \<times> Hub" where
  "Unregister c h =
     (if c \<notin> hb_clients h then (Inr (), h)
      else case connection_Close (hb_conns h c) of (r, d) \<Rightarrow>
        (case r of Inl (Panic t) \<Rightarrow> Inl (Panic t) | _ \<Rightarrow> Inr (),
         h\<lparr>hb_clients := hb_clients h - {c}, hb_conns := (hb_conns h)(c := d)\<rparr>))"

definition ClientCount :: "Hub \<Rightarrow> nat" where
  "ClientCount h = card (hb_clients h)"

text \<open>
  The loop over the clients. The order in which a map is ranged over is not specified, so it is an
  argument: any enumeration of the clients. Errors of \<^verbatim>\<open>Send\<close> are logged.
\<close>

fun broadcast_loop :: "numbered \<Rightarrow> client list \<Rightarrow> Hub \<Rightarrow> unit result \<times> Hub" where
  "broadcast_loop body [] h = (Inr (), h)"
| "broadcast_loop body (c # cs) h = (case Send body (hb_conns h c) of
     (Inl (Panic t), d) \<Rightarrow> (Inl (Panic t), h\<lparr>hb_conns := (hb_conns h)(c := d)\<rparr>)
   | (_, d) \<Rightarrow> broadcast_loop body cs (h\<lparr>hb_conns := (hb_conns h)(c := d)\<rparr>))"

definition Broadcast :: "(string \<Rightarrow> 'p \<Rightarrow> string result) \<Rightarrow> nat \<Rightarrow> client list \<Rightarrow> string \<Rightarrow> 'p \<Rightarrow> Hub \<Rightarrow> unit result \<times> Hub" where
  "Broadcast marshal number order msgType payload h = (case marshal msgType payload of
     Inl _ \<Rightarrow> (Inr (), h)
   | Inr body \<Rightarrow> broadcast_loop (number, body) order h)"

section \<open>Goroutines\<close>

text \<open>
  Where a goroutine stands that uses the hub. A broadcast holds the lock for reading from its first
  client to its last and is, between the two \<^verbatim>\<open>select\<close>s of \<^verbatim>\<open>Send\<close>, at \<open>BPush\<close>. Unregistering holds
  the lock for writing while it looks the client up, deletes it and closes its two channels, one
  after the other.
\<close>

datatype position_in_code =
    Idle
  | BLoop numbered "client list"
  | BPush numbered client "client list"
  | UHeld client
  | UClosing client
  | UClosingSend client
  | UEnd

record Dashboard =
  ds_hub :: Hub
  ds_known :: "client set"
  ds_readers :: "nat set"
  ds_writer :: "nat option"
  ds_pc :: "nat \<Rightarrow> position_in_code"
  ds_count :: nat
  ds_panicked :: bool

abbreviation ds_clients :: "Dashboard \<Rightarrow> client set" where
  "ds_clients s \<equiv> hb_clients (ds_hub s)"

abbreviation ds_conn :: "Dashboard \<Rightarrow> client \<Rightarrow> Connection" where
  "ds_conn s \<equiv> hb_conns (ds_hub s)"

definition at_pc :: "nat \<Rightarrow> position_in_code \<Rightarrow> Dashboard \<Rightarrow> Dashboard" where
  "at_pc t p s = s\<lparr>ds_pc := (ds_pc s)(t := p)\<rparr>"

definition set_conn :: "client \<Rightarrow> Connection \<Rightarrow> Dashboard \<Rightarrow> Dashboard" where
  "set_conn c d s = s\<lparr>ds_hub := (ds_hub s)\<lparr>hb_conns := (ds_conn s)(c := d)\<rparr>\<rparr>"

definition note_panic :: "unit result \<Rightarrow> Dashboard \<Rightarrow> Dashboard" where
  "note_panic r s = s\<lparr>ds_panicked := ds_panicked s \<or> (case r of Inl (Panic _) \<Rightarrow> True | _ \<Rightarrow> False)\<rparr>"

definition dashboard_start :: Dashboard where
  "dashboard_start = \<lparr>ds_hub = NewHub, ds_known = {}, ds_readers = {}, ds_writer = None, ds_pc = (\<lambda>_. Idle), ds_count = 0, ds_panicked = False\<rparr>"

text \<open>An upgraded request: a new connection is registered, and its two pumps run from then on.\<close>

definition websocket_ServeHTTP :: "client \<Rightarrow> Dashboard \<Rightarrow> Dashboard" where
  "websocket_ServeHTTP c s = (set_conn c connection_New s)\<lparr>ds_hub := Register c (ds_hub (set_conn c connection_New s)), ds_known := insert c (ds_known s)\<rparr>"

text \<open>
  The steps: \<open>t\<close> is the goroutine, \<open>c\<close> the connection. A client connects with a connection that was
  not there before; the lock is free while it is registered. A write pump takes no lock.
\<close>

inductive dash_step :: "Dashboard \<Rightarrow> Dashboard \<Rightarrow> bool" where
  connect: "ds_readers s = {} \<Longrightarrow> ds_writer s = None \<Longrightarrow> c \<notin> ds_known s \<Longrightarrow> dash_step s (websocket_ServeHTTP c s)"
| bcast_lock: "ds_pc s t = Idle \<Longrightarrow> ds_writer s = None \<Longrightarrow> distinct cs \<Longrightarrow> set cs = ds_clients s \<Longrightarrow>
    dash_step s ((at_pc t (BLoop (ds_count s, body) cs) s)\<lparr>ds_readers := insert t (ds_readers s), ds_count := Suc (ds_count s)\<rparr>)"
| bcast_closed: "ds_pc s t = BLoop m (c # cs) \<Longrightarrow> cn_closed (ds_conn s c) \<Longrightarrow> dash_step s (at_pc t (BLoop m cs) s)"
| bcast_open: "ds_pc s t = BLoop m (c # cs) \<Longrightarrow> \<not> cn_closed (ds_conn s c) \<Longrightarrow> dash_step s (at_pc t (BPush m c cs) s)"
| bcast_push: "ds_pc s t = BPush m c cs \<Longrightarrow> chan_send m (ds_conn s c) = (r, d) \<Longrightarrow>
    dash_step s (note_panic r (at_pc t (BLoop m cs) (set_conn c d s)))"
| bcast_unlock: "ds_pc s t = BLoop m [] \<Longrightarrow> dash_step s ((at_pc t Idle s)\<lparr>ds_readers := ds_readers s - {t}\<rparr>)"
| unreg_lock: "ds_pc s t = Idle \<Longrightarrow> ds_readers s = {} \<Longrightarrow> ds_writer s = None \<Longrightarrow> dash_step s ((at_pc t (UHeld c) s)\<lparr>ds_writer := Some t\<rparr>)"
| unreg_absent: "ds_pc s t = UHeld c \<Longrightarrow> c \<notin> ds_clients s \<Longrightarrow> dash_step s (at_pc t UEnd s)"
| unreg_delete: "ds_pc s t = UHeld c \<Longrightarrow> c \<in> ds_clients s \<Longrightarrow>
    dash_step s (at_pc t (UClosing c) (s\<lparr>ds_hub := (ds_hub s)\<lparr>hb_clients := ds_clients s - {c}\<rparr>\<rparr>))"
| unreg_again: "ds_pc s t = UClosing c \<Longrightarrow> cn_closeOnce (ds_conn s c) \<Longrightarrow>
    dash_step s (at_pc t UEnd (set_conn c ((ds_conn s c)\<lparr>cn_socketOpen := False\<rparr>) s))"
| unreg_close: "ds_pc s t = UClosing c \<Longrightarrow> \<not> cn_closeOnce (ds_conn s c) \<Longrightarrow>
    dash_step s (at_pc t (UClosingSend c) (set_conn c ((ds_conn s c)\<lparr>cn_closeOnce := True, cn_closed := True\<rparr>) s))"
| unreg_close_send: "ds_pc s t = UClosingSend c \<Longrightarrow> close_send (ds_conn s c) = (r, d) \<Longrightarrow>
    dash_step s (note_panic r (at_pc t UEnd (set_conn c (d\<lparr>cn_socketOpen := False\<rparr>) s)))"
| unreg_unlock: "ds_pc s t = UEnd \<Longrightarrow> dash_step s ((at_pc t Idle s)\<lparr>ds_writer := None\<rparr>)"
| pump: "c \<in> ds_known s \<Longrightarrow> cn_pumping (ds_conn s c) \<Longrightarrow> dash_step s (set_conn c (WritePump_round ticked ok (ds_conn s c)) s)"

section \<open>The invariant\<close>

fun reading :: "position_in_code \<Rightarrow> bool" where
  "reading (BLoop _ _) = True"
| "reading (BPush _ _ _) = True"
| "reading _ = False"

fun writing :: "position_in_code \<Rightarrow> bool" where
  "writing (UHeld _) = True"
| "writing (UClosing _) = True"
| "writing (UClosingSend _) = True"
| "writing UEnd = True"
| "writing _ = False"

text \<open>The clients a broadcast still has to serve, and the number of its message.\<close>

fun todo :: "position_in_code \<Rightarrow> client list" where
  "todo (BLoop _ cs) = cs"
| "todo (BPush _ c cs) = c # cs"
| "todo _ = []"

fun number :: "position_in_code \<Rightarrow> nat option" where
  "number (BLoop m _) = Some (fst m)"
| "number (BPush m _ _) = Some (fst m)"
| "number _ = None"

definition seen :: "Connection \<Rightarrow> nat list" where
  "seen d = map fst (cn_written d @ cn_send d)"

definition conn_ok :: "Connection \<Rightarrow> bool" where
  "conn_ok d \<longleftrightarrow> length (cn_send d) \<le> sendBuffer \<and> distinct (seen d) \<and> (cn_sendClosed d \<longrightarrow> cn_closed d) \<and> cn_closeOnce d = cn_closed d"

text \<open>The lock: who holds it stands where it is held, and a writer is alone.\<close>

definition lock_ok :: "Dashboard \<Rightarrow> bool" where
  "lock_ok s \<longleftrightarrow> (\<forall>t. t \<in> ds_readers s \<longleftrightarrow> reading (ds_pc s t)) \<and> (\<forall>t. ds_writer s = Some t \<longleftrightarrow> writing (ds_pc s t)) \<and>
     (ds_writer s \<noteq> None \<longrightarrow> ds_readers s = {})"

text \<open>The clients of the hub are open, a broadcast serves only clients of the hub, each once.\<close>

definition clients_ok :: "Dashboard \<Rightarrow> bool" where
  "clients_ok s \<longleftrightarrow> ds_clients s \<subseteq> ds_known s \<and> (\<forall>c \<in> ds_clients s. \<not> cn_closed (ds_conn s c)) \<and>
     (\<forall>t. set (todo (ds_pc s t)) \<subseteq> ds_clients s \<and> distinct (todo (ds_pc s t)))"

definition closing_ok :: "Dashboard \<Rightarrow> bool" where
  "closing_ok s \<longleftrightarrow> (\<forall>t c. (ds_pc s t = UClosing c \<longrightarrow> c \<notin> ds_clients s \<and> c \<in> ds_known s \<and> \<not> cn_closed (ds_conn s c)) \<and>
     (ds_pc s t = UClosingSend c \<longrightarrow> c \<notin> ds_clients s \<and> c \<in> ds_known s \<and> cn_closed (ds_conn s c) \<and> \<not> cn_sendClosed (ds_conn s c)))"

definition numbers_ok :: "Dashboard \<Rightarrow> bool" where
  "numbers_ok s \<longleftrightarrow> (\<forall>c. \<forall>n \<in> set (seen (ds_conn s c)). n < ds_count s) \<and>
     (\<forall>t n. number (ds_pc s t) = Some n \<longrightarrow> n < ds_count s \<and>
        (\<forall>c \<in> set (todo (ds_pc s t)). n \<notin> set (seen (ds_conn s c))) \<and> (\<forall>u. number (ds_pc s u) = Some n \<longrightarrow> u = t))"

definition dash_ok :: "Dashboard \<Rightarrow> bool" where
  "dash_ok s \<longleftrightarrow> \<not> ds_panicked s \<and> (\<forall>c. conn_ok (ds_conn s c)) \<and> lock_ok s \<and> clients_ok s \<and> closing_ok s \<and> numbers_ok s"

lemma at_pc_simps [simp]:
  "ds_hub (at_pc t p s) = ds_hub s" "ds_known (at_pc t p s) = ds_known s" "ds_readers (at_pc t p s) = ds_readers s"
  "ds_writer (at_pc t p s) = ds_writer s" "ds_pc (at_pc t p s) = (ds_pc s)(t := p)" "ds_count (at_pc t p s) = ds_count s"
  "ds_panicked (at_pc t p s) = ds_panicked s"
  by (simp_all add: at_pc_def)

lemma set_conn_simps [simp]:
  "ds_clients (set_conn c d s) = ds_clients s" "ds_conn (set_conn c d s) = (ds_conn s)(c := d)" "ds_known (set_conn c d s) = ds_known s"
  "ds_readers (set_conn c d s) = ds_readers s" "ds_writer (set_conn c d s) = ds_writer s" "ds_pc (set_conn c d s) = ds_pc s"
  "ds_count (set_conn c d s) = ds_count s" "ds_panicked (set_conn c d s) = ds_panicked s"
  by (simp_all add: set_conn_def)

lemma note_panic_simps [simp]:
  "ds_hub (note_panic r s) = ds_hub s" "ds_known (note_panic r s) = ds_known s" "ds_readers (note_panic r s) = ds_readers s"
  "ds_writer (note_panic r s) = ds_writer s" "ds_pc (note_panic r s) = ds_pc s" "ds_count (note_panic r s) = ds_count s"
  by (simp_all add: note_panic_def)

lemma connected_simps [simp]:
  "ds_clients (websocket_ServeHTTP c s) = insert c (ds_clients s)" "ds_conn (websocket_ServeHTTP c s) = (ds_conn s)(c := connection_New)"
  "ds_known (websocket_ServeHTTP c s) = insert c (ds_known s)" "ds_readers (websocket_ServeHTTP c s) = ds_readers s"
  "ds_writer (websocket_ServeHTTP c s) = ds_writer s" "ds_pc (websocket_ServeHTTP c s) = ds_pc s"
  "ds_count (websocket_ServeHTTP c s) = ds_count s" "ds_panicked (websocket_ServeHTTP c s) = ds_panicked s"
  by (simp_all add: websocket_ServeHTTP_def Register_def)

text \<open>What the operations do to one connection.\<close>

lemma connection_New_ok: "conn_ok connection_New" "seen connection_New = []" "\<not> cn_closed connection_New"
  by (simp_all add: connection_New_def conn_ok_def seen_def)

lemma seen_flags [simp]:
  "seen (d\<lparr>cn_send := cn_send d @ [m]\<rparr>) = seen d @ [fst m]" "seen (d\<lparr>cn_sendClosed := b\<rparr>) = seen d"
  "seen (d\<lparr>cn_closeOnce := b, cn_closed := b'\<rparr>) = seen d" "seen (d\<lparr>cn_socketOpen := b\<rparr>) = seen d"
  by (simp_all add: seen_def)

lemma chan_send_ok:
  assumes "chan_send m d = (r, d')" "conn_ok d" "fst m \<notin> set (seen d)"
  shows "conn_ok d'" "set (seen d') \<subseteq> insert (fst m) (set (seen d))"
    "cn_closed d' = cn_closed d" "cn_sendClosed d' = cn_sendClosed d" "\<not> cn_sendClosed d \<Longrightarrow> r = Inr () \<or> r = Inl ErrSendBuffer"
  using assms by (auto simp: chan_send_def conn_ok_def split: if_splits)

lemma close_send_ok:
  assumes "close_send d = (r, d')" "conn_ok d" "cn_closed d"
  shows "conn_ok (d'\<lparr>cn_socketOpen := False\<rparr>)" "seen d' = seen d" "cn_closed d' = cn_closed d" "\<not> cn_sendClosed d \<Longrightarrow> r = Inr ()"
  using assms by (auto simp: close_send_def conn_ok_def split: if_splits)

lemma WritePump_round_ok:
  assumes "conn_ok d"
  shows "conn_ok (WritePump_round ticked ok d)" "set (seen (WritePump_round ticked ok d)) \<subseteq> set (seen d)"
    "cn_closed (WritePump_round ticked ok d) = cn_closed d" "cn_sendClosed (WritePump_round ticked ok d) = cn_sendClosed d"
proof -
  have s: "seen (WritePump_round ticked ok d) = seen d \<or> (\<exists>m. seen d = map fst (cn_written d) @ m # map fst (cn_send (WritePump_round ticked ok d)) \<and>
      seen (WritePump_round ticked ok d) = map fst (cn_written d) @ map fst (cn_send (WritePump_round ticked ok d)))"
    by (cases "cn_send d") (auto simp: WritePump_round_def seen_def)
  then show "set (seen (WritePump_round ticked ok d)) \<subseteq> set (seen d)" by auto
  have "distinct (seen (WritePump_round ticked ok d))" using s assms unfolding conn_ok_def by auto
  then show "conn_ok (WritePump_round ticked ok d)" using assms by (auto simp: conn_ok_def WritePump_round_def split: list.splits)
qed (auto simp: WritePump_round_def split: list.splits)

text \<open>The steps keep each part of the invariant.\<close>

lemma conns_ok_step: "dash_step s s' \<Longrightarrow> dash_ok s \<Longrightarrow> conn_ok (ds_conn s' c)"
proof (induction rule: dash_step.induct)
  case (bcast_push s t m d cs r d')
  have "number (ds_pc s t) = Some (fst m)" "d \<in> set (todo (ds_pc s t))" using bcast_push(1) by simp_all
  then have "fst m \<notin> set (seen (ds_conn s d))" using bcast_push(3) unfolding dash_ok_def numbers_ok_def by blast
  with bcast_push show ?case by (auto simp: dash_ok_def chan_send_ok(1))
next
  case (unreg_close_send s t d r d')
  then have "cn_closed (ds_conn s d)" by (simp add: dash_ok_def closing_ok_def)
  with unreg_close_send show ?case by (auto simp: dash_ok_def close_send_ok(1))
qed (auto simp: dash_ok_def connection_New_ok WritePump_round_ok(1), auto simp: conn_ok_def)

lemma lock_ok_step: "dash_step s s' \<Longrightarrow> lock_ok s \<Longrightarrow> lock_ok s'"
proof (induction rule: dash_step.induct)
  case (unreg_unlock s t)
  then have "ds_writer s = Some t" by (simp add: lock_ok_def)
  with unreg_unlock show ?case by (auto simp: lock_ok_def)
qed (auto simp: lock_ok_def)

lemma holders:
  assumes "lock_ok s"
  shows "reading (ds_pc s t) \<Longrightarrow> \<not> writing (ds_pc s u)" "writing (ds_pc s t) \<Longrightarrow> writing (ds_pc s u) \<Longrightarrow> u = t"
    "ds_writer s = None \<Longrightarrow> \<not> writing (ds_pc s t)" "ds_readers s = {} \<Longrightarrow> \<not> reading (ds_pc s t)"
  using assms unfolding lock_ok_def by (metis empty_iff option.discI, metis option.inject, metis option.discI, metis empty_iff)

lemma not_reading_todo: "\<not> reading p \<Longrightarrow> todo p = [] \<and> number p = None"
  by (cases p) simp_all

text \<open>What the invariant says of a goroutine, by where it stands.\<close>

lemma serving:
  assumes "dash_ok s" "todo (ds_pc s t) = cs" "number (ds_pc s t) = Some n"
  shows "set cs \<subseteq> ds_clients s" "distinct cs" "n < ds_count s" "x \<in> set cs \<Longrightarrow> n \<notin> set (seen (ds_conn s x))"
    "number (ds_pc s u) = Some n \<Longrightarrow> u = t"
proof -
  show "set cs \<subseteq> ds_clients s" "distinct cs" using assms unfolding dash_ok_def clients_ok_def by metis+
  show "n < ds_count s" "x \<in> set cs \<Longrightarrow> n \<notin> set (seen (ds_conn s x))" "number (ds_pc s u) = Some n \<Longrightarrow> u = t"
    using assms unfolding dash_ok_def numbers_ok_def by metis+
qed

lemma in_loop:
  assumes "ds_pc s t = BLoop m cs" "dash_ok s"
  shows "set cs \<subseteq> ds_clients s" "distinct cs" "fst m < ds_count s" "x \<in> set cs \<Longrightarrow> fst m \<notin> set (seen (ds_conn s x))"
    "number (ds_pc s u) = Some (fst m) \<Longrightarrow> u = t"
  using serving [OF assms(2), of t cs "fst m"] assms(1) by simp_all

lemma at_push:
  assumes "ds_pc s t = BPush m c cs" "dash_ok s"
  shows "set (c # cs) \<subseteq> ds_clients s" "distinct (c # cs)" "fst m < ds_count s" "x \<in> set (c # cs) \<Longrightarrow> fst m \<notin> set (seen (ds_conn s x))"
    "number (ds_pc s u) = Some (fst m) \<Longrightarrow> u = t"
  using serving [OF assms(2), of t "c # cs" "fst m"] assms(1) by simp_all

lemma closing:
  assumes "dash_ok s"
  shows "ds_pc s t = UClosing c \<Longrightarrow> c \<notin> ds_clients s \<and> c \<in> ds_known s \<and> \<not> cn_closed (ds_conn s c)"
    "ds_pc s t = UClosingSend c \<Longrightarrow> c \<notin> ds_clients s \<and> c \<in> ds_known s \<and> cn_closed (ds_conn s c) \<and> \<not> cn_sendClosed (ds_conn s c)"
  using assms by (simp_all add: dash_ok_def closing_ok_def)

lemma open_clients: "dash_ok s \<Longrightarrow> c \<in> ds_clients s \<Longrightarrow> \<not> cn_closed (ds_conn s c) \<and> \<not> cn_sendClosed (ds_conn s c) \<and> c \<in> ds_known s"
  by (auto simp: dash_ok_def clients_ok_def conn_ok_def)

lemma clients_ok_step: "dash_step s s' \<Longrightarrow> dash_ok s \<Longrightarrow> clients_ok s'"
proof (induction rule: dash_step.induct)
  case (connect s c)
  then show ?case by (auto simp: dash_ok_def clients_ok_def connection_New_ok)
next
  case (bcast_closed s t m c cs)
  with in_loop(1,2) [OF bcast_closed(1,3)] show ?case by (auto simp: dash_ok_def clients_ok_def)
next
  case (bcast_open s t m c cs)
  with in_loop(1,2) [OF bcast_open(1,3)] show ?case by (auto simp: dash_ok_def clients_ok_def)
next
  case (bcast_push s t m c cs r d)
  have "cn_closed d = cn_closed (ds_conn s c)" using bcast_push(2) by (auto simp: chan_send_def split: if_splits)
  with at_push(1,2) [OF bcast_push(1,3)] bcast_push(3) show ?case by (auto simp: dash_ok_def clients_ok_def)
next
  case (unreg_delete s t c)
  then have "todo (ds_pc s u) = []" for u using holders(1) [of s u t] not_reading_todo by (auto simp: dash_ok_def)
  with unreg_delete show ?case by (auto simp: dash_ok_def clients_ok_def)
next
  case (unreg_close s t c)
  with closing(1) [OF unreg_close(3,1)] show ?case by (auto simp: dash_ok_def clients_ok_def)
next
  case (unreg_close_send s t c r d)
  with closing(2) [OF unreg_close_send(3,1)] show ?case by (auto simp: dash_ok_def clients_ok_def)
qed (auto simp: dash_ok_def clients_ok_def WritePump_round_ok)

lemma closing_alone:
  assumes "\<And>u. u \<noteq> t \<Longrightarrow> \<not> writing (ds_pc s u)"
    "\<And>c. ds_pc s t = UClosing c \<Longrightarrow> c \<notin> ds_clients s \<and> c \<in> ds_known s \<and> \<not> cn_closed (ds_conn s c)"
    "\<And>c. ds_pc s t = UClosingSend c \<Longrightarrow> c \<notin> ds_clients s \<and> c \<in> ds_known s \<and> cn_closed (ds_conn s c) \<and> \<not> cn_sendClosed (ds_conn s c)"
  shows "closing_ok s"
  unfolding closing_ok_def using assms by (metis writing.simps(2,3))

lemma closing_ok_step: "dash_step s s' \<Longrightarrow> dash_ok s \<Longrightarrow> closing_ok s'"
proof (induction rule: dash_step.induct)
  case (connect s c)
  then have "\<not> writing (ds_pc s t)" for t using holders(3) by (auto simp: dash_ok_def)
  then show ?case by (intro closing_alone) (simp, (metis connected_simps(6) writing.simps(2,3))+)
next
  case (bcast_push s t m c cs r d)
  then have "\<not> writing (ds_pc s u)" for u using holders(1) [of s t u] by (simp add: dash_ok_def)
  then show ?case by (intro closing_alone [of t]) simp_all
next
  case (unreg_delete s t c)
  then have "\<not> writing (ds_pc s u)" if "u \<noteq> t" for u using holders(2) [of s t u] that by (auto simp: dash_ok_def)
  with open_clients [OF unreg_delete(3,2)] show ?case by (intro closing_alone [of t]) simp_all
next
  case (unreg_close s t c)
  then have "\<not> writing (ds_pc s u)" if "u \<noteq> t" for u using holders(2) [of s t u] that by (auto simp: dash_ok_def)
  moreover have "\<not> cn_sendClosed (ds_conn s c)" using unreg_close(3) closing(1) [OF unreg_close(3,1)] by (auto simp: dash_ok_def conn_ok_def)
  ultimately show ?case using closing(1) [OF unreg_close(3,1)] by (intro closing_alone [of t]) simp_all
next
  case (unreg_close_send s t c r d)
  then have "\<not> writing (ds_pc s u)" if "u \<noteq> t" for u using holders(2) [of s t u] that by (auto simp: dash_ok_def)
  then show ?case by (intro closing_alone [of t]) simp_all
next
  case (unreg_again s t c)
  with closing(1) [OF unreg_again(3,1)] show ?case by (auto simp: dash_ok_def conn_ok_def)
qed (auto simp: dash_ok_def closing_ok_def WritePump_round_ok)

text \<open>A step of one goroutine, which may add its own number to connections it is done with.\<close>

lemma numbers_okI:
  assumes "dash_ok s" "ds_pc s' = (ds_pc s)(t := p)" "ds_count s \<le> ds_count s'"
    and new: "\<And>c n. n \<in> set (seen (ds_conn s' c)) \<Longrightarrow> n \<in> set (seen (ds_conn s c)) \<or> number (ds_pc s t) = Some n"
    and own: "\<And>n. number p = Some n \<Longrightarrow> n < ds_count s' \<and> (\<forall>u. u \<noteq> t \<longrightarrow> number (ds_pc s u) \<noteq> Some n) \<and>
      (\<forall>c \<in> set (todo p). n \<notin> set (seen (ds_conn s' c)))"
  shows "numbers_ok s'"
proof -
  have ok: "numbers_ok s" using assms(1) by (simp add: dash_ok_def)
  have "n < ds_count s'" if "n \<in> set (seen (ds_conn s' c))" for c n
    using new [OF that] ok assms(3) unfolding numbers_ok_def by (meson less_le_trans)
  moreover have "n < ds_count s' \<and> (\<forall>c \<in> set (todo (ds_pc s u)). n \<notin> set (seen (ds_conn s' c))) \<and> (\<forall>v. number (ds_pc s' v) = Some n \<longrightarrow> v = u)"
    if u: "number (ds_pc s u) = Some n" "u \<noteq> t" for u n
  proof (intro conjI ballI allI impI notI)
    show "n < ds_count s'" using ok u(1) assms(3) unfolding numbers_ok_def by (meson less_le_trans)
    have no: "number (ds_pc s t) \<noteq> Some n" using ok u unfolding numbers_ok_def by metis
    then show False if "c \<in> set (todo (ds_pc s u))" "n \<in> set (seen (ds_conn s' c))" for c
      using new [OF that(2)] ok u(1) that(1) unfolding numbers_ok_def by metis
    show "v = u" if "number (ds_pc s' v) = Some n" for v
    proof (cases "v = t")
      case True
      with that assms(2) have "number p = Some n" by simp
      with own u show ?thesis by blast
    next
      case False
      with that assms(2) ok u(1) show ?thesis unfolding numbers_ok_def by (metis fun_upd_apply)
    qed
  qed
  moreover have "\<forall>v. number (ds_pc s' v) = Some n \<longrightarrow> v = t" if "number p = Some n" for n
    using own [OF that] assms(2) by (metis fun_upd_apply)
  ultimately show ?thesis using own assms(2) unfolding numbers_ok_def by (metis fun_upd_apply)
qed

lemma numbers_ok_step: "dash_step s s' \<Longrightarrow> dash_ok s \<Longrightarrow> numbers_ok s'"
proof (induction rule: dash_step.induct)
  case (connect s c)
  then show ?case by (auto simp: dash_ok_def numbers_ok_def connection_New_ok)
next
  case (bcast_lock s t cs body)
  have "n < ds_count s" if "n \<in> set (seen (ds_conn s c))" for n c using bcast_lock(5) that by (auto simp: dash_ok_def numbers_ok_def)
  moreover have "n < ds_count s" if "number (ds_pc s u) = Some n" for n u using bcast_lock(5) that by (auto simp: dash_ok_def numbers_ok_def)
  ultimately show ?case by (intro numbers_okI [OF bcast_lock(5), of _ t]) (auto, blast+)
next
  case (bcast_closed s t m c cs)
  show ?case by (rule numbers_okI [OF bcast_closed(3), of _ t]) (use in_loop [OF bcast_closed(1,3)] in auto)
next
  case (bcast_open s t m c cs)
  show ?case by (rule numbers_okI [OF bcast_open(3), of _ t]) (use in_loop [OF bcast_open(1,3)] in auto)
next
  case (bcast_push s t m c cs r d)
  note at = at_push [OF bcast_push(1,3)]
  have "set (seen d) \<subseteq> insert (fst m) (set (seen (ds_conn s c)))"
    using bcast_push(2) by (auto simp: chan_send_def split: if_splits)
  then show ?case by (intro numbers_okI [OF bcast_push(3), of _ t]) (use at bcast_push(1) in \<open>auto split: if_splits\<close>)
next
  case (bcast_unlock s t m)
  show ?case by (rule numbers_okI [OF bcast_unlock(2), of _ t]) auto
next
  case (unreg_close_send s t c r d)
  then have "seen d = seen (ds_conn s c)" by (auto simp: close_send_def split: if_splits)
  then show ?case by (intro numbers_okI [OF unreg_close_send(3), of _ t]) (auto split: if_splits)
next
  case (pump c s ticked ok)
  have "conn_ok (ds_conn s c)" using pump(3) by (simp add: dash_ok_def)
  then have "set (seen (ds_conn (set_conn c (WritePump_round ticked ok (ds_conn s c)) s) x)) \<subseteq> set (seen (ds_conn s x))" for x
    using WritePump_round_ok(2) by simp
  with pump(3) show ?case unfolding dash_ok_def numbers_ok_def by (simp del: fun_upd_apply) blast
next
  case (unreg_lock s t c)
  show ?case by (rule numbers_okI [OF unreg_lock(4), of _ t]) auto
next
  case (unreg_absent s t c)
  show ?case by (rule numbers_okI [OF unreg_absent(3), of _ t]) auto
next
  case (unreg_delete s t c)
  show ?case by (rule numbers_okI [OF unreg_delete(3), of _ t]) auto
next
  case (unreg_again s t c)
  show ?case by (rule numbers_okI [OF unreg_again(3), of _ t]) (auto split: if_splits)
next
  case (unreg_close s t c)
  show ?case by (rule numbers_okI [OF unreg_close(3), of _ t]) (auto split: if_splits)
next
  case (unreg_unlock s t)
  show ?case by (rule numbers_okI [OF unreg_unlock(2), of _ t]) auto
qed

lemma no_panic_step: "dash_step s s' \<Longrightarrow> dash_ok s \<Longrightarrow> \<not> ds_panicked s'"
proof (induction rule: dash_step.induct)
  case (bcast_push s t m c cs r d)
  then have "\<not> cn_sendClosed (ds_conn s c)" using at_push(1) open_clients by fastforce
  then have "r = Inr () \<or> r = Inl ErrSendBuffer" using bcast_push(2) by (auto simp: chan_send_def split: if_splits)
  with bcast_push(3) show ?case by (auto simp: dash_ok_def note_panic_def ErrSendBuffer_def)
next
  case (unreg_close_send s t c r d)
  then have "r = Inr ()" using closing(2) by (auto simp: close_send_def split: if_splits)
  with unreg_close_send(3) show ?case by (simp add: dash_ok_def note_panic_def)
qed (auto simp: dash_ok_def)

lemma dash_ok_start: "dash_ok dashboard_start"
  by (simp add: dash_ok_def dashboard_start_def NewHub_def connection_New_ok lock_ok_def clients_ok_def closing_ok_def numbers_ok_def)

lemma dash_ok_run: "dash_step\<^sup>*\<^sup>* s s' \<Longrightarrow> dash_ok s \<Longrightarrow> dash_ok s'"
proof (induction rule: rtranclp_induct)
  case (step s' s'')
  then have "dash_ok s'" by simp
  with step(2) show ?case
    using conns_ok_step lock_ok_step clients_ok_step closing_ok_step numbers_ok_step no_panic_step
    unfolding dash_ok_def [of s''] by (metis dash_ok_def)
qed

section \<open>Broadcasting and unregistering as runs\<close>

text \<open>
  The functions that follow the code are what a goroutine does when nobody comes between: from its
  place in the loop a broadcast reaches the end with the hub the function computes, without panic.
\<close>

lemma broadcast_loop_run:
  assumes "ds_pc s t = BLoop m cs" "dash_ok s"
  shows "\<exists>s'. dash_step\<^sup>*\<^sup>* s s' \<and> ds_pc s' = (ds_pc s)(t := BLoop m []) \<and> ds_readers s' = ds_readers s \<and>
     broadcast_loop m cs (ds_hub s) = (Inr (), ds_hub s')"
  using assms
proof (induction cs arbitrary: s)
  case Nil
  then show ?case by (intro exI [of _ s]) (auto simp: fun_eq_iff)
next
  case (Cons c cs)
  obtain r d where send: "chan_send m (ds_conn s c) = (r, d)" by (cases "chan_send m (ds_conn s c)")
  have opened: "\<not> cn_closed (ds_conn s c)" "\<not> cn_sendClosed (ds_conn s c)" using in_loop(1) [OF Cons.prems] open_clients [OF Cons.prems(2)] by auto
  let ?s1 = "at_pc t (BPush m c cs) s"
  let ?s2 = "note_panic r (at_pc t (BLoop m cs) (set_conn c d ?s1))"
  have steps: "dash_step s ?s1" "dash_step ?s1 ?s2" by (rule bcast_open [OF Cons.prems(1) opened(1)], rule bcast_push) (use send in auto)
  then have run: "dash_step\<^sup>*\<^sup>* s ?s2" by auto
  obtain s' where s': "dash_step\<^sup>*\<^sup>* ?s2 s'" "ds_pc s' = (ds_pc ?s2)(t := BLoop m [])" "ds_readers s' = ds_readers ?s2"
      "broadcast_loop m cs (ds_hub ?s2) = (Inr (), ds_hub s')"
    using Cons.IH [OF _ dash_ok_run [OF run Cons.prems(2)]] by (metis at_pc_simps(5) fun_upd_same note_panic_simps(5))
  have "r = Inr () \<or> r = Inl ErrSendBuffer" using send opened(2) by (auto simp: chan_send_def split: if_splits)
  then have "broadcast_loop m (c # cs) (ds_hub s) = broadcast_loop m cs (ds_hub ?s2)"
    using send opened(1) by (auto simp: Send_def ErrSendBuffer_def set_conn_def)
  with s' rtranclp_trans [OF run s'(1)] show ?case by (intro exI [of _ s']) simp
qed

lemma broadcast_run:
  assumes "dash_ok s" "ds_pc s t = Idle" "ds_writer s = None" "distinct cs" "set cs = ds_clients s" "marshal msgType payload = Inr body"
  shows "\<exists>s'. dash_step\<^sup>*\<^sup>* s s' \<and> ds_pc s' = ds_pc s \<and> Broadcast marshal (ds_count s) cs msgType payload (ds_hub s) = (Inr (), ds_hub s')"
proof -
  let ?s1 = "(at_pc t (BLoop (ds_count s, body) cs) s)\<lparr>ds_readers := insert t (ds_readers s), ds_count := Suc (ds_count s)\<rparr>"
  have s1: "dash_step s ?s1" by (rule bcast_lock [OF assms(2-5)])
  obtain s2 where s2: "dash_step\<^sup>*\<^sup>* ?s1 s2" "ds_pc s2 = (ds_pc ?s1)(t := BLoop (ds_count s, body) [])"
      "broadcast_loop (ds_count s, body) cs (ds_hub ?s1) = (Inr (), ds_hub s2)"
    using broadcast_loop_run [of ?s1 t "(ds_count s, body)" cs] dash_ok_run [OF r_into_rtranclp [where r = dash_step, OF s1] assms(1)] by auto
  let ?s3 = "(at_pc t Idle s2)\<lparr>ds_readers := ds_readers s2 - {t}\<rparr>"
  have "dash_step s2 ?s3" by (rule bcast_unlock) (simp add: s2(2))
  with s1 s2(1) have "dash_step\<^sup>*\<^sup>* s ?s3" by (meson converse_rtranclp_into_rtranclp rtranclp.rtrancl_into_rtrancl)
  moreover have "ds_pc ?s3 = ds_pc s" using s2(2) assms(2) by auto
  ultimately show ?thesis using s2(3) assms(6) by (intro exI [of _ ?s3]) (simp add: Broadcast_def)
qed

lemma unregister_run:
  assumes "dash_ok s" "ds_pc s t = Idle" "ds_readers s = {}" "ds_writer s = None" "c \<in> ds_clients s"
  shows "\<exists>s'. dash_step\<^sup>*\<^sup>* s s' \<and> ds_pc s' = ds_pc s \<and> Unregister c (ds_hub s) = (Inr (), ds_hub s')"
proof -
  have c: "\<not> cn_closeOnce (ds_conn s c)" "\<not> cn_sendClosed (ds_conn s c)" using open_clients [OF assms(1,5)] assms(1) by (auto simp: dash_ok_def conn_ok_def)
  let ?s1 = "(at_pc t (UHeld c) s)\<lparr>ds_writer := Some t\<rparr>"
  let ?s2 = "at_pc t (UClosing c) (?s1\<lparr>ds_hub := (ds_hub ?s1)\<lparr>hb_clients := ds_clients ?s1 - {c}\<rparr>\<rparr>)"
  let ?s3 = "at_pc t (UClosingSend c) (set_conn c ((ds_conn ?s2 c)\<lparr>cn_closeOnce := True, cn_closed := True\<rparr>) ?s2)"
  let ?s4 = "note_panic (Inr ()) (at_pc t UEnd (set_conn c ((ds_conn ?s3 c)\<lparr>cn_sendClosed := True, cn_socketOpen := False\<rparr>) ?s3))"
  let ?s5 = "(at_pc t Idle ?s4)\<lparr>ds_writer := None\<rparr>"
  have 1: "dash_step s ?s1" by (rule unreg_lock [OF assms(2-4)])
  have 2: "dash_step ?s1 ?s2" by (rule unreg_delete) (use assms(5) in simp_all)
  have 3: "dash_step ?s2 ?s3" by (rule unreg_close) (use c in simp_all)
  have 4: "dash_step ?s3 ?s4" by (rule unreg_close_send) (use c in \<open>simp_all add: close_send_def\<close>)
  have 5: "dash_step ?s4 ?s5" by (rule unreg_unlock) simp
  from 1 2 3 4 5 have "dash_step\<^sup>*\<^sup>* s ?s5" by (meson converse_rtranclp_into_rtranclp rtranclp.rtrancl_refl)
  moreover have "Unregister c (ds_hub s) = (Inr (), ds_hub ?s5)"
    using assms(5) c by (simp add: Unregister_def connection_Close_def close_send_def set_conn_def)
  moreover have "ds_pc ?s5 = ds_pc s" using assms(2) by auto
  ultimately show ?thesis by blast
qed

section \<open>The dashboard is safe\<close>

text \<open>
  C22: However broadcasts, connecting and disconnecting clients and write pumps interleave, the
  dashboard never panics: nothing is sent on a closed channel and no channel is closed twice. The
  clients the hub knows are open, whoever changes the clients is alone with them, no buffer exceeds 32 messages, and
  of every broadcast a client gets at most one copy.
\<close>

theorem dashboard_never_panics:
  assumes "dash_step\<^sup>*\<^sup>* dashboard_start s"
  shows "\<not> ds_panicked s \<and> (\<forall>c \<in> ds_clients s. \<not> cn_closed (ds_conn s c) \<and> \<not> cn_sendClosed (ds_conn s c)) \<and>
    (ds_writer s \<noteq> None \<longrightarrow> ds_readers s = {}) \<and>
    (\<forall>c. length (cn_send (ds_conn s c)) \<le> 32 \<and> distinct (map fst (cn_written (ds_conn s c) @ cn_send (ds_conn s c))))"
proof -
  have ok: "dash_ok s" by (rule dash_ok_run [OF assms dash_ok_start])
  then show ?thesis
    using open_clients [OF ok] unfolding dash_ok_def conn_ok_def lock_ok_def sendBuffer_def seen_def by blast
qed

text \<open>
  The functions of the hub are what the goroutines do: in every state a run can lead to, a broadcast
  that nobody interrupts takes the hub where \<^verbatim>\<open>Broadcast\<close> does, and removing a client takes it where \<^verbatim>\<open>Unregister\<close>
  does, both without panic, and back to the position they started from.
\<close>

theorem hub_calls_are_runs:
  assumes "dash_step\<^sup>*\<^sup>* dashboard_start s" "ds_pc s t = Idle" "ds_readers s = {}" "ds_writer s = None"
    "distinct cs" "set cs = ds_clients s" "marshal msgType payload = Inr body" "c \<in> ds_clients s"
  shows "(\<exists>s'. dash_step\<^sup>*\<^sup>* s s' \<and> ds_pc s' = ds_pc s \<and> Broadcast marshal (ds_count s) cs msgType payload (ds_hub s) = (Inr (), ds_hub s')) \<and>
    (\<exists>s'. dash_step\<^sup>*\<^sup>* s s' \<and> ds_pc s' = ds_pc s \<and> Unregister c (ds_hub s) = (Inr (), ds_hub s'))"
  using broadcast_run [OF _ assms(2,4-6), where marshal = marshal and msgType = msgType and payload = payload and body = body]
    unregister_run [OF _ assms(2-4,8)] dash_ok_run [OF assms(1) dash_ok_start] assms(7) by blast

text \<open>A client that does not read stays registered: after 32 messages it gets nothing more.\<close>

lemma slow_client_stays:
  assumes "length (cn_send (hb_conns h c)) = sendBuffer" "broadcast_loop m cs h = (r, h')"
  shows "hb_clients h' = hb_clients h \<and> hb_conns h' c = hb_conns h c"
proof -
  have keep: "hb_clients g' = hb_clients g \<and> hb_conns g' c = hb_conns g c"
    if "broadcast_loop m ds g = (r, g')" "length (cn_send (hb_conns g c)) = sendBuffer" for ds g g'
    using that
  proof (induction ds arbitrary: g)
    case (Cons d ds)
    obtain q k where k: "Send m (hb_conns g d) = (q, k)" by (cases "Send m (hb_conns g d)")
    then have same: "d = c \<Longrightarrow> k = hb_conns g c" using Cons.prems(2) by (auto simp: Send_def chan_send_def split: if_splits)
    let ?g = "g\<lparr>hb_conns := (hb_conns g)(d := k)\<rparr>"
    have "hb_conns ?g c = hb_conns g c" using same by auto
    with Cons k show ?case by (auto split: sum.splits error.splits)
  qed simp
  show ?thesis by (rule keep [OF assms(2,1)])
qed

text \<open>One client connects and one message is broadcast to it.\<close>

definition sample_connected :: Dashboard where
  "sample_connected = websocket_ServeHTTP 7 dashboard_start"

lemma sample_connected: "dash_step\<^sup>*\<^sup>* dashboard_start sample_connected"
  unfolding sample_connected_def by (intro r_into_rtranclp connect) (simp_all add: dashboard_start_def)

lemma sample_connected_simps [simp]: "ds_clients sample_connected = {7}" "ds_pc sample_connected = (\<lambda>_. Idle)" "ds_readers sample_connected = {}"
  "ds_writer sample_connected = None" "ds_count sample_connected = 0"
  by (simp_all add: sample_connected_def dashboard_start_def NewHub_def)

theorem dashboard_never_panics_witness:
  "\<exists>s. dash_step\<^sup>*\<^sup>* dashboard_start s \<and> cn_send (ds_conn s 7) = [(0, ''hi'')] \<and> \<not> ds_panicked s \<and> \<not> cn_closed (ds_conn s 7)"
proof -
  obtain s where s: "dash_step\<^sup>*\<^sup>* sample_connected s"
      "Broadcast (\<lambda>_ b. Inr b) 0 [7] ''t'' ''hi'' (ds_hub sample_connected) = (Inr (), ds_hub s)"
    using broadcast_run [OF dash_ok_run [OF sample_connected dash_ok_start], of 0 "[7]" "\<lambda>_ b. Inr b" "''t''" "''hi''" "''hi''"] by auto
  have run: "dash_step\<^sup>*\<^sup>* dashboard_start s" by (rule rtranclp_trans [OF sample_connected s(1)])
  have "cn_send (ds_conn s 7) = [(0, ''hi'')] \<and> ds_clients s = {7}"
    using s(2) by (auto simp: Broadcast_def Send_def chan_send_def sendBuffer_def sample_connected_def websocket_ServeHTTP_def Register_def
        set_conn_def connection_New_def dashboard_start_def NewHub_def dest!: sym [of _ "ds_hub s"])
  with dashboard_never_panics [OF run] run show ?thesis by blast
qed

theorem hub_calls_are_runs_witness:
  "(\<exists>s'. dash_step\<^sup>*\<^sup>* sample_connected s' \<and> ds_pc s' = ds_pc sample_connected \<and>
      Broadcast (\<lambda>_ b. Inr b) 0 [7] ''t'' ''hi'' (ds_hub sample_connected) = (Inr (), ds_hub s')) \<and>
   (\<exists>s'. dash_step\<^sup>*\<^sup>* sample_connected s' \<and> ds_pc s' = ds_pc sample_connected \<and> Unregister 7 (ds_hub sample_connected) = (Inr (), ds_hub s'))"
  using hub_calls_are_runs [OF sample_connected, of 0 "[7]" "\<lambda>_ b. Inr b" "''t''" "''hi''" "''hi''" 7] by simp

end
