(* ===== verification/Spec2Isabelle.thy ===== *)
theory Spec2Isabelle
  imports Migration_Runner Market_Feeds News_Intelligence Dashboard_Hub
begin

text \<open>
  A verification development of the trading core, a Go service that turns market data into orders:
  closed candles go to a quant engine, its signals to a risk policy, allowed decisions to a
  broker, all of it recorded in PostgreSQL and announced through a transactional outbox. The
  development models the packages under \<^verbatim>\<open>src/internal\<close>; the path of each theory below is relative to it.

  \<^bold>\<open>How the parts work together.\<close> The feed of \<^verbatim>\<open>app/lifecycle.go\<close> hands closed candles to
  \<^verbatim>\<open>interfaces/consumer/market\<close>, which calls the use cases EvaluateMarketSignal, EvaluateRisk and
  ExecuteApprovedOrder one after the other; the last is the only one that places orders. News
  items go to \<^verbatim>\<open>ProcessMarketEvent\<close>, whose events restrict the risk evaluation. A scheduler compares the stored state
  with the broker (\<^verbatim>\<open>ReconcileBrokerState\<close>) and forces CLOSE_ONLY when they differ. Operators use HTTP to pause, resume, close
  only, throw the kill switch or reset the simulator. Every use case writes through repositories, several
  of them in one transaction together with outbox rows, which a worker delivers to an in-memory bus.

  \<^bold>\<open>Foundations.\<close>
  \<^item> \<open>Go_Prelude\<close>: error values and \<^verbatim>\<open>errors.Is\<close>, the result monad, Go's durations and times, strings; the
    two libraries the domain computes with as records of operations (\<open>decimal_ops\<close>, \<open>uuid_ops\<close>), what the code relies on
    of them (\<open>decimal_lib\<close>, \<open>uuid_lib\<close>), and reference instances that satisfy it.
  \<^item> \<open>World\<close>: what a use case runs in. A \<open>World\<close> holds the database, the broker, what was published and
    notified and whether a transaction is open; an \<open>Env\<close> gives every clock reading, every fresh identifier, the broker and, for
    every numbered call of the infrastructure, whether it works, fails before or fails after
    taking effect. \<open>WithinTransaction\<close> is \<^verbatim>\<open>database/transaction\<close>, \<open>Publish\<close> the bus of
    \<^verbatim>\<open>external/messaging/memory\<close>. The locales \<open>world_relation\<close>, \<open>db_blind\<close> and \<open>db_relation\<close> carry the
    frame properties: a relation between states that every primitive keeps is kept by every use case built from them.
  \<^item> \<open>Utf8_Text\<close>: strings as bytes, decoded to runes as Go ranges over them.

  \<^bold>\<open>The domain\<close>, \<^verbatim>\<open>domain/*\<close>, one record per struct and one function per method.
  \<^item> \<open>Value_Objects\<close> (\<^verbatim>\<open>domain/shared\<close>): the checked constructors, all of them instances of the locale \<open>checked_value\<close>.
  \<^item> \<open>Operation_Mode\<close>, \<open>Order_Aggregate\<close>, \<open>Position_Aggregate\<close>, \<open>Account_Aggregate\<close>, \<open>Signals_Events\<close>: the
    aggregates. The status machines interpret \<open>status_machine\<close>. Shown: the life cycle of an order keeps its bookkeeping, a
    reduction books the right profit, the ledger adds up over every sequence of its operations.
  \<^item> \<open>Risk_Policy\<close>, \<open>Position_Sizing\<close>: the twelve specifications, the composite policy (equal to a rule
    book written down independently) and the two sizing strategies, instances of \<open>position_sizer\<close>, whose sizes are within the
    budgets and maximal.

  \<^bold>\<open>The store.\<close>
  \<^item> \<open>Store_Aggregates\<close>, \<open>Store_Records\<close> (\<^verbatim>\<open>infrastructure/database/*\<close>): tables as association lists, the SQL of every
    repository with its constraints, and the mapping of aggregates to rows. Shown: round trips and
    optimistic locking (locale \<open>versioned_store\<close>: of two writers of a version one succeeds).
  \<^item> \<open>Migration_Runner\<close> (\<^verbatim>\<open>database/migration\<close>): the runner, which refines a counter of applied steps.
  \<^item> \<open>Outbox_Worker\<close> (\<^verbatim>\<open>database/outbox\<close>, \<^verbatim>\<open>interfaces/consumer/outbox\<close>): claims, deliveries and failures as
    a step relation over any number of workers; the worker refines it, no event is handed out more than five times, and draining ends.

  \<^bold>\<open>The brokers and the engine.\<close>
  \<^item> \<open>Paper_Broker\<close> (\<^verbatim>\<open>external/broker/paper\<close>): the port and the simulator; it is an \<open>idempotent_broker\<close>.
  \<^item> \<open>Binance_Broker\<close> (\<^verbatim>\<open>external/broker/binance\<close>, \<^verbatim>\<open>testnet\<close>, \<^verbatim>\<open>real\<close>): the adapter; the exchange, the JSON decoding, the
    signature and the circuit breaker are parameters.
  \<^item> \<open>Quant_Engine\<close> (\<^verbatim>\<open>external/quant/grpc/fake.go\<close>): the momentum engine.

  \<^bold>\<open>The use cases\<close>, \<^verbatim>\<open>application/usecase\<close>, in the \<open>usecase\<close> monad of \<open>World\<close>.
  \<^item> \<open>Execute_Order\<close>: for every pattern of faults a decision reaches the broker at most once and only behind
    the guards; what is reported is stored; an executable decision is executed when nothing fails.
  \<^item> \<open>Market_Pipeline\<close>: signal and risk evaluation and the consumer that chains them with the execution.
  \<^item> \<open>Mode_UseCases\<close>: kill switch, mode change, paper reset, and the bootstrap hook. All or nothing.
  \<^item> \<open>Reconcile_State\<close>: the report is empty exactly when local and broker state agree; a critical divergence stops entries.
  \<^item> \<open>Market_News\<close>: the news pipeline, which can restrict and never trade.
  \<^item> \<open>Read_Models\<close>: the queries and their mapping.

  \<^bold>\<open>The edges.\<close>
  \<^item> \<open>Configuration\<close> (\<^verbatim>\<open>config\<close>, \<^verbatim>\<open>app/providers.go\<close>): loading, validation (equal to a specification of each
    section) and the factories; a configuration that loads makes the hypotheses of the trading theorems true.
  \<^item> \<open>Http_Api\<close> (\<^verbatim>\<open>interfaces/http\<close>): the middleware chain, routes and handlers; state changes need a role.
  \<^item> \<open>Trading_System\<close> (\<^verbatim>\<open>app/lifecycle.go\<close>): the feed loop, and the composition of everything: after
    the kill switch no interleaving of candles, news, reconciliations, drains, restarts and requests reaches the broker.
  \<^item> \<open>Market_Feeds\<close> (\<^verbatim>\<open>external/marketdata\<close>): the kline clients over REST and WebSocket; every candle that gets through is
    well formed, and the engine answers it.
  \<^item> \<open>News_Intelligence\<close> (\<^verbatim>\<open>external/news\<close>, \<^verbatim>\<open>external/llm\<close>, \<^verbatim>\<open>external/notification\<close>): the RSS feed, the Gemini client, which accepts exactly
    what conforms to the schema it sends, the silent classifier, the Telegram notifier.
  \<^item> \<open>Dashboard_Hub\<close> (\<^verbatim>\<open>interfaces/websocket\<close>): the hub, its connections and the goroutines that use them, interleaved at single
    channel operations; no interleaving panics. The calls of the hub are runs of the step relation.

  \<^bold>\<open>Bounds.\<close> No definition uses fuel: loops of the code run over lists and are recursive functions; the endless
  loops (feed, worker, scheduler) are runs of arbitrary length of the system in \<open>Trading_System\<close>. Machine integers are kept
  where they can wrap (durations built from configuration values, in \<open>Configuration\<close>); versions and counters are integers. Decimals
  are rationals with the rounding of the division and of the columns written out.

  \<^bold>\<open>Not modelled\<close>: metrics, logging and tracing, which only observe; the dependency injection and the process
  start and stop of \<^verbatim>\<open>app\<close> and \<^verbatim>\<open>cmd\<close>; clients of external services that only pass calls on (Redis, cloud storage, Pub/Sub);
  the repository of account snapshots, which stores JSON and which no use case calls; the generated protocol
  code, which nothing calls.
\<close>

end
